(* ===== verification/Prelude.thy ===== *)
theory Prelude
  imports Main "HOL-Library.AList" "HOL-Library.List_Lexorder" "HOL-Library.Char_ord"
    "HOL-Library.Sublist"
begin

text \<open>
  Shared by every component: insertion-ordered
  dictionaries (\<open>dict\<close>, association lists with the update and delete operations of
  HOL-Library.AList, which keep Python's insertion order), sorted key lists, and the interface
  \<open>kv_store\<close> for a keyed store whose insertion overwrites.
\<close>

section \<open>Insertion-ordered dictionaries\<close>

type_synonym ('k, 'v) dict = "('k \<times> 'v) list"

abbreviation dict_get :: "('k, 'v) dict \<Rightarrow> 'k \<Rightarrow> 'v option" where
  "dict_get d k \<equiv> map_of d k"

abbreviation dict_set :: "'k \<Rightarrow> 'v \<Rightarrow> ('k, 'v) dict \<Rightarrow> ('k, 'v) dict" where
  "dict_set k v d \<equiv> AList.update k v d"

abbreviation dict_pop :: "'k \<Rightarrow> ('k, 'v) dict \<Rightarrow> ('k, 'v) dict" where
  "dict_pop k d \<equiv> AList.delete k d"

abbreviation dict_keys :: "('k, 'v) dict \<Rightarrow> 'k list" where
  "dict_keys d \<equiv> map fst d"

abbreviation dict_ok :: "('k, 'v) dict \<Rightarrow> bool" where
  "dict_ok d \<equiv> distinct (map fst d)"

lemma dict_ok_set [intro]: "dict_ok d \<Longrightarrow> dict_ok (dict_set k v d)"
  by (rule distinct_update)

lemma dict_ok_pop [intro]: "dict_ok d \<Longrightarrow> dict_ok (dict_pop k d)"
  by (rule distinct_delete)

lemma dict_get_set [simp]: "dict_get (dict_set k v d) k' = (if k' = k then Some v else dict_get d k')"
  by (simp add: update_conv')

lemma dict_get_pop [simp]: "dict_get (dict_pop k d) k' = (if k' = k then None else dict_get d k')"
  by (simp add: delete_conv')

lemma set_dict_set: "(k', v') \<in> set (dict_set k v d) \<Longrightarrow> (k', v') = (k, v) \<or> (k', v') \<in> set d"
  by (induction d) (auto split: if_splits)

lemma set_dict_pop: "p \<in> set (dict_pop k d) \<Longrightarrow> p \<in> set d"
  by (auto simp: AList.delete_eq)

lemma list_all_dict_get: "list_all P d \<Longrightarrow> dict_get d k = Some v \<Longrightarrow> P (k, v)"
  by (auto simp: list_all_iff dest: map_of_SomeD)

lemma dict_get_in_keys: "k \<in> set (dict_keys d) \<longleftrightarrow> (\<exists>v. dict_get d k = Some v)"
  by (metis domD domI dom_map_of_conv_image_fst list.set_map)

lemma dict_set_keys: "set (dict_keys (dict_set k v d)) = insert k (set (dict_keys d))"
  by (simp add: dom_update)

text \<open>Two dictionaries with the same content list their sorted keys alike.\<close>

lemma sorted_keys_cong:
  assumes "dict_ok d" "dict_ok d'" "map_of d = map_of d'"
  shows "sort (dict_keys d) = sort (dict_keys (d' :: ('k::linorder, 'v) dict))"
proof -
  have "set (dict_keys d) = set (dict_keys d')"
    using assms(3) by (metis dom_map_of_conv_image_fst list.set_map)
  with assms(1,2) show ?thesis
    by (metis distinct_sort set_sort sorted_distinct_set_unique sorted_sort)
qed

section \<open>Keyed stores\<close>

text \<open>
  The interface that several registries of the code share: \<open>lookup\<close>, and an \<open>insert\<close> that
  overwrites an earlier entry under the same key. The client lemma says what a lookup returns
  after a sequence of insertions: the last one under that key wins.
\<close>

definition last_with :: "('x \<Rightarrow> 'k) \<Rightarrow> 'k \<Rightarrow> 'x list \<Rightarrow> 'x option" where
  "last_with f k xs = find (\<lambda>x. f x = k) (rev xs)"

lemma last_with_Nil [simp]: "last_with f k [] = None"
  by (simp add: last_with_def)

lemma find_append: "find P (xs @ ys) = (case find P xs of None \<Rightarrow> find P ys | Some x \<Rightarrow> Some x)"
  by (induction xs) auto

lemma last_with_snoc [simp]:
  "last_with f k (xs @ [x]) = (if f x = k then Some x else last_with f k xs)"
  by (simp add: last_with_def find_append)

lemma last_with_append:
  "last_with f k (xs @ ys) = (case last_with f k ys of None \<Rightarrow> last_with f k xs | Some y \<Rightarrow> Some y)"
  by (simp add: last_with_def find_append split: option.split)

lemma last_with_None: "last_with f k xs = None \<longleftrightarrow> k \<notin> f ` set xs"
  by (auto simp: last_with_def find_None_iff)

lemma find_SomeD: "find P xs = Some x \<Longrightarrow> x \<in> set xs \<and> P x"
  by (induction xs) (auto split: if_splits)

lemma last_with_Some: "last_with f k xs = Some x \<Longrightarrow> x \<in> set xs \<and> f x = k"
  unfolding last_with_def by (drule find_SomeD) simp

locale kv_store =
  fixes lookup :: "'s \<Rightarrow> 'k \<Rightarrow> 'v option"
    and insert :: "'v \<Rightarrow> 's \<Rightarrow> 's"
    and key :: "'v \<Rightarrow> 'k"
    and wf :: "'s \<Rightarrow> bool"
  assumes lookup_insert: "wf s \<Longrightarrow> lookup (insert v s) k = (if k = key v then Some v else lookup s k)"
    and wf_insert: "wf s \<Longrightarrow> wf (insert v s)"
begin

lemma wf_fold: "wf s \<Longrightarrow> wf (fold insert vs s)"
  by (induction vs arbitrary: s) (auto intro: wf_insert)

lemma lookup_fold:
  "wf s \<Longrightarrow> lookup (fold insert vs s) k =
     (case last_with key k vs of None \<Rightarrow> lookup s k | Some v \<Rightarrow> Some v)"
proof (induction vs rule: rev_induct)
  case Nil
  then show ?case by simp
next
  case (snoc v vs)
  then show ?case by (auto simp: lookup_insert wf_fold)
qed

lemma lookup_after_insert: "wf s \<Longrightarrow> lookup (insert v s) (key v) = Some v"
  by (simp add: lookup_insert)

lemma insert_overwrites:
  "wf s \<Longrightarrow> key v = key w \<Longrightarrow> lookup (insert w (insert v s)) k = lookup (insert w s) k"
  by (simp add: lookup_insert wf_insert)

end

end
