(* ===== verification/PyStr.thy ===== *)
theory PyStr
  imports Prelude
begin

text \<open>
  The operations of Python's \<open>str\<close> that the modelled code uses. A string is a list of
  characters, each standing for one code point below 256: the model's texts are those whose
  code points fit in one \<open>char\<close>, and \<open>length\<close> counts code points as Python does.
\<close>

section \<open>Characters\<close>

abbreviation nl :: char where "nl \<equiv> CHR 0x0A"
abbreviation cr :: char where "cr \<equiv> CHR 0x0D"
abbreviation tab :: char where "tab \<equiv> CHR 0x09"
abbreviation dq :: char where "dq \<equiv> CHR 0x22"
abbreviation sq :: char where "sq \<equiv> CHR 0x27"
abbreviation bsl :: char where "bsl \<equiv> CHR 0x5C"

definition code :: "char \<Rightarrow> nat" where
  "code c = of_char c"

lemma code_less [simp]: "code c < 256"
proof -
  have "of_char c mod 256 < (256 :: nat)" by simp
  then show ?thesis by (simp only: of_char_mod_256 code_def)
qed

lemma code_char_of [simp]: "code (char_of n) = n mod 256"
  by (simp add: code_def)

lemma char_of_code [simp]: "char_of (code c) = c"
  by (simp add: code_def)

text \<open>\<open>str.isspace\<close> on one code point below 256.\<close>

definition py_isspace :: "char \<Rightarrow> bool" where
  "py_isspace c = (let n = code c in (9 \<le> n \<and> n \<le> 13) \<or> (28 \<le> n \<and> n \<le> 32) \<or> n = 133 \<or> n = 160)"

definition is_digit :: "char \<Rightarrow> bool" where
  "is_digit c = (48 \<le> code c \<and> code c \<le> 57)"

text \<open>ASCII lower-casing, enough for the case-insensitive patterns of the code.\<close>

definition ascii_lower :: "char \<Rightarrow> char" where
  "ascii_lower c = (if 65 \<le> code c \<and> code c \<le> 90 then char_of (code c + 32) else c)"

section \<open>Strip, split, join\<close>

definition py_lstrip :: "string \<Rightarrow> string" where
  "py_lstrip s = dropWhile py_isspace s"

definition py_rstrip :: "string \<Rightarrow> string" where
  "py_rstrip s = rev (dropWhile py_isspace (rev s))"

definition py_strip :: "string \<Rightarrow> string" where
  "py_strip s = py_rstrip (py_lstrip s)"

definition rstrip_char :: "char \<Rightarrow> string \<Rightarrow> string" where
  "rstrip_char c s = rev (dropWhile (\<lambda>d. d = c) (rev s))"

fun py_split :: "char \<Rightarrow> string \<Rightarrow> string list" where
  "py_split c [] = [[]]"
| "py_split c (x # xs) =
     (if x = c then [] # py_split c xs
      else (case py_split c xs of [] \<Rightarrow> [[x]] | y # ys \<Rightarrow> (x # y) # ys))"

fun py_join :: "string \<Rightarrow> string list \<Rightarrow> string" where
  "py_join sep [] = []"
| "py_join sep [x] = x"
| "py_join sep (x # y # ys) = x @ sep @ py_join sep (y # ys)"

lemma py_split_not_Nil [simp]: "py_split c s \<noteq> []"
  by (induction s) (auto split: list.splits)

lemma py_join_split: "py_join [c] (py_split c s) = s"
proof (induction s)
  case Nil
  then show ?case by simp
next
  case (Cons x xs)
  obtain y ys where "py_split c xs = y # ys"
    by (cases "py_split c xs") auto
  with Cons show ?case by (cases ys) auto
qed

lemma py_split_no_sep: "c \<notin> set s \<Longrightarrow> py_split c s = [s]"
  by (induction s) auto

lemma py_split_append: "c \<notin> set a \<Longrightarrow> py_split c (a @ c # b) = a # py_split c b"
  by (induction a) auto

lemma py_split_join:
  "segs \<noteq> [] \<Longrightarrow> \<forall>s \<in> set segs. c \<notin> set s \<Longrightarrow> py_split c (py_join [c] segs) = segs"
proof (induction segs rule: induct_list012)
  case (3 x y zs)
  then show ?case by (simp add: py_split_append)
qed (simp_all add: py_split_no_sep)

lemma py_split_last:
  "py_split c (a @ b) =
     butlast (py_split c a) @ (last (py_split c a) @ hd (py_split c b)) # tl (py_split c b)"
proof (induction a)
  case Nil
  then show ?case by (cases "py_split c b") auto
next
  case (Cons x xs)
  then show ?case by (cases "py_split c xs") (auto split: list.splits)
qed

lemma py_join_single_concat: "py_join [] xs = concat xs"
proof (induction xs)
  case Nil
  then show ?case by simp
next
  case (Cons x xs)
  then show ?case by (cases xs) auto
qed

text \<open>Stripping: the ends of the result are no whitespace, and stripping twice changes nothing.\<close>

lemma py_lstrip_idem [simp]: "py_lstrip (py_lstrip s) = py_lstrip s"
  by (simp add: py_lstrip_def)

lemma py_lstrip_Nil [simp]: "py_lstrip [] = []"
  by (simp add: py_lstrip_def)

lemma py_strip_Nil [simp]: "py_strip [] = []"
  by (simp add: py_strip_def py_lstrip_def py_rstrip_def)

lemma py_strip_eq_Nil: "py_strip s = [] \<longleftrightarrow> (\<forall>c \<in> set s. py_isspace c)"
proof -
  have "py_strip s = [] \<longleftrightarrow> (\<forall>c \<in> set (dropWhile py_isspace s). py_isspace c)"
    by (simp add: py_strip_def py_rstrip_def py_lstrip_def)
  also have "\<dots> \<longleftrightarrow> (\<forall>c \<in> set s. py_isspace c)"
    by (induction s) auto
  finally show ?thesis .
qed

section \<open>Prefixes, search and replacement\<close>

abbreviation py_startswith :: "string \<Rightarrow> string \<Rightarrow> bool" where
  "py_startswith s p \<equiv> prefix p s"

fun find_sub :: "string \<Rightarrow> string \<Rightarrow> nat option" where
  "find_sub p [] = (if p = [] then Some 0 else None)"
| "find_sub p (x # xs) = (if prefix p (x # xs) then Some 0 else map_option Suc (find_sub p xs))"

definition contains_sub :: "string \<Rightarrow> string \<Rightarrow> bool" where
  "contains_sub p s = (find_sub p s \<noteq> None)"

lemma find_sub_Some:
  "find_sub p s = Some i \<Longrightarrow> i + length p \<le> length s \<and> take (length p) (drop i s) = p"
proof (induction s arbitrary: i)
  case Nil
  then show ?case by (auto split: if_splits)
next
  case (Cons x xs)
  show ?case
  proof (cases "prefix p (x # xs)")
    case True
    with Cons.prems have "i = 0" by simp
    with True show ?thesis by (auto simp: prefix_length_le take_is_prefix dest: prefix_length_le)
      (metis append_eq_conv_conj prefix_def)
  next
    case False
    with Cons show ?thesis by auto
  qed
qed

lemma contains_sub_sublist: "contains_sub p s \<longleftrightarrow> sublist p s"
proof (induction s)
  case Nil
  then show ?case by (simp add: contains_sub_def)
next
  case (Cons x xs)
  then show ?case by (auto simp: contains_sub_def sublist_Cons_right)
qed

function py_replace :: "string \<Rightarrow> string \<Rightarrow> string \<Rightarrow> string" where
  "py_replace old new s =
     (if old = [] then new @ concat (map (\<lambda>c. c # new) s)
      else (case s of
              [] \<Rightarrow> []
            | c # cs \<Rightarrow>
                if prefix old s then new @ py_replace old new (drop (length old) s)
                else c # py_replace old new cs))"
  by pat_completeness auto
termination
  by (relation "measure (\<lambda>(old, new, s). length s)") (auto simp: neq_Nil_conv)

declare py_replace.simps [simp del]

lemma py_replace_Nil: "old \<noteq> [] \<Longrightarrow> py_replace old new [] = []"
  by (simp add: py_replace.simps)

lemma py_replace_hit: "old \<noteq> [] \<Longrightarrow> py_replace old new (old @ s) = new @ py_replace old new s"
proof (cases old)
  case (Cons c cs)
  have "py_replace old new (old @ s) =
      (case old @ s of [] \<Rightarrow> [] | c # cs \<Rightarrow> new @ py_replace old new (drop (length old) (old @ s)))"
    using Cons by (subst py_replace.simps) simp
  with Cons show ?thesis by simp
qed simp

lemma py_replace_miss:
  "old \<noteq> [] \<Longrightarrow> \<not> prefix old (c # cs) \<Longrightarrow> py_replace old new (c # cs) = c # py_replace old new cs"
  by (subst py_replace.simps) simp

lemma py_replace_absent: "old \<noteq> [] \<Longrightarrow> \<not> sublist old s \<Longrightarrow> py_replace old new s = s"
proof (induction s)
  case Nil
  then show ?case by (simp add: py_replace_Nil)
next
  case (Cons c cs)
  then show ?case by (simp add: py_replace_miss sublist_Cons_right)
qed

section \<open>Decimal numerals\<close>

fun dec_nat :: "nat \<Rightarrow> string" where
  "dec_nat n = (if n < 10 then [char_of (48 + n)] else dec_nat (n div 10) @ [char_of (48 + n mod 10)])"

declare dec_nat.simps [simp del]

definition dec_int :: "int \<Rightarrow> string" where
  "dec_int i = (if i < 0 then CHR ''-'' # dec_nat (nat (- i)) else dec_nat (nat i))"

definition undec :: "string \<Rightarrow> nat" where
  "undec s = foldl (\<lambda>a c. 10 * a + (code c - 48)) 0 s"

lemma dec_nat_not_Nil [simp]: "dec_nat n \<noteq> []"
  by (subst dec_nat.simps) simp

lemma dec_nat_digits: "\<forall>c \<in> set (dec_nat n). is_digit c"
proof (induction n rule: dec_nat.induct)
  case (1 n)
  then show ?case
    by (cases "n < 10") (auto simp: dec_nat.simps [of n] is_digit_def)
qed

lemma undec_snoc: "undec (s @ [c]) = 10 * undec s + (code c - 48)"
  by (simp add: undec_def)

lemma undec_dec_nat [simp]: "undec (dec_nat n) = n"
proof (induction n rule: dec_nat.induct)
  case (1 n)
  show ?case
  proof (cases "n < 10")
    case True
    then show ?thesis by (simp add: dec_nat.simps [of n] undec_def)
  next
    case False
    with 1 have "undec (dec_nat (n div 10)) = n div 10" by simp
    with False show ?thesis by (simp add: dec_nat.simps [of n] undec_snoc)
  qed
qed

lemma dec_nat_inj: "dec_nat m = dec_nat n \<Longrightarrow> m = n"
  by (metis undec_dec_nat)

lemma dec_nat_hd: "n \<noteq> 0 \<Longrightarrow> hd (dec_nat n) \<noteq> CHR ''0''"
proof (induction n rule: dec_nat.induct)
  case (1 n)
  show ?case
  proof (cases "n < 10")
    case True
    have "code (char_of (48 + n)) \<noteq> code (CHR ''0'')"
      using True \<open>n \<noteq> 0\<close> by (simp add: code_def)
    then have "char_of (48 + n) \<noteq> CHR ''0''" by metis
    with True show ?thesis by (simp add: dec_nat.simps [of n])
  next
    case False
    with 1 have "hd (dec_nat (n div 10)) \<noteq> CHR ''0''" by simp
    with False show ?thesis by (simp add: dec_nat.simps [of n])
  qed
qed

lemma dec_nat_0: "dec_nat 0 = ''0''"
  by (subst dec_nat.simps) (simp add: char_of_eq_iff)

end
