(* ===== verification/PyVal.thy ===== *)
theory PyVal
  imports PyStr
begin

text \<open>
  Python values as far as the modelled code inspects them: the JSON-shaped values, and any other
  object (\<open>PObj\<close>), of which the code only ever takes \<open>str\<close> or \<open>repr\<close>. A float is carried by
  its literal, which is all the code does with it; a dict has string keys, in insertion order.
\<close>

datatype pyval =
    PNone
  | PBool bool
  | PInt int
  | PFloat string
  | PStr string
  | PList "pyval list"
  | PDict "(string \<times> pyval) list"
  | PObj string string \<comment> \<open>the object's \<open>str\<close> and its \<open>repr\<close>\<close>

type_synonym pydict = "(string, pyval) dict"

section \<open>Exceptions\<close>

text \<open>
  The exception classes that the modelled code raises or catches by class. \<open>OtherError c m\<close>
  is any other exception, with its class name and message; \<open>ToolConflictError\<close> carries the agent's
  identity and the colliding names, the two cycle errors and
  \<open>CopassApiError\<close> (message, status, body, path) carry their attributes. A computation that can raise returns
  \<open>exn + 'a\<close>.
\<close>

datatype exn =
    ValueError string
  | KeyError string
  | TypeError string
  | RuntimeError string
  | AssertionError string
  | TimeoutError string
  | ToolConflictError string "string list"
  | MissingPendingToolCallError "string list" "string list"
  | OutOfCycleReplyError string "string list"
  | BadRequestError string
  | CopassApiError string int pyval string
  | CopassNetworkError string
  | CopassValidationError string
  | OtherError string string

section \<open>Truth value and class tests\<close>

definition float_is_zero :: "string \<Rightarrow> bool" where
  "float_is_zero l = list_all (\<lambda>c. c \<in> set ''-.0'') (takeWhile (\<lambda>c. c \<noteq> CHR ''e'') l)"

fun truthy :: "pyval \<Rightarrow> bool" where
  "truthy PNone = False"
| "truthy (PBool b) = b"
| "truthy (PInt i) = (i \<noteq> 0)"
| "truthy (PFloat l) = (\<not> float_is_zero l)"
| "truthy (PStr s) = (s \<noteq> [])"
| "truthy (PList vs) = (vs \<noteq> [])"
| "truthy (PDict d) = (d \<noteq> [])"
| "truthy (PObj s r) = True"

text \<open>\<open>isinstance(v, int)\<close>, with the integer value: a bool is an int in Python.\<close>

fun as_int :: "pyval \<Rightarrow> int option" where
  "as_int (PInt i) = Some i"
| "as_int (PBool b) = Some (if b then 1 else 0)"
| "as_int _ = None"

fun as_str :: "pyval \<Rightarrow> string option" where
  "as_str (PStr s) = Some s"
| "as_str _ = None"

fun as_dict :: "pyval \<Rightarrow> pydict option" where
  "as_dict (PDict d) = Some d"
| "as_dict _ = None"

fun as_list :: "pyval \<Rightarrow> pyval list option" where
  "as_list (PList vs) = Some vs"
| "as_list _ = None"

text \<open>\<open>d.get(k)\<close>, \<open>d.get(k, v)\<close> and \<open>v or w\<close>.\<close>

definition get_or :: "pydict \<Rightarrow> string \<Rightarrow> pyval \<Rightarrow> pyval" where
  "get_or d k v = (case dict_get d k of None \<Rightarrow> v | Some w \<Rightarrow> w)"

abbreviation get_none :: "pydict \<Rightarrow> string \<Rightarrow> pyval" where
  "get_none d k \<equiv> get_or d k PNone"

definition py_or :: "pyval \<Rightarrow> pyval \<Rightarrow> pyval" where
  "py_or v w = (if truthy v then v else w)"

text \<open>An optional argument and \<open>None\<close>.\<close>

definition opt_str :: "string option \<Rightarrow> pyval" where
  "opt_str x = (case x of None \<Rightarrow> PNone | Some s \<Rightarrow> PStr s)"

section \<open>repr and str\<close>

definition hex_digit :: "nat \<Rightarrow> char" where
  "hex_digit n = (if n < 10 then char_of (48 + n) else char_of (87 + n))"

definition repr_char :: "char \<Rightarrow> char \<Rightarrow> string" where
  "repr_char q c =
     (if c = q \<or> c = bsl then [bsl, c]
      else if c = nl then bsl # ''n''
      else if c = cr then bsl # ''r''
      else if c = tab then bsl # ''t''
      else if code c < 32 \<or> (127 \<le> code c \<and> code c \<le> 160) \<or> code c = 173
      then bsl # CHR ''x'' # [hex_digit (code c div 16), hex_digit (code c mod 16)]
      else [c])"

definition repr_str :: "string \<Rightarrow> string" where
  "repr_str s =
     (let q = (if sq \<in> set s \<and> dq \<notin> set s then dq else sq)
      in q # concat (map (repr_char q) s) @ [q])"

fun py_repr :: "pyval \<Rightarrow> string" where
  "py_repr PNone = ''None''"
| "py_repr (PBool b) = (if b then ''True'' else ''False'')"
| "py_repr (PInt i) = dec_int i"
| "py_repr (PFloat l) = l"
| "py_repr (PStr s) = repr_str s"
| "py_repr (PList vs) = ''['' @ py_join '', '' (map py_repr vs) @ '']''"
| "py_repr (PDict d) =
     ''{'' @ py_join '', '' (map (\<lambda>(k, v). repr_str k @ '': '' @ py_repr v) d) @ ''}''"
| "py_repr (PObj s r) = r"

fun py_str :: "pyval \<Rightarrow> string" where
  "py_str (PStr s) = s"
| "py_str (PObj s r) = s"
| "py_str v = py_repr v"

text \<open>\<open>str(e)\<close> of an exception: a \<open>KeyError\<close> shows the repr of its message.\<close>

definition repr_ids :: "string list \<Rightarrow> string" where
  "repr_ids ids = py_repr (PList (map PStr ids))"

fun exn_str :: "exn \<Rightarrow> string" where
  "exn_str (ValueError m) = m"
| "exn_str (KeyError m) = repr_str m"
| "exn_str (TypeError m) = m"
| "exn_str (RuntimeError m) = m"
| "exn_str (AssertionError m) = m"
| "exn_str (TimeoutError m) = m"
| "exn_str (ToolConflictError ident names) =
     ''BaseAgent '' @ repr_str ident @ '': static and dynamic tools collide on names: '' @ repr_ids names @
     ''. Set on_conflict='dynamic_wins' or 'static_wins' to pick a resolution policy, or fix the '' @
     ''duplicated name.''"
| "exn_str (MissingPendingToolCallError missing known) =
     ''RequiresActionCycle: event_id(s) '' @ repr_ids missing @ '' not in buffered events '' @
     repr_ids known @ ''. The SSE stream did not surface these tool-use events before the '' @
     ''requires_action envelope arrived; rehydrate-from-log is not a valid recovery path during '' @
     ''a live stream (ADR 0001 Decision 2).''"
| "exn_str (OutOfCycleReplyError rid requested) =
     ''RequiresActionCycle: reply id '' @ repr_str rid @ '' is not in this cycle's requested_ids '' @
     repr_ids requested @ ''. Replies for ids from prior cycles cannot be sent (ADR 0001 Decision 2).''"
| "exn_str (BadRequestError m) = m"
| "exn_str (CopassApiError m st b p) = m"
| "exn_str (CopassNetworkError m) = m"
| "exn_str (CopassValidationError m) = m"
| "exn_str (OtherError c m) = m"

end
