(* ===== verification/CoreAgents.thy ===== *)
theory CoreAgents
  imports PyVal
begin

text \<open>
  The provider-neutral agent surface (package \<open>copass-core-agents\<close>): the streamed events of
  \<open>events.py\<close>, scope and invocation context, tools and the per-agent tool registry of
  \<open>tool_registry.py\<close>, the process-wide registries of \<open>registry.py\<close>, and \<open>BaseAgent\<close> with the
  merge of static and resolver-produced tools in \<open>base_agent.py\<close>. A tool is its catalog entry
  and the function that runs it; a call that raises returns \<open>Inl\<close>.
\<close>

section \<open>Events\<close>

datatype agent_event =
    AgentTextDelta (delta_text: string)
  | AgentToolCall (call_id: string) (call_name: string) (call_arguments: pydict)
  | AgentToolResult (result_call_id: string) (result_name: string) (result_dict: pyval)
      (result_error: "string option")
  | AgentFinish (finish_stop_reason: string) (finish_usage: pydict)
      (finish_session_id: "string option")

definition is_finish :: "agent_event \<Rightarrow> bool" where
  "is_finish e = (case e of AgentFinish _ _ _ \<Rightarrow> True | _ \<Rightarrow> False)"

lemma is_finish_simps [simp]:
  "\<not> is_finish (AgentTextDelta t)" "\<not> is_finish (AgentToolCall i n a)"
  "\<not> is_finish (AgentToolResult i n r e)" "is_finish (AgentFinish s u sid)"
  by (simp_all add: is_finish_def)

section \<open>Scope and invocation context\<close>

record agent_scope =
  user_id :: string
  sandbox_id :: "string option"
  project_id :: "string option"

definition make_scope :: "string \<Rightarrow> string option \<Rightarrow> string option \<Rightarrow> exn + agent_scope" where
  "make_scope uid sb pr =
     (if uid = [] \<or> py_strip uid = []
      then Inl (ValueError ''AgentScope.user_id is required and non-empty'')
      else Inr \<lparr>user_id = uid, sandbox_id = sb, project_id = pr\<rparr>)"

record invocation_context =
  scope :: agent_scope
  trace_id :: "string option"
  dek :: "string option"
  handles :: pydict

definition get_handle :: "invocation_context \<Rightarrow> string \<Rightarrow> exn + pyval" where
  "get_handle ctx k =
     (case dict_get (handles ctx) k of
        None \<Rightarrow>
          (let available = (let names = py_join '', '' (sort (dict_keys (handles ctx)))
                            in if names = [] then ''(none)'' else names)
           in Inl (KeyError (''AgentInvocationContext missing handle '' @ repr_str k @
                ''. Available: '' @ available)))
      | Some v \<Rightarrow> Inr v)"

section \<open>Tools and the per-agent registry\<close>

record tool_spec =
  spec_name :: string
  spec_description :: string
  spec_input_schema :: pydict

record tool =
  tool_spec :: tool_spec
  tool_invoke :: "pydict \<Rightarrow> invocation_context option \<Rightarrow> exn + pyval"

definition tool_name :: "tool \<Rightarrow> string" where
  "tool_name t = spec_name (tool_spec t)"

type_synonym tool_registry = "(string, tool) dict"

definition registry_add :: "tool \<Rightarrow> tool_registry \<Rightarrow> tool_registry" where
  "registry_add t reg = dict_set (spec_name (tool_spec t)) t reg"

definition registry_extend :: "tool list \<Rightarrow> tool_registry \<Rightarrow> tool_registry" where
  "registry_extend ts reg = fold registry_add ts reg"

definition available_names :: "(string, 'v) dict \<Rightarrow> string" where
  "available_names d =
     (let names = py_join '', '' (sort (dict_keys d)) in if names = [] then ''(none)'' else names)"

definition registry_get :: "tool_registry \<Rightarrow> string \<Rightarrow> exn + tool" where
  "registry_get reg name =
     (case dict_get reg name of
        Some t \<Rightarrow> Inr t
      | None \<Rightarrow> Inl (KeyError (''No tool registered under '' @ repr_str name @
          ''. Available: '' @ available_names reg)))"

definition registry_try_get :: "tool_registry \<Rightarrow> string \<Rightarrow> tool option" where
  "registry_try_get reg name = dict_get reg name"

definition registry_list_specs :: "tool_registry \<Rightarrow> tool_spec list" where
  "registry_list_specs reg = map (\<lambda>k. tool_spec (the (dict_get reg k))) (sort (dict_keys reg))"

definition registry_len :: "tool_registry \<Rightarrow> nat" where
  "registry_len reg = length reg"

definition registry_contains :: "tool_registry \<Rightarrow> string \<Rightarrow> bool" where
  "registry_contains reg name = (dict_get reg name \<noteq> None)"

definition registry_iter :: "tool_registry \<Rightarrow> tool list" where
  "registry_iter reg = map (\<lambda>k. the (dict_get reg k)) (sort (dict_keys reg))"

text \<open>Every tool is filed under its own name, and no name twice.\<close>

definition registry_ok :: "tool_registry \<Rightarrow> bool" where
  "registry_ok reg = (dict_ok reg \<and> list_all (\<lambda>(k, t). tool_name t = k) reg)"

lemma registry_ok_Nil [simp]: "registry_ok []"
  by (simp add: registry_ok_def)

lemma registry_ok_add: "registry_ok reg \<Longrightarrow> registry_ok (registry_add t reg)"
  by (auto simp: registry_ok_def registry_add_def tool_name_def list_all_iff dest: set_dict_set)

interpretation tools: kv_store registry_try_get registry_add tool_name registry_ok
  by unfold_locales (simp_all add: registry_ok_add,
    simp add: registry_try_get_def registry_add_def tool_name_def)

lemma registry_ok_extend: "registry_ok reg \<Longrightarrow> registry_ok (registry_extend ts reg)"
  unfolding registry_extend_def by (rule tools.wf_fold)

lemma registry_try_get_name: "registry_ok reg \<Longrightarrow> registry_try_get reg n = Some t \<Longrightarrow> tool_name t = n"
  by (auto simp: registry_ok_def registry_try_get_def list_all_iff dest: map_of_SomeD)

lemma set_registry_iter: "registry_ok reg \<Longrightarrow> set (registry_iter reg) = snd ` set reg"
  by (force simp: registry_iter_def registry_ok_def image_iff)

lemma names_registry_iter:
  assumes "registry_ok reg"
  shows "map tool_name (registry_iter reg) = sort (dict_keys reg)"
proof -
  have "tool_name (the (dict_get reg k)) = k" if k: "k \<in> set (dict_keys reg)" for k
  proof -
    obtain t where "dict_get reg k = Some t" using k unfolding dict_get_in_keys by blast
    then show ?thesis using registry_try_get_name [OF assms, of k] by (simp add: registry_try_get_def)
  qed
  then have "map tool_name (registry_iter reg) = map (\<lambda>k. k) (sort (dict_keys reg))"
    unfolding registry_iter_def map_map comp_def by (intro map_cong) auto
  then show ?thesis by simp
qed

lemma last_with_distinct:
  "distinct (map f xs) \<Longrightarrow> x \<in> set xs \<Longrightarrow> last_with f (f x) xs = Some x"
  by (induction xs rule: rev_induct) auto

lemma last_with_iter:
  assumes "registry_ok reg"
  shows "last_with tool_name n (registry_iter reg) = registry_try_get reg n"
proof (cases "registry_try_get reg n")
  case None
  then have "n \<notin> set (sort (dict_keys reg))"
    by (simp add: registry_try_get_def map_of_eq_None_iff)
  with None names_registry_iter [OF assms] show ?thesis
    by (metis last_with_None list.set_map)
next
  case (Some t)
  have "distinct (map tool_name (registry_iter reg))"
    using assms names_registry_iter [OF assms] by (simp add: registry_ok_def)
  moreover have "t \<in> set (registry_iter reg)"
    using Some assms set_registry_iter [OF assms]
    by (auto simp: registry_try_get_def dest: map_of_SomeD intro: rev_image_eqI)
  ultimately have "last_with tool_name (tool_name t) (registry_iter reg) = Some t"
    by (rule last_with_distinct)
  with Some registry_try_get_name [OF assms Some] show ?thesis by simp
qed

section \<open>The process-wide registries\<close>

text \<open>
  \<open>registry.py\<close> keeps two module-level dicts; each function takes the dict and the ones that
  write return it. A registered class is any value \<open>'c\<close>.
\<close>

definition register_agent :: "string \<times> 'c \<Rightarrow> (string, 'c) dict \<Rightarrow> (string, 'c) dict" where
  "register_agent ic agents = dict_set (fst ic) (snd ic) agents"

definition get_agent_class :: "(string, 'c) dict \<Rightarrow> string \<Rightarrow> exn + 'c" where
  "get_agent_class agents identity =
     (case dict_get agents identity of
        Some c \<Rightarrow> Inr c
      | None \<Rightarrow> Inl (KeyError (''No agent registered under '' @ repr_str identity @
          ''. Available: '' @ available_names agents)))"

definition list_agents :: "(string, 'c) dict \<Rightarrow> string list" where
  "list_agents agents = sort (dict_keys agents)"

definition register_agent_tool :: "tool \<Rightarrow> tool_registry \<Rightarrow> tool_registry" where
  "register_agent_tool t reg = dict_set (spec_name (tool_spec t)) t reg"

definition get_agent_tool :: "tool_registry \<Rightarrow> string \<Rightarrow> exn + tool" where
  "get_agent_tool reg name =
     (case dict_get reg name of
        Some t \<Rightarrow> Inr t
      | None \<Rightarrow> Inl (KeyError (''No agent tool registered under '' @ repr_str name @
          ''. Available: '' @ available_names reg)))"

definition try_get_agent_tool :: "tool_registry \<Rightarrow> string \<Rightarrow> tool option" where
  "try_get_agent_tool reg name = dict_get reg name"

definition list_agent_tools :: "tool_registry \<Rightarrow> string list" where
  "list_agent_tools reg = sort (dict_keys reg)"

interpretation shared_tools: kv_store try_get_agent_tool register_agent_tool tool_name registry_ok
  by unfold_locales (simp_all add: registry_ok_add [unfolded registry_add_def] register_agent_tool_def,
    simp add: try_get_agent_tool_def tool_name_def)

interpretation agent_classes: kv_store "\<lambda>agents k. map_option (Pair k) (dict_get agents k)"
    register_agent fst dict_ok
  by unfold_locales (auto simp: register_agent_def)

section \<open>BaseAgent\<close>

record base_agent =
  identity :: string
  model :: string
  system_prompt :: string
  agent_tools :: tool_registry
  tool_resolver :: "(invocation_context \<Rightarrow> exn + tool list) option"
  on_conflict :: string

definition make_agent ::
    "string \<Rightarrow> string \<Rightarrow> string \<Rightarrow> tool_registry option \<Rightarrow>
     (invocation_context \<Rightarrow> exn + tool list) option \<Rightarrow> string \<Rightarrow> exn + base_agent" where
  "make_agent ident mdl prompt tls resolver policy =
     (if tls = None \<and> resolver = None then
        Inl (ValueError (''BaseAgent requires at least one of `tools` or '' @
          ''`tool_resolver` - an agent with no capabilities has no reason to exist.''))
      else if policy \<notin> set [''error'', ''dynamic_wins'', ''static_wins''] then
        Inl (ValueError (''BaseAgent: invalid on_conflict policy '' @ repr_str policy @
          ''. Expected 'error', 'dynamic_wins', or 'static_wins'.''))
      else Inr \<lparr>identity = ident, model = mdl, system_prompt = prompt,
        agent_tools = (case tls of Some reg \<Rightarrow> reg | None \<Rightarrow> []),
        tool_resolver = resolver, on_conflict = policy\<rparr>)"

text \<open>\<open>build_tools\<close>: the registry of one invocation.\<close>

definition build_tools :: "base_agent \<Rightarrow> invocation_context \<Rightarrow> exn + tool_registry" where
  "build_tools a ctx =
     (case tool_resolver a of
        None \<Rightarrow> Inr (agent_tools a)
      | Some resolve \<Rightarrow>
          (case resolve ctx of
             Inl e \<Rightarrow> Inl e
           | Inr dynamic_tools \<Rightarrow>
               (let static = registry_iter (agent_tools a);
                    static_names = map tool_name static;
                    dynamic_names = map tool_name dynamic_tools;
                    collisions = filter (\<lambda>n. n \<in> set dynamic_names) static_names
                in if collisions \<noteq> [] \<and> on_conflict a = ''error''
                   then Inl (ToolConflictError (identity a) (sort (remdups collisions)))
                   else if on_conflict a = ''static_wins''
                   then Inr (fold registry_add static
                          (fold registry_add
                            (filter (\<lambda>t. tool_name t \<notin> set static_names) dynamic_tools) []))
                   else Inr (fold registry_add dynamic_tools
                          (fold registry_add
                            (filter (\<lambda>t. tool_name t \<notin> set dynamic_names) static) [])))))"

lemma find_filter: "find P (filter Q xs) = find (\<lambda>x. Q x \<and> P x) xs"
  by (induction xs) auto

lemma last_with_filter:
  "last_with f k (filter (\<lambda>x. f x \<notin> N) xs) = (if k \<in> N then None else last_with f k xs)"
proof -
  have "find (\<lambda>x. f x \<notin> N \<and> f x = k) ys = (if k \<in> N then None else find (\<lambda>x. f x = k) ys)" for ys
    by (induction ys) auto
  then show ?thesis by (simp add: last_with_def find_filter rev_filter)
qed

lemma try_get_Nil [simp]: "registry_try_get [] n = None"
  by (simp add: registry_try_get_def)

text \<open>Adding the tools of \<open>weak\<close> whose names \<open>strong\<close> does not use, then those of \<open>strong\<close>.\<close>

lemma lookup_merge:
  "registry_try_get (fold registry_add strong
      (fold registry_add (filter (\<lambda>t. tool_name t \<notin> set (map tool_name strong)) weak) [])) n =
   (case last_with tool_name n strong of
      Some t \<Rightarrow> Some t | None \<Rightarrow> last_with tool_name n weak)"
proof -
  have "n \<in> set (map tool_name strong) \<longleftrightarrow> last_with tool_name n strong \<noteq> None"
    by (simp add: last_with_None)
  then show ?thesis
    by (simp only: tools.lookup_fold [OF tools.wf_fold [OF registry_ok_Nil]]
        tools.lookup_fold [OF registry_ok_Nil] last_with_filter try_get_Nil)
      (auto split: option.split)
qed

text \<open>What a lookup in the merged registry finds, under each policy.\<close>

lemma build_tools_Inr:
  assumes "registry_ok (agent_tools a)" "tool_resolver a = Some resolve" "resolve ctx = Inr dyn"
    "build_tools a ctx = Inr m"
  shows "registry_ok m"
    and "registry_try_get m n =
      (if on_conflict a = ''static_wins''
       then (case registry_try_get (agent_tools a) n of Some t \<Rightarrow> Some t | None \<Rightarrow> last_with tool_name n dyn)
       else (case last_with tool_name n dyn of Some t \<Rightarrow> Some t | None \<Rightarrow> registry_try_get (agent_tools a) n))"
proof -
  let ?st = "registry_iter (agent_tools a)"
  note iter = last_with_iter [OF assms(1)]
  have m: "m = (if on_conflict a = ''static_wins''
     then fold registry_add ?st (fold registry_add
            (filter (\<lambda>t. tool_name t \<notin> set (map tool_name ?st)) dyn) [])
     else fold registry_add dyn (fold registry_add
            (filter (\<lambda>t. tool_name t \<notin> set (map tool_name dyn)) ?st) []))"
    using assms(2-4) by (auto simp: build_tools_def Let_def split: if_splits)
  show "registry_ok m" unfolding m by (auto intro!: tools.wf_fold)
  show "registry_try_get m n =
      (if on_conflict a = ''static_wins''
       then (case registry_try_get (agent_tools a) n of Some t \<Rightarrow> Some t | None \<Rightarrow> last_with tool_name n dyn)
       else (case last_with tool_name n dyn of Some t \<Rightarrow> Some t | None \<Rightarrow> registry_try_get (agent_tools a) n))"
    unfolding m by (cases "on_conflict a = ''static_wins''") (simp_all only: lookup_merge iter if_True if_False simp_thms)
qed

lemma build_tools_conflict:
  assumes "registry_ok (agent_tools a)" "tool_resolver a = Some resolve" "resolve ctx = Inr dyn"
  shows "build_tools a ctx =
      Inl (ToolConflictError (identity a) (sort (remdups (filter (\<lambda>n. n \<in> tool_name ` set dyn)
        (sort (dict_keys (agent_tools a))))))) \<longleftrightarrow>
    on_conflict a = ''error'' \<and> (\<exists>n. registry_try_get (agent_tools a) n \<noteq> None \<and> n \<in> tool_name ` set dyn)"
    (is "?b \<longleftrightarrow> ?e \<and> ?c")
proof -
  have names: "map tool_name (registry_iter (agent_tools a)) = sort (dict_keys (agent_tools a))"
    by (rule names_registry_iter [OF assms(1)])
  have "?c \<longleftrightarrow> filter (\<lambda>n. n \<in> tool_name ` set dyn) (sort (dict_keys (agent_tools a))) \<noteq> []"
    by (auto simp: filter_empty_conv registry_try_get_def map_of_eq_None_iff)
  then show ?thesis
    using assms(2,3) by (simp add: build_tools_def Let_def names)
qed

text \<open>The catalog depends on the content of the registry, not on the order of registration.\<close>

lemma registry_list_specs_cong:
  assumes "registry_ok reg" "registry_ok reg'"
    "\<And>n. registry_try_get reg n = registry_try_get reg' n"
  shows "registry_list_specs reg = registry_list_specs reg'"
proof -
  have "map_of reg = map_of reg'" using assms(3) by (auto simp: registry_try_get_def)
  then show ?thesis
    using sorted_keys_cong [of reg reg'] assms(1,2)
    by (simp add: registry_list_specs_def registry_ok_def)
qed

lemma registry_list_specs_names:
  assumes "registry_ok reg"
  shows "map spec_name (registry_list_specs reg) = sort (dict_keys reg)"
  using names_registry_iter [OF assms]
  by (simp add: registry_list_specs_def registry_iter_def tool_name_def comp_def)

end
