(* ===== verification/Json.thy ===== *)
theory Json
  imports PyVal
begin

text \<open>
  The part of Python's \<open>json\<close> module the code uses: \<open>json.dumps(v, default=str)\<close> (with and
  without \<open>sort_keys\<close>) and \<open>json.loads\<close>. The parser is a recursive descent with fuel;
  \<open>loads_no_fuel\<close> shows that the fuel it is given is always enough. The round trip is in
  \<open>JsonRoundtrip\<close>.
\<close>

section \<open>Printing\<close>

definition hex4 :: "nat \<Rightarrow> string" where
  "hex4 n = [hex_digit (n div 4096 mod 16), hex_digit (n div 256 mod 16),
             hex_digit (n div 16 mod 16), hex_digit (n mod 16)]"

definition esc_char :: "char \<Rightarrow> string" where
  "esc_char c =
     (if c = dq \<or> c = bsl then [bsl, c]
      else if c = nl then bsl # ''n''
      else if c = cr then bsl # ''r''
      else if c = tab then bsl # ''t''
      else if code c = 12 then bsl # ''f''
      else if code c = 8 then bsl # ''b''
      else if code c < 32 \<or> 126 < code c then bsl # CHR ''u'' # hex4 (code c)
      else [c])"

definition dumps_str :: "string \<Rightarrow> string" where
  "dumps_str s = dq # concat (map esc_char s) @ [dq]"

definition dumps_float :: "string \<Rightarrow> string" where
  "dumps_float l =
     (if l = ''nan'' then ''NaN'' else if l = ''inf'' then ''Infinity''
      else if l = ''-inf'' then ''-Infinity'' else l)"

fun dumps :: "pyval \<Rightarrow> string" where
  "dumps PNone = ''null''"
| "dumps (PBool b) = (if b then ''true'' else ''false'')"
| "dumps (PInt i) = dec_int i"
| "dumps (PFloat l) = dumps_float l"
| "dumps (PStr s) = dumps_str s"
| "dumps (PList vs) = ''['' @ py_join '', '' (map dumps vs) @ '']''"
| "dumps (PDict d) = ''{'' @ py_join '', '' (map (\<lambda>(k, v). dumps_str k @ '': '' @ dumps v) d) @ ''}''"
| "dumps (PObj s r) = dumps_str s"

text \<open>\<open>sort_keys=True\<close>: every dict is printed in key order.\<close>

fun sort_keys :: "pyval \<Rightarrow> pyval" where
  "sort_keys (PList vs) = PList (map sort_keys vs)"
| "sort_keys (PDict d) = PDict (sort_key fst (map (\<lambda>(k, v). (k, sort_keys v)) d))"
| "sort_keys v = v"

definition dumps_sorted :: "pyval \<Rightarrow> string" where
  "dumps_sorted v = dumps (sort_keys v)"

section \<open>Parsing\<close>

datatype json_error = OutOfFuel | BadJson

definition is_ws :: "char \<Rightarrow> bool" where
  "is_ws c = (c = CHR '' '' \<or> c = tab \<or> c = nl \<or> c = cr)"

definition skip_ws :: "string \<Rightarrow> string" where
  "skip_ws s = dropWhile is_ws s"

definition hex_val :: "char \<Rightarrow> nat option" where
  "hex_val c =
     (if is_digit c then Some (code c - 48)
      else if 97 \<le> code c \<and> code c \<le> 102 then Some (code c - 87)
      else if 65 \<le> code c \<and> code c \<le> 70 then Some (code c - 55)
      else None)"

definition hex4_val :: "char \<Rightarrow> char \<Rightarrow> char \<Rightarrow> char \<Rightarrow> nat option" where
  "hex4_val a b c d =
     (case (hex_val a, hex_val b, hex_val c, hex_val d) of
        (Some w, Some x, Some y, Some z) \<Rightarrow> Some (4096 * w + 256 * x + 16 * y + z)
      | _ \<Rightarrow> None)"

definition unesc :: "char \<Rightarrow> char option" where
  "unesc c =
     (if c = dq \<or> c = bsl \<or> c = CHR ''/'' then Some c
      else if c = CHR ''n'' then Some nl
      else if c = CHR ''r'' then Some cr
      else if c = CHR ''t'' then Some tab
      else if c = CHR ''f'' then Some (char_of (12 :: nat))
      else if c = CHR ''b'' then Some (char_of (8 :: nat))
      else None)"

text \<open>The rest of a string after its opening quote. A \<open>\u\<close> escape above 255 has no character
  in the model's strings and is refused.\<close>

fun parse_str :: "string \<Rightarrow> (string \<times> string) option" where
  "parse_str [] = None"
| "parse_str (c # cs) =
     (if c = dq then Some ([], cs)
      else if c = bsl then
        (case cs of
           [] \<Rightarrow> None
         | e # es \<Rightarrow>
             if e = CHR ''u'' then
               (case es of
                  h1 # h2 # h3 # h4 # r \<Rightarrow>
                    (case hex4_val h1 h2 h3 h4 of
                       None \<Rightarrow> None
                     | Some n \<Rightarrow>
                         if n < 256 then map_option (apfst (Cons (char_of n))) (parse_str r)
                         else None)
                | _ \<Rightarrow> None)
             else
               (case unesc e of
                  None \<Rightarrow> None
                | Some ch \<Rightarrow> map_option (apfst (Cons ch)) (parse_str es)))
      else if code c < 32 then None
      else map_option (apfst (Cons c)) (parse_str cs))"

definition p_int :: "string \<Rightarrow> (string \<times> string) option" where
  "p_int s =
     (case s of
        [] \<Rightarrow> None
      | c # cs \<Rightarrow>
          if c = CHR ''0'' then Some ([c], cs)
          else if is_digit c then Some (takeWhile is_digit s, dropWhile is_digit s)
          else None)"

definition p_frac :: "string \<Rightarrow> string \<times> string" where
  "p_frac s =
     (case s of
        c # d # ds \<Rightarrow>
          if c = CHR ''.'' \<and> is_digit d
          then (c # takeWhile is_digit (d # ds), dropWhile is_digit (d # ds)) else ([], s)
      | _ \<Rightarrow> ([], s))"

definition p_sign :: "string \<Rightarrow> string" where
  "p_sign s = (if s \<noteq> [] \<and> (hd s = CHR ''+'' \<or> hd s = CHR ''-'') then [hd s] else [])"

definition p_exp :: "string \<Rightarrow> string \<times> string" where
  "p_exp s =
     (case s of
        [] \<Rightarrow> ([], s)
      | c # cs \<Rightarrow>
          (let sg = p_sign cs; ds = drop (length sg) cs
           in if (c = CHR ''e'' \<or> c = CHR ''E'') \<and> ds \<noteq> [] \<and> is_digit (hd ds)
              then (c # sg @ takeWhile is_digit ds, dropWhile is_digit ds)
              else ([], s)))"

definition parse_num :: "string \<Rightarrow> (pyval \<times> string) option" where
  "parse_num s =
     (let neg = (s \<noteq> [] \<and> hd s = CHR ''-''); s1 = (if neg then tl s else s)
      in case p_int s1 of
           None \<Rightarrow> None
         | Some (i, s2) \<Rightarrow>
             (let (f, s3) = p_frac s2; (e, s4) = p_exp s3
              in if f = [] \<and> e = []
                 then Some (PInt (if neg then - int (undec i) else int (undec i)), s4)
                 else Some (PFloat ((if neg then ''-'' else []) @ i @ f @ e), s4)))"

definition dict_of_pairs :: "('k \<times> 'v) list \<Rightarrow> ('k, 'v) dict" where
  "dict_of_pairs ps = foldl (\<lambda>d (k, v). dict_set k v d) [] ps"

definition parse_lit :: "string \<Rightarrow> (pyval \<times> string) option" where
  "parse_lit s =
     (if prefix ''null'' s then Some (PNone, drop 4 s)
      else if prefix ''true'' s then Some (PBool True, drop 4 s)
      else if prefix ''false'' s then Some (PBool False, drop 5 s)
      else if prefix ''NaN'' s then Some (PFloat ''nan'', drop 3 s)
      else if prefix ''Infinity'' s then Some (PFloat ''inf'', drop 8 s)
      else if prefix ''-Infinity'' s then Some (PFloat ''-inf'', drop 9 s)
      else parse_num s)"

fun parse_val :: "nat \<Rightarrow> string \<Rightarrow> json_error + (pyval \<times> string)"
  and parse_elems :: "nat \<Rightarrow> string \<Rightarrow> json_error + (pyval list \<times> string)"
  and parse_members :: "nat \<Rightarrow> string \<Rightarrow> json_error + ((string \<times> pyval) list \<times> string)" where
  "parse_val 0 s = Inl OutOfFuel"
| "parse_val (Suc n) s =
     (case s of
        [] \<Rightarrow> Inl BadJson
      | c # cs \<Rightarrow>
          if c = dq then
            (case parse_str cs of None \<Rightarrow> Inl BadJson | Some (t, r) \<Rightarrow> Inr (PStr t, r))
          else if c = CHR ''['' then
            (if prefix '']'' (skip_ws cs) then Inr (PList [], tl (skip_ws cs))
             else (case parse_elems n (skip_ws cs) of
                     Inl e \<Rightarrow> Inl e | Inr (vs, r) \<Rightarrow> Inr (PList vs, r)))
          else if c = CHR ''{'' then
            (if prefix ''}'' (skip_ws cs) then Inr (PDict [], tl (skip_ws cs))
             else (case parse_members n (skip_ws cs) of
                     Inl e \<Rightarrow> Inl e | Inr (ps, r) \<Rightarrow> Inr (PDict (dict_of_pairs ps), r)))
          else (case parse_lit s of None \<Rightarrow> Inl BadJson | Some vr \<Rightarrow> Inr vr))"
| "parse_elems 0 s = Inl OutOfFuel"
| "parse_elems (Suc n) s =
     (case parse_val n s of
        Inl e \<Rightarrow> Inl e
      | Inr (v, r) \<Rightarrow>
          (case skip_ws r of
             [] \<Rightarrow> Inl BadJson
           | c # cs \<Rightarrow>
               if c = CHR '']'' then Inr ([v], cs)
               else if c = CHR '','' then
                 (case parse_elems n (skip_ws cs) of
                    Inl e \<Rightarrow> Inl e | Inr (vs, r') \<Rightarrow> Inr (v # vs, r'))
               else Inl BadJson))"
| "parse_members 0 s = Inl OutOfFuel"
| "parse_members (Suc n) s =
     (case s of
        [] \<Rightarrow> Inl BadJson
      | q # qs \<Rightarrow>
          if q \<noteq> dq then Inl BadJson
          else (case parse_str qs of
                  None \<Rightarrow> Inl BadJson
                | Some (k, r) \<Rightarrow>
                    (case skip_ws r of
                       [] \<Rightarrow> Inl BadJson
                     | c # cs \<Rightarrow>
                         if c \<noteq> CHR '':'' then Inl BadJson
                         else (case parse_val n (skip_ws cs) of
                                 Inl e \<Rightarrow> Inl e
                               | Inr (v, r2) \<Rightarrow>
                                   (case skip_ws r2 of
                                      [] \<Rightarrow> Inl BadJson
                                    | d # ds \<Rightarrow>
                                        if d = CHR ''}'' then Inr ([(k, v)], ds)
                                        else if d = CHR '','' then
                                          (case parse_members n (skip_ws ds) of
                                             Inl e \<Rightarrow> Inl e
                                           | Inr (ps, r3) \<Rightarrow> Inr ((k, v) # ps, r3))
                                        else Inl BadJson)))))"

definition loads :: "string \<Rightarrow> json_error + pyval" where
  "loads s =
     (case parse_val (2 * length s + 2) (skip_ws s) of
        Inl e \<Rightarrow> Inl e
      | Inr (v, r) \<Rightarrow> if skip_ws r = [] then Inr v else Inl BadJson)"

section \<open>The parser consumes input, and its fuel is enough\<close>

lemma skip_ws_length [simp]: "length (skip_ws s) \<le> length s"
  by (simp add: skip_ws_def length_dropWhile_le)

lemma skip_ws_shorter: "skip_ws s = c # cs \<Longrightarrow> length cs < length s"
  by (metis Suc_le_eq length_Cons skip_ws_length)

lemma parse_str_shorter: "parse_str s = Some (t, r) \<Longrightarrow> length r < length s"
  by (induction s arbitrary: t r rule: parse_str.induct)
    (fastforce split: if_splits list.splits option.splits)+

lemma dropWhile_shorter: "length (dropWhile P s) \<le> length s"
  by (rule length_dropWhile_le)

lemma p_int_shorter: "p_int s = Some (i, r) \<Longrightarrow> length r < length s"
  using dropWhile_shorter [of is_digit "tl s"]
  by (auto simp: p_int_def less_Suc_eq_le split: list.splits if_splits)

lemma p_frac_shorter: "p_frac s = (f, r) \<Longrightarrow> length r \<le> length s"
  using dropWhile_shorter [of is_digit "tl (tl s)"]
  by (auto simp: p_frac_def le_Suc_eq split: list.splits if_splits)

lemma p_exp_shorter: "p_exp s = (e, r) \<Longrightarrow> length r \<le> length s"
  using dropWhile_shorter [of is_digit "drop (length (p_sign (tl s))) (tl s)"]
  by (auto simp: p_exp_def Let_def split: list.splits if_splits)

lemma parse_num_shorter: "parse_num s = Some (v, r) \<Longrightarrow> length r < length s"
  by (cases s)
    (fastforce simp: parse_num_def Let_def split: option.splits prod.splits if_splits
      dest: p_int_shorter p_frac_shorter p_exp_shorter)+

lemma parse_lit_shorter: "parse_lit s = Some (v, r) \<Longrightarrow> length r < length s"
  by (auto simp: parse_lit_def prefix_def split: if_splits dest: parse_num_shorter)

lemma parse_shorter:
  "parse_val n s = Inr (v, r) \<Longrightarrow> length r < length s"
  "parse_elems n s = Inr (vs, r) \<Longrightarrow> length r < length s"
  "parse_members n s = Inr (ps, r) \<Longrightarrow> length r < length s"
proof (induction n s and n s and n s arbitrary: v r and vs r and ps r
    rule: parse_val_parse_elems_parse_members.induct)
  case (2 n s)
  show ?case
  proof (cases s)
    case Nil
    with 2 show ?thesis by simp
  next
    case (Cons c cs)
    have tl_less: "length (tl (skip_ws cs)) < Suc (length cs)"
      by (metis length_tl less_Suc_eq_le diff_le_self le_trans skip_ws_length)
    have sk: "length r < length (skip_ws cs) \<Longrightarrow> length r < Suc (length cs)"
      by (metis less_SucI order.strict_trans2 skip_ws_length)
    from 2 Cons show ?thesis
      by (auto split: if_splits option.splits sum.splits prod.splits
          dest: parse_str_shorter parse_lit_shorter intro: tl_less sk)
  qed
next
  case (4 n s)
  then show ?case
    by (fastforce split: if_splits list.splits sum.splits prod.splits
        dest: skip_ws_shorter order.strict_trans2 [OF _ skip_ws_length])
next
  case (6 n s)
  then show ?case
    by (fastforce split: if_splits list.splits option.splits sum.splits prod.splits
        dest: parse_str_shorter skip_ws_shorter order.strict_trans2 [OF _ skip_ws_length])
qed simp_all

lemma parse_enough_fuel:
  "2 * length s < n \<Longrightarrow> parse_val n s \<noteq> Inl OutOfFuel"
  "2 * length s + 1 < n \<Longrightarrow> parse_elems n s \<noteq> Inl OutOfFuel"
  "2 * length s + 1 < n \<Longrightarrow> parse_members n s \<noteq> Inl OutOfFuel"
proof (induction n s and n s and n s rule: parse_val_parse_elems_parse_members.induct)
  case (2 n s)
  show ?case
  proof (cases s)
    case (Cons c cs)
    have "2 * length (skip_ws cs) + 1 < n"
      using "2.prems" Cons skip_ws_length [of cs] by (simp del: skip_ws_length)
    with 2 Cons show ?thesis
      by (auto split: if_splits option.splits sum.splits prod.splits)
  qed simp
next
  case (4 n s)
  have "2 * length (skip_ws cs) + 1 < n" if "parse_val n s = Inr (v, r)" "skip_ws r = c # cs"
    for v r c cs
    using "4.prems" parse_shorter(1) [OF that(1)] skip_ws_shorter [OF that(2)] skip_ws_length [of cs]
    by linarith
  with 4 show ?case
    by (auto split: list.splits sum.splits prod.splits)
next
  case (6 n s)
  have v: "2 * length (skip_ws cs) < n"
    if "s = q # qs" "parse_str qs = Some (k, r)" "skip_ws r = c # cs" for q qs k r c cs
    using "6.prems" that(1) parse_str_shorter [OF that(2)] skip_ws_shorter [OF that(3)]
      skip_ws_length [of cs] by (simp del: skip_ws_length)
  have m: "2 * length (skip_ws ds) + 1 < n"
    if "s = q # qs" "parse_str qs = Some (k, r)" "skip_ws r = c # cs"
      "parse_val n (skip_ws cs) = Inr (w, r2)" "skip_ws r2 = d # ds" for q qs k r c cs w r2 d ds
    using "6.prems" that(1) parse_str_shorter [OF that(2)] skip_ws_shorter [OF that(3)]
      parse_shorter(1) [OF that(4)] skip_ws_shorter [OF that(5)]
      skip_ws_length [of cs] skip_ws_length [of ds] by (simp del: skip_ws_length)
  from 6 v m show ?case
    by (auto split: list.splits option.splits sum.splits prod.splits)
qed simp_all

lemma loads_no_fuel: "loads s \<noteq> Inl OutOfFuel"
proof -
  have "2 * length (skip_ws s) < 2 * length s + 2"
    using skip_ws_length [of s] by linarith
  then have "parse_val (2 * length s + 2) (skip_ws s) \<noteq> Inl OutOfFuel"
    by (rule parse_enough_fuel(1))
  then show ?thesis by (auto simp: loads_def split: sum.splits)
qed

end
