(* ===== verification/JsonRoundtrip.thy ===== *)
theory JsonRoundtrip
  imports Json
begin

text \<open>
  \<open>json.loads\<close> after \<open>json.dumps\<close>: for every value whose dicts have distinct keys and whose
  floats carry the literal Python prints, parsing the printed text gives the value back, with
  the objects that \<open>default=str\<close> turned into text.
\<close>

section \<open>Parsing a printed value gives the value back\<close>

text \<open>What \<open>default=str\<close> turns a value into, and the values the round trip is stated for.\<close>

fun plain :: "pyval \<Rightarrow> pyval" where
  "plain (PList vs) = PList (map plain vs)"
| "plain (PDict d) = PDict (map (\<lambda>(k, v). (k, plain v)) d)"
| "plain (PObj s r) = PStr s"
| "plain v = v"

definition float_lit :: "string \<Rightarrow> bool" where
  "float_lit l \<longleftrightarrow> l \<in> {''nan'', ''inf'', ''-inf''} \<or> parse_num l = Some (PFloat l, [])"

fun json_wf :: "pyval \<Rightarrow> bool" where
  "json_wf (PFloat l) = float_lit l"
| "json_wf (PList vs) = list_all json_wf vs"
| "json_wf (PDict d) = (dict_ok d \<and> list_all (\<lambda>(k, v). json_wf v) d)"
| "json_wf v = True"

definition rest_ok :: "string \<Rightarrow> bool" where
  "rest_ok r \<longleftrightarrow> r = [] \<or> \<not> is_digit (hd r) \<and> hd r \<notin> set ''.eE''"

lemma rest_ok_simps [simp]: "rest_ok []" "rest_ok (CHR '','' # r)" "rest_ok (CHR '']'' # r)"
  "rest_ok (CHR ''}'' # r)"
  by (simp_all add: rest_ok_def is_digit_def code_def)

lemma hex_val_digit: "n < 16 \<Longrightarrow> hex_val (hex_digit n) = Some n"
  by (auto simp: hex_val_def hex_digit_def is_digit_def)

lemma hex4_val_hex4:
  assumes "n < 256"
  shows "hex4_val (hex_digit (n div 4096 mod 16)) (hex_digit (n div 256 mod 16))
     (hex_digit (n div 16 mod 16)) (hex_digit (n mod 16)) = Some n"
proof -
  have "n div 4096 = 0" "n div 256 = 0" "n div 16 < 16"
    using assms by (simp_all add: less_mult_imp_div_less)
  then show ?thesis by (simp add: hex4_val_def hex_val_digit)
qed

lemma hex4_byte:
  assumes "n < 256"
  shows "hex4_val (hex_digit 0) (hex_digit 0) (hex_digit (n div 16 mod 16)) (hex_digit (n mod 16)) = Some n"
    "hex4_val (hex_digit 0) (hex_digit 0) (hex_digit (n div 16)) (hex_digit (n mod 16)) = Some n"
  using assms by (simp_all add: hex4_val_def hex_val_digit less_mult_imp_div_less)

lemma hex4_code: "hex4 (code c) =
    [hex_digit 0, hex_digit 0, hex_digit (code c div 16 mod 16), hex_digit (code c mod 16)]"
  using code_less [of c] by (simp add: hex4_def less_trans [OF code_less])

lemma parse_str_esc: "parse_str (esc_char c @ t) = map_option (apfst (Cons c)) (parse_str t)"
proof -
  have 12: "code c = 12 \<Longrightarrow> char_of (12 :: nat) = c" and 8: "code c = 8 \<Longrightarrow> char_of (8 :: nat) = c"
    by (metis char_of_code)+
  show ?thesis
    by (simp add: esc_char_def unesc_def hex4_code hex4_byte(1) 12 8 del: code_def)
qed

lemma parse_str_dumps: "parse_str (concat (map esc_char s) @ dq # r) = Some (s, r)"
  by (induction s) (auto simp: parse_str_esc)

lemma takeWhile_digits: "rest_ok r \<Longrightarrow> takeWhile is_digit (s @ r) = takeWhile is_digit s"
  by (induction s) (cases r, auto simp: rest_ok_def)

lemma dropWhile_digits: "rest_ok r \<Longrightarrow> dropWhile is_digit (s @ r) = dropWhile is_digit s @ r"
  by (induction s) (cases r, auto simp: rest_ok_def)

lemma p_int_append: "rest_ok r \<Longrightarrow> p_int s = Some (i, t) \<Longrightarrow> p_int (s @ r) = Some (i, t @ r)"
  by (cases s) (auto simp: p_int_def takeWhile_digits dropWhile_digits split: if_splits)

lemma p_frac_append:
  assumes r: "rest_ok r" and f: "p_frac s = (f, t)"
  shows "p_frac (s @ r) = (f, t @ r)"
proof -
  consider "s = []" | c where "s = [c]" | c d ds where "s = c # d # ds"
    by (metis list.exhaust)
  then show ?thesis
  proof cases
    case 1
    with r f show ?thesis by (auto simp: p_frac_def rest_ok_def split: list.splits)
  next
    case 2
    with r f show ?thesis by (auto simp: p_frac_def rest_ok_def split: list.splits)
  next
    case 3
    show ?thesis
      using f takeWhile_digits [OF r, of "d # ds"] dropWhile_digits [OF r, of "d # ds"]
      by (simp add: 3 p_frac_def split: if_splits)
  qed
qed

lemma p_exp_append:
  assumes r: "rest_ok r" and e: "p_exp s = (e, [])"
  shows "p_exp (s @ r) = (e, r)"
proof (cases s)
  case Nil
  with r e show ?thesis by (auto simp: p_exp_def rest_ok_def split: list.splits)
next
  case (Cons c cs)
  show ?thesis
  proof (cases cs)
    case Nil
    with Cons e show ?thesis by (simp add: p_exp_def split: if_splits)
  next
    case d: (Cons d ds')
    have sg: "p_sign (cs @ r) = p_sign cs" by (simp add: d p_sign_def)
    have le: "length (p_sign cs) \<le> length cs" by (simp add: d p_sign_def)
    let ?ds = "drop (length (p_sign cs)) cs"
    from e have ds: "?ds \<noteq> []" "is_digit (hd ?ds)" "c = CHR ''e'' \<or> c = CHR ''E''"
      and e': "e = c # p_sign cs @ takeWhile is_digit ?ds" "dropWhile is_digit ?ds = []"
      by (simp_all only: Cons p_exp_def Let_def list.case split: if_splits) simp_all
    have dr: "drop (length (p_sign cs)) (cs @ r) = ?ds @ r" using le by simp
    have "hd (?ds @ r) = hd ?ds" "?ds @ r \<noteq> []" using ds(1) by (simp_all del: drop_eq_Nil)
    moreover have "takeWhile is_digit (?ds @ r) = takeWhile is_digit ?ds"
      and "dropWhile is_digit (?ds @ r) = r"
      using takeWhile_digits [OF r, of ?ds] dropWhile_digits [OF r, of ?ds] e'(2) by simp_all
    ultimately show ?thesis
      using ds(2,3) e'(1) by (simp only: Cons p_exp_def Let_def sg dr list.case append_Cons) simp
  qed
qed

lemma parse_num_append:
  assumes r: "rest_ok r" and s: "parse_num s = Some (v, [])"
  shows "parse_num (s @ r) = Some (v, r)"
proof -
  define neg where "neg = (s \<noteq> [] \<and> hd s = CHR ''-'')"
  define s1 where "s1 = (if neg then tl s else s)"
  obtain i s2 where i: "p_int s1 = Some (i, s2)"
    using s by (auto simp: parse_num_def Let_def neg_def [symmetric] s1_def [symmetric]
        split: option.splits)
  obtain f s3 where f: "p_frac s2 = (f, s3)" by (cases "p_frac s2")
  obtain e s4 where e: "p_exp s3 = (e, s4)" by (cases "p_exp s3")
  have s4: "s4 = []"
    using s by (auto simp: parse_num_def Let_def neg_def [symmetric] s1_def [symmetric] i f e
        split: if_splits)
  have ne: "s \<noteq> []"
    using i by (auto simp: s1_def neg_def p_int_def)
  have neg': "neg = (s @ r \<noteq> [] \<and> hd (s @ r) = CHR ''-'')"
    and s1': "s1 @ r = (if neg then tl (s @ r) else s @ r)"
    using ne by (simp_all add: neg_def s1_def)
  show ?thesis
    using s p_int_append [OF r i] p_frac_append [OF r f] p_exp_append [OF r e [unfolded s4]]
    unfolding parse_num_def Let_def neg_def [symmetric] s1_def [symmetric]
      neg' [symmetric] s1' [symmetric]
    by (cases "f = [] \<and> e = []") (simp_all add: i f e s4, blast?)
qed


lemma dec_nat_hd_digit: "is_digit (hd (dec_nat n))"
  using dec_nat_digits [of n] dec_nat_not_Nil [of n] by (metis hd_in_set)

lemma p_int_dec_nat: "rest_ok r \<Longrightarrow> p_int (dec_nat n @ r) = Some (dec_nat n, r)"
proof (rule p_int_append [where t = "[]" and s = "dec_nat n", simplified])
  show "p_int (dec_nat n) = Some (dec_nat n, [])"
  proof (cases "n = 0")
    case True
    then show ?thesis by (simp add: dec_nat_0 p_int_def)
  next
    case False
    have "takeWhile is_digit (dec_nat n) = dec_nat n" "dropWhile is_digit (dec_nat n) = []"
      using dec_nat_digits [of n] by simp_all
    with dec_nat_hd [OF False] dec_nat_hd_digit [of n] dec_nat_not_Nil [of n] show ?thesis
      by (cases "dec_nat n") (simp_all add: p_int_def)
  qed
qed

lemma rest_frac_exp: "rest_ok r \<Longrightarrow> p_frac r = ([], r)" "rest_ok r \<Longrightarrow> p_exp r = ([], r)"
  by (auto simp: p_frac_def p_exp_def rest_ok_def Let_def split: list.splits)

lemma is_digit_not_minus: "is_digit c \<Longrightarrow> c \<noteq> CHR ''-''"
  by (auto simp: is_digit_def code_def)

lemma parse_num_dec_int: "rest_ok r \<Longrightarrow> parse_num (dec_int i @ r) = Some (PInt i, r)"
  using is_digit_not_minus [OF dec_nat_hd_digit [of "nat i"]]
  by (auto simp: parse_num_def Let_def dec_int_def p_int_dec_nat rest_frac_exp)

lemma parse_num_start:
  assumes "parse_num s = Some x"
  shows "s \<noteq> [] \<and> (is_digit (hd s) \<or> hd s = CHR ''-'' \<and> tl s \<noteq> [] \<and> is_digit (hd (tl s)))"
proof -
  have "p_int t = Some y \<Longrightarrow> t \<noteq> [] \<and> is_digit (hd t)" for t y
    by (auto simp: p_int_def is_digit_def code_def split: list.splits if_splits)
  with assms show ?thesis
    by (auto simp: parse_num_def Let_def split: option.splits prod.splits if_splits)
qed

lemma parse_lit_num:
  assumes "s \<noteq> []" "is_digit (hd s) \<or> hd s = CHR ''-'' \<and> tl s \<noteq> [] \<and> is_digit (hd (tl s))"
  shows "parse_lit (s @ r) = parse_num (s @ r)"
proof -
  obtain c cs where s: "s = c # cs" using assms(1) by (cases s) auto
  have "\<not> is_digit x" if "x \<in> set ''ntfNI''" for x
    using that by (auto simp: is_digit_def code_def)
  then have nd: "\<not> is_digit (CHR ''n'')" "\<not> is_digit (CHR ''t'')" "\<not> is_digit (CHR ''f'')"
    "\<not> is_digit (CHR ''N'')" "\<not> is_digit (CHR ''I'')" by simp_all
  have c: "c \<notin> set ''ntfNI''" using assms(2) nd by (auto simp: s)
  have "\<not> prefix ''-Infinity'' (s @ r)"
  proof
    assume "prefix ''-Infinity'' (s @ r)"
    then have "hd s = CHR ''-''" "tl s = [] \<or> hd (tl s) = CHR ''I''"
      by (auto simp: s Cons_prefix_Cons) (cases cs, auto)
    then show False using assms(2) nd is_digit_not_minus [of "hd s"] by auto
  qed
  with c show ?thesis by (auto simp: parse_lit_def s)
qed

lemma parse_lit_float:
  assumes "float_lit l" "rest_ok r"
  shows "parse_lit (dumps_float l @ r) = Some (PFloat l, r)"
proof (cases "l \<in> {''nan'', ''inf'', ''-inf''}")
  case True
  then show ?thesis by (auto simp: dumps_float_def parse_lit_def)
next
  case False
  with assms have p: "parse_num l = Some (PFloat l, [])" by (simp add: float_lit_def)
  from False have "dumps_float l = l" by (simp add: dumps_float_def)
  with parse_lit_num [of l r] parse_num_start [OF p] parse_num_append [OF assms(2) p]
  show ?thesis by simp
qed

lemma parse_lit_int: "rest_ok r \<Longrightarrow> parse_lit (dec_int i @ r) = Some (PInt i, r)"
  using parse_lit_num [of "dec_int i" r] parse_num_start [OF parse_num_dec_int [of "[]" i]]
    parse_num_dec_int [of r i] by simp

definition lead_ok :: "char \<Rightarrow> bool" where
  "lead_ok c \<longleftrightarrow> \<not> is_ws c \<and> c \<noteq> CHR '']''"

definition starts_ok :: "string \<Rightarrow> bool" where
  "starts_ok s \<longleftrightarrow> s \<noteq> [] \<and> lead_ok (hd s)"

lemma num_starts: "is_digit (hd s) \<or> hd s = CHR ''-'' \<Longrightarrow> s \<noteq> [] \<Longrightarrow>
    starts_ok s \<and> hd s \<notin> set [dq, CHR ''['', CHR ''{'']"
  by (auto simp: is_digit_def code_def starts_ok_def lead_ok_def is_ws_def)

lemma int_starts: "starts_ok (dec_int i) \<and> hd (dec_int i) \<notin> set [dq, CHR ''['', CHR ''{'']"
  using num_starts [of "dec_int i"] parse_num_start [OF parse_num_dec_int [of "[]" i]] by auto

lemma float_starts:
  assumes "float_lit l"
  shows "starts_ok (dumps_float l) \<and> hd (dumps_float l) \<notin> set [dq, CHR ''['', CHR ''{'']"
proof (cases "l \<in> {''nan'', ''inf'', ''-inf''}")
  case True
  then show ?thesis
    by (auto simp: dumps_float_def starts_ok_def lead_ok_def is_ws_def)
next
  case False
  then show ?thesis
    using assms num_starts [of l] parse_num_start [of l] by (auto simp: dumps_float_def float_lit_def)
qed

lemma dumps_starts: "json_wf v \<Longrightarrow> starts_ok (dumps v)"
  by (cases v) (auto simp: int_starts float_starts,
    auto simp: starts_ok_def lead_ok_def is_ws_def dumps_str_def)

lemma skip_ws_starts: "starts_ok s \<Longrightarrow> skip_ws (s @ r) = s @ r"
  by (cases s) (auto simp: skip_ws_def starts_ok_def lead_ok_def)

lemma parse_val_lit:
  assumes "s \<noteq> []" "hd s \<notin> set [dq, CHR ''['', CHR ''{'']"
  shows "parse_val (Suc n) (s @ r) =
     (case parse_lit (s @ r) of None \<Rightarrow> Inl BadJson | Some vr \<Rightarrow> Inr vr)"
  using assms by (cases s) auto

lemma update_new: "k \<notin> set (dict_keys d) \<Longrightarrow> dict_set k v d = d @ [(k, v)]"
  by (induction d) auto

lemma dict_of_pairs_ok: "dict_ok ps \<Longrightarrow> dict_of_pairs ps = ps"
proof (induction ps rule: rev_induct)
  case (snoc p ps)
  then show ?case by (cases p) (auto simp: dict_of_pairs_def update_new)
qed (simp add: dict_of_pairs_def)


lemma skip_ws_sep: "skip_ws (CHR '','' # r) = CHR '','' # r" "skip_ws (CHR '']'' # r) = CHR '']'' # r"
  "skip_ws (CHR ''}'' # r) = CHR ''}'' # r" "skip_ws (CHR '':'' # r) = CHR '':'' # r"
  "skip_ws (CHR '' '' # r) = skip_ws r"
  by (simp_all add: skip_ws_def is_ws_def)

lemma parse_val_str: "parse_val (Suc n) (dumps_str s @ r) = Inr (PStr s, r)"
  by (simp add: dumps_str_def parse_str_dumps)

lemma starts_join: "ws \<noteq> [] \<Longrightarrow> starts_ok (hd ws) \<Longrightarrow> starts_ok (py_join sep ws)"
  by (cases "(sep, ws)" rule: py_join.cases) (auto simp: starts_ok_def)

lemma parse_elems_dumps:
  assumes IH: "\<And>v n r. v \<in> set vs \<Longrightarrow> rest_ok r \<Longrightarrow> 2 * length (dumps v) < n \<Longrightarrow>
      parse_val n (dumps v @ r) = Inr (plain v, r)"
    and wf: "\<forall>v \<in> set vs. json_wf v" and "vs \<noteq> []"
    and "2 * length (py_join '', '' (map dumps vs)) + 1 < n"
  shows "parse_elems n (py_join '', '' (map dumps vs) @ CHR '']'' # r) = Inr (map plain vs, r)"
  using assms
proof (induction vs arbitrary: n)
  case (Cons w ws)
  obtain j where k: "n = Suc j" using Cons.prems(4) by (cases n) auto
  show ?case
  proof (cases ws)
    case Nil
    have "parse_val j (dumps w @ CHR '']'' # r) = Inr (plain w, CHR '']'' # r)"
      using Cons.prems(4) by (intro Cons.prems(1)) (simp_all add: k Nil)
    then show ?thesis by (simp add: Nil k skip_ws_sep)
  next
    case ws: (Cons w' ws')
    let ?j = "py_join '', '' (map dumps ws)"
    let ?t = "?j @ CHR '']'' # r"
    have "parse_val j (dumps w @ '', '' @ ?t) = Inr (plain w, '', '' @ ?t)"
      using Cons.prems(4) by (intro Cons.prems(1)) (simp_all add: k ws)
    moreover have "parse_elems j ?t = Inr (map plain ws, r)"
      using Cons.prems by (intro Cons.IH) (simp_all add: k ws)
    moreover have "skip_ws ?t = ?t"
      using Cons.prems(2) by (intro skip_ws_starts starts_join) (simp_all add: ws dumps_starts)
    ultimately show ?thesis by (simp add: k ws skip_ws_sep)
  qed
qed simp

abbreviation dumps_member :: "string \<times> pyval \<Rightarrow> string" where
  "dumps_member kv \<equiv> (case kv of (k, v) \<Rightarrow> dumps_str k @ '': '' @ dumps v)"

lemma parse_members_dumps:
  assumes IH: "\<And>k v n r. (k, v) \<in> set d \<Longrightarrow> rest_ok r \<Longrightarrow> 2 * length (dumps v) < n \<Longrightarrow>
      parse_val n (dumps v @ r) = Inr (plain v, r)"
    and wf: "\<forall>kv \<in> set d. json_wf (snd kv)" and "d \<noteq> []"
    and "2 * length (py_join '', '' (map dumps_member d)) + 1 < n"
  shows "parse_members n (py_join '', '' (map dumps_member d) @ CHR ''}'' # r) =
    Inr (map (\<lambda>(k, v). (k, plain v)) d, r)"
  using assms
proof (induction d arbitrary: n)
  case (Cons kv ws)
  obtain k v where kv: "kv = (k, v)" by (cases kv)
  obtain j where n: "n = Suc j" using Cons.prems(4) by (cases n) auto
  have v: "skip_ws (dumps v @ s) = dumps v @ s" for s
    using Cons.prems(2) by (intro skip_ws_starts dumps_starts) (simp add: kv)
  show ?case
  proof (cases ws)
    case Nil
    have "parse_val j (dumps v @ CHR ''}'' # r) = Inr (plain v, CHR ''}'' # r)"
      using Cons.prems(4) by (intro Cons.prems(1) [of k]) (simp_all add: n Nil kv)
    then show ?thesis by (simp add: Nil n kv v skip_ws_sep dumps_str_def parse_str_dumps)
  next
    case ws: (Cons w' ws')
    let ?j = "py_join '', '' (map dumps_member ws)"
    let ?t = "?j @ CHR ''}'' # r"
    have "parse_val j (dumps v @ '', '' @ ?t) = Inr (plain v, '', '' @ ?t)"
      using Cons.prems(4) by (intro Cons.prems(1) [of k]) (simp_all add: n ws kv)
    moreover have "parse_members j ?t = Inr (map (\<lambda>(k, v). (k, plain v)) ws, r)"
    proof (rule Cons.IH)
      show "parse_val m (dumps u @ r') = Inr (plain u, r')"
        if "(l, u) \<in> set ws" "rest_ok r'" "2 * length (dumps u) < m" for l u m r'
        using that by (intro Cons.prems(1) [of l]) simp_all
    qed (use Cons.prems in \<open>simp_all add: n ws kv\<close>)
    moreover have "skip_ws ?t = ?t"
      by (intro skip_ws_starts starts_join)
        (simp_all add: ws starts_ok_def lead_ok_def is_ws_def dumps_str_def split: prod.splits)
    ultimately show ?thesis
      by (simp add: n ws kv v skip_ws_sep dumps_str_def parse_str_dumps)
  qed
qed simp

lemma parse_dumps_aux:
  "json_wf v \<Longrightarrow> rest_ok r \<Longrightarrow> 2 * length (dumps v) < n \<Longrightarrow>
     parse_val n (dumps v @ r) = Inr (plain v, r)"
proof (induction v arbitrary: n r)
  case (PList vs)
  obtain m where n: "n = Suc m" using PList.prems(3) by (cases n) auto
  show ?case
  proof (cases "vs = []")
    case False
    have wf: "\<forall>v \<in> set vs. json_wf v" using PList.prems(1) by (simp add: list_all_iff)
    have st: "starts_ok (py_join '', '' (map dumps vs))"
      using wf False by (intro starts_join) (simp_all add: hd_map dumps_starts)
    have "parse_elems m (py_join '', '' (map dumps vs) @ CHR '']'' # r) = Inr (map plain vs, r)"
      using PList.prems(3) PList.IH wf by (intro parse_elems_dumps False) (simp_all add: n)
    with st show ?thesis
      by (cases "py_join '', '' (map dumps vs)")
        (auto simp add: n skip_ws_starts starts_ok_def lead_ok_def skip_ws_def)
  qed (simp add: n skip_ws_def is_ws_def)
next
  case (PDict d)
  obtain m where n: "n = Suc m" using PDict.prems(3) by (cases n) auto
  show ?case
  proof (cases "d = []")
    case False
    have wf: "\<forall>kv \<in> set d. json_wf (snd kv)" "dict_ok d"
      using PDict.prems(1) by (auto simp: list_all_iff)
    define j where "j = py_join '', '' (map dumps_member d)"
    have dj: "dumps (PDict d) = ''{'' @ j @ ''}''" by (simp add: j_def)
    obtain x where st: "j = dq # x"
      using False by (cases "('', '', map dumps_member d)" rule: py_join.cases)
        (auto simp: dumps_str_def j_def split: prod.splits)
    have "2 * length j + 1 < m" using PDict.prems(3) by (simp only: dj n) simp
    then have "parse_members m (j @ CHR ''}'' # r) = Inr (map (\<lambda>(k, v). (k, plain v)) d, r)"
      using PDict.IH wf(1) unfolding j_def
      by (intro parse_members_dumps False) (auto simp: n)
    moreover have "dict_of_pairs (map (\<lambda>(k, v). (k, plain v)) d) = map (\<lambda>(k, v). (k, plain v)) d"
      using wf(2) by (intro dict_of_pairs_ok) (simp add: case_prod_unfold comp_def)
    ultimately show ?thesis
      unfolding dj by (simp add: n st skip_ws_def is_ws_def)
  qed (simp add: n skip_ws_def is_ws_def)
next
  case (PFloat l)
  then obtain m where "n = Suc m" by (cases n) auto
  with PFloat float_starts [of l] parse_val_lit [of "dumps_float l" m r] show ?case
    by (simp add: parse_lit_float starts_ok_def)
next
  case (PInt i)
  then obtain m where "n = Suc m" by (cases n) auto
  with PInt int_starts [of i] parse_val_lit [of "dec_int i" m r] show ?case
    by (simp add: parse_lit_int starts_ok_def)
next
  case (PStr s)
  then show ?case using parse_val_str [of "n - 1" s r] by (cases n) simp_all
next
  case (PObj s t)
  then show ?case using parse_val_str [of "n - 1" s r] by (cases n) simp_all
next
  case PNone
  then show ?case by (cases n) (simp_all add: parse_lit_def)
next
  case (PBool b)
  then show ?case by (cases n) (simp_all add: parse_lit_def)
qed

theorem loads_dumps: "json_wf v \<Longrightarrow> loads (dumps v) = Inr (plain v)"
  using parse_dumps_aux [of v "[]" "2 * length (dumps v) + 2"] skip_ws_starts [of "dumps v" "[]"]
    dumps_starts [of v]
  by (simp add: loads_def skip_ws_def)

end
