(* ===== verification/PendingCall.thy ===== *)
theory PendingCall
  imports CoreAgents JsonRoundtrip
begin

text \<open>
  The tool-use envelopes of the Anthropic managed-agents stream
  (\<open>backends/pending_tool_call.py\<close>): the SDK event as the code reads it, the sealed union of the
  three pending calls, execution of a custom tool and the reply each variant builds; the decoders
  of \<open>managed_agent_backend_v2.py\<close> that read a custom reply back; the input-schema sanitizer of
  \<open>_input_schema.py\<close>; the event-type names of \<open>_stream_event_types.py\<close>.
\<close>

section \<open>SDK events\<close>

text \<open>An attribute that is absent or \<open>None\<close> is \<open>None\<close>; the code reads both alike.\<close>

record sdk_block =
  block_type :: "string option"
  block_text :: "string option"

record sdk_stop =
  stop_type :: "string option"
  stop_event_ids :: "string list"

record sdk_event =
  evt_type :: "string option"
  evt_id :: "string option"
  evt_name :: "string option"
  evt_input :: pyval
  evt_content :: "sdk_block list"
  evt_stop_reason :: "sdk_stop option"
  evt_error_message :: "string option"
  evt_model_usage :: "pydict option"

definition bare_event :: sdk_event where
  "bare_event = \<lparr>evt_type = None, evt_id = None, evt_name = None, evt_input = PNone,
     evt_content = [], evt_stop_reason = None, evt_error_message = None, evt_model_usage = None\<rparr>"

definition name_or_empty :: "sdk_event \<Rightarrow> string" where
  "name_or_empty ev = (case evt_name ev of None \<Rightarrow> [] | Some n \<Rightarrow> n)"

section \<open>Envelope and event-type names\<close>

definition ENVELOPE_CUSTOM_TOOL_USE :: string where
  "ENVELOPE_CUSTOM_TOOL_USE = ''agent.custom_tool_use''"

definition ENVELOPE_SERVER_TOOL_USE :: string where
  "ENVELOPE_SERVER_TOOL_USE = ''agent.tool_use''"

definition ENVELOPE_MCP_TOOL_USE :: string where
  "ENVELOPE_MCP_TOOL_USE = ''agent.mcp_tool_use''"

lemmas envelope_defs = ENVELOPE_CUSTOM_TOOL_USE_def ENVELOPE_SERVER_TOOL_USE_def
  ENVELOPE_MCP_TOOL_USE_def

definition IDLE_EVENT_TYPES :: "string list" where
  "IDLE_EVENT_TYPES = [''session.status_idle'', ''session.thread_status_idle'']"

definition TERMINATED_EVENT_TYPES :: "string list" where
  "TERMINATED_EVENT_TYPES = [''session.status_terminated'', ''session.thread_status_terminated'']"

definition KNOWN_NOOP_EVENT_TYPES :: "string list" where
  "KNOWN_NOOP_EVENT_TYPES =
     [''session.status_running'', ''session.status_rescheduled'', ''session.deleted'',
      ''session.thread_status_running'', ''user.message'', ''user.custom_tool_result'',
      ''user.tool_confirmation'', ''user.tool_result'', ''user.interrupt'', ''agent.thinking'',
      ''agent.thread_context_compacted'', ''agent.tool_result'', ''agent.mcp_tool_result'',
      ''span.model_request_start'']"

section \<open>Pending calls\<close>

datatype 'i pending_tool_call =
    CustomToolCall (event_id: 'i) (pending_name: string) (pending_arguments: pydict)
  | ServerToolCall (event_id: 'i) (pending_name: string)
  | McpToolCall (event_id: 'i) (pending_name: string)

type_synonym pending_call = "string pending_tool_call"

definition is_custom :: "'i pending_tool_call \<Rightarrow> bool" where
  "is_custom c = (case c of CustomToolCall _ _ _ \<Rightarrow> True | _ \<Rightarrow> False)"

lemma is_custom_simps [simp]:
  "is_custom (CustomToolCall i n a)" "\<not> is_custom (ServerToolCall i n)" "\<not> is_custom (McpToolCall i n)"
  by (simp_all add: is_custom_def)

text \<open>\<open>getattr(ev, "input", None) or {}\<close>, kept only when it is a dict.\<close>

definition input_arguments :: "pyval \<Rightarrow> pydict" where
  "input_arguments raw = (case py_or raw (PDict []) of PDict d \<Rightarrow> d | _ \<Rightarrow> [])"

definition from_sdk_event :: "sdk_event \<Rightarrow> exn + string option pending_tool_call" where
  "from_sdk_event ev =
     (let t = evt_type ev; i = evt_id ev; name = name_or_empty ev
      in if t = Some ENVELOPE_CUSTOM_TOOL_USE
         then Inr (CustomToolCall i name (input_arguments (evt_input ev)))
         else if t = Some ENVELOPE_SERVER_TOOL_USE then Inr (ServerToolCall i name)
         else if t = Some ENVELOPE_MCP_TOOL_USE then Inr (McpToolCall i name)
         else Inl (TypeError (''PendingToolCall: unknown tool-use envelope '' @ py_repr (opt_str t) @
           '' (event_id='' @ py_repr (opt_str i) @ '', name='' @ repr_str name @
           ''). The Anthropic SDK has shipped a new tool-use shape; update PendingToolCall to '' @
           ''model it.'')))"

definition serialize_tool_result :: "pydict \<Rightarrow> string option \<Rightarrow> string" where
  "serialize_tool_result result error =
     (let payload = [(''result'', PDict result)];
          payload = (case error of Some (c # cs) \<Rightarrow> dict_set ''error'' (PStr (c # cs)) payload
                                 | _ \<Rightarrow> payload)
      in dumps (PDict payload))"

definition build_reply_from_result :: "string \<Rightarrow> pydict \<Rightarrow> string option \<Rightarrow> pydict" where
  "build_reply_from_result eid result error =
     [(''type'', PStr ''user.custom_tool_result''),
      (''custom_tool_use_id'', PStr eid),
      (''content'', PList [PDict [(''type'', PStr ''text''),
                                (''text'', PStr (serialize_tool_result result error))]])]"

text \<open>The result and the error that \<open>execute_and_build_reply\<close> puts into its reply, on each path.\<close>

definition execute_custom ::
    "string \<Rightarrow> pydict \<Rightarrow> tool_registry \<Rightarrow> invocation_context \<Rightarrow> pydict \<times> string option" where
  "execute_custom name args tools ctx =
     (case registry_try_get tools name of
        None \<Rightarrow> ([], Some (''tool '' @ repr_str name @ '' not registered''))
      | Some t \<Rightarrow>
          (case tool_invoke t args (Some ctx) of
             Inl tool_err \<Rightarrow> ([], Some (''tool raised: '' @ exn_str tool_err))
           | Inr result \<Rightarrow>
               (case result of PDict d \<Rightarrow> (d, None) | _ \<Rightarrow> ([(''value'', result)], None))))"

definition execute_and_build_reply ::
    "string \<Rightarrow> string \<Rightarrow> pydict \<Rightarrow> tool_registry \<Rightarrow> invocation_context \<Rightarrow> pydict" where
  "execute_and_build_reply eid name args tools ctx =
     (case execute_custom name args tools ctx of
        (result, error) \<Rightarrow> build_reply_from_result eid result error)"

definition server_build_reply :: "string \<Rightarrow> pydict" where
  "server_build_reply eid =
     [(''type'', PStr ''user.tool_confirmation''), (''tool_use_id'', PStr eid),
      (''result'', PStr ''allow'')]"

definition mcp_build_reply :: "string \<Rightarrow> pydict" where
  "mcp_build_reply eid =
     [(''type'', PStr ''user.tool_confirmation''), (''tool_use_id'', PStr eid),
      (''result'', PStr ''allow'')]"

section \<open>Reading a custom reply back\<close>

text \<open>\<open>_reply_text\<close> is the shared head of the two decoders: the text of the first content block,
  or nothing where they return early; an exception on the way ends there too.\<close>

definition reply_text :: "pydict \<Rightarrow> string option" where
  "reply_text reply =
     (case py_or (get_none reply ''content'') (PList []) of
        PList (PDict b # bs) \<Rightarrow>
          (case get_none b ''text'' of PStr (c # cs) \<Rightarrow> Some (c # cs) | _ \<Rightarrow> None)
      | _ \<Rightarrow> None)"

definition decode_custom_result :: "pydict \<Rightarrow> pydict" where
  "decode_custom_result reply =
     (case reply_text reply of
        None \<Rightarrow> []
      | Some t \<Rightarrow>
          (case loads t of
             Inr (PDict payload) \<Rightarrow> (case get_none payload ''result'' of PDict d \<Rightarrow> d | _ \<Rightarrow> [])
           | _ \<Rightarrow> []))"

definition decode_custom_error :: "pydict \<Rightarrow> string option" where
  "decode_custom_error reply =
     (case reply_text reply of
        None \<Rightarrow> None
      | Some t \<Rightarrow>
          (case loads t of
             Inr (PDict payload) \<Rightarrow>
               (let err = get_none payload ''error''
                in if truthy err then Some (py_str err) else None)
           | _ \<Rightarrow> None))"

section \<open>What the replies carry\<close>

lemma error_neq_result: "''error'' \<noteq> ''result''" by simp

lemma reply_text_build:
  "reply_text (build_reply_from_result eid r err) = Some (serialize_tool_result r err)"
proof -
  obtain c cs where "serialize_tool_result r err = c # cs"
    by (simp add: serialize_tool_result_def Let_def)
  then show ?thesis
    by (simp add: reply_text_def build_reply_from_result_def get_or_def py_or_def)
qed

lemma loads_serialize:
  assumes "json_wf (PDict r)"
  shows "loads (serialize_tool_result r err) =
    Inr (PDict ([(''result'', plain (PDict r))] @
      (case err of Some (c # cs) \<Rightarrow> [(''error'', PStr (c # cs))] | _ \<Rightarrow> [])))"
proof -
  let ?p = "[(''result'', PDict r)] @
      (case err of Some (c # cs) \<Rightarrow> [(''error'', PStr (c # cs))] | _ \<Rightarrow> [])"
  have "serialize_tool_result r err = dumps (PDict ?p)"
    by (simp add: serialize_tool_result_def Let_def split: option.split list.split)
  moreover have "json_wf (PDict ?p)"
    using assms by (simp split: option.split list.split)
  ultimately have "loads (serialize_tool_result r err) = Inr (plain (PDict ?p))"
    by (simp only: loads_dumps)
  then show ?thesis by (simp split: option.split list.split)
qed

lemma decode_result_build:
  "json_wf (PDict r) \<Longrightarrow> PDict (decode_custom_result (build_reply_from_result eid r err)) = plain (PDict r)"
  by (simp add: decode_custom_result_def reply_text_build loads_serialize get_or_def
      split: option.split list.split)

lemma decode_error_build:
  "json_wf (PDict r) \<Longrightarrow> decode_custom_error (build_reply_from_result eid r err) =
     (if err = Some [] then None else err)"
  by (auto simp: decode_custom_error_def reply_text_build loads_serialize get_or_def Let_def
      split: option.split list.split)

end
