(* ===== verification/ActionCycle.thy ===== *)
theory ActionCycle
  imports PendingCall
begin

text \<open>
  \<open>backends/requires_action_cycle.py\<close>: one \<open>requires_action\<close> round. The requested ids are a
  frozenset in the code; here a list without duplicates, whose order shows only in the text of an
  error. The POST to \<open>events.send\<close> is a parameter: it succeeds or raises; \<open>send_replies\<close> returns
  the batches it has posted with its outcome.
\<close>

section \<open>The cycle\<close>

record requires_action_cycle =
  cycle_id :: string
  requested_ids :: "string list"
  executed_ids :: "string list"

definition new_cycle :: "string \<Rightarrow> string list \<Rightarrow> requires_action_cycle" where
  "new_cycle cid ids = \<lparr>cycle_id = cid, requested_ids = remdups ids, executed_ids = []\<rparr>"

definition reply_id :: "pydict \<Rightarrow> pyval" where
  "reply_id reply =
     (case dict_get reply ''custom_tool_use_id'' of
        Some v \<Rightarrow> v
      | None \<Rightarrow> (case dict_get reply ''tool_use_id'' of Some v \<Rightarrow> v | None \<Rightarrow> PNone))"

definition calls ::
    "requires_action_cycle \<Rightarrow> (string, pending_call) dict \<Rightarrow> exn + pending_call list" where
  "calls cyc events_by_id =
     (let missing = filter (\<lambda>eid. dict_get events_by_id eid = None) (requested_ids cyc)
      in if missing \<noteq> [] then Inl (MissingPendingToolCallError missing (dict_keys events_by_id))
         else Inr (map (\<lambda>eid. the (dict_get events_by_id eid)) (sort (requested_ids cyc))))"

text \<open>The barrier: the first reply whose id the cycle did not request, and what is raised for it.
  An unhashable id raises in the membership test itself.\<close>

fun check_reply :: "requires_action_cycle \<Rightarrow> pydict \<Rightarrow> exn option" where
  "check_reply cyc reply =
     (case reply_id reply of
        PStr s \<Rightarrow> if s \<in> set (requested_ids cyc) then None
                 else Some (OutOfCycleReplyError s (requested_ids cyc))
      | PList vs \<Rightarrow> Some (TypeError (''unhashable type: '' @ repr_str ''list''))
      | PDict d \<Rightarrow> Some (TypeError (''unhashable type: '' @ repr_str ''dict''))
      | v \<Rightarrow> Some (OutOfCycleReplyError (py_str v) (requested_ids cyc)))"

declare check_reply.simps [simp del]

fun first_error :: "('a \<Rightarrow> exn option) \<Rightarrow> 'a list \<Rightarrow> exn option" where
  "first_error f [] = None"
| "first_error f (x # xs) = (case f x of Some e \<Rightarrow> Some e | None \<Rightarrow> first_error f xs)"

definition add_executed :: "requires_action_cycle \<Rightarrow> pydict list \<Rightarrow> requires_action_cycle" where
  "add_executed cyc replies =
     cyc\<lparr>executed_ids := fold (\<lambda>r ids. case reply_id r of PStr s \<Rightarrow> List.insert s ids | _ \<Rightarrow> ids)
        replies (executed_ids cyc)\<rparr>"

definition send_replies ::
    "(pydict list \<Rightarrow> exn option) \<Rightarrow> requires_action_cycle \<Rightarrow> pydict list \<Rightarrow>
     pydict list list \<times> (exn + requires_action_cycle)" where
  "send_replies post cyc replies =
     (case first_error (check_reply cyc) replies of
        Some e \<Rightarrow> ([], Inl e)
      | None \<Rightarrow>
          (case post replies of
             Some e \<Rightarrow> ([replies], Inl e)
           | None \<Rightarrow> ([replies], Inr (add_executed cyc replies))))"

definition is_cycle_complete :: "requires_action_cycle \<Rightarrow> bool" where
  "is_cycle_complete cyc = list_all (\<lambda>i. i \<in> set (executed_ids cyc)) (requested_ids cyc)"

section \<open>What a cycle guarantees\<close>

lemma first_error_None: "first_error f xs = None \<longleftrightarrow> (\<forall>x \<in> set xs. f x = None)"
  by (induction xs) (auto split: option.splits)

lemma first_error_Some: "first_error f xs = Some e \<Longrightarrow> \<exists>x \<in> set xs. f x = Some e"
  by (induction xs) (auto split: option.splits)

lemma check_reply_None:
  "check_reply cyc r = None \<longleftrightarrow> (\<exists>s. reply_id r = PStr s \<and> s \<in> set (requested_ids cyc))"
  by (auto simp: check_reply.simps split: pyval.splits if_splits)

text \<open>The buffer files every call under its own id.\<close>

definition buffer_ok :: "(string, pending_call) dict \<Rightarrow> bool" where
  "buffer_ok buf = (dict_ok buf \<and> list_all (\<lambda>(i, c). event_id c = i) buf)"

lemma buffer_ok_Nil [simp]: "buffer_ok []"
  by (simp add: buffer_ok_def)

lemma buffer_ok_set: "buffer_ok buf \<Longrightarrow> event_id c = i \<Longrightarrow> buffer_ok (dict_set i c buf)"
  by (auto simp: buffer_ok_def list_all_iff dest: set_dict_set)

lemma buffer_ok_pop: "buffer_ok buf \<Longrightarrow> buffer_ok (dict_pop i buf)"
  by (auto simp: buffer_ok_def list_all_iff dest: set_dict_pop)

lemma buffer_ok_get: "buffer_ok buf \<Longrightarrow> dict_get buf i = Some c \<Longrightarrow> event_id c = i"
  by (auto simp: buffer_ok_def list_all_iff dest: map_of_SomeD)

interpretation call_buffer: kv_store dict_get "\<lambda>c. dict_set (event_id c) c" event_id buffer_ok
  by unfold_locales (auto simp: buffer_ok_set)

lemma calls_Inr:
  "calls cyc buf = Inr cs \<longleftrightarrow>
     (\<forall>i \<in> set (requested_ids cyc). dict_get buf i \<noteq> None) \<and>
     cs = map (\<lambda>eid. the (dict_get buf eid)) (sort (requested_ids cyc))"
  by (auto simp: calls_def Let_def filter_empty_conv)

lemma calls_ids:
  assumes "buffer_ok buf" "calls cyc buf = Inr cs"
  shows "map event_id cs = sort (requested_ids cyc)"
proof -
  have cs: "cs = map (\<lambda>i. the (dict_get buf i)) (sort (requested_ids cyc))"
    and in_buf: "\<forall>i \<in> set (sort (requested_ids cyc)). dict_get buf i \<noteq> None"
    using assms(2) by (simp_all add: calls_Inr)
  from in_buf have "\<forall>i \<in> set (sort (requested_ids cyc)). event_id (the (dict_get buf i)) = i"
    using buffer_ok_get [OF assms(1)] by (metis option.collapse)
  then have "map (\<lambda>i. event_id (the (dict_get buf i))) (sort (requested_ids cyc)) =
      sort (requested_ids cyc)"
    by (intro map_idI) blast
  then show ?thesis by (simp add: cs comp_def)
qed

lemma calls_Inl:
  "calls cyc buf = Inl e \<longleftrightarrow>
     (let missing = filter (\<lambda>i. i \<notin> set (dict_keys buf)) (requested_ids cyc)
      in missing \<noteq> [] \<and> e = MissingPendingToolCallError missing (dict_keys buf))"
  by (auto simp: calls_def Let_def map_of_eq_None_iff)

text \<open>Nothing reaches the server unless every reply answers an id of this cycle.\<close>

lemma send_replies_posts:
  "fst (send_replies post cyc replies) \<noteq> [] \<Longrightarrow>
   fst (send_replies post cyc replies) = [replies] \<and>
   (\<forall>r \<in> set replies. \<exists>s. reply_id r = PStr s \<and> s \<in> set (requested_ids cyc))"
  by (auto simp: send_replies_def first_error_None check_reply_None split: option.splits)

lemma send_replies_ok:
  assumes "\<forall>r \<in> set replies. \<exists>s. reply_id r = PStr s \<and> s \<in> set (requested_ids cyc)"
  shows "send_replies post cyc replies =
    ([replies], case post replies of Some e \<Rightarrow> Inl e | None \<Rightarrow> Inr (add_executed cyc replies))"
proof -
  have "first_error (check_reply cyc) replies = None"
    using assms by (simp add: first_error_None check_reply_None)
  then show ?thesis by (simp add: send_replies_def split: option.split)
qed

lemma set_add_executed:
  "set (executed_ids (add_executed cyc replies)) =
     set (executed_ids cyc) \<union> {s. \<exists>r \<in> set replies. reply_id r = PStr s}"
proof -
  have "set (fold (\<lambda>r ids. case reply_id r of PStr s \<Rightarrow> List.insert s ids | _ \<Rightarrow> ids) replies ids) =
      set ids \<union> {s. \<exists>r \<in> set replies. reply_id r = PStr s}" for ids
  proof (induction replies arbitrary: ids)
    case (Cons r replies)
    then show ?case by (cases "reply_id r") auto
  qed simp
  then show ?thesis by (simp add: add_executed_def)
qed

lemma add_executed_simps [simp]: "cycle_id (add_executed cyc rs) = cycle_id cyc"
  "requested_ids (add_executed cyc rs) = requested_ids cyc"
  by (simp_all add: add_executed_def)

text \<open>The reply built for a pending call carries that call's id.\<close>

definition build_reply :: "tool_registry \<Rightarrow> invocation_context \<Rightarrow> pending_call \<Rightarrow> pydict" where
  "build_reply tools ctx c =
     (case c of
        CustomToolCall i n args \<Rightarrow> execute_and_build_reply i n args tools ctx
      | ServerToolCall i n \<Rightarrow> server_build_reply i
      | McpToolCall i n \<Rightarrow> mcp_build_reply i)"

lemma reply_id_build [simp]: "reply_id (build_reply tools ctx c) = PStr (event_id c)"
  by (cases c) (simp_all add: build_reply_def reply_id_def execute_and_build_reply_def
      build_reply_from_result_def server_build_reply_def mcp_build_reply_def split: prod.split)

lemma cycle_answers_requested:
  assumes "buffer_ok buf" "calls cyc buf = Inr cs"
  shows "send_replies post cyc (map (build_reply tools ctx) cs) =
     ([map (build_reply tools ctx) cs],
      case post (map (build_reply tools ctx) cs) of
        Some e \<Rightarrow> Inl e | None \<Rightarrow> Inr (add_executed cyc (map (build_reply tools ctx) cs)))"
    and "is_cycle_complete (add_executed cyc (map (build_reply tools ctx) cs))"
proof -
  have ids: "event_id ` set cs = set (requested_ids cyc)"
    using calls_ids [OF assms] by (metis list.set_map set_sort)
  then show "send_replies post cyc (map (build_reply tools ctx) cs) =
     ([map (build_reply tools ctx) cs],
      case post (map (build_reply tools ctx) cs) of
        Some e \<Rightarrow> Inl e | None \<Rightarrow> Inr (add_executed cyc (map (build_reply tools ctx) cs)))"
    by (intro send_replies_ok) auto
  show "is_cycle_complete (add_executed cyc (map (build_reply tools ctx) cs))"
    using ids [symmetric] by (auto simp: is_cycle_complete_def list_all_iff set_add_executed)
qed

end
