(* ===== verification/BindingRegistry.thy ===== *)
theory BindingRegistry
  imports PyVal
begin

text \<open>
  \<open>backends/in_memory_provider_binding_registry.py\<close> against the protocol of
  \<open>provider_binding_registry.py\<close>. First one caller at a time: \<open>get_binding\<close> and
  \<open>get_or_provision\<close> with the provisioning outcome as an argument, and the protocol as the locale
  \<open>binding_registry\<close>. Then many coroutines at once: a step relation over their program counters,
  with the guard lock, the table of per-key locks and their holders; the awaits of
  \<open>get_or_provision\<close> are the points where another coroutine may run.
\<close>

section \<open>Bindings\<close>

record provider_binding =
  binding_agent_id :: string
  binding_environment_id :: string
  for_version :: int
  provisioned_at :: string

type_synonym binding_key = "string \<times> string \<times> string"

type_synonym binding_store = "(binding_key, provider_binding) dict"

definition registry_key :: "string \<Rightarrow> string \<Rightarrow> string \<Rightarrow> binding_key" where
  "registry_key user agent provider = (user, agent, provider)"

definition get_binding :: "binding_store \<Rightarrow> binding_key \<Rightarrow> int \<Rightarrow> provider_binding option" where
  "get_binding store key version =
     (case dict_get store key of
        None \<Rightarrow> None
      | Some stored \<Rightarrow> if for_version stored < version then None else Some stored)"

text \<open>What one undisturbed call returns, and the store after it.\<close>

definition get_or_provision ::
    "binding_store \<Rightarrow> binding_key \<Rightarrow> int \<Rightarrow> exn + provider_binding \<Rightarrow>
     (exn + provider_binding) \<times> binding_store" where
  "get_or_provision store key version provision =
     (case dict_get store key of
        Some stored \<Rightarrow>
          if version \<le> for_version stored then (Inr stored, store)
          else (case provision of
                  Inl e \<Rightarrow> (Inl e, store)
                | Inr b \<Rightarrow> (Inr b, dict_set key b store))
      | None \<Rightarrow>
          (case provision of
             Inl e \<Rightarrow> (Inl e, store)
           | Inr b \<Rightarrow> (Inr b, dict_set key b store)))"

locale binding_registry =
  fixes get :: "'s \<Rightarrow> 'k \<Rightarrow> int \<Rightarrow> 'b option"
    and get_or :: "'s \<Rightarrow> 'k \<Rightarrow> int \<Rightarrow> exn + 'b \<Rightarrow> (exn + 'b) \<times> 's"
    and version_of :: "'b \<Rightarrow> int"
  assumes hit: "get s k v = Some b \<Longrightarrow> get_or s k v p = (Inr b, s)"
    and miss_raise: "get s k v = None \<Longrightarrow> get_or s k v (Inl e) = (Inl e, s)"
    and miss_store: "get s k v = None \<Longrightarrow> \<exists>s'. get_or s k v (Inr b) = (Inr b, s') \<and>
      (\<forall>k' v'. get s' k' v' = (if k' = k then (if v' \<le> version_of b then Some b else None) else get s k' v'))"
begin

lemma result_stored:
  "get_or s k v p = (Inr b, s') \<Longrightarrow> (\<forall>c. p = Inr c \<longrightarrow> v \<le> version_of c) \<Longrightarrow> get s' k v = Some b"
proof (cases "get s k v")
  case None
  assume g: "get_or s k v p = (Inr b, s')" and p: "\<forall>c. p = Inr c \<longrightarrow> v \<le> version_of c"
  show ?thesis
  proof (cases p)
    case (Inl e)
    with None g miss_raise show ?thesis by simp
  next
    case (Inr c)
    with miss_store [OF None, of c] g p show ?thesis by auto
  qed
next
  case (Some c)
  assume "get_or s k v p = (Inr b, s')"
  with Some hit [OF Some, of p] show ?thesis by simp
qed

lemma second_call_reuses:
  "get_or s k v p = (Inr b, s') \<Longrightarrow> (\<forall>c. p = Inr c \<longrightarrow> v \<le> version_of c) \<Longrightarrow>
   get_or s' k v q = (Inr b, s')"
  by (rule hit) (rule result_stored)

lemma other_key_kept:
  "get_or s k v p = (r, s') \<Longrightarrow> k' \<noteq> k \<Longrightarrow> get s' k' v' = get s k' v'"
proof (cases "get s k v")
  case None
  assume g: "get_or s k v p = (r, s')" and k: "k' \<noteq> k"
  show ?thesis
  proof (cases p)
    case (Inl e)
    with None g miss_raise show ?thesis by simp
  next
    case (Inr c)
    with miss_store [OF None, of c] g k show ?thesis by auto
  qed
next
  case (Some c)
  assume "get_or s k v p = (r, s')"
  with Some hit [OF Some, of p] show ?thesis by simp
qed

end

interpretation in_memory: binding_registry get_binding get_or_provision for_version
  by unfold_locales (auto simp: get_binding_def get_or_provision_def split: option.splits if_splits)

section \<open>Many coroutines\<close>

record binding_call =
  req_key :: binding_key
  req_version :: int
  req_provision :: "exn + provider_binding"

datatype pc =
    Start
  | WantGuard
  | HaveGuard
  | WantLock nat
  | InLock nat
  | Provisioning nat
  | Done "exn + provider_binding"

record world =
  bindings :: binding_store
  locks :: "(binding_key, nat) dict"
  guard :: "nat option"
  held :: "(nat, nat) dict"
  pcs :: "pc list"
  provisioned :: "(binding_key \<times> provider_binding) list"

definition initial :: "binding_store \<Rightarrow> nat \<Rightarrow> world" where
  "initial store n = \<lparr>bindings = store, locks = [], guard = None, held = [],
     pcs = replicate n Start, provisioned = []\<rparr>"

definition goto :: "nat \<Rightarrow> pc \<Rightarrow> world \<Rightarrow> world" where
  "goto i p w = w\<lparr>pcs := (pcs w)[i := p]\<rparr>"

text \<open>One atomic step of coroutine \<open>i\<close>, when it can run: \<open>_get_lock\<close> up to its guard, creation of
  the per-key lock under the guard, acquisition of the per-key lock, the re-read under it, and the
  end of \<open>provision()\<close>.\<close>

definition step_of :: "binding_call list \<Rightarrow> nat \<Rightarrow> world \<Rightarrow> world option" where
  "step_of rs i w =
     (if i < length (pcs w) \<and> i < length rs then
        (let r = rs ! i; key = req_key r in
         case pcs w ! i of
           Start \<Rightarrow>
             (case dict_get (locks w) key of
                Some l \<Rightarrow> Some (goto i (WantLock l) w)
              | None \<Rightarrow> Some (goto i WantGuard w))
         | WantGuard \<Rightarrow>
             (if guard w = None then Some (goto i HaveGuard (w\<lparr>guard := Some i\<rparr>)) else None)
         | HaveGuard \<Rightarrow>
             (case dict_get (locks w) key of
                Some l \<Rightarrow> Some (goto i (WantLock l) (w\<lparr>guard := None\<rparr>))
              | None \<Rightarrow>
                  (let l = length (locks w)
                   in Some (goto i (WantLock l)
                        (w\<lparr>guard := None, locks := dict_set key l (locks w)\<rparr>))))
         | WantLock l \<Rightarrow>
             (if dict_get (held w) l = None
              then Some (goto i (InLock l) (w\<lparr>held := dict_set l i (held w)\<rparr>)) else None)
         | InLock l \<Rightarrow>
             (case get_binding (bindings w) key (req_version r) of
                Some stored \<Rightarrow>
                  Some (goto i (Done (Inr stored)) (w\<lparr>held := dict_pop l (held w)\<rparr>))
              | None \<Rightarrow> Some (goto i (Provisioning l) w))
         | Provisioning l \<Rightarrow>
             (case req_provision r of
                Inl e \<Rightarrow> Some (goto i (Done (Inl e)) (w\<lparr>held := dict_pop l (held w)\<rparr>))
              | Inr b \<Rightarrow>
                  Some (goto i (Done (Inr b))
                    (w\<lparr>held := dict_pop l (held w), bindings := dict_set key b (bindings w),
                       provisioned := provisioned w @ [(key, b)]\<rparr>)))
         | Done res \<Rightarrow> None)
      else None)"

inductive step :: "binding_call list \<Rightarrow> world \<Rightarrow> world \<Rightarrow> bool" for rs where
  run: "step_of rs i w = Some w' \<Longrightarrow> step rs w w'"

inductive reachable :: "binding_call list \<Rightarrow> binding_store \<Rightarrow> world \<Rightarrow> bool" for rs store where
  init: "reachable rs store (initial store (length rs))"
| more: "reachable rs store w \<Longrightarrow> step rs w w' \<Longrightarrow> reachable rs store w'"

inductive_cases stepE: "step rs w w'"

definition in_section :: "pc \<Rightarrow> nat \<Rightarrow> bool" where
  "in_section p l = (p = InLock l \<or> p = Provisioning l)"

lemma step_of_cases [consumes 1, case_names known unknown guard_got relock newlock lock_got hit miss raised stored]:
  assumes "step_of rs i w = Some w'"
  obtains
    (known) l where "i < length rs" "i < length (pcs w)" "pcs w ! i = Start"
      "dict_get (locks w) (req_key (rs ! i)) = Some l" "w' = goto i (WantLock l) w"
  | (unknown) "i < length rs" "i < length (pcs w)" "pcs w ! i = Start"
      "dict_get (locks w) (req_key (rs ! i)) = None" "w' = goto i WantGuard w"
  | (guard_got) "i < length rs" "i < length (pcs w)" "pcs w ! i = WantGuard" "guard w = None"
      "w' = goto i HaveGuard (w\<lparr>guard := Some i\<rparr>)"
  | (relock) l where "i < length rs" "i < length (pcs w)" "pcs w ! i = HaveGuard"
      "dict_get (locks w) (req_key (rs ! i)) = Some l"
      "w' = goto i (WantLock l) (w\<lparr>guard := None\<rparr>)"
  | (newlock) "i < length rs" "i < length (pcs w)" "pcs w ! i = HaveGuard"
      "dict_get (locks w) (req_key (rs ! i)) = None"
      "w' = goto i (WantLock (length (locks w))) (w\<lparr>guard := None,
         locks := dict_set (req_key (rs ! i)) (length (locks w)) (locks w)\<rparr>)"
  | (lock_got) l where "i < length rs" "i < length (pcs w)" "pcs w ! i = WantLock l"
      "dict_get (held w) l = None" "w' = goto i (InLock l) (w\<lparr>held := dict_set l i (held w)\<rparr>)"
  | (hit) l b where "i < length rs" "i < length (pcs w)" "pcs w ! i = InLock l"
      "get_binding (bindings w) (req_key (rs ! i)) (req_version (rs ! i)) = Some b"
      "w' = goto i (Done (Inr b)) (w\<lparr>held := dict_pop l (held w)\<rparr>)"
  | (miss) l where "i < length rs" "i < length (pcs w)" "pcs w ! i = InLock l"
      "get_binding (bindings w) (req_key (rs ! i)) (req_version (rs ! i)) = None"
      "w' = goto i (Provisioning l) w"
  | (raised) l e where "i < length rs" "i < length (pcs w)" "pcs w ! i = Provisioning l"
      "req_provision (rs ! i) = Inl e"
      "w' = goto i (Done (Inl e)) (w\<lparr>held := dict_pop l (held w)\<rparr>)"
  | (stored) l b where "i < length rs" "i < length (pcs w)" "pcs w ! i = Provisioning l"
      "req_provision (rs ! i) = Inr b"
      "w' = goto i (Done (Inr b)) (w\<lparr>held := dict_pop l (held w),
         bindings := dict_set (req_key (rs ! i)) b (bindings w),
         provisioned := provisioned w @ [(req_key (rs ! i), b)]\<rparr>)"
proof -
  have i: "i < length rs" "i < length (pcs w)"
    using assms by (simp_all add: step_of_def split: if_split_asm)
  show ?thesis
  proof (cases "pcs w ! i")
    case Start
    with assms i show ?thesis
      by (cases "dict_get (locks w) (req_key (rs ! i))")
        (simp_all add: step_of_def Let_def known unknown)
  next
    case WantGuard
    with assms i show ?thesis
      by (cases "guard w = None") (simp_all add: step_of_def Let_def guard_got)
  next
    case HaveGuard
    with assms i show ?thesis
      by (cases "dict_get (locks w) (req_key (rs ! i))")
        (simp_all add: step_of_def Let_def relock newlock)
  next
    case (WantLock l)
    with assms i show ?thesis
      by (cases "dict_get (held w) l = None") (simp_all add: step_of_def Let_def lock_got)
  next
    case (InLock l)
    with assms i show ?thesis
      by (cases "get_binding (bindings w) (req_key (rs ! i)) (req_version (rs ! i))")
        (simp_all add: step_of_def Let_def hit miss)
  next
    case (Provisioning l)
    with assms i show ?thesis
      by (cases "req_provision (rs ! i)") (simp_all add: step_of_def Let_def raised stored)
  next
    case (Done r)
    with assms i show ?thesis by (simp add: step_of_def)
  qed
qed

section \<open>Locks: who holds what\<close>

fun lock_of :: "pc \<Rightarrow> nat option" where
  "lock_of (WantLock l) = Some l"
| "lock_of (InLock l) = Some l"
| "lock_of (Provisioning l) = Some l"
| "lock_of _ = None"

definition locks_inv :: "binding_call list \<Rightarrow> world \<Rightarrow> bool" where
  "locks_inv rs w \<longleftrightarrow>
     length (pcs w) = length rs \<and>
     (\<forall>k l. dict_get (locks w) k = Some l \<longrightarrow> l < length (locks w)) \<and>
     (\<forall>k k' l. dict_get (locks w) k = Some l \<longrightarrow> dict_get (locks w) k' = Some l \<longrightarrow> k = k') \<and>
     (\<forall>i l. i < length rs \<longrightarrow> lock_of (pcs w ! i) = Some l \<longrightarrow>
        dict_get (locks w) (req_key (rs ! i)) = Some l) \<and>
     (\<forall>l i. dict_get (held w) l = Some i \<longleftrightarrow> i < length rs \<and> in_section (pcs w ! i) l) \<and>
     (\<forall>i. guard w = Some i \<longleftrightarrow> i < length rs \<and> pcs w ! i = HaveGuard)"

lemma length_set_new: "dict_get d k = None \<Longrightarrow> length (dict_set k v d) = Suc (length d)"
  by (induction d) (auto split: if_splits)

lemma locks_inv_init: "locks_inv rs (initial store (length rs))"
  by (simp add: locks_inv_def initial_def in_section_def)

text \<open>The step moves one coroutine to \<open>p\<close> and keeps the books.\<close>

lemma locks_inv_move:
  assumes inv: "locks_inv rs w" and i: "i < length rs" and pcs': "pcs w' = (pcs w)[i := p]"
    and locks': "locks w' = locks w \<or>
      dict_get (locks w) (req_key (rs ! i)) = None \<and>
      locks w' = dict_set (req_key (rs ! i)) (length (locks w)) (locks w)"
    and own: "\<And>l. lock_of p = Some l \<Longrightarrow> dict_get (locks w') (req_key (rs ! i)) = Some l"
    and held': "\<And>l. dict_get (held w') l =
      (if in_section p l then Some i else if in_section (pcs w ! i) l then None else dict_get (held w) l)"
    and free: "\<And>l. in_section p l \<Longrightarrow> dict_get (held w) l \<in> {None, Some i}"
    and guard': "guard w' =
      (if p = HaveGuard then Some i else if pcs w ! i = HaveGuard then None else guard w)"
    and gfree: "p = HaveGuard \<Longrightarrow> guard w = None"
  shows "locks_inv rs w'"
proof -
  have len: "length (pcs w) = length rs"
    and bd: "\<And>k l. dict_get (locks w) k = Some l \<Longrightarrow> l < length (locks w)"
    and inj: "\<And>k k' l. dict_get (locks w) k = Some l \<Longrightarrow> dict_get (locks w) k' = Some l \<Longrightarrow> k = k'"
    and lk: "\<And>i l. i < length rs \<Longrightarrow> lock_of (pcs w ! i) = Some l \<Longrightarrow>
        dict_get (locks w) (req_key (rs ! i)) = Some l"
    and hd: "\<And>l i. dict_get (held w) l = Some i \<longleftrightarrow> i < length rs \<and> in_section (pcs w ! i) l"
    and gd: "\<And>i. guard w = Some i \<longleftrightarrow> i < length rs \<and> pcs w ! i = HaveGuard"
    using inv unfolding locks_inv_def by blast+
  have nth: "pcs w' ! j = (if j = i then p else pcs w ! j)" for j
    using i by (simp add: pcs' len nth_list_update)
  have bd': "l < length (locks w')" if "dict_get (locks w') k = Some l" for k l
    using locks' that bd [of k l]
    by (elim disjE conjE) (simp_all add: length_set_new less_Suc_eq split: if_split_asm)
  have inj': "k = k'" if "dict_get (locks w') k = Some l" "dict_get (locks w') k' = Some l" for k k' l
    using locks' that inj [of k l k'] bd [of k l] bd [of k' l]
    by (elim disjE conjE) (simp_all split: if_split_asm)
  have lk': "dict_get (locks w') (req_key (rs ! j)) = Some l"
    if "j < length rs" "lock_of (pcs w' ! j) = Some l" for j l
  proof (cases "j = i")
    case True
    with that own show ?thesis by (simp add: nth)
  next
    case False
    with that have "dict_get (locks w) (req_key (rs ! j)) = Some l" by (simp add: nth lk)
    with locks' show ?thesis by auto
  qed
  have hd': "dict_get (held w') l = Some j \<longleftrightarrow> j < length rs \<and> in_section (pcs w' ! j) l" for l j
  proof (cases "j = i")
    case True
    then show ?thesis using i hd [of l i] by (auto simp: held' nth)
  next
    case False
    then show ?thesis using free [of l] hd [of l j] hd [of l i] i by (auto simp: held' nth)
  qed
  have gd': "guard w' = Some j \<longleftrightarrow> j < length rs \<and> pcs w' ! j = HaveGuard" for j
    using gfree gd [of j] gd [of i] i by (cases "j = i") (auto simp: guard' nth)
  show ?thesis
    unfolding locks_inv_def using bd' inj' lk' hd' gd' by (simp add: pcs' len)
qed

lemma locks_inv_step:
  assumes inv: "locks_inv rs w" and st: "step_of rs i w = Some w'"
  shows "locks_inv rs w'"
proof -
  have lk: "\<And>i l. i < length rs \<Longrightarrow> lock_of (pcs w ! i) = Some l \<Longrightarrow>
        dict_get (locks w) (req_key (rs ! i)) = Some l"
    and hd: "\<And>l i. i < length rs \<Longrightarrow> in_section (pcs w ! i) l \<Longrightarrow> dict_get (held w) l = Some i"
    using inv unfolding locks_inv_def by blast+
  note move = locks_inv_move [OF inv]
  show ?thesis using st
  proof (cases rule: step_of_cases)
    case (known l)
    then show ?thesis
      by (intro move [where p = "WantLock l"]) (auto simp: goto_def in_section_def)
  next
    case unknown
    then show ?thesis
      by (intro move [where p = WantGuard]) (auto simp: goto_def in_section_def)
  next
    case guard_got
    then show ?thesis
      by (intro move [where p = HaveGuard]) (auto simp: goto_def in_section_def)
  next
    case (relock l)
    then show ?thesis
      by (intro move [where p = "WantLock l"]) (auto simp: goto_def in_section_def)
  next
    case newlock
    then show ?thesis
      by (intro move [where p = "WantLock (length (locks w))"]) (auto simp: goto_def in_section_def)
  next
    case (lock_got l)
    then show ?thesis using lk [of i l]
      by (intro move [where p = "InLock l"]) (auto simp: goto_def in_section_def)
  next
    case (hit l b)
    then show ?thesis
      by (intro move [where p = "Done (Inr b)"]) (auto simp: goto_def in_section_def)
  next
    case (miss l)
    then show ?thesis using lk [of i l] hd [of i l]
      by (intro move [where p = "Provisioning l"]) (auto simp: goto_def in_section_def)
  next
    case (raised l e)
    then show ?thesis
      by (intro move [where p = "Done (Inl e)"]) (auto simp: goto_def in_section_def)
  next
    case (stored l b)
    then show ?thesis
      by (intro move [where p = "Done (Inr b)"]) (auto simp: goto_def in_section_def)
  qed
qed


lemma reachable_locks: "reachable rs store w \<Longrightarrow> locks_inv rs w"
  by (induction rule: reachable.induct) (auto elim!: stepE intro: locks_inv_init locks_inv_step)

lemma mutual_exclusion:
  assumes "reachable rs store w" "i < length rs" "j < length rs"
    "req_key (rs ! i) = req_key (rs ! j)" "in_section (pcs w ! i) l" "in_section (pcs w ! j) m"
  shows "i = j"
proof -
  have inv: "locks_inv rs w" by (rule reachable_locks [OF assms(1)])
  have lk: "lock_of (pcs w ! i) = Some l" "lock_of (pcs w ! j) = Some m"
    using assms(5,6) by (auto simp: in_section_def)
  then have "l = m"
    using inv assms(2-4) unfolding locks_inv_def by (metis option.inject)
  then show ?thesis
    using inv assms(2,3,5,6) unfolding locks_inv_def by (metis option.inject)
qed

section \<open>Provisionings\<close>

definition provisioned_for :: "world \<Rightarrow> binding_key \<Rightarrow> provider_binding list" where
  "provisioned_for w k = map snd (filter (\<lambda>p. fst p = k) (provisioned w))"

text \<open>A provisioned binding is for the version its caller asked for.\<close>

definition provisions_current :: "binding_call list \<Rightarrow> bool" where
  "provisions_current rs =
     list_all (\<lambda>r. case req_provision r of Inr b \<Rightarrow> for_version b = req_version r | _ \<Rightarrow> True) rs"

definition store_inv :: "binding_call list \<Rightarrow> binding_store \<Rightarrow> world \<Rightarrow> bool" where
  "store_inv rs store w \<longleftrightarrow>
     (\<forall>k. dict_get (bindings w) k =
        (if provisioned_for w k = [] then dict_get store k else Some (last (provisioned_for w k)))) \<and>
     (\<forall>k. sorted_wrt (<) (map for_version (provisioned_for w k))) \<and>
     (\<forall>k b. b \<in> set (provisioned_for w k) \<longrightarrow>
        (\<exists>i < length rs. req_key (rs ! i) = k \<and> req_provision (rs ! i) = Inr b)) \<and>
     (\<forall>i l. i < length rs \<longrightarrow> pcs w ! i = Provisioning l \<longrightarrow>
        get_binding (bindings w) (req_key (rs ! i)) (req_version (rs ! i)) = None) \<and>
     (\<forall>i b. i < length rs \<longrightarrow> pcs w ! i = Done (Inr b) \<longrightarrow>
        req_version (rs ! i) \<le> for_version b \<and>
        (b \<in> set (provisioned_for w (req_key (rs ! i))) \<or>
         dict_get store (req_key (rs ! i)) = Some b))"

lemma store_inv_init: "store_inv rs store (initial store (length rs))"
  by (simp add: store_inv_def initial_def provisioned_for_def)

text \<open>A step that leaves the store and the log alone.\<close>

lemma store_inv_quiet:
  assumes inv: "store_inv rs store w" and i: "i < length (pcs w)" "i < length rs"
    and len: "length (pcs w) = length rs"
    and w': "pcs w' = (pcs w)[i := p]" "bindings w' = bindings w" "provisioned w' = provisioned w"
    and miss: "\<And>l. p = Provisioning l \<Longrightarrow>
      get_binding (bindings w) (req_key (rs ! i)) (req_version (rs ! i)) = None"
    and hit: "\<And>b. p = Done (Inr b) \<Longrightarrow>
      get_binding (bindings w) (req_key (rs ! i)) (req_version (rs ! i)) = Some b"
  shows "store_inv rs store w'"
proof -
  have nth: "pcs w' ! j = (if j = i then p else pcs w ! j)" for j
    using i by (simp add: w' nth_list_update)
  have pf: "provisioned_for w' k = provisioned_for w k" for k
    by (simp add: provisioned_for_def w')
  have new: "req_version (rs ! i) \<le> for_version b \<and>
      (b \<in> set (provisioned_for w (req_key (rs ! i))) \<or> dict_get store (req_key (rs ! i)) = Some b)"
    if "p = Done (Inr b)" for b
  proof -
    have g: "dict_get (bindings w) (req_key (rs ! i)) = Some b" "req_version (rs ! i) \<le> for_version b"
      using hit [OF that] by (auto simp: get_binding_def split: option.splits if_splits)
    have "dict_get (bindings w) (req_key (rs ! i)) =
        (if provisioned_for w (req_key (rs ! i)) = [] then dict_get store (req_key (rs ! i))
         else Some (last (provisioned_for w (req_key (rs ! i)))))"
      using inv unfolding store_inv_def by blast
    with g show ?thesis by (auto split: if_splits)
  qed
  show ?thesis
    using inv new miss unfolding store_inv_def
    by (auto simp del: split_paired_All simp: nth pf w'(2))
qed

lemma strict_sorted_last:
  "sorted_wrt (<) (map f xs) \<Longrightarrow> x \<in> set xs \<Longrightarrow> (f x :: int) \<le> f (last xs)"
  by (induction xs rule: rev_induct) (auto simp: sorted_wrt_append)

lemma provisions_current_nth:
  "provisions_current rs \<Longrightarrow> i < length rs \<Longrightarrow> req_provision (rs ! i) = Inr b \<Longrightarrow>
   for_version b = req_version (rs ! i)"
  by (auto simp: provisions_current_def list_all_length split: sum.splits)

lemma store_inv_stored:
  assumes inv: "store_inv rs store w" and locks: "locks_inv rs w" "locks_inv rs w'"
    and cur: "provisions_current rs"
    and i: "i < length rs" "i < length (pcs w)" "pcs w ! i = Provisioning l"
    and b: "req_provision (rs ! i) = Inr b"
    and w': "w' = goto i (Done (Inr b)) (w\<lparr>held := dict_pop l (held w),
         bindings := dict_set (req_key (rs ! i)) b (bindings w),
         provisioned := provisioned w @ [(req_key (rs ! i), b)]\<rparr>)"
  shows "store_inv rs store w'"
proof -
  let ?k = "req_key (rs ! i)"
  have st: "\<And>k. dict_get (bindings w) k =
        (if provisioned_for w k = [] then dict_get store k else Some (last (provisioned_for w k)))"
    and srt: "\<And>k. sorted_wrt (<) (map for_version (provisioned_for w k))"
    and src: "\<And>k b. b \<in> set (provisioned_for w k) \<Longrightarrow>
        \<exists>i < length rs. req_key (rs ! i) = k \<and> req_provision (rs ! i) = Inr b"
    and pr: "\<And>i l. i < length rs \<Longrightarrow> pcs w ! i = Provisioning l \<Longrightarrow>
        get_binding (bindings w) (req_key (rs ! i)) (req_version (rs ! i)) = None"
    and dn: "\<And>i b. i < length rs \<Longrightarrow> pcs w ! i = Done (Inr b) \<Longrightarrow>
        req_version (rs ! i) \<le> for_version b \<and>
        (b \<in> set (provisioned_for w (req_key (rs ! i))) \<or> dict_get store (req_key (rs ! i)) = Some b)"
    using inv unfolding store_inv_def by blast+
  have ver: "for_version b = req_version (rs ! i)"
    by (rule provisions_current_nth [OF cur i(1) b])
  have pf: "provisioned_for w' k = (if k = ?k then provisioned_for w k @ [b] else provisioned_for w k)" for k
    by (simp add: provisioned_for_def w' goto_def)
  have nth: "pcs w' ! j = (if j = i then Done (Inr b) else pcs w ! j)" for j
    using i by (simp add: w' goto_def nth_list_update)
  have bs: "dict_get (bindings w') k = (if k = ?k then Some b else dict_get (bindings w) k)" for k
    by (simp add: w' goto_def)
  have miss: "get_binding (bindings w) ?k (req_version (rs ! i)) = None"
    using pr [OF i(1,3)] .
  have newer: "for_version c < for_version b" if "c \<in> set (provisioned_for w ?k)" for c
  proof -
    let ?l = "last (provisioned_for w ?k)"
    have ne: "provisioned_for w ?k \<noteq> []" using that by auto
    then have "for_version ?l < req_version (rs ! i)"
      using miss st [of ?k] by (auto simp: get_binding_def split: if_splits)
    moreover have "for_version c \<le> for_version ?l"
      by (rule strict_sorted_last [OF srt that])
    ultimately show ?thesis using ver by simp
  qed
  have others: "req_key (rs ! j) \<noteq> ?k" if "j < length rs" "j \<noteq> i" "pcs w ! j = Provisioning m" for j m
    using that i locks(1) unfolding locks_inv_def
    by (metis in_section_def lock_of.simps(3) option.inject)
  show ?thesis
    unfolding store_inv_def
  proof (intro conjI allI impI)
    fix k
    show "dict_get (bindings w') k =
        (if provisioned_for w' k = [] then dict_get store k else Some (last (provisioned_for w' k)))"
      using st [of k] by (simp add: bs pf)
    show "sorted_wrt (<) (map for_version (provisioned_for w' k))"
      using srt [of k] newer by (auto simp: pf sorted_wrt_append)
  next
    fix k c
    assume "c \<in> set (provisioned_for w' k)"
    then show "\<exists>i < length rs. req_key (rs ! i) = k \<and> req_provision (rs ! i) = Inr c"
      using src [of c k] i b by (auto simp: pf split: if_splits)
  next
    fix j m
    assume j: "j < length rs" "pcs w' ! j = Provisioning m"
    then have "j \<noteq> i" "pcs w ! j = Provisioning m" by (auto simp: nth split: if_splits)
    with others j pr [of j m] show "get_binding (bindings w') (req_key (rs ! j)) (req_version (rs ! j)) = None"
      by (auto simp: get_binding_def bs)
  next
    fix j c
    assume j: "j < length rs" "pcs w' ! j = Done (Inr c)"
    show "req_version (rs ! j) \<le> for_version c"
      using j dn [of j c] ver by (auto simp: nth split: if_splits)
    show "c \<in> set (provisioned_for w' (req_key (rs ! j))) \<or> dict_get store (req_key (rs ! j)) = Some c"
      using j dn [of j c] by (auto simp: nth pf split: if_splits)
  qed
qed

lemma store_inv_step:
  assumes "store_inv rs store w" "locks_inv rs w" "provisions_current rs" "step_of rs i w = Some w'"
  shows "store_inv rs store w'"
  using assms(4)
proof (cases rule: step_of_cases)
  case (stored l b)
  show ?thesis
    by (rule store_inv_stored [OF assms(1,2) locks_inv_step [OF assms(2,4)] assms(3) stored])
qed (use assms(1,2) in \<open>auto simp: goto_def locks_inv_def intro!: store_inv_quiet [OF assms(1)]\<close>)

lemma reachable_store:
  assumes "provisions_current rs"
  shows "reachable rs store w \<Longrightarrow> store_inv rs store w"
  by (induction rule: reachable.induct)
    (auto elim!: stepE intro: store_inv_init store_inv_step [OF _ reachable_locks assms])

text \<open>Callers that ask for one version of a key provision it at most once, and agree.\<close>

lemma provisioned_once:
  assumes "provisions_current rs" "reachable rs store w"
    and same: "\<And>i. i < length rs \<Longrightarrow> req_key (rs ! i) = k \<Longrightarrow> req_version (rs ! i) = v"
  shows "length (provisioned_for w k) \<le> 1"
proof -
  have inv: "store_inv rs store w" by (rule reachable_store [OF assms(1,2)])
  have v: "for_version b = v" if b: "b \<in> set (provisioned_for w k)" for b
  proof -
    obtain i where i: "i < length rs" "req_key (rs ! i) = k" "req_provision (rs ! i) = Inr b"
      using inv b unfolding store_inv_def by blast
    then show ?thesis
      using same provisions_current_nth [OF assms(1) i(1,3)] by simp
  qed
  have "sorted_wrt (<) (map for_version (provisioned_for w k))"
    using inv unfolding store_inv_def by blast
  with v show ?thesis
    by (cases "provisioned_for w k"; cases "tl (provisioned_for w k)") auto
qed

section \<open>Progress and termination\<close>

fun rank :: "pc \<Rightarrow> nat" where
  "rank Start = 6"
| "rank WantGuard = 5"
| "rank HaveGuard = 4"
| "rank (WantLock l) = 3"
| "rank (InLock l) = 2"
| "rank (Provisioning l) = 1"
| "rank (Done r) = 0"

definition work_left :: "world \<Rightarrow> nat" where
  "work_left w = sum_list (map rank (pcs w))"

lemma work_left_goto:
  "i < length xs \<Longrightarrow> rank p < rank (xs ! i) \<Longrightarrow>
   sum_list (map rank (xs[i := p])) < sum_list (map rank xs)"
  using elem_le_sum_list [of i "map rank xs"] by (simp add: map_update sum_list_update)

lemma step_work:
  "step rs w w' \<Longrightarrow> work_left w' < work_left w"
proof (elim stepE)
  fix i assume "step_of rs i w = Some w'"
  then show "work_left w' < work_left w"
    by (cases rule: step_of_cases) (simp_all add: goto_def work_left_def work_left_goto)
qed

definition all_done :: "world \<Rightarrow> bool" where
  "all_done w = list_all (\<lambda>p. rank p = 0) (pcs w)"

lemma progress:
  assumes "reachable rs store w" "\<not> all_done w"
  shows "\<exists>w'. step rs w w'"
proof -
  have inv: "locks_inv rs w" by (rule reachable_locks [OF assms(1)])
  obtain i where i: "i < length rs" "i < length (pcs w)" "rank (pcs w ! i) \<noteq> 0"
    using assms(2) inv by (auto simp: all_done_def list_all_length locks_inv_def)
  have section_runs: "\<exists>w'. step_of rs j w = Some w'"
    if "j < length rs" "in_section (pcs w ! j) l" for j l
    using that inv by (auto simp: in_section_def step_of_def Let_def locks_inv_def split: option.split sum.split)
  have "\<exists>j w'. step_of rs j w = Some w'"
  proof (cases "step_of rs i w")
    case None
    then consider l j where "dict_get (held w) l = Some j" | j where "guard w = Some j"
      using i by (cases "pcs w ! i") (auto simp: step_of_def Let_def split: option.splits sum.splits if_splits)
    then show ?thesis
    proof cases
      case (1 l j)
      then have "j < length rs" "in_section (pcs w ! j) l"
        using inv unfolding locks_inv_def by blast+
      then show ?thesis using section_runs by blast
    next
      case (2 j)
      then have "j < length rs" "pcs w ! j = HaveGuard" "j < length (pcs w)"
        using inv unfolding locks_inv_def by metis+
      then have "step_of rs j w \<noteq> None" by (simp add: step_of_def Let_def split: option.split)
      then show ?thesis by blast
    qed
  qed blast
  then show ?thesis by (blast intro: step.intros)
qed

lemma runs_bounded: "(step rs ^^ n) w w' \<Longrightarrow> n + work_left w' \<le> work_left w"
proof (induction n arbitrary: w')
  case (Suc n)
  then obtain u where "(step rs ^^ n) w u" "step rs u w'" by auto
  with Suc.IH [of u] step_work [of rs u w'] show ?case by simp
qed simp

lemma finishes:
  assumes "reachable rs store w"
  shows "\<exists>w'. (step rs)\<^sup>*\<^sup>* w w' \<and> reachable rs store w' \<and> all_done w'"
  using assms
proof (induction "work_left w" arbitrary: w rule: less_induct)
  case less
  show ?case
  proof (cases "all_done w")
    case False
    then obtain u where u: "step rs w u" using progress less.prems by blast
    with less.hyps [OF step_work [OF u]] reachable.more [OF less.prems u]
    show ?thesis by (meson converse_rtranclp_into_rtranclp)
  qed (use less.prems in blast)
qed

end
