(* ===== verification/PropertiesShared.thy ===== *)
theory PropertiesShared
  imports ActionCycle BindingRegistry
begin

text \<open>
  The properties of the pieces the backends share: the merge of static and dynamic tools, the
  cycle's barrier, and the binding registry, one caller at a time and many at once.
\<close>

section \<open>The merge of static and dynamic tools\<close>

text \<open>Claim C18. In the registry that build_tools merges, a name resolves to the static tool first under
  static_wins and to the resolver's last tool of that name first under any other policy; each
  side fills in for the other, and the registry stays well formed.\<close>

theorem merged_tools_lookup:
  assumes "registry_ok (agent_tools a)" "tool_resolver a = Some resolve" "resolve ctx = Inr dyn"
    "build_tools a ctx = Inr m"
  shows "registry_ok m \<and> registry_try_get m n =
      (if on_conflict a = ''static_wins''
       then (case registry_try_get (agent_tools a) n of Some t \<Rightarrow> Some t | None \<Rightarrow> last_with tool_name n dyn)
       else (case last_with tool_name n dyn of Some t \<Rightarrow> Some t | None \<Rightarrow> registry_try_get (agent_tools a) n))"
  using build_tools_Inr [OF assms] by blast

definition demo_tool :: "string \<Rightarrow> string \<Rightarrow> tool" where
  "demo_tool n d = \<lparr>tool_spec = \<lparr>spec_name = n, spec_description = d, spec_input_schema = []\<rparr>,
     tool_invoke = (\<lambda>args ctx. Inr PNone)\<rparr>"

definition demo_agent :: "string \<Rightarrow> base_agent" where
  "demo_agent pol = \<lparr>identity = ''a'', model = ''m'', system_prompt = ''p'',
     agent_tools = registry_extend [demo_tool ''x'' ''static'', demo_tool ''y'' ''static''] [],
     tool_resolver = Some (\<lambda>ctx. Inr [demo_tool ''x'' ''dynamic'', demo_tool ''z'' ''dynamic'']),
     on_conflict = pol\<rparr>"

definition demo_ctx :: invocation_context where
  "demo_ctx = \<lparr>scope = \<lparr>user_id = ''u1'', sandbox_id = None, project_id = None\<rparr>, trace_id = None,
     dek = None, handles = []\<rparr>"

lemma demo_parts: "registry_ok (agent_tools (demo_agent p))"
  "tool_resolver (demo_agent p) = Some (\<lambda>ctx. Inr [demo_tool ''x'' ''dynamic'', demo_tool ''z'' ''dynamic''])"
  "on_conflict (demo_agent p) = p"
  by (simp_all add: demo_agent_def registry_ok_extend)

theorem merged_tools_lookup_witness:
  "\<exists>m. build_tools (demo_agent ''dynamic_wins'') demo_ctx = Inr m \<and>
    registry_try_get m ''x'' = Some (demo_tool ''x'' ''dynamic'')"
proof -
  obtain m where m: "build_tools (demo_agent ''dynamic_wins'') demo_ctx = Inr m"
    by (auto simp: build_tools_def demo_parts Let_def)
  from merged_tools_lookup [OF demo_parts(1,2) refl m, of "''x''"] m show ?thesis
    by (simp add: demo_parts last_with_def demo_tool_def tool_name_def)
qed

text \<open>Under the policy error, and only under it, build_tools raises: exactly when a static
  name is also a dynamic one, naming the shared names in order.\<close>

theorem conflict_policy_raises:
  assumes "registry_ok (agent_tools a)" "tool_resolver a = Some resolve" "resolve ctx = Inr dyn"
  shows "build_tools a ctx = Inl (ToolConflictError (identity a)
      (sort (remdups (filter (\<lambda>n. n \<in> tool_name ` set dyn) (sort (dict_keys (agent_tools a))))))) \<longleftrightarrow>
    on_conflict a = ''error'' \<and> (\<exists>n. registry_try_get (agent_tools a) n \<noteq> None \<and> n \<in> tool_name ` set dyn)"
  by (rule build_tools_conflict [OF assms])

theorem conflict_policy_raises_witness:
  "\<exists>e. build_tools (demo_agent ''error'') demo_ctx = Inl e"
proof -
  have "registry_try_get (agent_tools (demo_agent ''error'')) ''x'' = Some (demo_tool ''x'' ''static'')"
    by (simp add: demo_agent_def registry_extend_def registry_add_def registry_try_get_def demo_tool_def)
  then have "\<exists>n. registry_try_get (agent_tools (demo_agent ''error'')) n \<noteq> None \<and>
      n \<in> tool_name ` set [demo_tool ''x'' ''dynamic'', demo_tool ''z'' ''dynamic'']"
    by (intro exI [of _ "''x''"]) (simp add: demo_tool_def tool_name_def)
  with demo_parts(3) [of "''error''"] show ?thesis
    using conflict_policy_raises [OF demo_parts(1,2) refl, of "''error''" demo_ctx] by blast
qed

section \<open>The cycle's barrier\<close>

text \<open>A batch reaches events.send only when every reply in it answers an id the cycle
  requested; then exactly that batch is posted, once.\<close>

theorem barrier_before_post:
  "case send_replies post cyc replies of
     (batches, outcome) \<Rightarrow>
       (case batches of
          [] \<Rightarrow> (\<exists>e. outcome = Inl e)
        | b # rest \<Rightarrow> b = replies \<and> rest = [] \<and>
            list_all (\<lambda>r. \<exists>s. reply_id r = PStr s \<and> s \<in> set (requested_ids cyc)) replies)"
  by (auto simp: send_replies_def list_all_iff first_error_None check_reply_None split: option.split)

text \<open>Replies built from the calls a cycle resolves pass the barrier and complete the cycle:
  each requested id has been executed when the POST succeeds.\<close>

theorem resolved_calls_complete_cycle:
  assumes "buffer_ok buf" "calls cyc buf = Inr cs" "post (map (build_reply tools ctx) cs) = None"
  shows "\<exists>cyc'. send_replies post cyc (map (build_reply tools ctx) cs) =
      ([map (build_reply tools ctx) cs], Inr cyc') \<and> is_cycle_complete cyc' \<and>
    map event_id cs = sort (requested_ids cyc)"
  using cycle_answers_requested [OF assms(1,2)] calls_ids [OF assms(1,2)] assms(3) by simp

theorem resolved_calls_complete_cycle_witness:
  "\<exists>cyc'. send_replies (\<lambda>b. None) (new_cycle ''c1'' [''e2'', ''e1'', ''e2''])
      [server_build_reply ''e1'', mcp_build_reply ''e2''] =
      ([[server_build_reply ''e1'', mcp_build_reply ''e2'']], Inr cyc') \<and> is_cycle_complete cyc'"
proof -
  let ?buf = "[(''e1'', ServerToolCall ''e1'' ''bash''), (''e2'', McpToolCall ''e2'' ''search'')]"
  have b: "buffer_ok ?buf" by (simp add: buffer_ok_def)
  have c: "calls (new_cycle ''c1'' [''e2'', ''e1'', ''e2'']) ?buf =
      Inr [ServerToolCall ''e1'' ''bash'', McpToolCall ''e2'' ''search'']"
    by code_simp
  from resolved_calls_complete_cycle [OF b c, of "\<lambda>b. None" "[]" demo_ctx] show ?thesis
    by (auto simp: build_reply_def)
qed

section \<open>The binding registry\<close>

text \<open>One caller after another: a call that returned a binding is followed by calls that
  return the same binding without provisioning, and other keys are untouched.\<close>

theorem provision_then_reuse:
  assumes "get_or_provision store key v p = (Inr b, store')" "\<forall>c. p = Inr c \<longrightarrow> v \<le> for_version c"
  shows "get_or_provision store' key v q = (Inr b, store') \<and>
    (\<forall>k' v'. k' \<noteq> key \<longrightarrow> get_binding store' k' v' = get_binding store k' v')"
  using in_memory.second_call_reuses [OF assms] in_memory.other_key_kept [OF assms(1)] by blast

definition demo_binding :: "string \<Rightarrow> provider_binding" where
  "demo_binding a = \<lparr>binding_agent_id = a, binding_environment_id = ''env'', for_version = 1,
     provisioned_at = ''2026-01-01T00:00:00Z''\<rparr>"

theorem provision_then_reuse_witness:
  "get_or_provision [((''u'', ''a'', ''p''), demo_binding ''agent_1'')] (''u'', ''a'', ''p'') 1 (Inr (demo_binding ''agent_2'')) =
     (Inr (demo_binding ''agent_1''), [((''u'', ''a'', ''p''), demo_binding ''agent_1'')])"
proof -
  have "get_or_provision [] (''u'', ''a'', ''p'') 1 (Inr (demo_binding ''agent_1'')) =
      (Inr (demo_binding ''agent_1''), [((''u'', ''a'', ''p''), demo_binding ''agent_1'')])"
    by (simp add: get_or_provision_def)
  from provision_then_reuse [OF this, of "Inr (demo_binding ''agent_2'')"] show ?thesis
    by (simp add: demo_binding_def)
qed

text \<open>However the coroutines interleave, two of them are never both past the per-key lock for
  the same key.\<close>

theorem per_key_mutual_exclusion:
  assumes "reachable rs store w" "i < length rs" "j < length rs"
    "req_key (rs ! i) = req_key (rs ! j)" "in_section (pcs w ! i) l" "in_section (pcs w ! j) m"
  shows "i = j"
  by (rule mutual_exclusion [OF assms])

definition demo_requests :: "binding_call list" where
  "demo_requests = [\<lparr>req_key = (''u'', ''a'', ''p''), req_version = 1, req_provision = Inr (demo_binding ''agent_1'')\<rparr>,
     \<lparr>req_key = (''u'', ''a'', ''p''), req_version = 1, req_provision = Inr (demo_binding ''agent_2'')\<rparr>]"

lemma work_left_bound: "work_left w \<le> 6 * length (pcs w)"
proof -
  have "rank p \<le> 6" for p by (cases p) auto
  then have "sum_list (map rank ps) \<le> 6 * length ps" for ps by (induction ps) (auto simp: add_mono)
  then show ?thesis by (simp add: work_left_def)
qed

text \<open>Running the coroutines in a given order, skipping one that cannot run.\<close>

fun schedule :: "binding_call list \<Rightarrow> nat list \<Rightarrow> world \<Rightarrow> world" where
  "schedule rs [] w = w"
| "schedule rs (i # is) w = schedule rs is (case step_of rs i w of None \<Rightarrow> w | Some w' \<Rightarrow> w')"

lemma schedule_reachable: "reachable rs store w \<Longrightarrow> reachable rs store (schedule rs is w)"
proof (induction "is" arbitrary: w)
  case (Cons i "is")
  then show ?case
    by (cases "step_of rs i w") (auto intro!: Cons.IH intro: reachable.more step.run)
qed simp

lemma demo_reachable: "reachable demo_requests [] (schedule demo_requests is (initial [] 2))"
proof -
  have "length demo_requests = 2" by (simp add: demo_requests_def)
  with schedule_reachable [OF reachable.init [of demo_requests "[]"], of "is"] show ?thesis by simp
qed

theorem per_key_mutual_exclusion_witness:
  "\<not> in_section (pcs (schedule demo_requests [0, 0, 0, 0, 1, 1, 1] (initial [] 2)) ! 1) 0"
proof
  let ?w = "schedule demo_requests [0, 0, 0, 0, 1, 1, 1] (initial [] 2)"
  assume one: "in_section (pcs ?w ! 1) 0"
  have zero: "in_section (pcs ?w ! 0) 0" by code_simp
  show False
    using per_key_mutual_exclusion [OF demo_reachable _ _ _ zero one] by (simp add: demo_requests_def)
qed

text \<open>Claim C14. Coroutines that ask for one version of a key provision it at most once between them,
  however they interleave, and every one that returns a binding returns the same one, provided
  a provisioning yields a binding for the version asked for.\<close>

theorem provisioned_at_most_once:
  assumes "provisions_current rs" "reachable rs [] w"
    and "\<And>i. i < length rs \<Longrightarrow> req_key (rs ! i) = k \<Longrightarrow> req_version (rs ! i) = v"
  shows "length (provisioned_for w k) \<le> 1 \<and>
    (\<forall>i j b c. i < length rs \<and> j < length rs \<and> req_key (rs ! i) = k \<and> req_key (rs ! j) = k \<and>
       pcs w ! i = Done (Inr b) \<and> pcs w ! j = Done (Inr c) \<longrightarrow> b = c)"
proof -
  have inv: "store_inv rs [] w" by (rule reachable_store [OF assms(1,2)])
  have done_in: "b \<in> set (provisioned_for w k)"
    if "i < length rs" "req_key (rs ! i) = k" "pcs w ! i = Done (Inr b)" for i b
    using inv that unfolding store_inv_def by fastforce
  have one: "length (provisioned_for w k) \<le> 1" by (rule provisioned_once [OF assms])
  then have "b = c" if "b \<in> set (provisioned_for w k)" "c \<in> set (provisioned_for w k)" for b c
    using that by (cases "provisioned_for w k") auto
  with one done_in show ?thesis by blast
qed

theorem provisioned_at_most_once_witness:
  "length (provisioned_for (schedule demo_requests [0, 1, 0, 1, 0, 1, 0, 0, 1, 1, 0, 1, 1, 1, 1] (initial [] 2))
     (''u'', ''a'', ''p'')) \<le> 1"
proof -
  have "provisions_current demo_requests"
    by (simp add: provisions_current_def demo_requests_def demo_binding_def)
  moreover have "req_version (demo_requests ! i) = 1" if "i < length demo_requests" for i
    using that by (cases i) (auto simp: demo_requests_def)
  ultimately show ?thesis
    using provisioned_at_most_once [OF _ demo_reachable, of "(''u'', ''a'', ''p'')" 1] by blast
qed

text \<open>Claim C15. The locks cannot deadlock: from every reachable state some run finishes all coroutines,
  no run is longer than six steps per coroutine, and only a state in which all are done is stuck.\<close>

theorem registry_calls_finish:
  assumes "reachable rs store w"
  shows "(\<exists>w'. (step rs)\<^sup>*\<^sup>* w w' \<and> all_done w') \<and>
    (\<forall>n w'. (step rs ^^ n) w w' \<longrightarrow> n \<le> 6 * length rs) \<and>
    ((\<forall>w'. \<not> step rs w w') \<longrightarrow> all_done w)"
proof (intro conjI)
  show "\<exists>w'. (step rs)\<^sup>*\<^sup>* w w' \<and> all_done w'" using finishes [OF assms] by blast
  have "length (pcs w) = length rs"
    using reachable_locks [OF assms] unfolding locks_inv_def by blast
  then have "work_left w \<le> 6 * length rs" by (metis work_left_bound)
  then show "\<forall>n w'. (step rs ^^ n) w w' \<longrightarrow> n \<le> 6 * length rs"
    using runs_bounded by (metis add_leE le_trans)
  show "(\<forall>w'. \<not> step rs w w') \<longrightarrow> all_done w" using progress [OF assms] by blast
qed

theorem registry_calls_finish_witness:
  "\<exists>w'. (step demo_requests)\<^sup>*\<^sup>* (initial [] 2) w' \<and> all_done w'"
  using registry_calls_finish [OF demo_reachable [of "[]"]] by simp

end
