(* ===== verification/AgentRun.thy ===== *)
theory AgentRun
  imports CoreAgents
begin

text \<open>
  Reducing a stream of events to one result: \<open>AgentRunResult\<close> of \<open>base_backend.py\<close> and the body
  that the \<open>run\<close> methods of the backends share, with the interface \<open>agent_backend\<close>: whatever a
  backend streams, its \<open>run\<close> is this reduction of it.
\<close>

section \<open>The reduction\<close>

record tool_log =
  log_call_id :: string
  log_name :: string
  log_arguments :: pydict
  log_result :: "pyval option"
  log_error :: "string option"

record agent_run_result =
  final_text :: string
  tool_calls :: "tool_log list"
  stop_reason :: string
  usage :: pydict
  session_id :: "string option"

definition empty_run :: agent_run_result where
  "empty_run = \<lparr>final_text = [], tool_calls = [], stop_reason = ''end_turn'', usage = [],
    session_id = None\<rparr>"

text \<open>The first entry of that call without a result gets it.\<close>

fun attach_result :: "string \<Rightarrow> pyval \<Rightarrow> string option \<Rightarrow> tool_log list \<Rightarrow> tool_log list" where
  "attach_result cid res err [] = []"
| "attach_result cid res err (l # ls) =
     (if log_call_id l = cid \<and> log_result l = None
      then l\<lparr>log_result := Some res,
             log_error := (case err of Some (c # cs) \<Rightarrow> err | _ \<Rightarrow> log_error l)\<rparr> # ls
      else l # attach_result cid res err ls)"

fun run_step :: "agent_event \<Rightarrow> agent_run_result \<Rightarrow> agent_run_result" where
  "run_step (AgentTextDelta t) r = r\<lparr>final_text := final_text r @ t\<rparr>"
| "run_step (AgentToolCall cid n args) r =
     r\<lparr>tool_calls := tool_calls r @ [\<lparr>log_call_id = cid, log_name = n, log_arguments = args,
        log_result = None, log_error = None\<rparr>]\<rparr>"
| "run_step (AgentToolResult cid n res err) r =
     r\<lparr>tool_calls := attach_result cid res err (tool_calls r)\<rparr>"
| "run_step (AgentFinish s u sid) r = r\<lparr>stop_reason := s, usage := u, session_id := sid\<rparr>"

definition drain :: "agent_event list \<Rightarrow> agent_run_result" where
  "drain evs = fold run_step evs empty_run"

text \<open>An exception raised in the stream leaves \<open>run\<close> at once, with no result.\<close>

definition run_result :: "agent_event list \<times> exn option \<Rightarrow> exn + agent_run_result" where
  "run_result s = (case s of (evs, None) \<Rightarrow> Inr (drain evs) | (evs, Some e) \<Rightarrow> Inl e)"

section \<open>What the reduction keeps\<close>

definition text_of :: "agent_event list \<Rightarrow> string" where
  "text_of evs = concat (map (\<lambda>e. case e of AgentTextDelta t \<Rightarrow> t | _ \<Rightarrow> []) evs)"

definition calls_of :: "agent_event list \<Rightarrow> (string \<times> string \<times> pydict) list" where
  "calls_of evs = concat (map (\<lambda>e. case e of AgentToolCall i n a \<Rightarrow> [(i, n, a)] | _ \<Rightarrow> []) evs)"

definition results_of :: "string \<Rightarrow> agent_event list \<Rightarrow> pyval list" where
  "results_of cid evs =
     concat (map (\<lambda>e. case e of AgentToolResult i n r err \<Rightarrow> if i = cid then [r] else [] | _ \<Rightarrow> []) evs)"

lemma parts_of_snoc [simp]:
  "text_of (evs @ [e]) = text_of evs @ (case e of AgentTextDelta t \<Rightarrow> t | _ \<Rightarrow> [])"
  "calls_of (evs @ [e]) = calls_of evs @ (case e of AgentToolCall i n a \<Rightarrow> [(i, n, a)] | _ \<Rightarrow> [])"
  "results_of cid (evs @ [e]) =
     results_of cid evs @ (case e of AgentToolResult i n r err \<Rightarrow> if i = cid then [r] else [] | _ \<Rightarrow> [])"
  by (simp_all add: text_of_def calls_of_def results_of_def)

lemma parts_of_Nil [simp]: "text_of [] = []" "calls_of [] = []" "results_of cid [] = []"
  by (simp_all add: text_of_def calls_of_def results_of_def)

lemma drain_Nil [simp]: "drain [] = empty_run"
  by (simp add: drain_def)

lemma drain_snoc [simp]: "drain (evs @ [e]) = run_step e (drain evs)"
  by (simp add: drain_def)

lemma attach_result_calls [simp]:
  "map (\<lambda>l. (log_call_id l, log_name l, log_arguments l)) (attach_result cid res err ls) =
   map (\<lambda>l. (log_call_id l, log_name l, log_arguments l)) ls"
  by (induction ls) auto

lemma drain_text: "final_text (drain evs) = text_of evs"
proof (induction evs rule: rev_induct)
  case (snoc e evs)
  then show ?case by (cases e) auto
qed (simp add: empty_run_def)

lemma drain_calls:
  "map (\<lambda>l. (log_call_id l, log_name l, log_arguments l)) (tool_calls (drain evs)) = calls_of evs"
proof (induction evs rule: rev_induct)
  case (snoc e evs)
  then show ?case by (cases e) auto
qed (simp add: empty_run_def)

lemma drain_call_ids: "map log_call_id (tool_calls (drain evs)) = map fst (calls_of evs)"
  by (simp add: drain_calls [symmetric] comp_def)

lemma attach_result_other:
  "cid \<notin> set (map log_call_id ls) \<Longrightarrow> attach_result cid res err ls = ls"
  by (induction ls) auto

lemma attach_result_log:
  "distinct (map log_call_id ls) \<Longrightarrow> l' \<in> set (attach_result cid res err ls) \<Longrightarrow>
   \<exists>l \<in> set ls. log_call_id l' = log_call_id l \<and>
     log_result l' = (if log_call_id l = cid \<and> log_result l = None then Some res else log_result l)"
proof (induction ls)
  case (Cons a ls)
  show ?case
  proof (cases "l' \<in> set (attach_result cid res err ls) \<and> \<not> (log_call_id a = cid \<and> log_result a = None)")
    case True
    with Cons show ?thesis by auto
  next
    case False
    have "log_call_id l \<noteq> cid" if "l \<in> set ls" "log_call_id a = cid" for l
      using Cons.prems(1) that by (auto simp: image_iff)
    with False Cons.prems(2) show ?thesis by (fastforce split: if_splits)
  qed
qed simp

text \<open>A stream in which a tool result only follows the call it answers.\<close>

fun answered_after_call :: "string set \<Rightarrow> agent_event list \<Rightarrow> bool" where
  "answered_after_call seen [] = True"
| "answered_after_call seen (e # evs) =
     (case e of
        AgentToolCall i n a \<Rightarrow> answered_after_call (insert i seen) evs
      | AgentToolResult i n r err \<Rightarrow> i \<in> seen \<and> answered_after_call seen evs
      | _ \<Rightarrow> answered_after_call seen evs)"

lemma answered_after_call_snoc:
  "answered_after_call seen (evs @ [e]) \<longleftrightarrow> answered_after_call seen evs \<and>
     (case e of AgentToolResult i n r err \<Rightarrow> i \<in> seen \<union> fst ` set (calls_of evs) | _ \<Rightarrow> True)"
proof (induction evs arbitrary: seen)
  case Nil
  then show ?case by (cases e) auto
next
  case (Cons x evs)
  then show ?case
    by (cases x; cases e) (auto simp: calls_of_def)
qed

lemma results_of_none:
  "answered_after_call {} evs \<Longrightarrow> cid \<notin> fst ` set (calls_of evs) \<Longrightarrow> results_of cid evs = []"
proof (induction evs rule: rev_induct)
  case (snoc e evs)
  then show ?case by (cases e) (auto simp: answered_after_call_snoc)
qed simp

lemma hd_opt_append: "(if a @ b = [] then None else Some (hd (a @ b))) =
   (if a = [] then (if b = [] then None else Some (hd b)) else Some (hd a))"
  by simp

lemma drain_results:
  assumes "answered_after_call {} evs" "distinct (map fst (calls_of evs))"
    "l \<in> set (tool_calls (drain evs))"
  shows "log_result l =
    (if results_of (log_call_id l) evs = [] then None else Some (hd (results_of (log_call_id l) evs)))"
  using assms
proof (induction evs arbitrary: l rule: rev_induct)
  case Nil
  then show ?case by (simp add: empty_run_def)
next
  case (snoc e evs)
  have IH: "\<And>l. l \<in> set (tool_calls (drain evs)) \<Longrightarrow> log_result l =
      (if results_of (log_call_id l) evs = [] then None else Some (hd (results_of (log_call_id l) evs)))"
    using snoc.IH snoc.prems by (auto simp: answered_after_call_snoc)
  show ?case
  proof (cases e)
    case (AgentToolCall i n a)
    then have "i \<notin> fst ` set (calls_of evs)" using snoc.prems(2) by auto
    then have "results_of i evs = []"
      using snoc.prems(1) by (intro results_of_none) (auto simp: answered_after_call_snoc)
    with AgentToolCall snoc.prems(3) IH show ?thesis by auto
  next
    case (AgentToolResult i n r err)
    have "distinct (map log_call_id (tool_calls (drain evs)))"
      using snoc.prems(2) AgentToolResult by (simp add: drain_call_ids)
    from attach_result_log [OF this, of l i r err] snoc.prems(3) AgentToolResult
    obtain k where k: "k \<in> set (tool_calls (drain evs))" "log_call_id l = log_call_id k"
      "log_result l = (if log_call_id k = i \<and> log_result k = None then Some r else log_result k)"
      by auto
    then show ?thesis using AgentToolResult IH [OF k(1)] by (auto split: if_splits)
  qed (use snoc.prems(3) IH in auto)
qed


section \<open>The interface of a backend\<close>

locale agent_backend =
  fixes stream :: "'agent \<Rightarrow> 'msgs \<Rightarrow> invocation_context \<Rightarrow> agent_event list \<times> exn option"
    and run :: "'agent \<Rightarrow> 'msgs \<Rightarrow> invocation_context \<Rightarrow> exn + agent_run_result"
  assumes run_drains: "run a ms ctx = run_result (stream a ms ctx)"
begin

lemma run_text: "run a ms ctx = Inr r \<Longrightarrow> final_text r = text_of (fst (stream a ms ctx))"
  by (auto simp: run_drains run_result_def drain_text split: prod.splits option.splits)

lemma run_calls: "run a ms ctx = Inr r \<Longrightarrow>
    map (\<lambda>l. (log_call_id l, log_name l, log_arguments l)) (tool_calls r) = calls_of (fst (stream a ms ctx))"
  by (auto simp: run_drains run_result_def drain_calls split: prod.splits option.splits)

lemma run_raises: "run a ms ctx = Inl e \<longleftrightarrow> snd (stream a ms ctx) = Some e"
  by (auto simp: run_drains run_result_def split: prod.splits option.splits)

lemma run_results:
  "run a ms ctx = Inr r \<Longrightarrow> answered_after_call {} (fst (stream a ms ctx)) \<Longrightarrow>
   distinct (map fst (calls_of (fst (stream a ms ctx)))) \<Longrightarrow> l \<in> set (tool_calls r) \<Longrightarrow>
   log_result l = (let rs = results_of (log_call_id l) (fst (stream a ms ctx))
                   in if rs = [] then None else Some (hd rs))"
  using drain_results [of "fst (stream a ms ctx)" l]
  by (auto simp: run_drains run_result_def Let_def split: prod.splits option.splits)

lemma run_finish:
  "run a ms ctx = Inr r \<Longrightarrow> fst (stream a ms ctx) = evs @ [AgentFinish s u sid] \<Longrightarrow>
   stop_reason r = s \<and> usage r = u \<and> session_id r = sid"
  by (auto simp: run_drains run_result_def split: prod.splits option.splits)

end

end
