(* ===== verification/StreamV2.thy ===== *)
theory StreamV2
  imports ActionCycle AgentRun
begin

text \<open>
  The event loop of \<open>ManagedAgentBackendV2._stream_impl\<close>
  (\<open>backends/managed_agent_backend_v2.py\<close>): one definition per kind of SDK event, the loop over the
  stream and its \<open>finally\<close> block. A handler returns what it did, in order, the state after it and
  where control goes. The server is a parameter: the events it streams, the outcome of each POST
  given all POSTs so far, and whether the per-cycle \<open>wait_for\<close> of a cycle expires.
\<close>

section \<open>State, actions and control\<close>

datatype v2_action =
    Yield agent_event
  | Post "pydict list"
  | Invoke string string pydict
  | OpenStream string
  | CloseStream
  | CreateAgent pydict
  | CreateEnvironment string pydict
  | CreateSession pydict
  | DeleteSession string

datatype flow = Continue | Break | Raise exn

record run_policy =
  max_cycles :: int
  cycle_timeout_s :: int
  total_timeout_s :: int

definition default_policy :: run_policy where
  "default_policy = \<lparr>max_cycles = 20, cycle_timeout_s = 60, total_timeout_s = 300\<rparr>"

record v2_server =
  send_outcome :: "pydict list list \<Rightarrow> pydict list \<Rightarrow> exn option"
  cycle_expires :: "nat \<Rightarrow> bool"

record v2_state =
  events_by_id :: "(string, pending_call) dict"
  yielded_call_ids :: "string list"
  usage_accumulator :: "(string, int) dict"
  seen_unknown_event_types :: "string list"
  cycle_count :: nat
  finished :: bool
  posted :: "pydict list list"

definition v2_init :: v2_state where
  "v2_init = \<lparr>events_by_id = [], yielded_call_ids = [], usage_accumulator = [],
     seen_unknown_event_types = [], cycle_count = 0, finished = False, posted = []\<rparr>"

text \<open>What one invocation fixes: policy, server, the effective tools, context and session id.\<close>

record v2_run =
  policy :: run_policy
  server :: v2_server
  effective_tools :: tool_registry
  context_of :: invocation_context
  session :: string

type_synonym handled = "v2_action list \<times> v2_state \<times> flow"

section \<open>POSTs and finishes\<close>

definition try_send :: "v2_run \<Rightarrow> v2_state \<Rightarrow> pydict list \<Rightarrow> exn option" where
  "try_send R st events = send_outcome (server R) (posted st) events"

definition note_post :: "pydict list \<Rightarrow> v2_state \<Rightarrow> v2_state" where
  "note_post events st = st\<lparr>posted := posted st @ [events]\<rparr>"

definition interrupt_events :: "pydict list" where
  "interrupt_events = [[(''type'', PStr ''user.interrupt'')]]"

text \<open>\<open>_send_interrupt_soft\<close>: whatever the POST raises is swallowed.\<close>

definition send_interrupt_soft :: "v2_state \<Rightarrow> v2_action list \<times> v2_state" where
  "send_interrupt_soft st = ([Post interrupt_events], note_post interrupt_events st)"

definition usage_dict :: "v2_state \<Rightarrow> pydict" where
  "usage_dict st = map (\<lambda>(k, n). (k, PInt n)) (usage_accumulator st)"

definition finish_event :: "v2_run \<Rightarrow> v2_state \<Rightarrow> string \<Rightarrow> agent_event" where
  "finish_event R st reason = AgentFinish reason (usage_dict st) (Some (session R))"

definition finish_now :: "v2_run \<Rightarrow> v2_state \<Rightarrow> string \<Rightarrow> handled" where
  "finish_now R st reason = ([Yield (finish_event R st reason)], st\<lparr>finished := True\<rparr>, Break)"

definition interrupt_and_finish :: "v2_run \<Rightarrow> v2_state \<Rightarrow> string \<Rightarrow> handled" where
  "interrupt_and_finish R st reason =
     (let (acts, st1) = send_interrupt_soft st
      in (acts @ [Yield (finish_event R st1 reason)], st1\<lparr>finished := True\<rparr>, Break))"

section \<open>The handlers\<close>

definition on_message :: "sdk_event \<Rightarrow> v2_state \<Rightarrow> handled" where
  "on_message ev st =
     (concat (map (\<lambda>b. if block_type b = Some ''text''
                       then (case block_text b of
                               Some (c # cs) \<Rightarrow> [Yield (AgentTextDelta (c # cs))]
                             | _ \<Rightarrow> [])
                       else []) (evt_content ev)),
      st, Continue)"

definition build_pending_tool_call ::
    "sdk_event \<Rightarrow> string option \<Rightarrow> string \<Rightarrow> string \<Rightarrow> exn + pending_call" where
  "build_pending_tool_call ev t i name =
     (if t = Some ENVELOPE_CUSTOM_TOOL_USE
      then Inr (CustomToolCall i name (input_arguments (evt_input ev)))
      else if t = Some ENVELOPE_SERVER_TOOL_USE then Inr (ServerToolCall i name)
      else if t = Some ENVELOPE_MCP_TOOL_USE then Inr (McpToolCall i name)
      else Inl (TypeError (''ManagedAgentBackendV2: unknown tool-use envelope '' @ py_repr (opt_str t))))"

definition call_event :: "pending_call \<Rightarrow> agent_event" where
  "call_event c = AgentToolCall (event_id c) (pending_name c)
     (case c of CustomToolCall i n args \<Rightarrow> args | _ \<Rightarrow> [])"

definition missing_id_error :: "sdk_event \<Rightarrow> exn" where
  "missing_id_error ev = RuntimeError (''ManagedAgentBackendV2: tool-use event ('' @
     py_str (opt_str (evt_type ev)) @ '') arrived without an id (name='' @
     repr_str (name_or_empty ev) @ ''); cannot respond - aborting run'')"

definition on_tool_use :: "sdk_event \<Rightarrow> v2_state \<Rightarrow> handled" where
  "on_tool_use ev st =
     (case evt_id ev of
        Some (c # cs) \<Rightarrow>
          (let i = c # cs; name = name_or_empty ev
           in case build_pending_tool_call ev (evt_type ev) i name of
                Inl e \<Rightarrow> ([], st, Raise e)
              | Inr call \<Rightarrow>
                  ([Yield (call_event call)],
                   st\<lparr>events_by_id := dict_set i call (events_by_id st),
                      yielded_call_ids := List.insert i (yielded_call_ids st)\<rparr>,
                   Continue))
      | _ \<Rightarrow> ([], st, Raise (missing_id_error ev)))"

text \<open>Calls not announced before are announced now.\<close>

fun announce_calls :: "pending_call list \<Rightarrow> v2_state \<Rightarrow> v2_action list \<times> v2_state" where
  "announce_calls [] st = ([], st)"
| "announce_calls (c # cs) st =
     (if event_id c \<in> set (yielded_call_ids st) then announce_calls cs st
      else (let (acts, st') = announce_calls cs
                  (st\<lparr>yielded_call_ids := List.insert (event_id c) (yielded_call_ids st)\<rparr>)
            in (Yield (call_event c) # acts, st')))"

text \<open>One reply: a custom tool that is registered is run; the caller sees the decoded reply, or a
  synthetic confirmation.\<close>

definition reply_actions :: "v2_run \<Rightarrow> pending_call \<Rightarrow> v2_action list" where
  "reply_actions R c =
     (case c of
        CustomToolCall i n args \<Rightarrow>
          (let reply = execute_and_build_reply i n args (effective_tools R) (context_of R)
           in (case registry_try_get (effective_tools R) n of
                 None \<Rightarrow> [] | Some t \<Rightarrow> [Invoke i n args]) @
              [Yield (AgentToolResult i n (PDict (decode_custom_result reply)) (decode_custom_error reply))])
      | ServerToolCall i n \<Rightarrow> [Yield (AgentToolResult i n (PDict [(''confirmed'', PBool True)]) None)]
      | McpToolCall i n \<Rightarrow> [Yield (AgentToolResult i n (PDict [(''confirmed'', PBool True)]) None)])"

definition pop_executed :: "requires_action_cycle \<Rightarrow> v2_state \<Rightarrow> v2_state" where
  "pop_executed cyc st = st\<lparr>events_by_id := fold dict_pop (executed_ids cyc) (events_by_id st)\<rparr>"

text \<open>The batch is sent; a refused one ends the run, after an interrupt.\<close>

definition send_round :: "v2_run \<Rightarrow> requires_action_cycle \<Rightarrow> pydict list \<Rightarrow> v2_state \<Rightarrow> handled" where
  "send_round R cyc replies st =
     (let (batches, outcome) = send_replies (try_send R st) cyc replies;
          st1 = fold note_post batches st;
          acts = map Post batches
      in case outcome of
           Inr cyc' \<Rightarrow> (acts, pop_executed cyc' st1, Continue)
         | Inl (BadRequestError m) \<Rightarrow>
             (case interrupt_and_finish R st1 ''bad_request'' of
                (acts1, st2, fl) \<Rightarrow> (acts @ acts1, st2, fl))
         | Inl (OutOfCycleReplyError i ids) \<Rightarrow>
             (case interrupt_and_finish R st1 ''out_of_cycle_reply'' of
                (acts1, st2, fl) \<Rightarrow> (acts @ acts1, st2, fl))
         | Inl e \<Rightarrow> (acts, st1, Raise e))"

definition on_requires_action :: "v2_run \<Rightarrow> sdk_event \<Rightarrow> sdk_stop \<Rightarrow> v2_state \<Rightarrow> handled" where
  "on_requires_action R ev stop st =
     (if max_cycles (policy R) \<le> int (cycle_count st)
      then interrupt_and_finish R st ''policy_max_cycles_exhausted''
      else
        (let n = Suc (cycle_count st);
             st1 = st\<lparr>cycle_count := n\<rparr>;
             cyc = new_cycle (case evt_id ev of Some (c # cs) \<Rightarrow> c # cs
                                              | _ \<Rightarrow> ''cycle-'' @ dec_nat n) (stop_event_ids stop)
         in case (if cycle_expires (server R) n then Inl (TimeoutError [])
                  else calls cyc (events_by_id st1)) of
              Inl exc \<Rightarrow> ([], st1, Continue)
            | Inr cs \<Rightarrow>
                (let (acts1, st2) = announce_calls cs st1;
                     acts2 = concat (map (reply_actions R) cs);
                     replies = map (build_reply (effective_tools R) (context_of R)) cs
                 in case send_round R cyc replies st2 of
                      (acts3, st3, fl) \<Rightarrow> (acts1 @ acts2 @ acts3, st3, fl))))"

definition on_idle :: "v2_run \<Rightarrow> sdk_event \<Rightarrow> v2_state \<Rightarrow> handled" where
  "on_idle R ev st =
     (let st_type = (case evt_stop_reason ev of None \<Rightarrow> None | Some stop \<Rightarrow> stop_type stop)
      in if st_type = Some ''requires_action''
         then on_requires_action R ev (the (evt_stop_reason ev)) st
         else if st_type = Some ''end_turn'' then finish_now R st ''end_turn''
         else finish_now R st (case st_type of Some (c # cs) \<Rightarrow> c # cs | _ \<Rightarrow> ''unknown''))"

definition on_terminated :: "v2_run \<Rightarrow> v2_state \<Rightarrow> handled" where
  "on_terminated R st = finish_now R st ''terminated''"

definition on_session_error :: "v2_run \<Rightarrow> v2_state \<Rightarrow> handled" where
  "on_session_error R st = finish_now R st ''error''"

definition usage_keys :: "string list" where
  "usage_keys = [''input_tokens'', ''output_tokens'', ''cache_creation_input_tokens'',
     ''cache_read_input_tokens'']"

definition add_usage :: "pydict \<Rightarrow> (string, int) dict \<Rightarrow> (string, int) dict" where
  "add_usage model_usage acc =
     fold (\<lambda>key acc. case as_int (get_none model_usage key) of
             None \<Rightarrow> acc
           | Some v \<Rightarrow> dict_set key ((case dict_get acc key of None \<Rightarrow> 0 | Some n \<Rightarrow> n) + v) acc)
       usage_keys acc"

definition on_model_request_end :: "sdk_event \<Rightarrow> v2_state \<Rightarrow> handled" where
  "on_model_request_end ev st =
     ([], (case evt_model_usage ev of
             None \<Rightarrow> st
           | Some mu \<Rightarrow> st\<lparr>usage_accumulator := add_usage mu (usage_accumulator st)\<rparr>), Continue)"

definition on_unknown :: "sdk_event \<Rightarrow> v2_state \<Rightarrow> handled" where
  "on_unknown ev st =
     ([], (case evt_type ev of
             Some (c # cs) \<Rightarrow>
               st\<lparr>seen_unknown_event_types := List.insert (c # cs) (seen_unknown_event_types st)\<rparr>
           | _ \<Rightarrow> st), Continue)"

section \<open>Dispatch and loop\<close>

definition is_tool_use :: "string option \<Rightarrow> bool" where
  "is_tool_use t = (t \<in> Some ` set [ENVELOPE_CUSTOM_TOOL_USE, ENVELOPE_SERVER_TOOL_USE,
     ENVELOPE_MCP_TOOL_USE])"

definition on_event :: "v2_run \<Rightarrow> sdk_event \<Rightarrow> v2_state \<Rightarrow> handled" where
  "on_event R ev st =
     (let t = evt_type ev
      in if t = Some ''agent.message'' then on_message ev st
         else if is_tool_use t then on_tool_use ev st
         else if t \<in> Some ` set IDLE_EVENT_TYPES then on_idle R ev st
         else if t \<in> Some ` set TERMINATED_EVENT_TYPES then on_terminated R st
         else if t = Some ''session.error'' then on_session_error R st
         else if t = Some ''span.model_request_end'' then on_model_request_end ev st
         else if t \<in> Some ` set KNOWN_NOOP_EVENT_TYPES then ([], st, Continue)
         else on_unknown ev st)"

text \<open>A stream that ended without a terminal event still gets a finish.\<close>

definition end_of_stream :: "v2_run \<Rightarrow> v2_state \<Rightarrow> v2_action list" where
  "end_of_stream R st = (if finished st then [] else [Yield (finish_event R st ''end_turn'')])"

text \<open>The loop over the stream; \<open>stream_end\<close> is the exception the stream ends with, if any.\<close>

fun event_loop :: "v2_run \<Rightarrow> exn option \<Rightarrow> sdk_event list \<Rightarrow> v2_state \<Rightarrow> v2_action list \<times> exn option" where
  "event_loop R stream_end [] st =
     (case stream_end of
        Some e \<Rightarrow> ([], Some e)
      | None \<Rightarrow> (end_of_stream R st, None))"
| "event_loop R stream_end (ev # evs) st =
     (case on_event R ev st of
        (acts, st', Continue) \<Rightarrow>
          (case event_loop R stream_end evs st' of (acts', e) \<Rightarrow> (acts @ acts', e))
      | (acts, st', Break) \<Rightarrow>
          (acts @ end_of_stream R st', None)
      | (acts, st', Raise e) \<Rightarrow> (acts, Some e))"

text \<open>The body of the \<open>try\<close>: the user's messages are posted, then the stream is consumed.\<close>

definition stream_body ::
    "v2_run \<Rightarrow> pydict list \<Rightarrow> exn option \<Rightarrow> sdk_event list \<Rightarrow> v2_action list \<times> exn option" where
  "stream_body R user_events stream_end evs =
     (case try_send R v2_init user_events of
        Some e \<Rightarrow> ([Post user_events], Some e)
      | None \<Rightarrow>
          (case event_loop R stream_end evs (note_post user_events v2_init) of
             (acts, e) \<Rightarrow> (Post user_events # acts, e)))"

definition finally_actions :: "string option \<Rightarrow> bool \<Rightarrow> v2_action list" where
  "finally_actions created delete_on_finish =
     CloseStream # (case created of
        Some (c # cs) \<Rightarrow> if delete_on_finish then [DeleteSession (c # cs)] else []
      | _ \<Rightarrow> [])"

end
