(* ===== verification/StreamV2Facts.thy ===== *)
theory StreamV2Facts
  imports StreamV2
begin

text \<open>
  What the event loop of \<open>StreamV2\<close> does to its state and its trace: the invariant of the buffer of
  pending calls, the outcome of a \<open>requires_action\<close> round case by case, the case analysis of one
  event (\<open>on_event_cases\<close>), and by induction over the stream what is yielded and posted.
\<close>

declare end_of_stream_def [simp] on_terminated_def [simp] on_session_error_def [simp]

section \<open>Reading a trace\<close>

definition yields_of :: "v2_action list \<Rightarrow> agent_event list" where
  "yields_of acts = concat (map (\<lambda>a. case a of Yield e \<Rightarrow> [e] | _ \<Rightarrow> []) acts)"

definition posts_of :: "v2_action list \<Rightarrow> pydict list list" where
  "posts_of acts = concat (map (\<lambda>a. case a of Post b \<Rightarrow> [b] | _ \<Rightarrow> []) acts)"

lemma yields_of_simps [simp]:
  "yields_of [] = []" "yields_of (xs @ ys) = yields_of xs @ yields_of ys"
  "yields_of (Yield e # xs) = e # yields_of xs" "yields_of (Post b # xs) = yields_of xs"
  "yields_of (Invoke i n a # xs) = yields_of xs"
  by (simp_all add: yields_of_def)

lemma posts_of_simps [simp]:
  "posts_of [] = []" "posts_of (xs @ ys) = posts_of xs @ posts_of ys"
  "posts_of (Yield e # xs) = posts_of xs" "posts_of (Post b # xs) = b # posts_of xs"
  "posts_of (Invoke i n a # xs) = posts_of xs"
  by (simp_all add: posts_of_def)

lemma posts_map_Post [simp]: "yields_of (map Post bs) = []" "posts_of (map Post bs) = bs"
  by (induction bs) auto

lemma yields_of_message: "posts_of (fst (on_message ev st)) = []"
  "\<forall>e \<in> set (yields_of (fst (on_message ev st))). \<exists>t. t \<noteq> [] \<and> e = AgentTextDelta t"
  by (auto simp: on_message_def yields_of_def posts_of_def split: option.splits list.splits if_splits)

lemma yields_reply_actions [simp]:
  "yields_of (reply_actions R c) = [AgentToolResult (event_id c) (pending_name c)
      (case c of CustomToolCall i n args \<Rightarrow>
          PDict (decode_custom_result (execute_and_build_reply i n args (effective_tools R) (context_of R)))
        | _ \<Rightarrow> PDict [(''confirmed'', PBool True)])
      (case c of CustomToolCall i n args \<Rightarrow>
          decode_custom_error (execute_and_build_reply i n args (effective_tools R) (context_of R))
        | _ \<Rightarrow> None)]"
  "posts_of (reply_actions R c) = []"
  by (cases c; simp add: reply_actions_def Let_def split: option.split)+


section \<open>The buffer invariant\<close>

definition v2_inv :: "v2_state \<Rightarrow> bool" where
  "v2_inv st = (buffer_ok (events_by_id st) \<and>
     set (dict_keys (events_by_id st)) \<subseteq> set (yielded_call_ids st))"

lemma v2_inv_init [simp]: "v2_inv v2_init"
  by (simp add: v2_inv_def v2_init_def)

lemma v2_inv_frame [simp]:
  "v2_inv (st\<lparr>cycle_count := n\<rparr>) = v2_inv st" "v2_inv (st\<lparr>usage_accumulator := u\<rparr>) = v2_inv st"
  "v2_inv (st\<lparr>seen_unknown_event_types := s\<rparr>) = v2_inv st" "v2_inv (st\<lparr>finished := b\<rparr>) = v2_inv st"
  "v2_inv (note_post evs st) = v2_inv st"
  by (simp_all add: v2_inv_def note_post_def)

lemma note_post_simps [simp]:
  "events_by_id (note_post evs st) = events_by_id st" "yielded_call_ids (note_post evs st) = yielded_call_ids st"
  "usage_accumulator (note_post evs st) = usage_accumulator st" "cycle_count (note_post evs st) = cycle_count st"
  "finished (note_post evs st) = finished st" "posted (note_post evs st) = posted st @ [evs]"
  "seen_unknown_event_types (note_post evs st) = seen_unknown_event_types st"
  by (simp_all add: note_post_def)

lemma buffer_ok_pops: "buffer_ok buf \<Longrightarrow> buffer_ok (fold dict_pop ids buf)"
  by (induction ids arbitrary: buf) (auto intro: buffer_ok_pop)

lemma keys_pops: "set (dict_keys (fold dict_pop ids buf)) = set (dict_keys buf) - set ids"
proof (induction ids arbitrary: buf)
  case (Cons i ids)
  have "set (dict_keys (dict_pop i buf)) = set (dict_keys buf) - {i}"
    by (auto simp: delete_keys)
  with Cons show ?case by auto
qed simp

lemma v2_inv_pop: "v2_inv st \<Longrightarrow> v2_inv (pop_executed cyc st)"
  using keys_pops [of "executed_ids cyc" "events_by_id st"]
  by (auto simp: v2_inv_def pop_executed_def buffer_ok_pops)

lemma announce_none:
  "set (map event_id cs) \<subseteq> set (yielded_call_ids st) \<Longrightarrow> announce_calls cs st = ([], st)"
  by (induction cs) auto

definition requested_calls :: "v2_state \<Rightarrow> sdk_stop \<Rightarrow> pending_call list" where
  "requested_calls st stop =
     map (\<lambda>i. the (dict_get (events_by_id st) i)) (sort (remdups (stop_event_ids stop)))"

definition buffered :: "v2_state \<Rightarrow> sdk_stop \<Rightarrow> bool" where
  "buffered st stop = list_all (\<lambda>i. dict_get (events_by_id st) i \<noteq> None) (stop_event_ids stop)"

definition cycle_replies :: "v2_run \<Rightarrow> v2_state \<Rightarrow> sdk_stop \<Rightarrow> pydict list" where
  "cycle_replies R st stop =
     map (build_reply (effective_tools R) (context_of R)) (requested_calls st stop)"

lemma requested_ids_sorted:
  assumes "v2_inv st" "buffered st stop"
  shows "map event_id (requested_calls st stop) = sort (remdups (stop_event_ids stop))"
proof -
  have "calls (new_cycle [] (stop_event_ids stop)) (events_by_id st) = Inr (requested_calls st stop)"
    using assms(2) by (simp add: calls_Inr new_cycle_def requested_calls_def buffered_def list_all_iff)
  from calls_ids [OF _ this] assms(1) show ?thesis by (simp add: v2_inv_def new_cycle_def)
qed

lemma reply_ids: "v2_inv st \<Longrightarrow> buffered st stop \<Longrightarrow>
    map reply_id (cycle_replies R st stop) = map PStr (sort (remdups (stop_event_ids stop)))"
  by (subst requested_ids_sorted [symmetric]) (simp_all add: cycle_replies_def comp_def)

text \<open>What a round does, case by case.\<close>

lemma round_skipped:
  assumes "int (cycle_count st) < max_cycles (policy R)"
    "cycle_expires (server R) (Suc (cycle_count st)) \<or> \<not> buffered st stop"
  shows "on_requires_action R ev stop st = ([], st\<lparr>cycle_count := Suc (cycle_count st)\<rparr>, Continue)"
proof -
  have miss: "\<exists>e. calls (new_cycle cid (stop_event_ids stop)) (events_by_id st) = Inl e"
    if "\<not> buffered st stop" for cid
    using that by (auto simp: calls_def new_cycle_def buffered_def list_all_iff Let_def filter_empty_conv)
  show ?thesis
  proof (cases "cycle_expires (server R) (Suc (cycle_count st))")
    case True
    with assms(1) show ?thesis by (simp add: on_requires_action_def Let_def)
  next
    case False
    with assms(2) obtain e where "calls (new_cycle (case evt_id ev of Some (c # cs) \<Rightarrow> c # cs
        | _ \<Rightarrow> ''cycle-'' @ dec_nat (Suc (cycle_count st))) (stop_event_ids stop)) (events_by_id st) = Inl e"
      using miss by blast
    with False assms(1) show ?thesis by (simp add: on_requires_action_def Let_def)
  qed
qed

lemma round_exhausted:
  "max_cycles (policy R) \<le> int (cycle_count st) \<Longrightarrow>
   on_requires_action R ev stop st = interrupt_and_finish R st ''policy_max_cycles_exhausted''"
  by (simp add: on_requires_action_def)

definition round_acts :: "v2_run \<Rightarrow> v2_state \<Rightarrow> sdk_stop \<Rightarrow> v2_action list" where
  "round_acts R st stop =
     concat (map (reply_actions R) (requested_calls st stop)) @ [Post (cycle_replies R st stop)]"

lemma interrupt_and_finish_eq:
  "interrupt_and_finish R st reason =
     ([Post interrupt_events, Yield (finish_event R st reason)],
      note_post interrupt_events st\<lparr>finished := True\<rparr>, Break)"
  by (simp add: interrupt_and_finish_def send_interrupt_soft_def finish_event_def usage_dict_def)

lemma round_answered:
  assumes inv: "v2_inv st" and lt: "int (cycle_count st) < max_cycles (policy R)"
    and ne: "\<not> cycle_expires (server R) (Suc (cycle_count st))" and buf: "buffered st stop"
  shows "\<exists>ids. set ids = set (stop_event_ids stop) \<and> on_requires_action R ev stop st =
    (let st1 = note_post (cycle_replies R st stop) (st\<lparr>cycle_count := Suc (cycle_count st)\<rparr>)
     in case try_send R st (cycle_replies R st stop) of
          None \<Rightarrow> (round_acts R st stop, st1\<lparr>events_by_id := fold dict_pop ids (events_by_id st)\<rparr>, Continue)
        | Some (BadRequestError m) \<Rightarrow>
            (case interrupt_and_finish R st1 ''bad_request'' of
               (acts, st2, fl) \<Rightarrow> (round_acts R st stop @ acts, st2, fl))
        | Some (OutOfCycleReplyError i is) \<Rightarrow>
            (case interrupt_and_finish R st1 ''out_of_cycle_reply'' of
               (acts, st2, fl) \<Rightarrow> (round_acts R st stop @ acts, st2, fl))
        | Some e \<Rightarrow> (round_acts R st stop, st1, Raise e))"
proof -
  define cyc where "cyc = new_cycle (case evt_id ev of Some (c # cs) \<Rightarrow> c # cs
      | _ \<Rightarrow> ''cycle-'' @ dec_nat (Suc (cycle_count st))) (stop_event_ids stop)"
  let ?cs = "requested_calls st stop" and ?st = "st\<lparr>cycle_count := Suc (cycle_count st)\<rparr>"
  let ?rs = "cycle_replies R st stop"
  have bok: "buffer_ok (events_by_id st)" using inv by (simp add: v2_inv_def)
  have cs: "calls cyc (events_by_id st) = Inr ?cs"
    using buf by (simp add: calls_Inr cyc_def new_cycle_def requested_calls_def buffered_def list_all_iff)
  have sub: "set (map event_id ?cs) \<subseteq> set (yielded_call_ids ?st)"
    unfolding requested_ids_sorted [OF inv buf]
    using buf inv by (force simp: v2_inv_def buffered_def list_all_iff dest: map_of_SomeD)
  have send: "send_replies post cyc ?rs = ([?rs], case post ?rs of
        Some e \<Rightarrow> Inl e | None \<Rightarrow> Inr (add_executed cyc ?rs))" for post
    unfolding cycle_replies_def by (rule cycle_answers_requested(1) [OF bok cs])
  have ts: "try_send R ?st ?rs = try_send R st ?rs" by (simp add: try_send_def)
  have "{s. \<exists>r \<in> set ?rs. reply_id r = PStr s} = set (stop_event_ids stop)"
  proof -
    have "reply_id ` set ?rs = PStr ` set (stop_event_ids stop)"
      using reply_ids [OF inv buf, of R] by (metis list.set_map set_remdups set_sort)
    then show ?thesis by (auto simp: image_iff) (metis image_eqI image_iff pyval.inject(4))+
  qed
  then have ex: "set (executed_ids (add_executed cyc ?rs)) = set (stop_event_ids stop)"
    by (simp add: set_add_executed cyc_def new_cycle_def)
  show ?thesis
    using lt ne by (intro exI [of _ "executed_ids (add_executed cyc ?rs)"] conjI ex)
      (simp add: on_requires_action_def Let_def cyc_def [symmetric] cs announce_none [OF sub]
        cycle_replies_def [symmetric] send_round_def send ts round_acts_def interrupt_and_finish_eq pop_executed_def
        split: option.split exn.split)
qed


section \<open>What one event does\<close>

lemma build_pending_id: "build_pending_tool_call ev t i name = Inr c \<Longrightarrow> event_id c = i \<and> pending_name c = name"
  by (auto simp: build_pending_tool_call_def split: if_splits)

text \<open>The pending call that a tool-use event announces, under the event's own id.\<close>

definition call_of :: "sdk_event \<Rightarrow> pending_call \<Rightarrow> bool" where
  "call_of ev c \<longleftrightarrow> evt_id ev = Some (event_id c) \<and>
     build_pending_tool_call ev (evt_type ev) (event_id c) (name_or_empty ev) = Inr c"

lemma on_message_texts:
  "\<exists>ts. on_message ev st = (map (\<lambda>t. Yield (AgentTextDelta t)) ts, st, Continue) \<and> [] \<notin> set ts"
proof -
  have "\<exists>ts. concat (map (\<lambda>b. if block_type b = Some ''text''
       then (case block_text b of Some (c # cs) \<Rightarrow> [Yield (AgentTextDelta (c # cs))] | _ \<Rightarrow> [])
       else []) bs) = map (\<lambda>t. Yield (AgentTextDelta t)) ts \<and> [] \<notin> set ts" for bs
  proof (induction bs)
    case (Cons b bs)
    then obtain ts where ts: "concat (map (\<lambda>b. if block_type b = Some ''text''
       then (case block_text b of Some (c # cs) \<Rightarrow> [Yield (AgentTextDelta (c # cs))] | _ \<Rightarrow> [])
       else []) bs) = map (\<lambda>t. Yield (AgentTextDelta t)) ts" "[] \<notin> set ts" by blast
    show ?case
    proof (cases "\<exists>c cs. block_type b = Some ''text'' \<and> block_text b = Some (c # cs)")
      case True
      then obtain c cs where "block_type b = Some ''text''" "block_text b = Some (c # cs)" by blast
      with ts show ?thesis by (intro exI [of _ "(c # cs) # ts"]) simp
    next
      case False
      with ts show ?thesis by (intro exI [of _ ts]) (auto split: option.split list.split)
    qed
  qed simp
  then show ?thesis by (auto simp: on_message_def)
qed

text \<open>The \<open>requires_action\<close> round an event opens.\<close>

definition round_of :: "sdk_event \<Rightarrow> sdk_stop option" where
  "round_of ev =
     (if evt_type ev \<in> Some ` set IDLE_EVENT_TYPES
      then (case evt_stop_reason ev of
              Some stop \<Rightarrow> if stop_type stop = Some ''requires_action'' then Some stop else None
            | None \<Rightarrow> None)
      else None)"

lemma on_event_cases [consumes 2, case_names texts called no_id quiet ended exhausted skipped answered refused raised]:
  assumes inv: "v2_inv st" and on: "on_event R ev st = (acts, st', fl)"
  obtains
    (texts) ts where "acts = map (\<lambda>t. Yield (AgentTextDelta t)) ts" "[] \<notin> set ts" "st' = st" "fl = Continue"
      "evt_type ev = Some ''agent.message''"
  | (called) c where "acts = [Yield (call_event c)]" "fl = Continue" "evt_id ev = Some (event_id c)"
      "st' = st\<lparr>events_by_id := dict_set (event_id c) c (events_by_id st),
             yielded_call_ids := List.insert (event_id c) (yielded_call_ids st)\<rparr>" "call_of ev c"
  | (no_id) e where "acts = []" "st' = st" "fl = Raise e"
  | (quiet) "acts = []" "fl = Continue" "events_by_id st' = events_by_id st"
      "yielded_call_ids st' = yielded_call_ids st" "cycle_count st' = cycle_count st"
      "posted st' = posted st" "finished st' = finished st"
      "evt_type ev = Some ''span.model_request_end'' \<or> usage_accumulator st' = usage_accumulator st"
  | (ended) reason where "finish_now R st reason = (acts, st', fl)"
  | (exhausted) "max_cycles (policy R) \<le> int (cycle_count st)"
      "interrupt_and_finish R st ''policy_max_cycles_exhausted'' = (acts, st', fl)"
  | (skipped) "int (cycle_count st) < max_cycles (policy R)" "acts = []"
      "st' = st\<lparr>cycle_count := Suc (cycle_count st)\<rparr>" "fl = Continue"
  | (answered) stop ids where "round_of ev = Some stop"
      "int (cycle_count st) < max_cycles (policy R)" "buffered st stop"
      "set ids = set (stop_event_ids stop)" "acts = round_acts R st stop" "fl = Continue"
      "st' = note_post (cycle_replies R st stop) (st\<lparr>cycle_count := Suc (cycle_count st)\<rparr>)
         \<lparr>events_by_id := fold dict_pop ids (events_by_id st)\<rparr>"
  | (refused) stop reason acts' where "round_of ev = Some stop"
      "int (cycle_count st) < max_cycles (policy R)" "buffered st stop"
      "interrupt_and_finish R
         (note_post (cycle_replies R st stop) (st\<lparr>cycle_count := Suc (cycle_count st)\<rparr>)) reason =
         (acts', st', fl)"
      "acts = round_acts R st stop @ acts'"
  | (raised) stop e where "round_of ev = Some stop"
      "int (cycle_count st) < max_cycles (policy R)" "buffered st stop"
      "acts = round_acts R st stop" "fl = Raise e"
      "st' = note_post (cycle_replies R st stop) (st\<lparr>cycle_count := Suc (cycle_count st)\<rparr>)"
proof -
  let ?t = "evt_type ev"
  consider "?t = Some ''agent.message''" | "?t \<noteq> Some ''agent.message''" "is_tool_use ?t"
    | "?t \<noteq> Some ''agent.message''" "\<not> is_tool_use ?t" "?t \<in> Some ` set IDLE_EVENT_TYPES"
    | "?t \<noteq> Some ''agent.message''" "\<not> is_tool_use ?t" "?t \<notin> Some ` set IDLE_EVENT_TYPES"
    by blast
  then show thesis
  proof cases
    case 1
    with on on_message_texts [of ev st] texts show thesis by (auto simp: on_event_def)
  next
    case 2
    then have on': "on_tool_use ev st = (acts, st', fl)" using on by (simp add: on_event_def)
    show thesis
    proof (cases "\<exists>c cs d. evt_id ev = Some (c # cs) \<and>
        build_pending_tool_call ev ?t (c # cs) (name_or_empty ev) = Inr d")
      case True
      then obtain c cs d where d: "evt_id ev = Some (c # cs)"
        "build_pending_tool_call ev ?t (c # cs) (name_or_empty ev) = Inr d" by blast
      with on' build_pending_id [OF d(2)] called [of d] show thesis by (simp add: on_tool_use_def call_of_def Let_def)
    next
      case False
      with on' no_id show thesis
        by (auto simp: on_tool_use_def Let_def split: option.splits list.splits sum.splits)
    qed
  next
    case 3
    then have on': "on_idle R ev st = (acts, st', fl)" using on by (simp add: on_event_def)
    show thesis
    proof (cases "\<exists>stop. evt_stop_reason ev = Some stop \<and> stop_type stop = Some ''requires_action''")
      case True
      then obtain stop where stop: "round_of ev = Some stop"
        and on'': "on_requires_action R ev stop st = (acts, st', fl)"
        using on' 3 by (auto simp: on_idle_def round_of_def)
      consider "max_cycles (policy R) \<le> int (cycle_count st)"
        | "int (cycle_count st) < max_cycles (policy R)"
          "cycle_expires (server R) (Suc (cycle_count st)) \<or> \<not> buffered st stop"
        | "int (cycle_count st) < max_cycles (policy R)"
          "\<not> cycle_expires (server R) (Suc (cycle_count st))" "buffered st stop" by linarith
      then show thesis
      proof cases
        case 1
        with on'' round_exhausted [OF 1, of ev stop] exhausted show thesis by simp
      next
        case 2
        with on'' round_skipped [OF 2, of ev] skipped show thesis by simp
      next
        case 3
        obtain ids where ids: "set ids = set (stop_event_ids stop)" "(acts, st', fl) =
    (let st1 = note_post (cycle_replies R st stop) (st\<lparr>cycle_count := Suc (cycle_count st)\<rparr>)
     in case try_send R st (cycle_replies R st stop) of
          None \<Rightarrow> (round_acts R st stop, st1\<lparr>events_by_id := fold dict_pop ids (events_by_id st)\<rparr>, Continue)
        | Some (BadRequestError m) \<Rightarrow>
            (case interrupt_and_finish R st1 ''bad_request'' of
               (acts, st2, fl) \<Rightarrow> (round_acts R st stop @ acts, st2, fl))
        | Some (OutOfCycleReplyError i is) \<Rightarrow>
            (case interrupt_and_finish R st1 ''out_of_cycle_reply'' of
               (acts, st2, fl) \<Rightarrow> (round_acts R st stop @ acts, st2, fl))
        | Some e \<Rightarrow> (round_acts R st stop, st1, Raise e))"
          using round_answered [OF inv 3, of ev] on'' by metis
        note a = answered [OF stop 3(1,3) ids(1)]
        note b = refused [OF stop 3(1,3)]
        note c = raised [OF stop 3(1,3)]
        show thesis
        proof (cases "try_send R st (cycle_replies R st stop)")
          case None
          with ids(2) a show thesis by simp
        next
          case (Some e)
          with ids(2) b c show thesis by (cases e) (auto split: prod.splits)
        qed
      qed
    next
      case False
      then obtain reason where "finish_now R st reason = (acts, st', fl)"
        using on' by (auto simp: on_idle_def Let_def split: if_splits option.splits)
      then show thesis by (rule ended)
    qed
  next
    case 4
    show thesis
    proof (cases "?t \<in> Some ` set TERMINATED_EVENT_TYPES \<or> ?t = Some ''session.error''")
      case True
      with 4 on ended show thesis by (auto simp: on_event_def Let_def split: if_splits)
    next
      case False
      with 4 on quiet show thesis
        by (auto simp: on_event_def Let_def on_model_request_end_def on_unknown_def
            split: if_splits option.splits list.splits)
    qed
  qed
qed

section \<open>The loop\<close>

lemma on_event_inv:
  assumes "v2_inv st" "on_event R ev st = (acts, st', Continue)"
  shows "v2_inv st'"
  using assms
proof (cases rule: on_event_cases)
  case (called c)
  with assms(1) show ?thesis by (auto simp: v2_inv_def buffer_ok_set dom_update)
next
  case (answered stop ids)
  with assms(1) keys_pops [of ids "events_by_id st"] show ?thesis
    by (auto simp: v2_inv_def buffer_ok_pops)
qed (use assms(1) in \<open>auto simp: v2_inv_def finish_now_def interrupt_and_finish_def Let_def split: prod.splits\<close>)

text \<open>Only the event that ends the loop yields a finish, last.\<close>

definition ends_with_finish :: "string \<Rightarrow> agent_event list \<Rightarrow> bool" where
  "ends_with_finish sid es \<longleftrightarrow>
     (\<exists>xs s u. es = xs @ [AgentFinish s u (Some sid)] \<and> list_all (\<lambda>e. \<not> is_finish e) xs)"

abbreviation no_finish :: "agent_event list \<Rightarrow> bool" where
  "no_finish es \<equiv> list_all (\<lambda>e. \<not> is_finish e) es"

lemma yields_concat: "yields_of (concat xss) = concat (map yields_of xss)"
  by (induction xss) auto

lemma posts_concat: "posts_of (concat xss) = concat (map posts_of xss)"
  by (induction xss) auto

lemma concat_map_Nil: "concat (map (\<lambda>x. []) xs) = []"
  by (induction xs) auto

lemma concat_map_single: "concat (map (\<lambda>x. [f x]) xs) = map f xs"
  by (induction xs) auto

lemma round_acts_posts [simp]: "posts_of (round_acts R st stop) = [cycle_replies R st stop]"
  by (simp add: round_acts_def posts_concat comp_def concat_map_Nil)

lemma round_acts_no_finish [simp]: "no_finish (yields_of (round_acts R st stop))"
  by (auto simp: round_acts_def yields_concat comp_def list_all_iff)

lemma yields_texts [simp]: "yields_of (map (\<lambda>t. Yield (f t)) ts) = map f ts"
  "posts_of (map (\<lambda>t. Yield (f t)) ts) = []"
  by (induction ts) auto

lemma call_event_no_finish [simp]: "\<not> is_finish (call_event c)"
  by (simp add: call_event_def)

lemma on_event_finish:
  assumes "v2_inv st" "\<not> finished st" "on_event R ev st = (acts, st', fl)"
  shows "(if fl = Break then ends_with_finish (session R) (yields_of acts) \<and> finished st'
          else no_finish (yields_of acts) \<and> \<not> finished st')"
  using assms(1,3)
proof (cases rule: on_event_cases)
  case (ended reason)
  then show ?thesis
    by (auto simp: finish_now_def ends_with_finish_def finish_event_def)
next
  case exhausted
  then show ?thesis
    by (auto simp: interrupt_and_finish_eq ends_with_finish_def finish_event_def)
next
  case (refused stop reason acts')
  then have "yields_of acts = yields_of (round_acts R st stop) @ [AgentFinish reason (usage_dict st) (Some (session R))]"
    "fl = Break" "finished st'"
    by (auto simp: interrupt_and_finish_eq finish_event_def usage_dict_def)
  then show ?thesis using round_acts_no_finish unfolding ends_with_finish_def by fastforce
qed (use assms(2) round_acts_no_finish in \<open>auto simp: list_all_iff\<close>)

lemma event_loop_finish:
  assumes "v2_inv st" "\<not> finished st" "event_loop R stream_end evs st = (acts, e)"
  shows "(case e of None \<Rightarrow> ends_with_finish (session R) (yields_of acts) | Some x \<Rightarrow> no_finish (yields_of acts))"
  using assms
proof (induction evs arbitrary: st acts)
  case Nil
  then show ?case
    by (auto simp: ends_with_finish_def finish_event_def split: option.splits if_splits)
next
  case (Cons ev evs)
  obtain a st' fl where on: "on_event R ev st = (a, st', fl)" by (cases "on_event R ev st")
  note fin = on_event_finish [OF Cons.prems(1,2) on]
  show ?case
  proof (cases fl)
    case Continue
    obtain acts' where acts': "event_loop R stream_end evs st' = (acts', e)" "acts = a @ acts'"
      using Cons.prems(3) on Continue by (auto split: prod.splits)
    from Continue on fin have "v2_inv st'" "\<not> finished st'" "no_finish (yields_of a)"
      using on_event_inv [OF Cons.prems(1)] by auto
    with Cons.IH [OF this(1,2) acts'(1)] show ?thesis
      unfolding acts'(2) ends_with_finish_def
      by (auto split: option.splits)
  next
    case Break
    with fin on Cons.prems(3) show ?thesis by auto
  next
    case (Raise x)
    with fin on Cons.prems(3) show ?thesis by auto
  qed
qed

section \<open>What is posted\<close>

definition rounds_of :: "sdk_event list \<Rightarrow> sdk_stop list" where
  "rounds_of evs = concat (map (\<lambda>ev. case round_of ev of Some stop \<Rightarrow> [stop] | None \<Rightarrow> []) evs)"

lemma rounds_of_simps [simp]: "rounds_of [] = []"
  "rounds_of (ev # evs) = (case round_of ev of Some stop \<Rightarrow> [stop] | None \<Rightarrow> []) @ rounds_of evs"
  by (simp_all add: rounds_of_def)

text \<open>The batch answers each id the round requests, once, in sorted order.\<close>

definition answers :: "pydict list \<Rightarrow> sdk_stop \<Rightarrow> bool" where
  "answers b stop = (map reply_id b = map PStr (sort (remdups (stop_event_ids stop))))"

definition batches_ok :: "sdk_event list \<Rightarrow> nat \<Rightarrow> pydict list list \<Rightarrow> bool" where
  "batches_ok evs n posts =
     (\<exists>batches stops. (posts = batches \<or> posts = batches @ [interrupt_events]) \<and>
        list_all2 answers batches stops \<and> subseq stops (rounds_of evs) \<and> length batches \<le> n)"

lemma batches_okI:
  "posts = batches \<or> posts = batches @ [interrupt_events] \<Longrightarrow> list_all2 answers batches stops \<Longrightarrow>
   subseq stops (rounds_of evs) \<Longrightarrow> length batches \<le> n \<Longrightarrow> batches_ok evs n posts"
  unfolding batches_ok_def by blast

lemma batches_ok_skip: "batches_ok evs n posts \<Longrightarrow> n \<le> m \<Longrightarrow> batches_ok (ev # evs) m posts"
  unfolding batches_ok_def by (force intro: list_emb_append2)

lemma batches_ok_round:
  assumes "batches_ok evs n posts" "round_of ev = Some stop" "answers b stop"
  shows "batches_ok (ev # evs) (Suc n) (b # posts)"
proof -
  obtain batches stops where "posts = batches \<or> posts = batches @ [interrupt_events]"
    "list_all2 answers batches stops" "subseq stops (rounds_of evs)" "length batches \<le> n"
    using assms(1) unfolding batches_ok_def by blast
  with assms(2,3) show ?thesis
    by (intro batches_okI [of _ "b # batches" "stop # stops"]) auto
qed

lemma cycle_replies_answer: "v2_inv st \<Longrightarrow> buffered st stop \<Longrightarrow> answers (cycle_replies R st stop) stop"
  by (simp add: answers_def reply_ids)

lemma event_loop_posts:
  assumes "v2_inv st" "event_loop R stream_end evs st = (acts, e)"
  shows "batches_ok evs (nat (max_cycles (policy R)) - cycle_count st) (posts_of acts)"
  using assms
proof (induction evs arbitrary: st acts)
  case Nil
  then show ?case
    by (auto simp: batches_ok_def split: option.splits if_splits)
next
  case (Cons ev evs)
  obtain a st' fl where on: "on_event R ev st = (a, st', fl)" by (cases "on_event R ev st")
  have stop: "posts_of acts = posts_of a" if "fl \<noteq> Continue"
    using Cons.prems(2) on that by (cases fl) (auto split: if_splits)
  obtain acts' where cont: "event_loop R stream_end evs st' = (acts', e)" "posts_of acts = posts_of a @ posts_of acts'"
    if "fl = Continue"
    using Cons.prems(2) on by (cases fl) (auto split: prod.splits)
  have IH: "batches_ok evs (nat (max_cycles (policy R)) - cycle_count st') (posts_of acts')" if "fl = Continue"
    using Cons.IH [OF on_event_inv [OF Cons.prems(1)] cont(1)] on that by simp
  have none: "batches_ok (ev # evs) n []" for n
    by (intro batches_okI [of _ "[]" "[]"]) simp_all
  have interrupted: "batches_ok (ev # evs) n [interrupt_events]" for n
    by (intro batches_okI [of _ "[]" "[]"]) simp_all
  have one: "batches_ok (ev # evs) (nat (max_cycles (policy R)) - cycle_count st) (cycle_replies R st stop # ps)"
    if "round_of ev = Some stop" "int (cycle_count st) < max_cycles (policy R)" "buffered st stop"
      "ps = [] \<or> ps = [interrupt_events]" for stop ps
    using that cycle_replies_answer [OF Cons.prems(1) that(3), of R]
    by (intro batches_okI [of _ "[cycle_replies R st stop]" "[stop]"]) auto
  show ?case
    using Cons.prems(1) on
  proof (cases rule: on_event_cases)
    case (skipped)
    with IH cont(2) batches_ok_skip [of evs] show ?thesis by simp
  next
    case (answered stop ids)
    have "Suc (nat (max_cycles (policy R)) - cycle_count st') = nat (max_cycles (policy R)) - cycle_count st"
      using answered by auto
    with batches_ok_round [OF IH answered(1) cycle_replies_answer [OF Cons.prems(1) answered(3)], of R]
    show ?thesis using answered cont(2) by simp
  next
    case (refused stop reason acts')
    then show ?thesis using stop one [OF refused(1-3)] by (auto simp: interrupt_and_finish_eq)
  next
    case (raised stop x)
    then show ?thesis using stop one [OF raised(1-3)] by simp
  next
    case exhausted
    then show ?thesis using stop interrupted by (auto simp: interrupt_and_finish_eq)
  next
    case (ended reason)
    then show ?thesis using stop none by (auto simp: finish_now_def)
  next
    case (no_id x)
    then show ?thesis using stop none by simp
  next
    case (texts ts)
    with IH cont(2) batches_ok_skip [of evs] show ?thesis by simp
  next
    case (called c)
    with IH cont(2) batches_ok_skip [of evs] show ?thesis by simp
  next
    case quiet
    with IH cont(2) batches_ok_skip [of evs] show ?thesis by simp
  qed
qed


section \<open>Results follow their calls\<close>

lemma answered_append:
  "answered_after_call seen (xs @ ys) \<longleftrightarrow>
     answered_after_call seen xs \<and> answered_after_call (seen \<union> fst ` set (calls_of xs)) ys"
proof (induction xs arbitrary: seen)
  case (Cons x xs)
  then show ?case by (cases x) (auto simp: calls_of_def insert_absorb)
qed (simp add: calls_of_def)

lemma answered_texts [simp]: "answered_after_call seen (map AgentTextDelta ts)" "calls_of (map AgentTextDelta ts) = []"
  by (induction ts) (auto simp: calls_of_def)

lemma answered_mono: "answered_after_call seen es \<Longrightarrow> seen \<subseteq> seen' \<Longrightarrow> answered_after_call seen' es"
proof (induction es arbitrary: seen seen')
  case (Cons e es)
  then show ?case by (cases e) (auto, meson insert_mono)
qed simp

lemma round_acts_answered:
  assumes "v2_inv st" "buffered st stop" "set (dict_keys (events_by_id st)) \<subseteq> seen"
  shows "answered_after_call seen (yields_of (round_acts R st stop))" "calls_of (yields_of (round_acts R st stop)) = []"
proof -
  have y: "yields_of (round_acts R st stop) = concat (map (\<lambda>c. yields_of (reply_actions R c)) (requested_calls st stop))"
    by (simp add: round_acts_def yields_concat comp_def)
  have "set (map event_id (requested_calls st stop)) \<subseteq> seen"
    unfolding requested_ids_sorted [OF assms(1,2)] using assms(2,3)
    by (force simp: buffered_def list_all_iff dest: map_of_SomeD)
  then have "answered_after_call seen (concat (map (\<lambda>c. yields_of (reply_actions R c)) cs)) \<and>
      calls_of (concat (map (\<lambda>c. yields_of (reply_actions R c)) cs)) = []"
    if "set cs \<subseteq> set (requested_calls st stop)" for cs
    using that by (induction cs) (auto simp: calls_of_def)
  then show "answered_after_call seen (yields_of (round_acts R st stop))"
    "calls_of (yields_of (round_acts R st stop)) = []"
    unfolding y by blast+
qed

lemma event_loop_answered:
  assumes "v2_inv st" "set (dict_keys (events_by_id st)) \<subseteq> seen" "event_loop R stream_end evs st = (acts, e)"
  shows "answered_after_call seen (yields_of acts)"
  using assms
proof (induction evs arbitrary: st acts seen)
  case Nil
  then show ?case by (auto simp: finish_event_def split: option.splits if_splits)
next
  case (Cons ev evs)
  obtain a st' fl where on: "on_event R ev st = (a, st', fl)" by (cases "on_event R ev st")
  have seen': "answered_after_call seen (yields_of a) \<and> (fl = Continue \<longrightarrow>
      set (dict_keys (events_by_id st')) \<subseteq> seen \<union> fst ` set (calls_of (yields_of a)))"
    using Cons.prems(1) on
  proof (cases rule: on_event_cases)
    case (called c)
    with Cons.prems(2) show ?thesis by (auto simp: call_event_def calls_of_def dom_update)
  next
    case (answered stop ids)
    with Cons.prems(2) round_acts_answered [OF Cons.prems(1) answered(3) Cons.prems(2), of R]
      keys_pops [of ids "events_by_id st"]
    show ?thesis by auto
  next
    case (refused stop reason acts')
    with round_acts_answered [OF Cons.prems(1) refused(3) Cons.prems(2), of R]
    show ?thesis by (auto simp: answered_append interrupt_and_finish_eq finish_event_def)
  next
    case (raised stop x)
    with round_acts_answered [OF Cons.prems(1) raised(3) Cons.prems(2), of R] show ?thesis by simp
  qed (use Cons.prems(2) in \<open>auto simp: finish_now_def interrupt_and_finish_eq finish_event_def\<close>)
  show ?case
  proof (cases fl)
    case Continue
    obtain acts' where "event_loop R stream_end evs st' = (acts', e)" "acts = a @ acts'"
      using Cons.prems(3) on Continue by (auto split: prod.splits)
    moreover have "v2_inv st'" using on_event_inv [OF Cons.prems(1)] on Continue by blast
    ultimately show ?thesis using Cons.IH seen' Continue by (simp add: answered_append)
  next
    case Break
    with seen' on Cons.prems(3) show ?thesis
      by (auto simp: answered_append finish_event_def)
  next
    case (Raise x)
    with seen' on Cons.prems(3) show ?thesis by auto
  qed
qed

section \<open>Text and usage\<close>

definition message_texts :: "sdk_event \<Rightarrow> string" where
  "message_texts ev =
     (if evt_type ev = Some ''agent.message''
      then concat (map (\<lambda>b. if block_type b = Some ''text''
             then (case block_text b of Some t \<Rightarrow> t | None \<Rightarrow> []) else []) (evt_content ev))
      else [])"

definition usages_of :: "sdk_event list \<Rightarrow> pydict list" where
  "usages_of evs = concat (map (\<lambda>ev. if evt_type ev = Some ''span.model_request_end''
      then (case evt_model_usage ev of Some mu \<Rightarrow> [mu] | None \<Rightarrow> []) else []) evs)"

definition token_count :: "string \<Rightarrow> pydict \<Rightarrow> int" where
  "token_count k mu = (case as_int (get_none mu k) of Some v \<Rightarrow> v | None \<Rightarrow> 0)"

definition acc_get :: "(string, int) dict \<Rightarrow> string \<Rightarrow> int" where
  "acc_get acc k = (case dict_get acc k of None \<Rightarrow> 0 | Some n \<Rightarrow> n)"

lemma add_usage_get: "acc_get (add_usage mu acc) k =
    acc_get acc k + (if k \<in> set usage_keys then token_count k mu else 0)"
proof -
  have "acc_get (fold (\<lambda>key acc. case as_int (get_none mu key) of None \<Rightarrow> acc
           | Some v \<Rightarrow> dict_set key ((case dict_get acc key of None \<Rightarrow> 0 | Some n \<Rightarrow> n) + v) acc) ks acc) k =
    acc_get acc k + (if k \<in> set ks then token_count k mu else 0)" if "distinct ks" for ks
    using that
  proof (induction ks arbitrary: acc)
    case (Cons x ks)
    then show ?case
      by (cases "as_int (get_none mu x)") (auto simp: token_count_def acc_get_def)
  qed simp
  moreover have "distinct usage_keys" by (simp add: usage_keys_def)
  ultimately show ?thesis unfolding add_usage_def by blast
qed

lemma usage_total: "k \<in> set usage_keys \<Longrightarrow>
    acc_get (fold add_usage mus acc) k = acc_get acc k + sum_list (map (token_count k) mus)"
  by (induction mus arbitrary: acc) (auto simp: add_usage_get)

lemma text_of_append [simp]: "text_of (xs @ ys) = text_of xs @ text_of ys"
  by (simp add: text_of_def)

lemma text_of_round [simp]: "text_of (yields_of (round_acts R st stop)) = []"
proof -
  have "text_of (concat (map (\<lambda>c. yields_of (reply_actions R c)) cs)) = []" for cs
    by (induction cs) (auto simp: text_of_def)
  then show ?thesis by (simp add: round_acts_def yields_concat comp_def)
qed


lemma on_message_text: "text_of (yields_of (fst (on_message ev st))) =
    concat (map (\<lambda>b. if block_type b = Some ''text''
      then (case block_text b of Some t \<Rightarrow> t | None \<Rightarrow> []) else []) (evt_content ev))"
proof -
  have "text_of (yields_of (concat (map (\<lambda>b. if block_type b = Some ''text''
         then (case block_text b of Some (c # cs) \<Rightarrow> [Yield (AgentTextDelta (c # cs))] | _ \<Rightarrow> [])
         else []) bs))) =
      concat (map (\<lambda>b. if block_type b = Some ''text''
        then (case block_text b of Some t \<Rightarrow> t | None \<Rightarrow> []) else []) bs)" for bs
    by (induction bs) (auto simp: text_of_def split: option.split list.split)
  then show ?thesis by (simp add: on_message_def)
qed

lemma on_event_text:
  assumes "v2_inv st" "on_event R ev st = (acts, st', fl)"
  shows "text_of (yields_of acts) = message_texts ev"
proof (cases "evt_type ev = Some ''agent.message''")
  case True
  then have "acts = fst (on_message ev st)" using assms(2) by (simp add: on_event_def)
  with True on_message_text [of ev st] show ?thesis by (simp add: message_texts_def)
next
  case False
  from assms show ?thesis
  proof (cases rule: on_event_cases)
    case (called c)
    with False show ?thesis by (simp add: message_texts_def text_of_def call_event_def)
  qed (use False in \<open>auto simp: message_texts_def text_of_def [of "[]"] text_of_def [of "[_]"]
    finish_now_def interrupt_and_finish_eq finish_event_def\<close>)
qed

lemma on_event_usage:
  assumes "v2_inv st" "on_event R ev st = (acts, st', fl)"
  shows "usage_accumulator st' = fold add_usage (usages_of [ev]) (usage_accumulator st)"
proof (cases "evt_type ev = Some ''span.model_request_end''")
  case True
  then have "on_event R ev st = on_model_request_end ev st"
    by (simp add: on_event_def is_tool_use_def envelope_defs IDLE_EVENT_TYPES_def TERMINATED_EVENT_TYPES_def)
  with True assms(2) show ?thesis
    by (auto simp: on_model_request_end_def usages_of_def split: option.splits)
next
  case False
  from assms show ?thesis
    by (cases rule: on_event_cases)
      (use False in \<open>auto simp: usages_of_def finish_now_def interrupt_and_finish_eq\<close>)
qed

lemma usages_of_Cons: "usages_of (ev # evs) = usages_of [ev] @ usages_of evs"
  by (simp add: usages_of_def)

text \<open>The events up to and including the one that ends the loop.\<close>

fun consumed :: "v2_run \<Rightarrow> sdk_event list \<Rightarrow> v2_state \<Rightarrow> sdk_event list" where
  "consumed R [] st = []"
| "consumed R (ev # evs) st =
     (case on_event R ev st of
        (acts, st', Continue) \<Rightarrow> ev # consumed R evs st'
      | _ \<Rightarrow> [ev])"

lemma consumed_prefix: "prefix (consumed R evs st) evs"
  by (induction evs arbitrary: st) (auto split: prod.split flow.split)

lemma event_loop_text:
  assumes "v2_inv st" "event_loop R stream_end evs st = (acts, e)"
  shows "text_of (yields_of acts) = concat (map message_texts (consumed R evs st))"
  using assms
proof (induction evs arbitrary: st acts)
  case Nil
  then show ?case by (auto simp: text_of_def finish_event_def split: option.splits if_splits)
next
  case (Cons ev evs)
  obtain a st' fl where on: "on_event R ev st = (a, st', fl)" by (cases "on_event R ev st")
  note t = on_event_text [OF Cons.prems(1) on]
  have [simp]: "text_of [finish_event R x y] = []" for x y by (simp add: text_of_def finish_event_def)
  show ?case
  proof (cases fl)
    case Continue
    obtain acts' where "event_loop R stream_end evs st' = (acts', e)" "acts = a @ acts'"
      using Cons.prems(2) on Continue by (auto split: prod.splits)
    moreover have "v2_inv st'" using on_event_inv [OF Cons.prems(1)] on Continue by blast
    ultimately show ?thesis using Cons.IH t on Continue by simp
  qed (use Cons.prems(2) on t in auto)
qed

lemma finish_usage_event:
  assumes "v2_inv st" "on_event R ev st = (acts, st', Break)" "\<not> finished st"
  shows "\<exists>xs s. yields_of acts = xs @ [AgentFinish s (usage_dict st') (Some (session R))] \<and> finished st'"
  using assms(1,2)
proof (cases rule: on_event_cases)
  case (refused stop reason acts')
  then show ?thesis by (fastforce simp: interrupt_and_finish_eq finish_event_def usage_dict_def)
qed (auto simp: finish_now_def interrupt_and_finish_eq finish_event_def usage_dict_def)

lemma event_loop_usage:
  assumes "v2_inv st" "\<not> finished st" "event_loop R stream_end evs st = (acts, None)"
  shows "\<exists>xs s. yields_of acts = xs @ [AgentFinish s
    (map (\<lambda>(k, n). (k, PInt n)) (fold add_usage (usages_of (consumed R evs st)) (usage_accumulator st)))
    (Some (session R))]"
  using assms
proof (induction evs arbitrary: st acts)
  case Nil
  then show ?case
    by (auto simp: usages_of_def finish_event_def usage_dict_def split: option.splits)
next
  case (Cons ev evs)
  obtain a st' fl where on: "on_event R ev st = (a, st', fl)" by (cases "on_event R ev st")
  note u = on_event_usage [OF Cons.prems(1) on]
  show ?case
  proof (cases fl)
    case Continue
    obtain acts' where a': "event_loop R stream_end evs st' = (acts', None)" "acts = a @ acts'"
      using Cons.prems(3) on Continue by (auto split: prod.splits)
    have "v2_inv st'" "\<not> finished st'"
      using on_event_inv [OF Cons.prems(1)] on_event_finish [OF Cons.prems(1,2) on] on Continue by auto
    from Cons.IH [OF this a'(1)] show ?thesis
      using on Continue u usages_of_Cons [of ev "consumed R evs st'"] a'(2) by auto
  next
    case Break
    with finish_usage_event [of st R ev a st'] Cons.prems on u show ?thesis
      by (auto simp: usage_dict_def)
  next
    case (Raise x)
    with on Cons.prems(3) show ?thesis by simp
  qed
qed


section \<open>Where replies come from\<close>

definition reply_source :: "v2_run \<Rightarrow> pending_call set \<Rightarrow> pydict \<Rightarrow> bool" where
  "reply_source R C r = (\<exists>c \<in> C. r = build_reply (effective_tools R) (context_of R) c)"

text \<open>The calls of the stream's events that a trace announces.\<close>

definition announced :: "sdk_event list \<Rightarrow> v2_action list \<Rightarrow> pending_call set" where
  "announced evs acts = {c. call_event c \<in> set (yields_of acts) \<and> (\<exists>ev \<in> set evs. call_of ev c)}"

lemma announced_mono: "set evs \<subseteq> set evs' \<Longrightarrow> announced evs acts \<subseteq> announced evs' (a @ acts)"
  by (auto simp: announced_def)

lemma requested_calls_buffer:
  "buffered st stop \<Longrightarrow> set (requested_calls st stop) \<subseteq> snd ` set (events_by_id st)"
  by (force simp: requested_calls_def buffered_def list_all_iff dest: map_of_SomeD)

lemma cycle_reply_source:
  assumes "buffered st stop" "r \<in> set (cycle_replies R st stop)"
  shows "reply_source R (snd ` set (events_by_id st) \<union> X) r"
  using requested_calls_buffer [OF assms(1)] assms(2)
  unfolding cycle_replies_def reply_source_def set_map image_iff by blast

lemma set_pops: "set (fold dict_pop ids buf) \<subseteq> set buf"
proof (induction ids arbitrary: buf)
  case (Cons i ids)
  then show ?case by (auto dest: set_dict_pop)
qed simp

lemma event_loop_sources:
  assumes "v2_inv st" "event_loop R stream_end evs st = (acts, e)"
    "b \<in> set (posts_of acts)" "b \<noteq> interrupt_events" "r \<in> set b"
  shows "reply_source R (snd ` set (events_by_id st) \<union> announced evs acts) r"
  using assms
proof (induction evs arbitrary: st acts)
  case Nil
  then show ?case by (auto split: option.splits if_splits)
next
  case (Cons ev evs)
  obtain a st' fl where on: "on_event R ev st = (a, st', fl)" by (cases "on_event R ev st")
  have now: "reply_source R (snd ` set (events_by_id st) \<union> X) r" if "b \<in> set (posts_of a)" for X
    using Cons.prems(1) on
  proof (cases rule: on_event_cases)
    case (answered stop ids)
    with that Cons.prems(5) cycle_reply_source [OF answered(3)] show ?thesis by simp
  next
    case (refused stop reason acts')
    with that Cons.prems(4) have "b = cycle_replies R st stop"
      by (auto simp: interrupt_and_finish_eq)
    with Cons.prems(5) cycle_reply_source [OF refused(3)] show ?thesis by simp
  next
    case (raised stop x)
    with that Cons.prems(5) cycle_reply_source [OF raised(3)] show ?thesis by simp
  qed (use that Cons.prems(4) in \<open>auto simp: finish_now_def interrupt_and_finish_eq\<close>)
  show ?case
  proof (cases fl)
    case Continue
    obtain acts' where a': "event_loop R stream_end evs st' = (acts', e)" "acts = a @ acts'"
      using Cons.prems(2) on Continue by (auto split: prod.splits)
    have buf: "snd ` set (events_by_id st') \<subseteq> snd ` set (events_by_id st) \<union> announced [ev] a"
      using Cons.prems(1) on
    proof (cases rule: on_event_cases)
      case (called c)
      then show ?thesis by (auto simp: announced_def dest!: set_dict_set)
    next
      case (answered stop ids)
      then show ?thesis using set_pops [of ids "events_by_id st"] by auto
    qed (use Continue in \<open>auto simp: finish_now_def interrupt_and_finish_eq\<close>)
    show ?thesis
    proof (cases "b \<in> set (posts_of a)")
      case False
      then have "b \<in> set (posts_of acts')" using Cons.prems(3) a'(2) by simp
      moreover have "v2_inv st'" using on_event_inv [OF Cons.prems(1)] on Continue by blast
      ultimately have "reply_source R (snd ` set (events_by_id st') \<union> announced evs acts') r"
        using Cons.IH [OF _ a'(1)] Cons.prems(4,5) by blast
      moreover have "snd ` set (events_by_id st') \<union> announced evs acts' \<subseteq>
          snd ` set (events_by_id st) \<union> announced (ev # evs) acts"
        using buf a'(2) by (auto simp: announced_def)
      ultimately show ?thesis unfolding reply_source_def by blast
    qed (rule now)
  next
    case Break
    with now on Cons.prems(2,3) show ?thesis by auto
  next
    case (Raise x)
    with now on Cons.prems(2,3) show ?thesis by auto
  qed
qed

end
