(* ===== verification/InputSchema.thy ===== *)
theory InputSchema
  imports PyVal
begin

text \<open>
  \<open>backends/_input_schema.py\<close>: the recursive denylist applied to every tool's input schema before
  it is registered with Anthropic, and what it does at every path of a schema.
\<close>

definition ANTHROPIC_FORBIDDEN_INPUT_SCHEMA_KEYS :: "string list" where
  "ANTHROPIC_FORBIDDEN_INPUT_SCHEMA_KEYS =
     [''$schema'', ''$id'', ''$defs'', ''$ref'', ''$comment'', ''additionalProperties'']"

definition forbidden_key :: "string \<Rightarrow> bool" where
  "forbidden_key k = (k \<in> set ANTHROPIC_FORBIDDEN_INPUT_SCHEMA_KEYS)"

fun sanitize_anthropic_input_schema :: "pyval \<Rightarrow> pyval" where
  "sanitize_anthropic_input_schema (PDict d) =
     PDict (map (\<lambda>(k, v). (k, sanitize_anthropic_input_schema v))
       (filter (\<lambda>(k, v). k \<notin> set ANTHROPIC_FORBIDDEN_INPUT_SCHEMA_KEYS) d))"
| "sanitize_anthropic_input_schema (PList vs) = PList (map sanitize_anthropic_input_schema vs)"
| "sanitize_anthropic_input_schema v = v"

section \<open>Paths\<close>

datatype path_step = Key string | Index nat

fun at_path :: "path_step list \<Rightarrow> pyval \<Rightarrow> pyval option" where
  "at_path [] v = Some v"
| "at_path (Key k # p) v =
     (case v of PDict d \<Rightarrow> (case dict_get d k of None \<Rightarrow> None | Some w \<Rightarrow> at_path p w) | _ \<Rightarrow> None)"
| "at_path (Index i # p) v =
     (case v of PList vs \<Rightarrow> if i < length vs then at_path p (vs ! i) else None | _ \<Rightarrow> None)"

definition forbidden_path :: "path_step list \<Rightarrow> bool" where
  "forbidden_path p = list_ex (\<lambda>s. case s of Key k \<Rightarrow> forbidden_key k | Index i \<Rightarrow> False) p"

lemma get_sanitized:
  "dict_get (map (\<lambda>(k, v). (k, sanitize_anthropic_input_schema v))
      (filter (\<lambda>(k, v). k \<notin> set ANTHROPIC_FORBIDDEN_INPUT_SCHEMA_KEYS) d)) k =
   (if forbidden_key k then None else map_option sanitize_anthropic_input_schema (dict_get d k))"
  by (induction d) (auto simp: forbidden_key_def)

lemma at_path_sanitize:
  "at_path p (sanitize_anthropic_input_schema v) =
     (if forbidden_path p then None else map_option sanitize_anthropic_input_schema (at_path p v))"
proof (induction p arbitrary: v)
  case Nil
  then show ?case by (simp add: forbidden_path_def)
next
  case (Cons s p)
  have fp: "forbidden_path (Key k # p) \<longleftrightarrow> forbidden_key k \<or> forbidden_path p"
    "forbidden_path (Index i # p) \<longleftrightarrow> forbidden_path p" for k i
    by (simp_all add: forbidden_path_def)
  show ?case
    by (cases s; cases v) (simp_all add: fp get_sanitized Cons.IH split: option.split)
qed

lemma sanitize_idem [simp]:
  "sanitize_anthropic_input_schema (sanitize_anthropic_input_schema v) = sanitize_anthropic_input_schema v"
proof (induction v)
  case (PDict d)
  have "map (\<lambda>(k, v). (k, sanitize_anthropic_input_schema v)) (filter (\<lambda>(k, v). P k)
      (map (\<lambda>(k, v). (k, sanitize_anthropic_input_schema v)) (filter (\<lambda>(k, v). P k) d))) =
    map (\<lambda>(k, v). (k, sanitize_anthropic_input_schema v)) (filter (\<lambda>(k, v). P k) d)" for P
    using PDict by (induction d) (fastforce simp: image_iff)+
  then show ?case by simp
qed auto

end
