(* ===== verification/BackendV2.thy ===== *)
theory BackendV2
  imports StreamV2Facts BindingRegistry InputSchema
begin

text \<open>
  The rest of \<open>ManagedAgentBackendV2\<close>: message normalisation, the tools payload and the agent
  fingerprint, provisioning through the binding registry, session creation, the whole of
  \<open>_stream_impl\<close> around the loop of \<open>StreamV2\<close>, the total-timeout wrapper \<open>stream\<close>, and \<open>run\<close>. The
  Anthropic client is a record of outcomes; sha256 is a parameter.
\<close>

section \<open>Configuration and client\<close>

record v2_config =
  v2_policy :: run_policy
  environment_config :: pydict
  environment_name :: string
  include_builtin_toolset :: bool
  delete_session_on_finish :: bool
  use_gateway_mcp :: bool
  gateway_mcp_url :: string
  gateway_mcp_name :: string

definition DEFAULT_ENVIRONMENT_CONFIG :: pydict where
  "DEFAULT_ENVIRONMENT_CONFIG =
     [(''type'', PStr ''cloud''), (''networking'', PDict [(''type'', PStr ''unrestricted'')])]"

definition SESSION_ID_HANDLE :: string where
  "SESSION_ID_HANDLE = ''managed_agent_session_id''"

definition VAULT_IDS_HANDLE :: string where
  "VAULT_IDS_HANDLE = ''managed_agent_vault_ids''"

definition USE_GATEWAY_MCP_HANDLE :: string where
  "USE_GATEWAY_MCP_HANDLE = ''managed_agent_use_gateway_mcp''"

definition PROVIDER_ANTHROPIC_MANAGED :: string where
  "PROVIDER_ANTHROPIC_MANAGED = ''anthropic_managed''"

text \<open>The constructor: defaults for the policy and the environment.\<close>

definition make_backend_v2 ::
    "run_policy option \<Rightarrow> pydict option \<Rightarrow> string \<Rightarrow> bool \<Rightarrow> bool \<Rightarrow> bool \<Rightarrow> string \<Rightarrow> string \<Rightarrow> v2_config" where
  "make_backend_v2 pol env_config env_name builtin delete_session gateway url name =
     \<lparr>v2_policy = (case pol of Some p \<Rightarrow> p | None \<Rightarrow> default_policy),
      environment_config = (case env_config of Some (x # xs) \<Rightarrow> x # xs | _ \<Rightarrow> DEFAULT_ENVIRONMENT_CONFIG),
      environment_name = env_name, include_builtin_toolset = builtin,
      delete_session_on_finish = delete_session, use_gateway_mcp = gateway,
      gateway_mcp_url = url, gateway_mcp_name = name\<rparr>"

record v2_client =
  agents_create :: "pydict \<Rightarrow> exn + string"
  environments_create :: "string \<Rightarrow> pydict \<Rightarrow> exn + string"
  sessions_create :: "pydict \<Rightarrow> exn + string"
  open_stream :: "string \<Rightarrow> exn option"
  client_server :: v2_server
  client_events :: "sdk_event list"
  client_stream_end :: "exn option"
  client_now :: string

section \<open>Messages\<close>

definition text_block :: "string \<Rightarrow> pyval" where
  "text_block t = PDict [(''type'', PStr ''text''), (''text'', PStr t)]"

definition user_message :: "pyval list \<Rightarrow> pydict" where
  "user_message blocks = [(''type'', PStr ''user.message''), (''content'', PList blocks)]"

definition content_blocks :: "pyval \<Rightarrow> pyval list" where
  "content_blocks content =
     (case content of
        PStr s \<Rightarrow> [text_block s]
      | PList bs \<Rightarrow> map (\<lambda>b. case b of PDict d \<Rightarrow> b | _ \<Rightarrow> text_block (py_str b)) bs
      | _ \<Rightarrow> [text_block (py_str content)])"

definition message_role :: "pyval \<Rightarrow> pyval" where
  "message_role msg = (case msg of PDict d \<Rightarrow> get_or d ''role'' (PStr ''user'') | _ \<Rightarrow> PStr ''user'')"

definition message_content :: "pyval \<Rightarrow> pyval" where
  "message_content msg = (case msg of PDict d \<Rightarrow> get_or d ''content'' (PStr []) | _ \<Rightarrow> PStr [])"

text \<open>The two shapes the signature allows; any other argument counts as no messages.\<close>

definition normalize_messages :: "pyval \<Rightarrow> pydict list" where
  "normalize_messages messages =
     (case messages of
        PStr s \<Rightarrow> [user_message [text_block s]]
      | PList msgs \<Rightarrow>
          map (\<lambda>msg. user_message (content_blocks (message_content msg)))
            (filter (\<lambda>msg. message_role msg = PStr ''user'') msgs)
      | _ \<Rightarrow> [])"

section \<open>Tools payload and fingerprint\<close>

definition spec_to_tool :: "tool_spec \<Rightarrow> pydict" where
  "spec_to_tool spec =
     [(''type'', PStr ''custom''), (''name'', PStr (spec_name spec)),
      (''description'', PStr (spec_description spec)),
      (''input_schema'', sanitize_anthropic_input_schema (PDict (spec_input_schema spec)))]"

definition specs_to_tools :: "v2_config \<Rightarrow> tool_spec list \<Rightarrow> bool option \<Rightarrow> pydict list" where
  "specs_to_tools cfg specs gateway =
     (let gateway_on = (case gateway of None \<Rightarrow> use_gateway_mcp cfg | Some b \<Rightarrow> b)
      in (if include_builtin_toolset cfg then [[(''type'', PStr ''agent_toolset_20260401'')]] else []) @
         (if gateway_on
          then [[(''type'', PStr ''mcp_toolset''), (''mcp_server_name'', PStr (gateway_mcp_name cfg)),
                 (''default_config'', PDict [(''permission_policy'',
                    PDict [(''type'', PStr ''always_allow'')])])]]
          else []) @
         map spec_to_tool specs)"

definition fingerprint_parts :: "v2_config \<Rightarrow> base_agent \<Rightarrow> tool_registry \<Rightarrow> bool option \<Rightarrow> string list" where
  "fingerprint_parts cfg agent tools gateway =
     (let gateway_on = (case gateway of None \<Rightarrow> use_gateway_mcp cfg | Some b \<Rightarrow> b)
      in [model agent, system_prompt agent,
          ''builtin='' @ py_str (PBool (include_builtin_toolset cfg)),
          ''gateway_mcp='' @ py_str (PBool gateway_on),
          ''gateway_url='' @ gateway_mcp_url cfg,
          ''gateway_name='' @ gateway_mcp_name cfg] @
         concat (map (\<lambda>spec. [spec_name spec, spec_description spec,
            dumps_sorted (PDict (spec_input_schema spec))]) (registry_list_specs tools)))"

definition nul :: char where "nul = char_of (0 :: nat)"

definition fingerprint_agent ::
    "(string \<Rightarrow> string) \<Rightarrow> v2_config \<Rightarrow> base_agent \<Rightarrow> tool_registry \<Rightarrow> bool option \<Rightarrow> string" where
  "fingerprint_agent sha cfg agent tools gateway =
     sha (py_join [nul] (fingerprint_parts cfg agent tools gateway))"

section \<open>Provisioning and sessions\<close>

definition provision_anthropic_agent ::
    "v2_config \<Rightarrow> v2_client \<Rightarrow> base_agent \<Rightarrow> tool_registry \<Rightarrow> bool \<Rightarrow> int \<Rightarrow>
     v2_action list \<times> (exn + provider_binding)" where
  "provision_anthropic_agent cfg client agent tools gateway version =
     (let tools_payload = specs_to_tools cfg (registry_list_specs tools) (Some gateway);
          create_kwargs =
            [(''name'', PStr (''agent-'' @ identity agent)), (''model'', PStr (model agent)),
             (''system'', PStr (system_prompt agent)), (''tools'', PList (map PDict tools_payload))] @
            (if gateway
             then [(''mcp_servers'', PList [PDict [(''name'', PStr (gateway_mcp_name cfg)),
                      (''type'', PStr ''url''), (''url'', PStr (gateway_mcp_url cfg))]])]
             else [])
      in case agents_create client create_kwargs of
           Inl e \<Rightarrow> ([CreateAgent create_kwargs], Inl e)
         | Inr agent_id \<Rightarrow>
             (let acts = [CreateAgent create_kwargs,
                          CreateEnvironment (environment_name cfg) (environment_config cfg)]
              in case environments_create client (environment_name cfg) (environment_config cfg) of
                   Inl e \<Rightarrow> (acts, Inl e)
                 | Inr env_id \<Rightarrow>
                     (acts, Inr \<lparr>binding_agent_id = agent_id, binding_environment_id = env_id,
                        for_version = version, provisioned_at = client_now client\<rparr>)))"

definition session_title :: "base_agent \<Rightarrow> invocation_context \<Rightarrow> string" where
  "session_title agent ctx =
     py_join '':'' (identity agent # (case trace_id ctx of Some (c # cs) \<Rightarrow> [c # cs] | _ \<Rightarrow> []))"

definition create_session_kwargs :: "string \<Rightarrow> string \<Rightarrow> string \<Rightarrow> string list option \<Rightarrow> pydict" where
  "create_session_kwargs agent_id environment_id title vault_ids =
     [(''agent'', PStr agent_id), (''environment_id'', PStr environment_id),
      (''title'', PStr (if title = [] then ''copass agent session'' else title))] @
     (case vault_ids of Some (v # vs) \<Rightarrow> [(''vault_ids'', PList (map PStr (v # vs)))] | _ \<Rightarrow> [])"

section \<open>One invocation\<close>

definition gateway_setting :: "v2_config \<Rightarrow> invocation_context \<Rightarrow> bool" where
  "gateway_setting cfg ctx =
     (case dict_get (handles ctx) USE_GATEWAY_MCP_HANDLE of
        Some (PBool b) \<Rightarrow> b | _ \<Rightarrow> use_gateway_mcp cfg)"

definition supplied_session :: "invocation_context \<Rightarrow> string option" where
  "supplied_session ctx =
     (let v = get_none (handles ctx) SESSION_ID_HANDLE
      in if truthy v then Some (py_str v) else None)"

definition vault_ids_of :: "invocation_context \<Rightarrow> string list option" where
  "vault_ids_of ctx =
     (case get_none (handles ctx) VAULT_IDS_HANDLE of
        PList vs \<Rightarrow> Some (map py_str (filter truthy vs)) | _ \<Rightarrow> None)"

text \<open>From an open session on: the stream is opened, its body runs, \<open>finally\<close> runs.\<close>

definition stream_session ::
    "v2_config \<Rightarrow> v2_client \<Rightarrow> tool_registry \<Rightarrow> invocation_context \<Rightarrow> pydict list \<Rightarrow>
     string \<Rightarrow> string option \<Rightarrow> v2_action list \<times> exn option" where
  "stream_session cfg client tools ctx user_events sid created =
     (case open_stream client sid of
        Some e \<Rightarrow> ([OpenStream sid], Some e)
      | None \<Rightarrow>
          (let R = \<lparr>policy = v2_policy cfg, server = client_server client, effective_tools = tools,
                    context_of = ctx, session = sid\<rparr>
           in case stream_body R user_events (client_stream_end client) (client_events client) of
                (acts, e) \<Rightarrow>
                  (OpenStream sid # acts @ finally_actions created (delete_session_on_finish cfg), e)))"

text \<open>\<open>_stream_impl\<close>. The registry is the in-memory one, undisturbed by other callers; the result
  is the trace, the exception it ended with, and the registry's store afterwards.\<close>

definition stream_impl ::
    "v2_config \<Rightarrow> v2_client \<Rightarrow> binding_store \<Rightarrow> base_agent \<Rightarrow> pyval \<Rightarrow> invocation_context \<Rightarrow>
     v2_action list \<times> exn option \<times> binding_store" where
  "stream_impl cfg client store agent messages ctx =
     (let user_events = normalize_messages messages
      in if user_events = []
         then ([], Some (ValueError (''ManagedAgentBackendV2: messages must contain at least one '' @
                ''user-role message'')), store)
         else case build_tools agent ctx of
           Inl e \<Rightarrow> ([], Some e, store)
         | Inr tools \<Rightarrow>
             (let gateway = gateway_setting cfg ctx;
                  key = registry_key (user_id (scope ctx)) (identity agent) PROVIDER_ANTHROPIC_MANAGED;
                  (pacts, pres) = provision_anthropic_agent cfg client agent tools gateway 1;
                  acts1 = (if get_binding store key 1 = None then pacts else [])
              in case get_or_provision store key 1 pres of
                   (Inl e, store') \<Rightarrow> (acts1, Some e, store')
                 | (Inr binding, store') \<Rightarrow>
                     (case supplied_session ctx of
                        Some sid \<Rightarrow>
                          (case stream_session cfg client tools ctx user_events sid None of
                             (acts, e) \<Rightarrow> (acts1 @ acts, e, store'))
                      | None \<Rightarrow>
                          (let kwargs = create_session_kwargs (binding_agent_id binding)
                             (binding_environment_id binding) (session_title agent ctx) (vault_ids_of ctx)
                           in case sessions_create client kwargs of
                                Inl e \<Rightarrow> (acts1 @ [CreateSession kwargs], Some e, store')
                              | Inr sid \<Rightarrow>
                                  (case stream_session cfg client tools ctx user_events sid (Some sid) of
                                     (acts, e) \<Rightarrow> (acts1 @ CreateSession kwargs # acts, e, store'))))))"

section \<open>The total timeout\<close>

text \<open>
  \<open>stream\<close> waits for each event of the inner generator under what is left of the budget. Time is in
  the policy's unit: an item is how long the event took to arrive, the event, and how long the
  consumer kept it; \<open>last_wait\<close> is the time until the generator stops or raises. A \<open>TimeoutError\<close> that the
  generator itself raises is caught by the same handler as that of \<open>wait_for\<close>.
\<close>

fun is_timeout :: "exn option \<Rightarrow> bool" where
  "is_timeout (Some (TimeoutError m)) = True"
| "is_timeout _ = False"

fun deadline_loop ::
    "int \<Rightarrow> int \<Rightarrow> (int \<times> agent_event \<times> int) list \<Rightarrow> int \<Rightarrow> exn option \<Rightarrow>
     agent_event list \<times> bool \<times> exn option" where
  "deadline_loop deadline now [] last_wait e =
     (let remaining = deadline - now
      in if remaining \<le> 0 \<or> remaining \<le> last_wait \<or> is_timeout e then ([], True, None) else ([], False, e))"
| "deadline_loop deadline now ((wait, ev, consume) # items) last_wait e =
     (let remaining = deadline - now
      in if remaining \<le> 0 \<or> remaining \<le> wait then ([], True, None)
         else (case deadline_loop deadline (now + wait + consume) items last_wait e of
                 (evs, timed_out, e') \<Rightarrow> (ev # evs, timed_out, e')))"

definition timeout_finish :: agent_event where
  "timeout_finish = AgentFinish ''policy_total_timeout'' [] None"

definition stream_with_deadline ::
    "int \<Rightarrow> (int \<times> agent_event \<times> int) list \<Rightarrow> int \<Rightarrow> exn option \<Rightarrow> agent_event list \<times> exn option" where
  "stream_with_deadline budget items last_wait e =
     (case deadline_loop budget 0 items last_wait e of
        (evs, timed_out, e') \<Rightarrow> (evs @ (if timed_out then [timeout_finish] else []), e'))"

text \<open>How long each step takes is outside the program: two lists of delays.\<close>

record timing =
  waits :: "nat \<Rightarrow> int"
  consumes :: "nat \<Rightarrow> int"
  end_wait :: int

definition timed_items :: "timing \<Rightarrow> agent_event list \<Rightarrow> (int \<times> agent_event \<times> int) list" where
  "timed_items tm evs = map (\<lambda>(n, ev). (waits tm n, ev, consumes tm n)) (enumerate 0 evs)"

definition stream_v2 ::
    "v2_config \<times> v2_client \<times> binding_store \<times> timing \<times> base_agent \<Rightarrow> pyval \<Rightarrow> invocation_context \<Rightarrow>
     agent_event list \<times> exn option" where
  "stream_v2 X messages ctx =
     (case X of (cfg, client, store, tm, agent) \<Rightarrow>
       (case stream_impl cfg client store agent messages ctx of
          (acts, e, store') \<Rightarrow>
            stream_with_deadline (total_timeout_s (v2_policy cfg)) (timed_items tm (yields_of acts))
              (end_wait tm) e))"

definition run_v2 ::
    "v2_config \<times> v2_client \<times> binding_store \<times> timing \<times> base_agent \<Rightarrow> pyval \<Rightarrow> invocation_context \<Rightarrow>
     exn + agent_run_result" where
  "run_v2 X messages ctx = run_result (stream_v2 X messages ctx)"

interpretation v2: agent_backend stream_v2 run_v2
  by unfold_locales (simp add: run_v2_def)

section \<open>The shape of an invocation\<close>

lemma yields_other [simp]:
  "yields_of (OpenStream s # xs) = yields_of xs" "yields_of (CloseStream # xs) = yields_of xs"
  "yields_of (CreateAgent k # xs) = yields_of xs" "yields_of (CreateEnvironment n k # xs) = yields_of xs"
  "yields_of (CreateSession k # xs) = yields_of xs" "yields_of (DeleteSession s # xs) = yields_of xs"
  by (simp_all add: yields_of_def)

lemma posts_other [simp]:
  "posts_of (OpenStream s # xs) = posts_of xs" "posts_of (CloseStream # xs) = posts_of xs"
  "posts_of (CreateAgent k # xs) = posts_of xs" "posts_of (CreateEnvironment n k # xs) = posts_of xs"
  "posts_of (CreateSession k # xs) = posts_of xs" "posts_of (DeleteSession s # xs) = posts_of xs"
  by (simp_all add: posts_of_def)

definition deletes_of :: "v2_action list \<Rightarrow> string list" where
  "deletes_of acts = concat (map (\<lambda>a. case a of DeleteSession s \<Rightarrow> [s] | _ \<Rightarrow> []) acts)"

lemma deletes_of_simps [simp]: "deletes_of [] = []" "deletes_of (xs @ ys) = deletes_of xs @ deletes_of ys"
  "deletes_of (a # xs) = (case a of DeleteSession s \<Rightarrow> [s] | _ \<Rightarrow> []) @ deletes_of xs"
  by (simp_all add: deletes_of_def)

lemma finally_silent [simp]: "yields_of (finally_actions c d) = []" "posts_of (finally_actions c d) = []"
  by (auto simp: finally_actions_def split: option.split list.split)

lemma provision_silent:
  "provision_anthropic_agent cfg client agent tools gw v = (acts, r) \<Longrightarrow>
   yields_of acts = [] \<and> posts_of acts = [] \<and> deletes_of acts = []"
  by (auto simp: provision_anthropic_agent_def Let_def split: sum.splits if_splits)

definition run_of :: "v2_config \<Rightarrow> v2_client \<Rightarrow> tool_registry \<Rightarrow> invocation_context \<Rightarrow> string \<Rightarrow> v2_run" where
  "run_of cfg client tools ctx sid =
     \<lparr>policy = v2_policy cfg, server = client_server client, effective_tools = tools,
      context_of = ctx, session = sid\<rparr>"

text \<open>An invocation either fails before its session is streamed, with nothing yielded or posted, or
  it is a silent prologue, the stream of one session, and \<open>finally\<close>.\<close>

lemma stream_impl_shape [consumes 1, case_names early streamed]:
  assumes "stream_impl cfg client store agent messages ctx = (acts, e, store')"
  obtains
    (early) "e \<noteq> None" "yields_of acts = []" "posts_of acts = []" "deletes_of acts = []"
  | (streamed) tools sid created pre body where
      "build_tools agent ctx = Inr tools" "normalize_messages messages \<noteq> []"
      "stream_body (run_of cfg client tools ctx sid) (normalize_messages messages)
         (client_stream_end client) (client_events client) = (body, e)"
      "acts = pre @ OpenStream sid # body @ finally_actions created (delete_session_on_finish cfg)"
      "yields_of pre = []" "posts_of pre = []" "deletes_of pre = []"
      "created = (if supplied_session ctx = None then Some sid else None)"
      "case supplied_session ctx of Some s \<Rightarrow> sid = s
       | None \<Rightarrow> \<exists>kw. CreateSession kw \<in> set pre \<and> sessions_create client kw = Inr sid"
proof -
  have sess: "(e \<noteq> None \<and> sacts = [OpenStream sid]) \<or>
      (\<exists>body. stream_body (run_of cfg client tools ctx sid) ue (client_stream_end client)
          (client_events client) = (body, e) \<and>
        sacts = OpenStream sid # body @ finally_actions created (delete_session_on_finish cfg))"
    if "stream_session cfg client tools ctx ue sid created = (sacts, e)" for tools ue sid created sacts
    using that by (auto simp: stream_session_def run_of_def Let_def split: option.splits prod.splits)
  show thesis
  proof (cases "normalize_messages messages = []")
    case True
    with assms early show thesis by (auto simp: stream_impl_def Let_def)
  next
    case ue: False
    show thesis
    proof (cases "build_tools agent ctx")
      case (Inl x)
      with ue assms early show thesis by (auto simp: stream_impl_def Let_def)
    next
      case (Inr tools)
      define key where "key = registry_key (user_id (scope ctx)) (identity agent) PROVIDER_ANTHROPIC_MANAGED"
      obtain pacts pres where p: "provision_anthropic_agent cfg client agent tools (gateway_setting cfg ctx) 1 = (pacts, pres)"
        by fastforce
      define acts1 where "acts1 = (if get_binding store key 1 = None then pacts else [])"
      have quiet: "yields_of acts1 = []" "posts_of acts1 = []" "deletes_of acts1 = []"
        using provision_silent [OF p] by (simp_all add: acts1_def)
      obtain res st' where g: "get_or_provision store key 1 pres = (res, st')" by fastforce
      note step = assms [unfolded stream_impl_def Let_def, folded key_def, simplified ue Inr p g, folded acts1_def]
      show thesis
      proof (cases res)
        case (Inl x)
        with step ue Inr p g early quiet show thesis by (auto simp: acts1_def)
      next
        case b: (Inr binding)
        show thesis
        proof (cases "supplied_session ctx")
          case (Some sid)
          obtain sacts e1 where ss: "stream_session cfg client tools ctx (normalize_messages messages) sid None = (sacts, e1)"
            by fastforce
          with step ue Inr p g b Some have "acts = acts1 @ sacts" "e1 = e" by (auto simp: acts1_def)
          with sess [of tools "normalize_messages messages" sid None sacts] ss Some quiet early
            streamed [OF Inr ue] show thesis
            by (auto; metis)
        next
          case None
          define kw where "kw = create_session_kwargs (binding_agent_id binding)
             (binding_environment_id binding) (session_title agent ctx) (vault_ids_of ctx)"
          show thesis
          proof (cases "sessions_create client kw")
            case (Inl x)
            with step ue Inr p g b None quiet early show thesis by (auto simp: acts1_def kw_def)
          next
            case (Inr sid)
            obtain sacts e1 where ss: "stream_session cfg client tools ctx (normalize_messages messages) sid (Some sid) = (sacts, e1)"
              by fastforce
            with step ue p g b None Inr \<open>build_tools agent ctx = Inr tools\<close>
            have "acts = acts1 @ CreateSession kw # sacts" "e1 = e" by (auto simp: acts1_def kw_def)
            with sess [of tools "normalize_messages messages" sid "Some sid" sacts] ss None quiet early
              streamed [OF \<open>build_tools agent ctx = Inr tools\<close> ue, of sid _ "acts1 @ [CreateSession kw]"] Inr
            show thesis by auto
          qed
        qed
      qed
    qed
  qed
qed


lemma stream_body_shape:
  "stream_body R ue se evs = (body, e) \<Longrightarrow>
   (e \<noteq> None \<and> body = [Post ue]) \<or>
   (\<exists>acts. event_loop R se evs (note_post ue v2_init) = (acts, e) \<and> body = Post ue # acts)"
  by (auto simp: stream_body_def split: option.splits prod.splits)

lemma v2_init_simps [simp]: "events_by_id v2_init = []" "cycle_count v2_init = 0"
  "usage_accumulator v2_init = []" "\<not> finished v2_init"
  by (simp_all add: v2_init_def)

lemma fresh_state: "v2_inv (note_post ue v2_init)" "\<not> finished (note_post ue v2_init)"
  by simp_all

lemma stream_impl_finishes:
  assumes "stream_impl cfg client store agent messages ctx = (acts, e, store')"
  shows "case e of
      None \<Rightarrow> \<exists>sid. ends_with_finish sid (yields_of acts) \<and> OpenStream sid \<in> set acts \<and>
        (case supplied_session ctx of
           Some s \<Rightarrow> sid = s
         | None \<Rightarrow> \<exists>kw. CreateSession kw \<in> set acts \<and> sessions_create client kw = Inr sid)
    | Some x \<Rightarrow> no_finish (yields_of acts)"
  using assms
proof (cases rule: stream_impl_shape)
  case early
  then show ?thesis by auto
next
  case (streamed tools sid created pre body)
  have sid: "session (run_of cfg client tools ctx sid) = sid" by (simp add: run_of_def)
  have "case e of None \<Rightarrow> ends_with_finish sid (yields_of acts) | Some x \<Rightarrow> no_finish (yields_of acts)"
    using stream_body_shape [OF streamed(3)]
  proof (elim disjE exE conjE)
    fix es
    assume "event_loop (run_of cfg client tools ctx sid) (client_stream_end client) (client_events client)
        (note_post (normalize_messages messages) v2_init) = (es, e)"
      and "body = Post (normalize_messages messages) # es"
    with event_loop_finish [OF fresh_state this(1)] show ?thesis using streamed(4,5) by (simp add: sid split: option.splits)
  qed (use streamed(4,5) in auto)
  with streamed(4,9) show ?thesis by (auto split: option.splits)
qed

lemma stream_impl_answered:
  assumes "stream_impl cfg client store agent messages ctx = (acts, e, store')"
  shows "answered_after_call {} (yields_of acts)"
  using assms
proof (cases rule: stream_impl_shape)
  case (streamed tools sid created pre body)
  from stream_body_shape [OF streamed(3)] show ?thesis
    using streamed(4,5) event_loop_answered [OF fresh_state(1), of _ "{}"] by (auto simp: fresh_state)
qed simp

lemma stream_impl_posts:
  assumes "stream_impl cfg client store agent messages ctx = (acts, e, store')"
  shows "posts_of acts = [] \<or>
    (\<exists>ps. posts_of acts = normalize_messages messages # ps \<and>
      batches_ok (client_events client) (nat (max_cycles (v2_policy cfg))) ps)"
  using assms
proof (cases rule: stream_impl_shape)
  case (streamed tools sid created pre body)
  let ?R = "run_of cfg client tools ctx sid"
  have none: "batches_ok (client_events client) n []" for n
    by (intro batches_okI [of _ "[]" "[]"]) simp_all
  have pol: "policy ?R = v2_policy cfg" by (simp add: run_of_def)
  from stream_body_shape [OF streamed(3)] show ?thesis
    using streamed(4,6) none event_loop_posts [OF fresh_state(1), of ?R] by (auto simp: pol)
qed simp

lemma stream_impl_sources:
  assumes "stream_impl cfg client store agent messages ctx = (acts, e, store')"
    "b \<in> set (tl (posts_of acts))" "b \<noteq> interrupt_events" "r \<in> set b"
  shows "\<exists>tools ev c. build_tools agent ctx = Inr tools \<and> ev \<in> set (client_events client) \<and> call_of ev c \<and>
    call_event c \<in> set (yields_of acts) \<and> r = build_reply tools ctx c"
  using assms(1)
proof (cases rule: stream_impl_shape)
  case (streamed tools sid created pre body)
  let ?R = "run_of cfg client tools ctx sid"
  have R: "effective_tools ?R = tools" "context_of ?R = ctx" by (simp_all add: run_of_def)
  from stream_body_shape [OF streamed(3)] obtain es where
    es: "event_loop ?R (client_stream_end client) (client_events client)
      (note_post (normalize_messages messages) v2_init) = (es, e)" "body = Post (normalize_messages messages) # es"
    using assms(2) streamed(4,6) by auto
  have "b \<in> set (posts_of es)" using assms(2) streamed(4,6) es(2) by simp
  from event_loop_sources [OF fresh_state(1) es(1) this assms(3,4)]
  show ?thesis using streamed(1,4,5) es(2) unfolding reply_source_def announced_def by (auto simp: R)
qed (use assms(2) in simp)

lemma stream_impl_text:
  assumes "stream_impl cfg client store agent messages ctx = (acts, None, store')"
  shows "\<exists>tools sid. build_tools agent ctx = Inr tools \<and>
    (let seen = consumed (run_of cfg client tools ctx sid) (client_events client)
           (note_post (normalize_messages messages) v2_init)
     in prefix seen (client_events client) \<and>
        text_of (yields_of acts) = concat (map message_texts seen) \<and>
        (\<exists>xs s. yields_of acts = xs @ [AgentFinish s
           (map (\<lambda>(k, n). (k, PInt n)) (fold add_usage (usages_of seen) [])) (Some sid)]))"
  using assms
proof (cases rule: stream_impl_shape)
  case (streamed tools sid created pre body)
  let ?R = "run_of cfg client tools ctx sid"
  have sid: "session ?R = sid" by (simp add: run_of_def)
  from stream_body_shape [OF streamed(3)] obtain es where
    es: "event_loop ?R (client_stream_end client) (client_events client)
      (note_post (normalize_messages messages) v2_init) = (es, None)" "body = Post (normalize_messages messages) # es"
    by auto
  show ?thesis
    using streamed(1,4,5) es(2) event_loop_text [OF fresh_state(1) es(1)]
      event_loop_usage [OF fresh_state(1,2) es(1)]
    by (intro exI [of _ tools] exI [of _ sid]) (simp add: Let_def consumed_prefix sid fresh_state)
qed simp


section \<open>Cleanup\<close>

lemma deletes_yields [simp]: "deletes_of (map (\<lambda>t. Yield (f t)) ts) = []" "deletes_of (map Post bs) = []"
  by (induction ts, auto) (induction bs, auto)

lemma deletes_round [simp]: "deletes_of (round_acts R st stop) = []"
proof -
  have "deletes_of (reply_actions R c) = []" for c
    by (cases c) (auto simp: reply_actions_def Let_def split: option.split)
  then have "deletes_of (concat (map (reply_actions R) cs)) = []" for cs by (induction cs) simp_all
  then show ?thesis by (simp add: round_acts_def)
qed

lemma on_event_deletes: "v2_inv st \<Longrightarrow> on_event R ev st = (acts, st', fl) \<Longrightarrow> deletes_of acts = []"
  by (erule on_event_cases, assumption) (auto simp: finish_now_def interrupt_and_finish_eq)

lemma event_loop_deletes: "v2_inv st \<Longrightarrow> event_loop R se evs st = (acts, e) \<Longrightarrow> deletes_of acts = []"
proof (induction evs arbitrary: st acts)
  case Nil
  then show ?case by (auto split: option.splits if_splits)
next
  case (Cons ev evs)
  obtain a st' fl where on: "on_event R ev st = (a, st', fl)" by (cases "on_event R ev st")
  note none = on_event_deletes [OF Cons.prems(1) on]
  show ?case
  proof (cases fl)
    case Continue
    obtain acts' where "event_loop R se evs st' = (acts', e)" "acts = a @ acts'"
      using Cons.prems(2) on Continue by (auto split: prod.splits)
    moreover have "v2_inv st'" using on_event_inv [OF Cons.prems(1)] on Continue by blast
    ultimately show ?thesis using Cons.IH none by simp
  qed (use Cons.prems(2) on none in auto)
qed

lemma stream_body_deletes: "stream_body R ue se evs = (body, e) \<Longrightarrow> deletes_of body = []"
  using stream_body_shape [of R ue se evs body e] event_loop_deletes [OF fresh_state(1)] by fastforce

lemma stream_impl_deletes:
  assumes "stream_impl cfg client store agent messages ctx = (acts, e, store')"
  shows "deletes_of acts = [] \<or>
    delete_session_on_finish cfg \<and> supplied_session ctx = None \<and>
    (\<exists>sid pre. deletes_of acts = [sid] \<and> acts = pre @ [CloseStream, DeleteSession sid] \<and> OpenStream sid \<in> set pre)"
  using assms
proof (cases rule: stream_impl_shape)
  case (streamed tools sid created pre body)
  show ?thesis
  proof (cases "delete_session_on_finish cfg \<and> supplied_session ctx = None \<and> sid \<noteq> []")
    case True
    then have "finally_actions created (delete_session_on_finish cfg) = [CloseStream, DeleteSession sid]"
      using streamed(8) by (cases sid) (simp_all add: finally_actions_def)
    with True streamed(4,7) stream_body_deletes [OF streamed(3)] show ?thesis
      by (intro disjI2 conjI exI [of _ sid] exI [of _ "pre @ OpenStream sid # body"]) simp_all
  next
    case False
    then have "deletes_of (finally_actions created (delete_session_on_finish cfg)) = []"
      using streamed(8) by (auto simp: finally_actions_def split: option.split list.split)
    with streamed(4,7) stream_body_deletes [OF streamed(3)] show ?thesis by simp
  qed
qed simp

section \<open>The deadline\<close>

lemma deadline_prefix:
  "deadline_loop dl now items lw e = (evs, t, e') \<Longrightarrow>
   prefix evs (map (fst \<circ> snd) items) \<and> (\<not> t \<longrightarrow> evs = map (fst \<circ> snd) items \<and> e' = e) \<and> (t \<longrightarrow> e' = None)"
proof (induction items arbitrary: now evs)
  case (Cons it items)
  obtain w ev c where it: "it = (w, ev, c)" by (cases it)
  show ?case
  proof (cases "dl - now \<le> 0 \<or> dl - now \<le> w")
    case True
    with Cons.prems show ?thesis by (auto simp: it Let_def)
  next
    case False
    then obtain evs' where "deadline_loop dl (now + w + c) items lw e = (evs', t, e')" "evs = ev # evs'"
      using Cons.prems by (auto simp: it Let_def split: prod.splits)
    with Cons.IH show ?thesis by (auto simp: it)
  qed
qed (auto simp: Let_def split: if_splits)

text \<open>When each event arrives, counted from the start.\<close>

fun arrivals :: "int \<Rightarrow> (int \<times> 'e \<times> int) list \<Rightarrow> int list" where
  "arrivals now [] = []"
| "arrivals now ((w, ev, c) # items) = (now + w) # arrivals (now + w + c) items"

fun total_time :: "(int \<times> 'e \<times> int) list \<Rightarrow> int" where
  "total_time [] = 0"
| "total_time ((w, ev, c) # items) = w + c + total_time items"

lemma total_time_nonneg:
  "list_all (\<lambda>(w, ev, c). 0 \<le> w \<and> 0 \<le> c) items \<Longrightarrow> 0 \<le> total_time items"
  by (induction items) auto

text \<open>The loop passes on exactly the events that arrive in time, and times out unless all of them do and the end
  of the generator is in time and no timeout of its own.\<close>

lemma deadline_exact:
  assumes "list_all (\<lambda>(w, ev, c). 0 \<le> w) items" "0 \<le> lw"
  shows "deadline_loop dl now items lw e =
    (let k = length (takeWhile (\<lambda>a. a < dl) (arrivals now items))
     in if k = length items \<and> now + total_time items + lw < dl \<and> \<not> is_timeout e
        then (map (fst \<circ> snd) items, False, e)
        else (map (fst \<circ> snd) (take k items), True, None))"
  using assms(1)
proof (induction items arbitrary: now)
  case (Cons it items)
  obtain w ev c where it: "it = (w, ev, c)" by (cases it)
  with Cons.prems Cons.IH [of "now + w + c"] show ?case by (auto simp: it Let_def algebra_simps)
qed (use assms(2) in \<open>auto simp: Let_def\<close>)

lemma timed_items_events [simp]: "map (fst \<circ> snd) (timed_items tm evs) = evs"
proof -
  have "map (fst \<circ> snd) (timed_items tm evs) = map snd (enumerate 0 evs)"
    by (simp add: timed_items_def comp_def case_prod_unfold)
  then show ?thesis by simp
qed

section \<open>Catalog and fingerprint\<close>

lemma fingerprint_parts_specs:
  "registry_list_specs tools = registry_list_specs tools' \<Longrightarrow>
   fingerprint_parts cfg agent tools gw = fingerprint_parts cfg agent tools' gw"
  by (simp add: fingerprint_parts_def)

lemma fingerprint_parts_eq:
  assumes "fingerprint_agent sha cfg agent tools gw = fingerprint_agent sha cfg agent' tools' gw'"
    and "\<And>x y. x = py_join [nul] (fingerprint_parts cfg agent tools gw) \<Longrightarrow>
      y = py_join [nul] (fingerprint_parts cfg agent' tools' gw') \<Longrightarrow> sha x = sha y \<Longrightarrow> x = y"
    and "\<forall>x \<in> set (fingerprint_parts cfg agent tools gw). nul \<notin> set x"
    and "\<forall>x \<in> set (fingerprint_parts cfg agent' tools' gw'). nul \<notin> set x"
  shows "fingerprint_parts cfg agent tools gw = fingerprint_parts cfg agent' tools' gw'"
proof -
  have "py_join [nul] (fingerprint_parts cfg agent tools gw) = py_join [nul] (fingerprint_parts cfg agent' tools' gw')"
    using assms(2) [OF refl refl] assms(1) by (simp add: fingerprint_agent_def)
  then show ?thesis
    using py_split_join [OF _ assms(3)] py_split_join [OF _ assms(4)] by (auto simp: fingerprint_parts_def Let_def)
qed

lemma deadline_late:
  "list_all (\<lambda>(w, ev, c). 0 \<le> w \<and> 0 \<le> c) items \<Longrightarrow> now + total_time items < dl \<Longrightarrow>
   dl \<le> now + total_time items + lw \<Longrightarrow>
   deadline_loop dl now items lw e = (map (fst \<circ> snd) items, True, None)"
proof (induction items arbitrary: now)
  case (Cons it items)
  obtain w ev c where it: "it = (w, ev, c)" by (cases it)
  have pos: "0 \<le> w" "0 \<le> c" "0 \<le> total_time items" using Cons.prems(1) total_time_nonneg [of items] by (auto simp: it)
  with Cons.prems Cons.IH [of "now + w + c"] show ?case by (simp add: it Let_def)
qed (simp add: Let_def)

lemma stream_with_deadline_answered:
  "answered_after_call {} (map (fst \<circ> snd) items) \<Longrightarrow>
   answered_after_call {} (fst (stream_with_deadline budget items lw e))"
proof -
  assume ok: "answered_after_call {} (map (fst \<circ> snd) items)"
  obtain evs t e' where d: "deadline_loop budget 0 items lw e = (evs, t, e')"
    by (cases "deadline_loop budget 0 items lw e")
  have "answered_after_call {} evs"
    using deadline_prefix [OF d] ok by (auto simp: prefix_def answered_append)
  then show ?thesis by (simp add: stream_with_deadline_def d answered_append timeout_finish_def)
qed

lemma stream_v2_answered: "answered_after_call {} (fst (stream_v2 X messages ctx))"
proof -
  obtain cfg client store tm agent where X: "X = (cfg, client, store, tm, agent)" by (cases X)
  obtain acts e st where run: "stream_impl cfg client store agent messages ctx = (acts, e, st)"
    by (cases "stream_impl cfg client store agent messages ctx")
  have "answered_after_call {} (yields_of acts)" by (rule stream_impl_answered [OF run])
  then show ?thesis
    by (simp add: stream_v2_def X run stream_with_deadline_answered)
qed

lemma fingerprint_parts_nth:
  "fingerprint_parts cfg agent tools gw ! 0 = model agent"
  "fingerprint_parts cfg agent tools gw ! 1 = system_prompt agent"
  "drop 6 (fingerprint_parts cfg agent tools gw) = concat (map (\<lambda>spec. [spec_name spec, spec_description spec,
        dumps_sorted (PDict (spec_input_schema spec))]) (registry_list_specs tools))"
  by (simp_all add: fingerprint_parts_def Let_def del: sort_keys.simps)

lemma concat_triples: "concat (map (\<lambda>s. [f s, g s, h s]) xs) = concat (map (\<lambda>s. [f s, g s, h s]) ys) \<Longrightarrow>
    map (\<lambda>s. (f s, g s, h s)) xs = map (\<lambda>s. (f s, g s, h s)) ys"
  by (induction xs ys rule: list_induct2') auto

section \<open>A stored binding decides\<close>

definition binding_action_ok :: "string \<Rightarrow> v2_action \<Rightarrow> bool" where
  "binding_action_ok agent_id a = (case a of CreateAgent kw \<Rightarrow> False
      | CreateSession kw \<Rightarrow> dict_get kw ''agent'' = Some (PStr agent_id) | _ \<Rightarrow> True)"

lemma binding_action_ok_simps [simp]:
  "binding_action_ok i (Yield e)" "binding_action_ok i (Post b)" "binding_action_ok i (Invoke x y z)"
  "binding_action_ok i (OpenStream s)" "binding_action_ok i CloseStream" "binding_action_ok i (DeleteSession s)"
  "binding_action_ok i (CreateSession (create_session_kwargs i j t v))"
  by (simp_all add: binding_action_ok_def create_session_kwargs_def)

lemma round_acts_ok: "list_all (binding_action_ok i) (round_acts R st stop)"
proof -
  have "list_all (binding_action_ok i) (reply_actions R c)" for c
    by (cases c) (auto simp: reply_actions_def Let_def split: option.split)
  then show ?thesis by (auto simp: round_acts_def list_all_iff)
qed

lemma event_loop_ok: "v2_inv st \<Longrightarrow> event_loop R se evs st = (acts, e) \<Longrightarrow> list_all (binding_action_ok i) acts"
proof (induction evs arbitrary: st acts)
  case Nil
  then show ?case by (auto split: option.splits if_splits)
next
  case (Cons ev evs)
  obtain a st' fl where on: "on_event R ev st = (a, st', fl)" by (cases "on_event R ev st")
  have ok: "list_all (binding_action_ok i) a"
    using Cons.prems(1) on
    by (cases rule: on_event_cases)
      (auto simp: finish_now_def interrupt_and_finish_eq round_acts_ok list.pred_map comp_def
        list.pred_True)
  show ?case
  proof (cases fl)
    case Continue
    obtain acts' where "event_loop R se evs st' = (acts', e)" "acts = a @ acts'"
      using Cons.prems(2) on Continue by (auto split: prod.splits)
    moreover have "v2_inv st'" using on_event_inv [OF Cons.prems(1)] on Continue by blast
    ultimately show ?thesis using Cons.IH ok by simp
  qed (use Cons.prems(2) on ok in auto)
qed

lemma stream_session_ok:
  "stream_session cfg client tools ctx ue sid created = (acts, e) \<Longrightarrow> list_all (binding_action_ok i) acts"
  using event_loop_ok [OF fresh_state(1), where i = i]
  by (auto simp: stream_session_def stream_body_def Let_def finally_actions_def
      split: option.splits prod.splits list.splits)

lemma stream_impl_bound:
  assumes "get_binding store (registry_key (user_id (scope ctx)) (identity agent) PROVIDER_ANTHROPIC_MANAGED) 1 = Some b"
    and "stream_impl cfg client store agent messages ctx = (acts, e, store')"
  shows "store' = store \<and> list_all (\<lambda>a. case a of CreateAgent kw \<Rightarrow> False
      | CreateSession kw \<Rightarrow> dict_get kw ''agent'' = Some (PStr (binding_agent_id b)) | _ \<Rightarrow> True) acts"
proof -
  have "store' = store \<and> list_all (binding_action_ok (binding_agent_id b)) acts"
    using assms(2) in_memory.hit [OF assms(1)]
    by (auto simp: stream_impl_def Let_def assms(1) split: if_splits sum.splits prod.splits option.splits
        intro: stream_session_ok)
  then show ?thesis by (simp add: binding_action_ok_def [abs_def])
qed

end
