(* ===== verification/PropertiesV2.thy ===== *)
theory PropertiesV2
  imports BackendV2
begin

text \<open>
  The properties of one invocation of \<open>ManagedAgentBackendV2\<close>: what it yields, posts, deletes and
  reduces to, its deadline, the replies it sends, its catalog and fingerprint, and the binding it
  runs on. Each is a short consequence of the lemmas of \<open>BackendV2\<close> and \<open>StreamV2Facts\<close>; a concrete
  invocation, evaluated in full, serves the witnesses.
\<close>

section \<open>A concrete invocation\<close>

text \<open>One custom tool, one round that asks for it, then the model's answer; used by the witnesses.\<close>

definition ex_tool :: tool where
  "ex_tool = \<lparr>tool_spec = \<lparr>spec_name = ''add'', spec_description = ''adds'', spec_input_schema = []\<rparr>,
     tool_invoke = (\<lambda>args ctx. Inr (PDict [(''sum'', PInt 3)]))\<rparr>"

definition ex_agent :: base_agent where
  "ex_agent = \<lparr>identity = ''calc'', model = ''m1'', system_prompt = ''add things'',
     agent_tools = [(''add'', ex_tool)], tool_resolver = None, on_conflict = ''dynamic_wins''\<rparr>"

definition ex_ctx :: invocation_context where
  "ex_ctx = \<lparr>scope = \<lparr>user_id = ''u1'', sandbox_id = None, project_id = None\<rparr>, trace_id = None,
     dek = None, handles = []\<rparr>"

definition ex_cfg :: v2_config where
  "ex_cfg = make_backend_v2 None None ''copass-agents-env'' False True False ''https://mcp'' ''copass''"

definition ex_events :: "sdk_event list" where
  "ex_events =
     [bare_event\<lparr>evt_type := Some ''agent.custom_tool_use'', evt_id := Some ''e1'', evt_name := Some ''add''\<rparr>,
      bare_event\<lparr>evt_type := Some ''session.status_idle'', evt_id := Some ''i1'',
        evt_stop_reason := Some \<lparr>stop_type = Some ''requires_action'', stop_event_ids = [''e1'', ''e1'']\<rparr>\<rparr>,
      bare_event\<lparr>evt_type := Some ''agent.message'',
        evt_content := [\<lparr>block_type = Some ''text'', block_text = Some ''3''\<rparr>]\<rparr>,
      bare_event\<lparr>evt_type := Some ''session.status_idle'',
        evt_stop_reason := Some \<lparr>stop_type = Some ''end_turn'', stop_event_ids = []\<rparr>\<rparr>]"

definition ex_client :: v2_client where
  "ex_client = \<lparr>agents_create = (\<lambda>kw. Inr ''agent_1''), environments_create = (\<lambda>n c. Inr ''env_1''),
     sessions_create = (\<lambda>kw. Inr ''s1''), open_stream = (\<lambda>s. None),
     client_server = \<lparr>send_outcome = (\<lambda>h b. None), cycle_expires = (\<lambda>n. False)\<rparr>,
     client_events = ex_events, client_stream_end = None, client_now = ''2026-01-01T00:00:00Z''\<rparr>"

lemma ex_run: "case stream_impl ex_cfg ex_client [] ex_agent (PStr ''1+2?'') ex_ctx of
    (acts, e, store) \<Rightarrow> e = None \<and> deletes_of acts = [''s1''] \<and>
      yields_of acts = [AgentToolCall ''e1'' ''add'' [],
        AgentToolResult ''e1'' ''add'' (PDict [(''sum'', PInt 3)]) None, AgentTextDelta ''3'',
        AgentFinish ''end_turn'' [] (Some ''s1'')] \<and>
      posts_of acts = [[user_message [text_block ''1+2?'']],
        [execute_and_build_reply ''e1'' ''add'' [] [(''add'', ex_tool)] ex_ctx]]"
  by code_simp

section \<open>Properties\<close>

text \<open>Claim C1. Every invocation that runs to the end of its stream yields exactly one finish event,
  as its last event, carrying the id of the session it streamed: the one the caller supplied, or else
  the one that \<open>sessions.create\<close> returned to it; one that ends with an exception yields none.\<close>

theorem invocation_finishes_once:
  "case stream_impl cfg client store agent messages ctx of
     (acts, e, store') \<Rightarrow>
       (case e of
          None \<Rightarrow> \<exists>sid. ends_with_finish sid (yields_of acts) \<and> OpenStream sid \<in> set acts \<and>
            (case supplied_session ctx of
               Some s \<Rightarrow> sid = s
             | None \<Rightarrow> \<exists>kw. CreateSession kw \<in> set acts \<and> sessions_create client kw = Inr sid)
        | Some x \<Rightarrow> no_finish (yields_of acts))"
  using stream_impl_finishes by (cases "stream_impl cfg client store agent messages ctx") auto

text \<open>Claim C2. What an invocation posts: nothing, or first the user's messages and then, for a
  subsequence of the stream's requires_action rounds in their order, one batch per round that
  answers each requested id exactly once, in sorted order; at most max_cycles batches, and after
  them at most one interrupt.\<close>

theorem invocation_posts:
  "case stream_impl cfg client store agent messages ctx of
     (acts, e, store') \<Rightarrow>
       (case posts_of acts of
          [] \<Rightarrow> True
        | first # rest \<Rightarrow>
            first = normalize_messages messages \<and>
            (\<exists>batches stops. (rest = batches \<or> rest = batches @ [interrupt_events]) \<and>
               list_all2 (\<lambda>b s. map reply_id b = map PStr (sort (remdups (stop_event_ids s)))) batches stops \<and>
               subseq stops (rounds_of (client_events client)) \<and>
               length batches \<le> nat (max_cycles (v2_policy cfg))))"
  using stream_impl_posts [of cfg client store agent messages ctx]
  by (cases "stream_impl cfg client store agent messages ctx")
    (auto simp: batches_ok_def answers_def [abs_def] split: list.split, blast+)

text \<open>Claim C3. Every reply the backend posts for a tool call answers a tool-use event of the stream that was
  announced to the caller, and is the one for that event's envelope: for a custom tool the reply of running the tool
  it names on its input, with the invocation's tools and context; for a built-in tool or one of an MCP server
  the confirmation of that kind.\<close>

theorem replies_are_for_announced_calls:
  assumes "stream_impl cfg client store agent messages ctx = (acts, e, store')"
    "b \<in> set (tl (posts_of acts))" "b \<noteq> interrupt_events" "r \<in> set b"
  shows "\<exists>tools ev i args. build_tools agent ctx = Inr tools \<and>
    ev \<in> set (client_events client) \<and> evt_id ev = Some i \<and>
    AgentToolCall i (name_or_empty ev) args \<in> set (yields_of acts) \<and>
    (evt_type ev = Some ENVELOPE_CUSTOM_TOOL_USE \<and> args = input_arguments (evt_input ev) \<and>
       r = execute_and_build_reply i (name_or_empty ev) args tools ctx \<or>
     evt_type ev = Some ENVELOPE_SERVER_TOOL_USE \<and> args = [] \<and> r = server_build_reply i \<or>
     evt_type ev = Some ENVELOPE_MCP_TOOL_USE \<and> args = [] \<and> r = mcp_build_reply i)"
proof -
  from stream_impl_sources [OF assms] obtain tools ev c where
    c: "build_tools agent ctx = Inr tools" "ev \<in> set (client_events client)" "call_of ev c"
      "call_event c \<in> set (yields_of acts)" "r = build_reply tools ctx c" by blast
  then show ?thesis
    by (cases c) (force simp: call_of_def build_pending_tool_call_def call_event_def build_reply_def split: if_splits)+
qed

text \<open>Claim C8. A tool result is only ever yielded after the call it answers.\<close>

theorem results_follow_calls:
  "case stream_impl cfg client store agent messages ctx of
     (acts, e, store') \<Rightarrow> answered_after_call {} (yields_of acts)"
  using stream_impl_answered by (cases "stream_impl cfg client store agent messages ctx") auto

theorem replies_are_for_announced_calls_witness:
  "\<exists>tools ev i args. build_tools ex_agent ex_ctx = Inr tools \<and> ev \<in> set ex_events \<and> evt_id ev = Some i \<and>
    evt_type ev = Some ENVELOPE_CUSTOM_TOOL_USE \<and>
    execute_and_build_reply ''e1'' ''add'' [] [(''add'', ex_tool)] ex_ctx =
      execute_and_build_reply i (name_or_empty ev) args tools ex_ctx"
proof -
  obtain acts e store where run: "stream_impl ex_cfg ex_client [] ex_agent (PStr ''1+2?'') ex_ctx = (acts, e, store)"
    by (cases "stream_impl ex_cfg ex_client [] ex_agent (PStr ''1+2?'') ex_ctx")
  let ?b = "[execute_and_build_reply ''e1'' ''add'' [] [(''add'', ex_tool)] ex_ctx]"
  have "posts_of acts = [[user_message [text_block ''1+2?'']], ?b]" using ex_run by (simp add: run)
  moreover have "?b \<noteq> interrupt_events"
    by (auto simp: interrupt_events_def execute_and_build_reply_def build_reply_from_result_def split: prod.splits)
  moreover have "\<forall>ev \<in> set ex_events. evt_type ev \<noteq> Some ENVELOPE_SERVER_TOOL_USE \<and> evt_type ev \<noteq> Some ENVELOPE_MCP_TOOL_USE"
    by code_simp
  ultimately show ?thesis
    using replies_are_for_announced_calls [OF run, of ?b "hd ?b"] by (fastforce simp: ex_client_def)
qed

text \<open>Claim C13. Of the events it consumed, up to the one that ended the stream, an invocation passes on
  exactly the text of the messages, in order, and its finish event reports for each token counter
  the sum over the consumed model-request spans.\<close>

theorem text_and_usage_totals:
  assumes "stream_impl cfg client store agent messages ctx = (acts, None, store')"
  shows "\<exists>seen. prefix seen (client_events client) \<and>
    text_of (yields_of acts) = concat (map message_texts seen) \<and>
    (\<exists>xs s acc sid. yields_of acts = xs @ [AgentFinish s (map (\<lambda>(k, n). (k, PInt n)) acc) (Some sid)] \<and>
       list_all (\<lambda>k. acc_get acc k = sum_list (map (token_count k) (usages_of seen))) usage_keys)"
proof -
  from stream_impl_text [OF assms] obtain seen xs s sid where
    seen: "prefix seen (client_events client)" "text_of (yields_of acts) = concat (map message_texts seen)"
      "yields_of acts = xs @ [AgentFinish s (map (\<lambda>(k, n). (k, PInt n)) (fold add_usage (usages_of seen) [])) (Some sid)]"
    unfolding Let_def by blast
  have "list_all (\<lambda>k. acc_get (fold add_usage (usages_of seen) []) k =
      sum_list (map (token_count k) (usages_of seen))) usage_keys"
    by (simp add: list_all_iff usage_total) (simp add: acc_get_def)
  with seen show ?thesis by blast
qed

theorem text_and_usage_totals_witness:
  "\<exists>seen acts store'. stream_impl ex_cfg ex_client [] ex_agent (PStr ''1+2?'') ex_ctx = (acts, None, store') \<and>
    prefix seen (client_events ex_client) \<and> text_of (yields_of acts) = concat (map message_texts seen)"
proof -
  obtain acts e store where run: "stream_impl ex_cfg ex_client [] ex_agent (PStr ''1+2?'') ex_ctx = (acts, e, store)"
    by (cases "stream_impl ex_cfg ex_client [] ex_agent (PStr ''1+2?'') ex_ctx")
  then have "stream_impl ex_cfg ex_client [] ex_agent (PStr ''1+2?'') ex_ctx = (acts, None, store)"
    using ex_run by simp
  from this text_and_usage_totals [OF this] show ?thesis by blast
qed

text \<open>Claim C19. A session is deleted at most once, as the very last act, only when the backend created it
  in this invocation and is configured to delete it, and it is the session that was streamed.\<close>

theorem only_own_session_deleted:
  "case stream_impl cfg client store agent messages ctx of
     (acts, e, store') \<Rightarrow>
       (case deletes_of acts of
          [] \<Rightarrow> True
        | sid # rest \<Rightarrow> rest = [] \<and> delete_session_on_finish cfg \<and> supplied_session ctx = None \<and>
            (\<exists>pre. acts = pre @ [CloseStream, DeleteSession sid] \<and> OpenStream sid \<in> set pre))"
  using stream_impl_deletes [of cfg client store agent messages ctx]
  by (cases "stream_impl cfg client store agent messages ctx") (fastforce split: list.split)

text \<open>Claim C20. What the caller receives under the total timeout: exactly the events that arrive before the deadline.
  When all of them do, and the generator ends in time and not with a timeout of its own, the stream
  ends with it, exception included; in every other case the timeout finish follows and no exception.\<close>

theorem deadline_wrapper:
  assumes "list_all (\<lambda>(wait, ev, consume). 0 \<le> wait) items" "0 \<le> last_wait"
  shows "let k = length (takeWhile (\<lambda>a. a < budget) (arrivals 0 items)); in_time = map (fst \<circ> snd) (take k items)
    in stream_with_deadline budget items last_wait e =
      (if k = length items \<and> total_time items + last_wait < budget \<and> \<not> is_timeout e then (in_time, e)
       else (in_time @ [timeout_finish], None))"
  using deadline_exact [OF assms, of budget 0 e] by (simp add: stream_with_deadline_def Let_def)

theorem deadline_wrapper_witness:
  "stream_with_deadline 300 [(5, AgentTextDelta ''hi'', 290), (7, AgentFinish ''end_turn'' [] None, 0)] 1 None =
     ([AgentTextDelta ''hi'', timeout_finish], None) \<and>
   stream_with_deadline 300 [(5, AgentTextDelta ''hi'', 1)] 1 (Some (TimeoutError ''resolver'')) =
     ([AgentTextDelta ''hi'', timeout_finish], None) \<and>
   stream_with_deadline 300 [(5, AgentTextDelta ''hi'', 1)] 1 (Some (ValueError ''x'')) =
     ([AgentTextDelta ''hi''], Some (ValueError ''x''))"
  using deadline_wrapper [of "[(5, AgentTextDelta ''hi'', 290), (7, AgentFinish ''end_turn'' [] None, 0)]" 1 300 None]
    deadline_wrapper [of "[(5, AgentTextDelta ''hi'', 1)]" 1 300 "Some (TimeoutError ''resolver'')"]
    deadline_wrapper [of "[(5, AgentTextDelta ''hi'', 1)]" 1 300 "Some (ValueError ''x'')"]
  by simp

text \<open>A finish event does not end the wrapper's budget: when closing the stream after it
  takes longer than what is left, a second finish follows, and the reduced result reports a
  timeout with no usage for a turn that had completed.\<close>

theorem late_close_overwrites_finish:
  assumes "list_all (\<lambda>(w, ev, c). 0 \<le> w \<and> 0 \<le> c) items" "total_time items < budget"
    "budget \<le> total_time items + last_wait"
    "map (fst \<circ> snd) items = evs @ [AgentFinish ''end_turn'' u sid]"
  shows "stream_with_deadline budget items last_wait None =
      (evs @ [AgentFinish ''end_turn'' u sid, timeout_finish], None) \<and>
    (case run_result (stream_with_deadline budget items last_wait None) of
       Inl x \<Rightarrow> False
     | Inr r \<Rightarrow> stop_reason r = ''policy_total_timeout'' \<and> usage r = [] \<and> session_id r = None)"
proof -
  have "stream_with_deadline budget items last_wait None =
      ((evs @ [AgentFinish ''end_turn'' u sid]) @ [timeout_finish], None)"
    using deadline_late [OF assms(1), of 0 budget last_wait None] assms(2-4) by (simp add: stream_with_deadline_def)
  then show ?thesis by (simp add: run_result_def timeout_finish_def del: append_assoc)
qed

theorem late_close_overwrites_finish_witness:
  "stream_with_deadline 300 [(290, AgentFinish ''end_turn'' [(''output_tokens'', PInt 7)] (Some ''s1''), 0)] 20 None =
     ([AgentFinish ''end_turn'' [(''output_tokens'', PInt 7)] (Some ''s1''), timeout_finish], None)"
  using late_close_overwrites_finish
    [of "[(290, AgentFinish ''end_turn'' [(''output_tokens'', PInt 7)] (Some ''s1''), 0)]" 300 20 "[]"] by simp

text \<open>Claim C16. The result of run: when it returns, its text is the concatenation of the streamed deltas,
  its log has one entry per streamed call in order, and if the call ids are distinct each entry
  holds the first result streamed for its id.\<close>

theorem run_reduces_stream:
  assumes "run_v2 X messages ctx = Inr r"
    and "distinct (map fst (calls_of (fst (stream_v2 X messages ctx))))"
  shows "final_text r = text_of (fst (stream_v2 X messages ctx)) \<and>
    map (\<lambda>l. (log_call_id l, log_name l, log_arguments l)) (tool_calls r) = calls_of (fst (stream_v2 X messages ctx)) \<and>
    list_all (\<lambda>l. log_result l = (case results_of (log_call_id l) (fst (stream_v2 X messages ctx)) of
        [] \<Rightarrow> None | res # rest \<Rightarrow> Some res)) (tool_calls r)"
  using v2.run_text [OF assms(1)] v2.run_calls [OF assms(1)]
    v2.run_results [OF assms(1) stream_v2_answered assms(2)]
  by (auto simp: list_all_iff Let_def split: list.split if_splits)

definition ex_timing :: timing where
  "ex_timing = \<lparr>waits = (\<lambda>n. 2), consumes = (\<lambda>n. 0), end_wait = 1\<rparr>"

lemma ex_run_v2: "case run_v2 (ex_cfg, ex_client, [], ex_timing, ex_agent) (PStr ''1+2?'') ex_ctx of
    Inl x \<Rightarrow> False
  | Inr r \<Rightarrow> final_text r = ''3'' \<and> map log_result (tool_calls r) = [Some (PDict [(''sum'', PInt 3)])]"
  "distinct (map fst (calls_of (fst (stream_v2 (ex_cfg, ex_client, [], ex_timing, ex_agent) (PStr ''1+2?'') ex_ctx))))"
  by code_simp+

theorem run_reduces_stream_witness:
  "text_of (fst (stream_v2 (ex_cfg, ex_client, [], ex_timing, ex_agent) (PStr ''1+2?'') ex_ctx)) = ''3''"
proof -
  obtain r where r: "run_v2 (ex_cfg, ex_client, [], ex_timing, ex_agent) (PStr ''1+2?'') ex_ctx = Inr r"
    "final_text r = ''3''"
    using ex_run_v2(1) by (cases "run_v2 (ex_cfg, ex_client, [], ex_timing, ex_agent) (PStr ''1+2?'') ex_ctx") auto
  from run_reduces_stream [OF r(1) ex_run_v2(2)] r(2) show ?thesis by simp
qed

text \<open>Claim C17. Decoding the reply of a custom tool gives back what the tool produced: its JSON-plain
  result, and its error message when there is one.\<close>

theorem custom_reply_roundtrip:
  assumes "execute_custom name args tools ctx = (result, err)" "json_wf (PDict result)"
  shows "PDict (decode_custom_result (execute_and_build_reply eid name args tools ctx)) = plain (PDict result) \<and>
    decode_custom_error (execute_and_build_reply eid name args tools ctx) = (if err = Some [] then None else err)"
  using assms by (simp add: execute_and_build_reply_def decode_result_build decode_error_build)

theorem custom_reply_roundtrip_witness:
  "PDict (decode_custom_result (execute_and_build_reply ''e1'' ''add'' [] [(''add'', ex_tool)] ex_ctx)) =
      PDict [(''sum'', PInt 3)] \<and>
    decode_custom_error (execute_and_build_reply ''e1'' ''nope'' [] [(''add'', ex_tool)] ex_ctx) =
      Some (''tool '' @ repr_str ''nope'' @ '' not registered'')"
  using custom_reply_roundtrip [of "''add''" "[]" "[(''add'', ex_tool)]" ex_ctx "[(''sum'', PInt 3)]" None "''e1''"]
    custom_reply_roundtrip [of "''nope''" "[]" "[(''add'', ex_tool)]" ex_ctx "[]"
      "Some (''tool '' @ repr_str ''nope'' @ '' not registered'')" "''e1''"]
  by (simp add: execute_custom_def registry_try_get_def ex_tool_def)

text \<open>Two registries with the same tools, however they were filled, give the same tools
  payload and the same fingerprint.\<close>

theorem fingerprint_ignores_registration_order:
  assumes "registry_ok tools" "registry_ok tools'"
    "\<And>n. registry_try_get tools n = registry_try_get tools' n"
  shows "fingerprint_agent sha cfg agent tools gw = fingerprint_agent sha cfg agent tools' gw \<and>
    specs_to_tools cfg (registry_list_specs tools) gw = specs_to_tools cfg (registry_list_specs tools') gw"
  using registry_list_specs_cong [OF assms]
    fingerprint_parts_specs [OF registry_list_specs_cong [OF assms], of cfg agent gw]
  by (simp add: fingerprint_agent_def)

definition ex_tool2 :: tool where
  "ex_tool2 = ex_tool\<lparr>tool_spec := \<lparr>spec_name = ''sub'', spec_description = ''subtracts'', spec_input_schema = []\<rparr>\<rparr>"

theorem fingerprint_ignores_registration_order_witness:
  "fingerprint_agent id ex_cfg ex_agent (registry_extend [ex_tool, ex_tool2] []) None =
   fingerprint_agent id ex_cfg ex_agent (registry_extend [ex_tool2, ex_tool] []) None"
proof -
  have "registry_try_get (registry_extend [ex_tool, ex_tool2] []) n =
      registry_try_get (registry_extend [ex_tool2, ex_tool] []) n" for n
    by (simp add: registry_try_get_def registry_extend_def registry_add_def ex_tool_def ex_tool2_def)
  from fingerprint_ignores_registration_order [OF registry_ok_extend registry_ok_extend this]
  show ?thesis by simp
qed

text \<open>Where sha256 does not collide and no part contains a NUL, agents with the same
  fingerprint have the same model, prompt, flags and, per tool, name, description and schema text.\<close>

theorem fingerprint_separates:
  assumes "fingerprint_agent sha cfg agent tools gw = fingerprint_agent sha cfg agent' tools' gw'"
    and "\<And>x y. x = py_join [nul] (fingerprint_parts cfg agent tools gw) \<Longrightarrow>
      y = py_join [nul] (fingerprint_parts cfg agent' tools' gw') \<Longrightarrow> sha x = sha y \<Longrightarrow> x = y"
    and "\<forall>x \<in> set (fingerprint_parts cfg agent tools gw). nul \<notin> set x"
    and "\<forall>x \<in> set (fingerprint_parts cfg agent' tools' gw'). nul \<notin> set x"
  shows "model agent = model agent' \<and> system_prompt agent = system_prompt agent' \<and>
    map (\<lambda>s. (spec_name s, spec_description s, dumps_sorted (PDict (spec_input_schema s)))) (registry_list_specs tools) =
    map (\<lambda>s. (spec_name s, spec_description s, dumps_sorted (PDict (spec_input_schema s)))) (registry_list_specs tools')"
proof -
  have "model agent = model agent' \<and> system_prompt agent = system_prompt agent' \<and>
      concat (map (\<lambda>spec. [spec_name spec, spec_description spec,
        dumps_sorted (PDict (spec_input_schema spec))]) (registry_list_specs tools)) =
      concat (map (\<lambda>spec. [spec_name spec, spec_description spec,
        dumps_sorted (PDict (spec_input_schema spec))]) (registry_list_specs tools'))"
    using arg_cong [OF fingerprint_parts_eq [OF assms], of "\<lambda>p. p ! 0"]
      arg_cong [OF fingerprint_parts_eq [OF assms], of "\<lambda>p. p ! 1"]
      arg_cong [OF fingerprint_parts_eq [OF assms], of "drop 6"]
    unfolding fingerprint_parts_nth by blast
  then show ?thesis by (elim conjE, intro conjI) (assumption | erule concat_triples)+
qed

theorem fingerprint_separates_witness:
  "\<not> fingerprint_agent id ex_cfg ex_agent [(''add'', ex_tool)] None =
     fingerprint_agent id ex_cfg ex_agent [(''sub'', ex_tool2)] None"
proof
  assume eq: "fingerprint_agent id ex_cfg ex_agent [(''add'', ex_tool)] None =
     fingerprint_agent id ex_cfg ex_agent [(''sub'', ex_tool2)] None"
  have "\<forall>x \<in> set (fingerprint_parts ex_cfg ex_agent [(''add'', ex_tool)] None). nul \<notin> set x"
    "\<forall>x \<in> set (fingerprint_parts ex_cfg ex_agent [(''sub'', ex_tool2)] None). nul \<notin> set x"
    by code_simp+
  from fingerprint_separates [OF eq _ this]
  show False by (simp add: registry_list_specs_def ex_tool_def ex_tool2_def)
qed

text \<open>Below the input schema of every custom tool of the payload, a path reaches what it
  reaches in the tool's own schema, sanitised, unless a key on it is forbidden: then it reaches
  nothing.\<close>

theorem payload_schemas_sanitized:
  "list_all2 (\<lambda>t spec. \<forall>p. at_path (Key ''input_schema'' # p) (PDict t) =
      (if forbidden_path p then None
       else map_option sanitize_anthropic_input_schema (at_path p (PDict (spec_input_schema spec)))))
    (drop (length (specs_to_tools cfg [] gw)) (specs_to_tools cfg specs gw)) specs"
  by (simp add: specs_to_tools_def Let_def list_all2_conv_all_nth spec_to_tool_def at_path_sanitize
      del: sanitize_anthropic_input_schema.simps)

text \<open>Claim C21. Once a binding for version 1 is stored for a user and an agent identity, an invocation
  creates no agent, whatever the agent's model, prompt and tools have become: the session runs
  on the agent provisioned before.\<close>

theorem changed_agent_keeps_old_binding:
  assumes "get_binding store (registry_key (user_id (scope ctx)) (identity agent) PROVIDER_ANTHROPIC_MANAGED) 1 = Some b"
    and "stream_impl cfg client store agent messages ctx = (acts, e, store')"
  shows "store' = store \<and> list_all (\<lambda>a. case a of CreateAgent kw \<Rightarrow> False
      | CreateSession kw \<Rightarrow> dict_get kw ''agent'' = Some (PStr (binding_agent_id b)) | _ \<Rightarrow> True) acts"
  by (rule stream_impl_bound [OF assms])

theorem changed_agent_keeps_old_binding_witness:
  "list_all (\<lambda>a. case a of CreateAgent kw \<Rightarrow> False
      | CreateSession kw \<Rightarrow> dict_get kw ''agent'' = Some (PStr ''agent_old'') | _ \<Rightarrow> True)
    (fst (stream_impl ex_cfg ex_client
      [((''u1'', ''calc'', ''anthropic_managed''), \<lparr>binding_agent_id = ''agent_old'',
         binding_environment_id = ''env_1'', for_version = 1, provisioned_at = ''2026-01-01T00:00:00Z''\<rparr>)]
      (ex_agent\<lparr>system_prompt := ''subtract things''\<rparr>) (PStr ''1-2?'') ex_ctx))"
proof -
  let ?store = "[((''u1'', ''calc'', ''anthropic_managed''), \<lparr>binding_agent_id = ''agent_old'',
         binding_environment_id = ''env_1'', for_version = 1, provisioned_at = ''2026-01-01T00:00:00Z''\<rparr>)]"
  let ?agent = "ex_agent\<lparr>system_prompt := ''subtract things''\<rparr>"
  obtain acts e store' where run: "stream_impl ex_cfg ex_client ?store ?agent (PStr ''1-2?'') ex_ctx = (acts, e, store')"
    by (cases "stream_impl ex_cfg ex_client ?store ?agent (PStr ''1-2?'') ex_ctx")
  have "get_binding ?store (registry_key (user_id (scope ex_ctx)) (identity ?agent) PROVIDER_ANTHROPIC_MANAGED) 1 =
      Some \<lparr>binding_agent_id = ''agent_old'', binding_environment_id = ''env_1'', for_version = 1,
        provisioned_at = ''2026-01-01T00:00:00Z''\<rparr>"
    by (simp add: get_binding_def registry_key_def ex_ctx_def ex_agent_def PROVIDER_ANTHROPIC_MANAGED_def)
  from changed_agent_keeps_old_binding [OF this run] show ?thesis
    unfolding run fst_conv provider_binding.simps by blast
qed

end
