(* ===== verification/Http.thy ===== *)
theory Http
  imports Json
begin

text \<open>
  The HTTP layer of \<open>copass-core\<close>: retry classification and backoff (\<open>http/retry.py\<close>), the auth
  providers (\<open>auth/\<close>), the request that \<open>HttpClient.request\<close> builds and what it makes of a response
  (\<open>http/http_client.py\<close>). The transport (httpx) is a parameter: the
  outcome of each attempt, the encoding of query parameters, and a response's parsed body.
\<close>

section \<open>Retry\<close>

record retry_config =
  max_attempts :: int
  backoff_base_ms :: int
  backoff_strategy :: string

definition default_retry :: retry_config where
  "default_retry = \<lparr>max_attempts = 3, backoff_base_ms = 1000, backoff_strategy = ''exponential''\<rparr>"

text \<open>The pattern \<open>5\d{2}\<close> somewhere in the message, and the tokens, case-insensitively.\<close>

fun has_5xx :: "string \<Rightarrow> bool" where
  "has_5xx (a # b # c # s) =
     (a = CHR ''5'' \<and> is_digit b \<and> is_digit c \<or> has_5xx (b # c # s))"
| "has_5xx _ = False"

definition network_tokens :: "string list" where
  "network_tokens = [''fetch failed'', ''econnrefused'', ''enotfound'', ''etimedout'', ''econnreset'', ''connection'']"

definition is_network_message :: "string \<Rightarrow> bool" where
  "is_network_message m = list_ex (\<lambda>t. contains_sub t (map ascii_lower m)) network_tokens"

definition is_retryable_message :: "string \<Rightarrow> bool" where
  "is_retryable_message m = (has_5xx m \<or> is_network_message m)"

definition compute_delay_ms :: "nat \<Rightarrow> string \<Rightarrow> int \<Rightarrow> int" where
  "compute_delay_ms attempt strategy base =
     (if strategy = ''exponential'' then 2 ^ attempt * base
      else if strategy = ''linear'' then (int attempt + 1) * base
      else base)"

definition network_error :: exn where
  "network_error = CopassNetworkError
     ''Network request failed - check your internet connection and try again''"

text \<open>The loop over the attempts: the sleeps between them, and the outcome. \<open>fn n\<close> is the outcome of
  the attempt \<open>n\<close>; when the range is exhausted the assertion of the last lines fails.\<close>

fun retry_loop :: "retry_config \<Rightarrow> (nat \<Rightarrow> exn + 'a) \<Rightarrow> nat \<Rightarrow> nat \<Rightarrow> int list \<times> (exn + 'a)" where
  "retry_loop cfg fn attempt 0 = ([], Inl (AssertionError []))"
| "retry_loop cfg fn attempt (Suc rest) =
     (case fn attempt of
        Inr v \<Rightarrow> ([], Inr v)
      | Inl e \<Rightarrow>
          if \<not> is_retryable_message (exn_str e) \<or> rest = 0
          then ([], Inl (if is_network_message (exn_str e) then network_error else e))
          else (case retry_loop cfg fn (Suc attempt) rest of
                  (delays, res) \<Rightarrow>
                    (compute_delay_ms attempt (backoff_strategy cfg) (backoff_base_ms cfg) # delays, res)))"

definition retry_with_backoff :: "(nat \<Rightarrow> exn + 'a) \<Rightarrow> retry_config option \<Rightarrow> int list \<times> (exn + 'a)" where
  "retry_with_backoff fn config =
     (let cfg = (case config of None \<Rightarrow> default_retry | Some c \<Rightarrow> c)
      in retry_loop cfg fn 0 (nat (max_attempts cfg)))"

section \<open>Auth providers\<close>

record session_context =
  access_token :: string
  session_token :: "string option"
  session_user_id :: "string option"

datatype auth_provider =
    ApiKeyAuthProvider string
  | BearerAuthProvider string "string option"
  | CustomAuthProvider "exn + session_context"

definition make_api_key_provider :: "string \<Rightarrow> exn + auth_provider" where
  "make_api_key_provider key =
     (if key = [] then Inl (ValueError ''ApiKeyAuthProvider requires a non-empty key'')
      else Inr (ApiKeyAuthProvider key))"

definition make_bearer_provider :: "string \<times> string option \<Rightarrow> exn + auth_provider" where
  "make_bearer_provider te =
     (case te of (token, encryption_key) \<Rightarrow>
        if token = [] then Inl (ValueError ''BearerAuthProvider requires a non-empty token'')
        else Inr (BearerAuthProvider token encryption_key))"

definition plain_session :: "string \<Rightarrow> session_context" where
  "plain_session token = \<lparr>access_token = token, session_token = None, session_user_id = None\<rparr>"

fun get_session :: "auth_provider \<Rightarrow> exn + session_context" where
  "get_session (ApiKeyAuthProvider key) = Inr (plain_session key)"
| "get_session (BearerAuthProvider token encryption_key) = Inr (plain_session token)"
| "get_session (CustomAuthProvider res) = res"

datatype auth_config =
    ApiKeyAuth string
  | BearerAuth string "string option"
  | ProviderAuth "exn + session_context"

fun build_auth_provider :: "auth_config \<Rightarrow> exn + auth_provider" where
  "build_auth_provider (ApiKeyAuth key) = make_api_key_provider key"
| "build_auth_provider (BearerAuth token encryption_key) = make_bearer_provider (token, encryption_key)"
| "build_auth_provider (ProviderAuth p) = Inr (CustomAuthProvider p)"

section \<open>Requests\<close>

record request_context =
  req_method :: string
  req_path :: string
  req_url :: string
  req_headers :: "(string, string) dict"
  req_body :: "string option"

record request_options =
  opt_method :: string
  opt_body :: pyval
  opt_query :: "(string, string option) dict option"
  opt_headers :: "(string, string) dict option"
  opt_raw_body :: "string option"
  opt_raw_response :: bool

definition default_options :: request_options where
  "default_options = \<lparr>opt_method = ''GET'', opt_body = PNone, opt_query = None, opt_headers = None,
     opt_raw_body = None, opt_raw_response = False\<rparr>"

record response =
  status_code :: int
  reason_phrase :: string
  resp_content :: string
  resp_text :: string
  resp_json :: "exn + pyval"

record http_client =
  api_url :: string
  client_auth :: auth_provider
  retry_cfg :: "retry_config option"
  on_request :: "(request_context \<Rightarrow> exn + request_context) list"
  on_response :: "(request_context \<Rightarrow> int \<Rightarrow> exn option) list"
  encode_query :: "(string, string) dict \<Rightarrow> string"

definition make_http_client ::
    "string \<Rightarrow> auth_provider \<Rightarrow> retry_config option \<Rightarrow> (request_context \<Rightarrow> exn + request_context) list \<Rightarrow>
     (request_context \<Rightarrow> int \<Rightarrow> exn option) list \<Rightarrow> ((string, string) dict \<Rightarrow> string) \<Rightarrow> http_client" where
  "make_http_client url auth retry reqs resps enc =
     \<lparr>api_url = rstrip_char (CHR ''/'') url, client_auth = auth, retry_cfg = retry,
      on_request = reqs, on_response = resps, encode_query = enc\<rparr>"

text \<open>\<open>json.dumps\<close> without a default raises on an object it cannot serialize.\<close>

fun json_plain :: "pyval \<Rightarrow> bool" where
  "json_plain (PList vs) = list_all json_plain vs"
| "json_plain (PDict d) = list_all (\<lambda>(k, v). json_plain v) d"
| "json_plain (PObj s r) = False"
| "json_plain v = True"

definition json_body :: "pyval \<Rightarrow> exn + string" where
  "json_body v = (if json_plain v then Inr (dumps v) else Inl (TypeError ''Object is not JSON serializable''))"

definition request_headers :: "session_context \<Rightarrow> request_options \<Rightarrow> (string, string) dict" where
  "request_headers sess opts =
     (let h0 = [(''Authorization'', ''Bearer '' @ access_token sess)];
          h1 = fold (\<lambda>(k, v). dict_set k v) (case opt_headers opts of None \<Rightarrow> [] | Some h \<Rightarrow> h) h0;
          h2 = (if dict_get h1 ''Content-Type'' = None \<and> dict_get h1 ''content-type'' = None
                then dict_set ''Content-Type''
                       (if opt_raw_body opts \<noteq> None then ''application/octet-stream'' else ''application/json'') h1
                else h1)
      in case session_token sess of
           Some (c # cs) \<Rightarrow> dict_set ''X-Encryption-Token'' (c # cs) h2 | _ \<Rightarrow> h2)"

definition request_url :: "http_client \<Rightarrow> string \<Rightarrow> request_options \<Rightarrow> string" where
  "request_url cli path opts =
     (let non_null = concat (map (\<lambda>(k, v). case v of None \<Rightarrow> [] | Some x \<Rightarrow> [(k, x)])
        (case opt_query opts of None \<Rightarrow> [] | Some q \<Rightarrow> q))
      in if non_null = [] then api_url cli @ path
         else api_url cli @ path @ ''?'' @ encode_query cli non_null)"

fun run_request_middleware ::
    "(request_context \<Rightarrow> exn + request_context) list \<Rightarrow> request_context \<Rightarrow> exn + request_context" where
  "run_request_middleware [] ctx = Inr ctx"
| "run_request_middleware (mw # mws) ctx =
     (case mw ctx of Inl e \<Rightarrow> Inl e | Inr ctx' \<Rightarrow> run_request_middleware mws ctx')"

fun run_response_middleware ::
    "(request_context \<Rightarrow> int \<Rightarrow> exn option) list \<Rightarrow> request_context \<Rightarrow> int \<Rightarrow> exn option" where
  "run_response_middleware [] ctx st = None"
| "run_response_middleware (mw # mws) ctx st =
     (case mw ctx st of Some e \<Rightarrow> Some e | None \<Rightarrow> run_response_middleware mws ctx st)"

text \<open>What goes over the wire: method, URL and headers as the middleware left them, and the content
  computed before it ran.\<close>

record wire_request =
  wire_method :: string
  wire_url :: string
  wire_headers :: "(string, string) dict"
  wire_content :: "string option"

definition prepare_request ::
    "http_client \<Rightarrow> string \<Rightarrow> request_options \<Rightarrow> exn + request_context \<times> wire_request" where
  "prepare_request cli path opts =
     (case get_session (client_auth cli) of
        Inl e \<Rightarrow> Inl e
      | Inr sess \<Rightarrow>
          (case (if opt_raw_body opts = None \<and> opt_body opts \<noteq> PNone
                 then map_sum id Some (json_body (opt_body opts)) else Inr None) of
             Inl e \<Rightarrow> Inl e
           | Inr body_text \<Rightarrow>
               (case run_request_middleware (on_request cli)
                   \<lparr>req_method = opt_method opts, req_path = path, req_url = request_url cli path opts,
                    req_headers = request_headers sess opts,
                    req_body = (if opt_raw_body opts = None then body_text else Some ''<binary>'')\<rparr> of
                  Inl e \<Rightarrow> Inl e
                | Inr ctx \<Rightarrow>
                    Inr (ctx, \<lparr>wire_method = req_method ctx, wire_url = req_url ctx,
                      wire_headers = req_headers ctx,
                      wire_content = (if opt_raw_body opts \<noteq> None then opt_raw_body opts else body_text)\<rparr>))))"

datatype http_result = Parsed pyval | RawBytes string

definition api_error :: "response \<Rightarrow> string \<Rightarrow> exn" where
  "api_error resp path =
     CopassApiError (''API request failed: '' @ dec_int (status_code resp) @ '' '' @ reason_phrase resp)
       (status_code resp) (case resp_json resp of Inr v \<Rightarrow> v | Inl e \<Rightarrow> PStr (resp_text resp)) path"

definition handle_response ::
    "http_client \<Rightarrow> request_context \<Rightarrow> string \<Rightarrow> bool \<Rightarrow> response \<Rightarrow> exn + http_result" where
  "handle_response cli ctx path raw resp =
     (if 400 \<le> status_code resp then Inl (api_error resp path)
      else case run_response_middleware (on_response cli) ctx (status_code resp) of
             Some e \<Rightarrow> Inl e
           | None \<Rightarrow>
               if raw then Inr (RawBytes (resp_content resp))
               else if status_code resp = 204 \<or> resp_content resp = [] then Inr (Parsed PNone)
               else map_sum id Parsed (resp_json resp))"

text \<open>\<open>transport n w\<close> is what the n-th attempt to send \<open>w\<close> gives: a response, or what httpx raises.\<close>

definition request ::
    "(nat \<Rightarrow> wire_request \<Rightarrow> exn + response) \<Rightarrow> http_client \<Rightarrow> string \<Rightarrow> request_options option \<Rightarrow>
     int list \<times> (exn + http_result)" where
  "request transport cli path options =
     (let opts = (case options of None \<Rightarrow> default_options | Some x \<Rightarrow> x)
      in case prepare_request cli path opts of
           Inl e \<Rightarrow> ([], Inl e)
         | Inr (ctx, wire) \<Rightarrow>
             retry_with_backoff
               (\<lambda>n. case transport n wire of
                      Inl e \<Rightarrow> Inl e
                    | Inr resp \<Rightarrow> handle_response cli ctx path (opt_raw_response opts) resp)
               (retry_cfg cli))"

section \<open>What retrying does\<close>

definition retryable_error :: "exn \<Rightarrow> bool" where
  "retryable_error e = is_retryable_message (exn_str e)"

definition final_error :: "exn \<Rightarrow> exn" where
  "final_error e = (if is_network_message (exn_str e) then network_error else e)"

definition backoffs :: "retry_config \<Rightarrow> nat \<Rightarrow> nat \<Rightarrow> int list" where
  "backoffs cfg a k = map (\<lambda>j. compute_delay_ms (a + j) (backoff_strategy cfg) (backoff_base_ms cfg)) [0..<k]"

lemma backoffs_Suc: "backoffs cfg a (Suc k) =
    compute_delay_ms a (backoff_strategy cfg) (backoff_base_ms cfg) # backoffs cfg (Suc a) k"
  by (simp add: backoffs_def upt_conv_Cons map_Suc_upt [symmetric] comp_def del: upt_Suc map_Suc_upt)

text \<open>The first attempt that does not fail retryably decides, or the last one.\<close>

lemma retry_loop_stops:
  assumes "n \<noteq> 0"
  shows "\<exists>k < n. (\<forall>j < k. \<exists>e. fn (a + j) = Inl e \<and> retryable_error e) \<and>
    retry_loop cfg fn a n = (backoffs cfg a k,
      case fn (a + k) of Inr v \<Rightarrow> Inr v | Inl e \<Rightarrow> Inl (final_error e)) \<and>
    (case fn (a + k) of Inr v \<Rightarrow> True | Inl e \<Rightarrow> \<not> retryable_error e \<or> k = n - 1)"
  using assms
proof (induction n arbitrary: a)
  case (Suc n)
  have here: ?case if "\<forall>e. fn a = Inl e \<longrightarrow> \<not> retryable_error e \<or> n = 0"
    using that by (intro exI [of _ 0])
      (auto simp: backoffs_def retryable_error_def final_error_def split: sum.split)
  show ?case
  proof (cases "\<exists>e. fn a = Inl e \<and> retryable_error e \<and> n \<noteq> 0")
    case False
    with here show ?thesis by blast
  next
    case True
    then obtain e where e: "fn a = Inl e" "retryable_error e" "n \<noteq> 0" by blast
    from Suc.IH [OF e(3), of "Suc a"] obtain k where k: "k < n"
      "\<forall>j < k. \<exists>e. fn (Suc a + j) = Inl e \<and> retryable_error e"
      "retry_loop cfg fn (Suc a) n = (backoffs cfg (Suc a) k,
        case fn (Suc a + k) of Inr v \<Rightarrow> Inr v | Inl e \<Rightarrow> Inl (final_error e))"
      "case fn (Suc a + k) of Inr v \<Rightarrow> True | Inl e \<Rightarrow> \<not> retryable_error e \<or> k = n - 1" by blast
    have "\<forall>j < Suc k. \<exists>e. fn (a + j) = Inl e \<and> retryable_error e"
      using e(1,2) k(2) by (auto simp: less_Suc_eq_0_disj)
    moreover have "retry_loop cfg fn a (Suc n) = (backoffs cfg a (Suc k),
        case fn (a + Suc k) of Inr v \<Rightarrow> Inr v | Inl e \<Rightarrow> Inl (final_error e))"
      using e k(3) by (simp add: retryable_error_def backoffs_Suc)
    moreover have "case fn (a + Suc k) of Inr v \<Rightarrow> True | Inl e \<Rightarrow> \<not> retryable_error e \<or> Suc k = Suc n - 1"
      using k(1,4) by (auto split: sum.splits)
    ultimately show ?thesis using k(1) by (intro exI [of _ "Suc k"]) auto
  qed
qed simp

lemma exponential_total:
  "backoff_strategy cfg = ''exponential'' \<Longrightarrow>
   sum_list (backoffs cfg 0 k) = (2 ^ k - 1) * backoff_base_ms cfg"
  by (induction k) (simp_all add: backoffs_def compute_delay_ms_def algebra_simps)

section \<open>Message classification\<close>

lemma has_5xx_Cons: "has_5xx (a # s) =
    (a = CHR ''5'' \<and> (\<exists>b c t. s = b # c # t \<and> is_digit b \<and> is_digit c) \<or> has_5xx s)"
  by (cases s; cases "tl s") auto

declare has_5xx.simps [simp del]

lemma has_5xx_Nil [simp]: "\<not> has_5xx []"
  by (simp add: has_5xx.simps)

lemma has_5xx_append:
  "\<not> is_digit c \<Longrightarrow> has_5xx (xs @ c # ys) = (has_5xx xs \<or> has_5xx ys)"
proof (induction xs)
  case Nil
  then have "c \<noteq> CHR ''5''" by (auto simp: is_digit_def code_def)
  then show ?case by (simp add: has_5xx_Cons)
next
  case (Cons x xs)
  have "(\<exists>b c' t. xs @ c # ys = b # c' # t \<and> is_digit b \<and> is_digit c') =
      (\<exists>b c' t. xs = b # c' # t \<and> is_digit b \<and> is_digit c')"
    using Cons.prems by (cases xs; cases "tl xs") auto
  with Cons show ?case by (simp add: has_5xx_Cons)
qed

lemma api_message_5xx:
  "has_5xx (''API request failed: '' @ dec_int st @ '' '' @ reason) = (has_5xx (dec_int st) \<or> has_5xx reason)"
proof -
  have "\<not> is_digit (CHR '' '')" by (simp add: is_digit_def code_def)
  from has_5xx_append [OF this, of "''API request failed:''" "dec_int st @ '' '' @ reason"]
    has_5xx_append [OF this, of "dec_int st" reason]
  show ?thesis by (simp add: has_5xx_Cons)
qed

lemma dec_3:
  assumes "100 \<le> n" "n < 1000"
  shows "dec_nat n = [char_of (48 + n div 100), char_of (48 + n div 10 mod 10), char_of (48 + n mod 10)]"
proof -
  have "\<not> n < 10" "\<not> n div 10 < 10" "n div 10 div 10 < 10" "n div 10 div 10 = n div 100"
    using assms by linarith+
  then show ?thesis
    by (simp add: dec_nat.simps [of n] dec_nat.simps [of "n div 10"] dec_nat.simps [of "n div 100"])
qed

lemma status_5xx: "100 \<le> st \<Longrightarrow> st < 1000 \<Longrightarrow> has_5xx (dec_int st) = (st div 100 = 5)"
proof -
  assume st: "100 \<le> st" "st < 1000"
  define n where "n = nat st"
  have n: "100 \<le> n" "n < 1000" "st = int n" using st by (auto simp: n_def)
  have d: "is_digit (char_of (48 + m mod 10))" for m :: nat by (simp add: is_digit_def)
  have "char_of (48 + n div 100) = CHR ''5'' \<longleftrightarrow> code (char_of (48 + n div 100)) = code (CHR ''5'')"
    by (metis char_of_code)
  also have "\<dots> \<longleftrightarrow> n div 100 = 5"
    using n by (simp add: code_def)
  finally show ?thesis
    using n d [of "n div 10"] d [of n] by (simp add: dec_int_def dec_3 has_5xx_Cons zdiv_int [symmetric])
      (metis int_eq_iff_numeral of_nat_div of_nat_numeral)
qed

lemma api_error_retryable:
  assumes "100 \<le> status_code resp" "status_code resp < 1000"
  shows "retryable_error (api_error resp path) \<longleftrightarrow>
    status_code resp div 100 = 5 \<or> has_5xx (reason_phrase resp) \<or>
    is_network_message (''API request failed: '' @ dec_int (status_code resp) @ '' '' @ reason_phrase resp)"
  using api_message_5xx [of "status_code resp" "reason_phrase resp"] status_5xx [OF assms]
  by (simp add: retryable_error_def is_retryable_message_def api_error_def)

section \<open>The contract of a static credential\<close>

text \<open>An auth scheme that holds one credential: construction refuses the empty one, and every session
  carries it, with no session token.\<close>

locale static_credential =
  fixes make :: "'cred \<Rightarrow> exn + 'p"
    and session_of :: "'p \<Rightarrow> exn + session_context"
    and secret :: "'cred \<Rightarrow> string"
  assumes refuses_empty: "(\<exists>e. make c = Inl e) \<longleftrightarrow> secret c = []"
    and session: "make c = Inr p \<Longrightarrow> session_of p = Inr (plain_session (secret c))"
begin

lemma session_token_none: "make c = Inr p \<Longrightarrow> session_of p = Inr s \<Longrightarrow> session_token s = None"
  by (drule session) (auto simp: plain_session_def)

lemma secret_nonempty: "make c = Inr p \<Longrightarrow> secret c \<noteq> []"
  using refuses_empty [of c] by auto

lemma authorization:
  assumes "make c = Inr p" "session_of p = Inr s" "opt_headers opts = None"
  shows "dict_get (request_headers s opts) ''Authorization'' = Some (''Bearer '' @ secret c)"
    and "dict_get (request_headers s opts) ''X-Encryption-Token'' = None"
  using session [OF assms(1)] assms(2,3)
  by (auto simp: request_headers_def plain_session_def Let_def)

end

interpretation api_key: static_credential make_api_key_provider get_session "\<lambda>k. k"
  by unfold_locales (auto simp: make_api_key_provider_def split: if_splits)

interpretation bearer: static_credential make_bearer_provider get_session fst
  by unfold_locales (auto simp: make_bearer_provider_def split: if_splits)

section \<open>Headers\<close>

lemma get_fold_set:
  "dict_get (fold (\<lambda>(k, v). dict_set k v) h d) k =
     (case last_with fst k h of None \<Rightarrow> dict_get d k | Some (k', v) \<Rightarrow> Some v)"
proof (induction h arbitrary: d rule: rev_induct)
  case (snoc p h)
  then show ?case by (cases p) auto
qed simp

lemma header_authorization:
  "dict_get (request_headers sess opts) ''Authorization'' =
     (case last_with fst ''Authorization'' (case opt_headers opts of None \<Rightarrow> [] | Some h \<Rightarrow> h) of
        None \<Rightarrow> Some (''Bearer '' @ access_token sess) | Some (k, v) \<Rightarrow> Some v)"
  by (auto simp: request_headers_def Let_def get_fold_set split: option.split list.split)

end
