(* ===== verification/PropertiesHttp.thy ===== *)
theory PropertiesHttp
  imports Http
begin

text \<open>
  The properties of the HTTP layer: which attempt decides a retried call and how long it waits, which
  API errors are retried, what a request carries, and what happens to a success that does not
  decode.
\<close>

section \<open>Properties\<close>

lemma retry_stops:
  assumes "1 \<le> max_attempts cfg"
  shows "\<exists>k < nat (max_attempts cfg). (\<forall>j < k. \<exists>e. fn j = Inl e \<and> retryable_error e) \<and>
    retry_with_backoff fn (Some cfg) =
      (map (\<lambda>j. compute_delay_ms j (backoff_strategy cfg) (backoff_base_ms cfg)) [0..<k],
       case fn k of Inr v \<Rightarrow> Inr v | Inl e \<Rightarrow> Inl (final_error e)) \<and>
    (case fn k of Inr v \<Rightarrow> True | Inl e \<Rightarrow> \<not> retryable_error e \<or> k = nat (max_attempts cfg) - 1)"
  using retry_loop_stops [of "nat (max_attempts cfg)" fn 0 cfg] assms
  by (simp add: retry_with_backoff_def backoffs_def)

text \<open>Claim C22. Retrying: with at least one attempt allowed, some attempt k within the bound decides. All
  before it failed retryably, each followed by its backoff; it succeeded, or it failed in a way
  that is not retryable, or it was the last one. Its value or its error is the outcome, a network
  error replacing the latter when its message says so.\<close>

theorem retry_outcome:
  assumes "1 \<le> max_attempts cfg"
  shows "\<exists>k < nat (max_attempts cfg). (\<forall>j < k. \<exists>e. fn j = Inl e \<and> retryable_error e) \<and>
    retry_with_backoff fn (Some cfg) =
      (map (\<lambda>j. compute_delay_ms j (backoff_strategy cfg) (backoff_base_ms cfg)) [0..<k],
       case fn k of Inr v \<Rightarrow> Inr v | Inl e \<Rightarrow> Inl (final_error e)) \<and>
    (case fn k of Inr v \<Rightarrow> True | Inl e \<Rightarrow> \<not> retryable_error e \<or> k = nat (max_attempts cfg) - 1)"
  by (rule retry_stops [OF assms])

definition ex_retry_cfg :: retry_config where
  "ex_retry_cfg = \<lparr>max_attempts = 3, backoff_base_ms = 100, backoff_strategy = ''exponential''\<rparr>"

definition flaky :: "nat \<Rightarrow> exn + nat" where
  "flaky n = (if n = 0 then Inl (OtherError ''E'' ''503 busy'') else Inr n)"

theorem retry_outcome_witness: "retry_with_backoff flaky (Some ex_retry_cfg) = ([100], Inr 1)"
proof -
  have r: "retryable_error (OtherError ''E'' ''503 busy'')" by code_simp
  have m: "1 \<le> max_attempts ex_retry_cfg" "nat (max_attempts ex_retry_cfg) = 3" by (simp_all add: ex_retry_cfg_def)
  from retry_outcome [OF m(1), of flaky, unfolded m(2)] obtain k where k: "k < 3"
    "\<forall>j < k. \<exists>e. flaky j = Inl e \<and> retryable_error e"
    "retry_with_backoff flaky (Some ex_retry_cfg) =
      (map (\<lambda>j. compute_delay_ms j (backoff_strategy ex_retry_cfg) (backoff_base_ms ex_retry_cfg)) [0..<k],
       case flaky k of Inr v \<Rightarrow> Inr v | Inl e \<Rightarrow> Inl (final_error e))"
    "case flaky k of Inr v \<Rightarrow> True | Inl e \<Rightarrow> \<not> retryable_error e \<or> k = 3 - 1"
    by blast
  have "k \<noteq> 0" using k(4) r by (cases "k = 0") (simp_all add: flaky_def)
  moreover have "k \<noteq> 2"
  proof
    assume "k = 2"
    then have "\<exists>e. flaky 1 = Inl e" using k(2)[rule_format, of 1] by auto
    then show False by (simp add: flaky_def)
  qed
  ultimately have "k = 1" using k(1) by linarith
  with k(3) show ?thesis by (simp add: flaky_def ex_retry_cfg_def compute_delay_ms_def)
qed

text \<open>Under exponential backoff k failed attempts wait (2^k - 1) times the base in total.\<close>

theorem exponential_backoff_total:
  "sum_list (map (\<lambda>j. compute_delay_ms j ''exponential'' base) [0..<k]) = (2 ^ k - 1) * base"
  by (induction k) (simp_all add: compute_delay_ms_def algebra_simps)

text \<open>Which API errors are retried: those with a 5xx status, and those whose reason or message
  happens to read like a server or network failure.\<close>

theorem api_errors_retried:
  assumes "100 \<le> status_code resp" "status_code resp < 1000"
  shows "is_retryable_message (exn_str (api_error resp path)) \<longleftrightarrow>
    status_code resp div 100 = 5 \<or> has_5xx (reason_phrase resp) \<or>
    is_network_message (''API request failed: '' @ dec_int (status_code resp) @ '' '' @ reason_phrase resp)"
  using api_error_retryable [OF assms, of path] by (simp add: retryable_error_def)

theorem api_errors_retried_witness:
  "\<not> is_retryable_message (exn_str (api_error \<lparr>status_code = 404, reason_phrase = ''Not Found'',
     resp_content = [], resp_text = [], resp_json = Inr PNone\<rparr> ''/v1/x''))"
proof -
  have "\<not> has_5xx ''Not Found''" "\<not> is_network_message (''API request failed: '' @ dec_int 404 @ '' '' @ ''Not Found'')"
    by code_simp+
  then show ?thesis
    using api_errors_retried [of "\<lparr>status_code = 404, reason_phrase = ''Not Found'',
     resp_content = [], resp_text = [], resp_json = Inr PNone\<rparr>" "''/v1/x''"] by simp
qed

text \<open>Claim C23. A request made with an API key or a bearer token and no headers of the caller's own
  carries exactly that credential in its Authorization header, and no encryption token.\<close>

theorem credential_is_sent:
  assumes "make_api_key_provider key = Inr p \<or> make_bearer_provider (key, enc) = Inr p"
    "get_session p = Inr s" "opt_headers opts = None"
  shows "dict_get (request_headers s opts) ''Authorization'' = Some (''Bearer '' @ key) \<and>
    dict_get (request_headers s opts) ''X-Encryption-Token'' = None"
  using assms(1)
proof
  assume p: "make_api_key_provider key = Inr p"
  show ?thesis using api_key.authorization [OF p assms(2,3)] by simp
next
  assume p: "make_bearer_provider (key, enc) = Inr p"
  show ?thesis using bearer.authorization [OF p assms(2,3)] by simp
qed

theorem credential_is_sent_witness:
  "dict_get (request_headers (plain_session ''olk_1'') default_options) ''Authorization'' = Some ''Bearer olk_1''"
  using credential_is_sent [of "''olk_1''" "ApiKeyAuthProvider ''olk_1''" None "plain_session ''olk_1''" default_options]
  by (simp add: make_api_key_provider_def default_options_def)

text \<open>The content sent is fixed before the request middleware runs: whatever the middleware
  does to the context, the wire content is the caller's raw bytes, the JSON of its body, or
  nothing.\<close>

theorem middleware_cannot_change_body:
  assumes "prepare_request cli path opts = Inr (ctx, wire)"
  shows "wire_content wire =
    (case opt_raw_body opts of
       Some b \<Rightarrow> Some b
     | None \<Rightarrow> if opt_body opts = PNone then None else Some (dumps (opt_body opts)))"
  using assms
  by (auto simp: prepare_request_def json_body_def split: sum.splits if_splits option.splits)

definition ex_http :: http_client where
  "ex_http = make_http_client ''https://ai.copass.id/'' (ApiKeyAuthProvider ''olk_1'') None
     [\<lambda>ctx. Inr (ctx\<lparr>req_body := Some ''redacted''\<rparr>)] [] (\<lambda>q. [])"

theorem middleware_cannot_change_body_witness:
  "case prepare_request ex_http ''/v1'' (default_options\<lparr>opt_method := ''POST'', opt_body := PStr ''secret''\<rparr>) of
     Inl e \<Rightarrow> False
   | Inr (ctx, wire) \<Rightarrow> req_body ctx = Some ''redacted'' \<and> wire_content wire = Some (dumps (PStr ''secret''))"
proof -
  let ?opts = "default_options\<lparr>opt_method := ''POST'', opt_body := PStr ''secret''\<rparr>"
  obtain ctx wire where p: "prepare_request ex_http ''/v1'' ?opts = Inr (ctx, wire)" "req_body ctx = Some ''redacted''"
    by (simp add: prepare_request_def ex_http_def make_http_client_def json_body_def default_options_def)
  from middleware_cannot_change_body [OF p(1)] p show ?thesis by (simp add: default_options_def)
qed

text \<open>A successful response whose body is not JSON is asked for again when the decoder's
  message contains a number of three digits starting with 5: the server has then served the same
  request once per allowed attempt.\<close>

theorem undecodable_success_is_resent:
  assumes "prepare_request cli path opts = Inr (ctx, wire)" "retry_cfg cli = Some cfg" "1 \<le> max_attempts cfg"
    "on_response cli = []" "\<not> opt_raw_response opts"
    "\<And>n. transport n wire = Inr resp" "status_code resp = 200" "resp_content resp \<noteq> []"
    "resp_json resp = Inl e" "has_5xx (exn_str e)"
  shows "fst (request transport cli path (Some opts)) =
    map (\<lambda>j. compute_delay_ms j (backoff_strategy cfg) (backoff_base_ms cfg)) [0..<nat (max_attempts cfg) - 1]"
proof -
  let ?fn = "\<lambda>n. case transport n wire of Inl e \<Rightarrow> Inl e
      | Inr resp \<Rightarrow> handle_response cli ctx path (opt_raw_response opts) resp"
  have fn: "?fn n = Inl e" for n
    using assms(4-9) by (simp add: handle_response_def)
  have "retryable_error e" using assms(10) by (simp add: retryable_error_def is_retryable_message_def)
  with retry_stops [OF assms(3), of ?fn] show ?thesis
    using assms(1,2) by (auto simp: request_def fn)
qed

theorem undecodable_success_is_resent_witness:
  "fst (request (\<lambda>n w. Inr \<lparr>status_code = 200, reason_phrase = ''OK'', resp_content = ''<html>'',
       resp_text = ''<html>'', resp_json = Inl (ValueError ''Expecting value: line 1 column 513 (char 512)'')\<rparr>)
     (ex_http\<lparr>retry_cfg := Some ex_retry_cfg\<rparr>) ''/v1/sources'' (Some (default_options\<lparr>opt_method := ''POST''\<rparr>))) =
   [100, 200]"
proof -
  let ?cli = "ex_http\<lparr>retry_cfg := Some ex_retry_cfg\<rparr>" and ?opts = "default_options\<lparr>opt_method := ''POST''\<rparr>"
  let ?resp = "\<lparr>status_code = 200, reason_phrase = ''OK'', resp_content = ''<html>'',
       resp_text = ''<html>'', resp_json = Inl (ValueError ''Expecting value: line 1 column 513 (char 512)'')\<rparr> :: response"
  obtain ctx wire where p: "prepare_request ?cli ''/v1/sources'' ?opts = Inr (ctx, wire)"
    by (simp add: prepare_request_def ex_http_def make_http_client_def default_options_def)
  have five: "has_5xx (exn_str (ValueError ''Expecting value: line 1 column 513 (char 512)''))" by code_simp
  have d: "map (\<lambda>j. compute_delay_ms j (backoff_strategy ex_retry_cfg) (backoff_base_ms ex_retry_cfg))
      [0..<nat (max_attempts ex_retry_cfg) - 1] = [100, 200]" by code_simp
  show ?thesis
    using undecodable_success_is_resent [OF p, of ex_retry_cfg "\<lambda>n w. Inr ?resp" ?resp
      "ValueError ''Expecting value: line 1 column 513 (char 512)''", unfolded d] five
    by (simp add: ex_http_def make_http_client_def default_options_def ex_retry_cfg_def)
qed

end
