(* ===== verification/Resources.thy ===== *)
theory Resources
  imports Http
begin

text \<open>
  The resource layer of \<open>copass-core\<close> (\<open>resources/\<close>), without agents and compute: what each method
  asks of the HTTP client, as an \<open>api_call\<close> (a path and the request options), and what it makes of
  the response where it does not return it as it is. An optional keyword argument is an
  \<open>option\<close>; a chain of \<open>if x is not None: body[k] = x\<close> is \<open>set_fields\<close>.
\<close>

section \<open>Base resource\<close>

record api_call =
  call_path :: string
  call_options :: request_options

definition base_post :: "string \<Rightarrow> pyval \<Rightarrow> (string, string option) dict option \<Rightarrow> (string, string) dict option \<Rightarrow> api_call" where
  "base_post path body query headers = \<lparr>call_path = path,
     call_options = default_options\<lparr>opt_method := ''POST'', opt_body := body, opt_query := query, opt_headers := headers\<rparr>\<rparr>"

definition base_get :: "string \<Rightarrow> (string, string option) dict option \<Rightarrow> (string, string) dict option \<Rightarrow> api_call" where
  "base_get path query headers = \<lparr>call_path = path,
     call_options = default_options\<lparr>opt_method := ''GET'', opt_query := query, opt_headers := headers\<rparr>\<rparr>"

definition base_patch :: "string \<Rightarrow> pyval \<Rightarrow> (string, string option) dict option \<Rightarrow> (string, string) dict option \<Rightarrow> api_call" where
  "base_patch path body query headers = \<lparr>call_path = path,
     call_options = default_options\<lparr>opt_method := ''PATCH'', opt_body := body, opt_query := query, opt_headers := headers\<rparr>\<rparr>"

definition base_delete :: "string \<Rightarrow> (string, string option) dict option \<Rightarrow> (string, string) dict option \<Rightarrow> api_call" where
  "base_delete path query headers = \<lparr>call_path = path,
     call_options = default_options\<lparr>opt_method := ''DELETE'', opt_query := query, opt_headers := headers\<rparr>\<rparr>"

definition perform ::
    "(nat \<Rightarrow> wire_request \<Rightarrow> exn + response) \<Rightarrow> http_client \<Rightarrow> api_call \<Rightarrow> int list \<times> (exn + http_result)" where
  "perform transport cli c = request transport cli (call_path c) (Some (call_options c))"

abbreviation POST :: "string \<Rightarrow> pyval \<Rightarrow> api_call" where
  "POST path body \<equiv> base_post path body None None"

abbreviation GET :: "string \<Rightarrow> api_call" where
  "GET path \<equiv> base_get path None None"

abbreviation PATCH :: "string \<Rightarrow> pyval \<Rightarrow> api_call" where
  "PATCH path body \<equiv> base_patch path body None None"

abbreviation DELETE :: "string \<Rightarrow> api_call" where
  "DELETE path \<equiv> base_delete path None None"

definition set_fields :: "(string \<times> pyval option) list \<Rightarrow> pydict \<Rightarrow> pydict" where
  "set_fields fs body =
     fold (\<lambda>(k, v). case v of None \<Rightarrow> id | Some x \<Rightarrow> dict_set k x) fs body"

abbreviation some_str :: "string option \<Rightarrow> pyval option" where
  "some_str \<equiv> map_option PStr"

abbreviation some_int :: "int option \<Rightarrow> pyval option" where
  "some_int \<equiv> map_option PInt"

abbreviation some_bool :: "bool option \<Rightarrow> pyval option" where
  "some_bool \<equiv> map_option PBool"

abbreviation some_dict :: "pydict option \<Rightarrow> pyval option" where
  "some_dict \<equiv> map_option PDict"

abbreviation some_list :: "string list option \<Rightarrow> pyval option" where
  "some_list \<equiv> map_option (\<lambda>xs. PList (map PStr xs))"

text \<open>\<open>query or None\<close>, for a query dict filled with the arguments that are given.\<close>

definition given_query :: "(string \<times> string option) list \<Rightarrow> (string, string option) dict option" where
  "given_query fs = (let q = filter (\<lambda>(k, v). v \<noteq> None) fs in if q = [] then None else Some q)"

section \<open>Retrieval\<close>

record chat_message =
  chat_role :: string
  chat_content :: string
  chat_name :: "string option"

text \<open>A turn handed to the retrieval resource: a \<open>ChatMessage\<close>, a dict, or an instance of some other
  class, with that class's name.\<close>

datatype turn = ChatTurn chat_message | DictTurn pydict | OtherTurn string

definition message_dict :: "string \<Rightarrow> string \<Rightarrow> pyval" where
  "message_dict role content = PDict [(''role'', PStr role), (''content'', PStr content)]"

definition unexpected_turn :: "string \<Rightarrow> exn" where
  "unexpected_turn cls = ValueError (''Unexpected turn type '' @ cls @ ''; expected ChatMessage or dict.'')"

fun turn_to_dict :: "turn \<Rightarrow> exn + pyval" where
  "turn_to_dict (ChatTurn m) = Inr (message_dict (chat_role m) (chat_content m))"
| "turn_to_dict (DictTurn d) =
     (case (dict_get d ''role'', dict_get d ''content'') of
        (Some r, Some c) \<Rightarrow> Inr (message_dict (py_str r) (py_str c))
      | _ \<Rightarrow> Inl (unexpected_turn ''dict''))"
| "turn_to_dict (OtherTurn cls) = Inl (unexpected_turn cls)"

fun turns_to_dicts :: "turn list \<Rightarrow> exn + pyval list" where
  "turns_to_dicts [] = Inr []"
| "turns_to_dicts (t # ts) =
     (case turn_to_dict t of
        Inl e \<Rightarrow> Inl e
      | Inr d \<Rightarrow> map_sum id (\<lambda>ds. d # ds) (turns_to_dicts ts))"

text \<open>A window is what its \<open>get_turns()\<close> returns.\<close>

definition turns_from :: "turn list option \<Rightarrow> exn + pyval list" where
  "turns_from window = (case window of None \<Rightarrow> Inr [] | Some turns \<Rightarrow> turns_to_dicts turns)"

definition history :: "turn list option \<Rightarrow> turn list option \<Rightarrow> exn + pyval list" where
  "history window hist =
     (case window of
        Some w \<Rightarrow> turns_from (Some w)
      | None \<Rightarrow> (case hist of None \<Rightarrow> Inr [] | Some h \<Rightarrow> turns_to_dicts h))"

definition query_base :: "string \<Rightarrow> string \<Rightarrow> string" where
  "query_base sandbox_id verb = ''/api/v1/query/sandboxes/'' @ sandbox_id @ ''/'' @ verb"

definition discover ::
    "string \<Rightarrow> string \<Rightarrow> turn list option \<Rightarrow> turn list option \<Rightarrow> string option \<Rightarrow> string option \<Rightarrow> string option \<Rightarrow>
     exn + api_call" where
  "discover sandbox_id query window hist project_id reference_date preset =
     (case history window hist of
        Inl e \<Rightarrow> Inl e
      | Inr h \<Rightarrow> Inr (POST (query_base sandbox_id ''discover'')
          (PDict (set_fields
            [(''project_id'', some_str project_id), (''reference_date'', some_str reference_date),
             (''preset'', some_str preset)]
            [(''query'', PStr query), (''history'', PList h)]))))"

definition interpret_items ::
    "string \<Rightarrow> string \<Rightarrow> string list list \<Rightarrow> turn list option \<Rightarrow> turn list option \<Rightarrow> string option \<Rightarrow>
     string option \<Rightarrow> string option \<Rightarrow> int option \<Rightarrow> exn + api_call" where
  "interpret_items sandbox_id query items window hist project_id reference_date preset max_tokens =
     (case history window hist of
        Inl e \<Rightarrow> Inl e
      | Inr h \<Rightarrow> Inr (POST (query_base sandbox_id ''interpret'')
          (PDict (set_fields
            [(''project_id'', some_str project_id), (''reference_date'', some_str reference_date),
             (''preset'', some_str preset), (''max_tokens'', some_int max_tokens)]
            [(''query'', PStr query), (''items'', PList (map (\<lambda>i. PList (map PStr i)) items)),
             (''history'', PList h)]))))"

definition search ::
    "string \<Rightarrow> string \<Rightarrow> turn list option \<Rightarrow> turn list option \<Rightarrow> string option \<Rightarrow> string option \<Rightarrow> string option \<Rightarrow>
     string option \<Rightarrow> int option \<Rightarrow> exn + api_call" where
  "search sandbox_id query window hist project_id reference_date preset detail_level max_tokens =
     (case history window hist of
        Inl e \<Rightarrow> Inl e
      | Inr h \<Rightarrow> Inr (POST (query_base sandbox_id ''search'')
          (PDict (set_fields
            [(''project_id'', some_str project_id), (''reference_date'', some_str reference_date),
             (''preset'', some_str preset), (''detail_level'', some_str detail_level),
             (''max_tokens'', some_int max_tokens)]
            [(''query'', PStr query), (''history'', PList h)]))))"

definition get_origin :: "string \<Rightarrow> string list \<Rightarrow> int option \<Rightarrow> api_call" where
  "get_origin sandbox_id canonical_ids limit_per_canonical =
     POST (query_base sandbox_id ''origins'')
       (PDict (set_fields [(''limit_per_canonical'', some_int limit_per_canonical)]
         [(''canonical_ids'', PList (map PStr canonical_ids))]))"

section \<open>Sandboxes\<close>

definition STORAGE_BASE :: string where
  "STORAGE_BASE = ''/api/v1/storage/sandboxes''"

definition sandbox_path :: "string \<Rightarrow> string" where
  "sandbox_path sandbox_id = STORAGE_BASE @ ''/'' @ sandbox_id"

definition sandboxes_create :: "string \<Rightarrow> string \<Rightarrow> string option \<Rightarrow> pydict option \<Rightarrow> api_call" where
  "sandboxes_create name owner_id tier metadata =
     POST STORAGE_BASE (PDict (set_fields [(''tier'', some_str tier), (''metadata'', some_dict metadata)]
       [(''name'', PStr name), (''owner_id'', PStr owner_id)]))"

definition sandboxes_list :: "string option \<Rightarrow> string option \<Rightarrow> api_call" where
  "sandboxes_list status owner_id = base_get STORAGE_BASE (Some [(''status'', status), (''owner_id'', owner_id)]) None"

definition sandboxes_retrieve :: "string \<Rightarrow> api_call" where
  "sandboxes_retrieve sandbox_id = GET (sandbox_path sandbox_id)"

definition sandboxes_update :: "string \<Rightarrow> string option \<Rightarrow> pydict option \<Rightarrow> api_call" where
  "sandboxes_update sandbox_id name metadata =
     PATCH (sandbox_path sandbox_id)
       (PDict (set_fields [(''name'', some_str name), (''metadata'', some_dict metadata)] []))"

definition sandboxes_suspend :: "string \<Rightarrow> api_call" where
  "sandboxes_suspend sandbox_id = POST (sandbox_path sandbox_id @ ''/suspend'') PNone"

definition sandboxes_reactivate :: "string \<Rightarrow> api_call" where
  "sandboxes_reactivate sandbox_id = POST (sandbox_path sandbox_id @ ''/reactivate'') PNone"

definition sandboxes_archive :: "string \<Rightarrow> api_call" where
  "sandboxes_archive sandbox_id = POST (sandbox_path sandbox_id @ ''/archive'') PNone"

definition sandboxes_destroy :: "string \<Rightarrow> api_call" where
  "sandboxes_destroy sandbox_id = DELETE (sandbox_path sandbox_id)"

section \<open>Projects\<close>

definition projects_base :: "string \<Rightarrow> string" where
  "projects_base sandbox_id = ''/api/v1/storage/sandboxes/'' @ sandbox_id @ ''/projects''"

definition project_path :: "string \<Rightarrow> string \<Rightarrow> string" where
  "project_path sandbox_id project_id = projects_base sandbox_id @ ''/'' @ project_id"

definition projects_create ::
    "string \<Rightarrow> string \<Rightarrow> string option \<Rightarrow> string list option \<Rightarrow> pydict option \<Rightarrow> api_call" where
  "projects_create sandbox_id name description data_source_ids metadata =
     POST (projects_base sandbox_id)
       (PDict (set_fields [(''description'', some_str description), (''data_source_ids'', some_list data_source_ids),
           (''metadata'', some_dict metadata)] [(''name'', PStr name)]))"

definition projects_list :: "string \<Rightarrow> string option \<Rightarrow> api_call" where
  "projects_list sandbox_id status = base_get (projects_base sandbox_id) (Some [(''status'', status)]) None"

definition projects_retrieve :: "string \<Rightarrow> string \<Rightarrow> api_call" where
  "projects_retrieve sandbox_id project_id = GET (project_path sandbox_id project_id)"

definition projects_update ::
    "string \<Rightarrow> string \<Rightarrow> string option \<Rightarrow> string option \<Rightarrow> pydict option \<Rightarrow> api_call" where
  "projects_update sandbox_id project_id name description metadata =
     PATCH (project_path sandbox_id project_id)
       (PDict (set_fields [(''name'', some_str name), (''description'', some_str description),
           (''metadata'', some_dict metadata)] []))"

definition projects_archive :: "string \<Rightarrow> string \<Rightarrow> api_call" where
  "projects_archive sandbox_id project_id = POST (project_path sandbox_id project_id @ ''/archive'') PNone"

definition projects_delete :: "string \<Rightarrow> string \<Rightarrow> api_call" where
  "projects_delete sandbox_id project_id = DELETE (project_path sandbox_id project_id)"

definition projects_link_source :: "string \<Rightarrow> string \<Rightarrow> string \<Rightarrow> api_call" where
  "projects_link_source sandbox_id project_id source_id =
     POST (project_path sandbox_id project_id @ ''/sources/'' @ source_id) PNone"

definition projects_unlink_source :: "string \<Rightarrow> string \<Rightarrow> string \<Rightarrow> api_call" where
  "projects_unlink_source sandbox_id project_id source_id =
     DELETE (project_path sandbox_id project_id @ ''/sources/'' @ source_id)"

section \<open>Entities\<close>

definition entities_search ::
    "string \<Rightarrow> string \<Rightarrow> int option \<Rightarrow> string option \<Rightarrow> string option \<Rightarrow> string option \<Rightarrow> api_call" where
  "entities_search sandbox_id q limit min_similarity canonical_id project_id =
     base_get (''/api/v1/storage/sandboxes/'' @ sandbox_id @ ''/entities/search'')
       (Some [(''q'', Some q), (''limit'', map_option dec_int limit), (''min_similarity'', min_similarity),
              (''canonical_id'', canonical_id), (''project_id'', project_id)]) None"

definition entities_results :: "pyval \<Rightarrow> pyval" where
  "entities_results response =
     (case as_dict response of Some d \<Rightarrow> get_or d ''results'' (PList []) | None \<Rightarrow> PList [])"

section \<open>Ingest\<close>

definition INGEST_SHORTHAND :: string where
  "INGEST_SHORTHAND = ''/api/v1/storage/ingest''"

definition explicit_base :: "string \<Rightarrow> string" where
  "explicit_base sandbox_id = ''/api/v1/storage/sandboxes/'' @ sandbox_id @ ''/ingest''"

text \<open>The keyword arguments of the ingest methods, without the text and the data source.\<close>

record ingest_args =
  ia_source_type :: "string option"
  ia_storage_only :: "bool option"
  ia_project_id :: "string option"
  ia_occurred_at :: "string option"
  ia_speaker :: "string option"
  ia_participants :: "string list option"

definition build_ingest_body :: "string \<Rightarrow> string option \<Rightarrow> ingest_args \<Rightarrow> pydict" where
  "build_ingest_body txt data_source_id a =
     set_fields
       [(''source_type'', some_str (ia_source_type a)), (''storage_only'', some_bool (ia_storage_only a)),
        (''project_id'', some_str (ia_project_id a)), (''data_source_id'', some_str data_source_id),
        (''occurred_at'', some_str (ia_occurred_at a)), (''speaker'', some_str (ia_speaker a)),
        (''participants'', some_list (ia_participants a))]
       [(''text'', PStr txt)]"

definition ingest_text :: "string \<Rightarrow> string option \<Rightarrow> ingest_args \<Rightarrow> api_call" where
  "ingest_text txt data_source_id a = POST INGEST_SHORTHAND (PDict (build_ingest_body txt data_source_id a))"

definition ingest_get_job :: "string \<Rightarrow> api_call" where
  "ingest_get_job job_id = GET (INGEST_SHORTHAND @ ''/'' @ job_id)"

definition text_in_sandbox :: "string \<Rightarrow> string \<Rightarrow> string option \<Rightarrow> ingest_args \<Rightarrow> api_call" where
  "text_in_sandbox sandbox_id txt data_source_id a =
     POST (explicit_base sandbox_id) (PDict (build_ingest_body txt data_source_id a))"

definition get_sandbox_job :: "string \<Rightarrow> string \<Rightarrow> api_call" where
  "get_sandbox_job sandbox_id job_id = GET (explicit_base sandbox_id @ ''/'' @ job_id)"

end
