(* ===== verification/ResourceSources.thy ===== *)
theory ResourceSources
  imports Resources
begin

text \<open>
  The \<open>sources\<close> resource (\<open>resources/sources.py\<close>) with the user-MCP lifecycle, and the small resources:
  sandbox connections, integrations, API keys, users, usage.
\<close>

section \<open>Sources\<close>

definition sources_base :: "string \<Rightarrow> string" where
  "sources_base sandbox_id = ''/api/v1/storage/sandboxes/'' @ sandbox_id @ ''/sources''"

definition ingest_base :: "string \<Rightarrow> string" where
  "ingest_base sandbox_id = ''/api/v1/storage/sandboxes/'' @ sandbox_id @ ''/ingest''"

definition source_path :: "string \<Rightarrow> string \<Rightarrow> string" where
  "source_path sandbox_id source_id = sources_base sandbox_id @ ''/'' @ source_id"

definition sources_register ::
    "string \<Rightarrow> string \<Rightarrow> string \<Rightarrow> string option \<Rightarrow> string option \<Rightarrow> string option \<Rightarrow> pydict option \<Rightarrow> int option \<Rightarrow>
     api_call" where
  "sources_register sandbox_id provider name ingestion_mode kind external_account_id adapter_config poll =
     POST (sources_base sandbox_id)
       (PDict (set_fields
         [(''ingestion_mode'', some_str ingestion_mode), (''kind'', some_str kind),
          (''external_account_id'', some_str external_account_id), (''adapter_config'', some_dict adapter_config),
          (''poll_interval_seconds'', some_int poll)]
         [(''provider'', PStr provider), (''name'', PStr name)]))"

definition sources_list :: "string \<Rightarrow> string option \<Rightarrow> string option \<Rightarrow> api_call" where
  "sources_list sandbox_id provider status =
     base_get (sources_base sandbox_id) (Some [(''provider'', provider), (''status'', status)]) None"

definition sources_retrieve :: "string \<Rightarrow> string \<Rightarrow> api_call" where
  "sources_retrieve sandbox_id source_id = GET (source_path sandbox_id source_id)"

definition sources_update ::
    "string \<Rightarrow> string \<Rightarrow> string option \<Rightarrow> string option \<Rightarrow> string option \<Rightarrow> pydict option \<Rightarrow> int option \<Rightarrow> bool \<Rightarrow>
     api_call" where
  "sources_update sandbox_id source_id name ingestion_mode external_account_id adapter_config poll merge =
     base_patch (source_path sandbox_id source_id)
       (PDict (set_fields
         [(''name'', some_str name), (''ingestion_mode'', some_str ingestion_mode),
          (''external_account_id'', some_str external_account_id), (''adapter_config'', some_dict adapter_config),
          (''poll_interval_seconds'', some_int poll)] []))
       (if merge then Some [(''merge_adapter_config'', Some ''true'')] else None) None"

definition connect_linear ::
    "string \<Rightarrow> string \<Rightarrow> string option \<Rightarrow> string list option \<Rightarrow> int option \<Rightarrow> int option \<Rightarrow> api_call" where
  "connect_linear sandbox_id api_key name include rate_cap poll =
     POST (sources_base sandbox_id @ ''/linear'')
       (PDict (set_fields
         [(''name'', some_str name), (''include'', some_list include), (''rate_cap_per_minute'', some_int rate_cap),
          (''poll_interval_seconds'', some_int poll)]
         [(''api_key'', PStr api_key)]))"

definition sources_pull :: "string \<Rightarrow> string \<Rightarrow> string option \<Rightarrow> bool \<Rightarrow> api_call" where
  "sources_pull sandbox_id source_id since vault_only =
     POST (source_path sandbox_id source_id @ ''/pull'')
       (PDict (set_fields [(''since'', some_str since), (''vault_only'', if vault_only then Some (PBool True) else None)] []))"

definition sources_pause :: "string \<Rightarrow> string \<Rightarrow> api_call" where
  "sources_pause sandbox_id source_id = POST (source_path sandbox_id source_id @ ''/pause'') PNone"

definition sources_resume :: "string \<Rightarrow> string \<Rightarrow> api_call" where
  "sources_resume sandbox_id source_id = POST (source_path sandbox_id source_id @ ''/resume'') PNone"

definition sources_disconnect :: "string \<Rightarrow> string \<Rightarrow> api_call" where
  "sources_disconnect sandbox_id source_id = POST (source_path sandbox_id source_id @ ''/disconnect'') PNone"

definition sources_delete :: "string \<Rightarrow> string \<Rightarrow> api_call" where
  "sources_delete sandbox_id source_id = DELETE (source_path sandbox_id source_id)"

definition sources_purge :: "string \<Rightarrow> string \<Rightarrow> bool option \<Rightarrow> api_call" where
  "sources_purge sandbox_id source_id delete_source =
     POST (source_path sandbox_id source_id @ ''/purge'')
       (PDict (set_fields [(''delete_source'', some_bool delete_source)] []))"

definition sources_ingest :: "string \<Rightarrow> string \<Rightarrow> string \<Rightarrow> ingest_args \<Rightarrow> api_call" where
  "sources_ingest sandbox_id source_id txt a =
     POST (ingest_base sandbox_id)
       (PDict (set_fields
         [(''source_type'', some_str (ia_source_type a)), (''storage_only'', some_bool (ia_storage_only a)),
          (''project_id'', some_str (ia_project_id a)), (''occurred_at'', some_str (ia_occurred_at a)),
          (''speaker'', some_str (ia_speaker a)), (''participants'', some_list (ia_participants a))]
         [(''text'', PStr txt), (''data_source_id'', PStr source_id)]))"

section \<open>The user-MCP lifecycle\<close>

record user_mcp_result =
  um_data_source_id :: pyval
  um_status :: pyval
  um_name :: pyval
  um_ingestion_mode :: pyval
  um_health_error :: pyval
  um_error :: pyval
  um_detail :: pyval

definition user_mcp_from_dict :: "pydict \<Rightarrow> user_mcp_result" where
  "user_mcp_from_dict d =
     \<lparr>um_data_source_id = get_none d ''data_source_id'', um_status = get_none d ''status'',
      um_name = get_none d ''name'', um_ingestion_mode = get_none d ''ingestion_mode'',
      um_health_error = get_none d ''health_error'', um_error = get_none d ''error'',
      um_detail = get_none d ''detail''\<rparr>"

record user_mcp_args =
  ma_token :: "string option"
  ma_auth_header :: "string option"
  ma_app_namespace :: "string option"
  ma_allowed_tools :: "string list option"
  ma_ingest_tool_calls :: "pydict list option"
  ma_rate_cap_per_minute :: "int option"
  ma_webhook_rate_cap_per_minute :: "int option"

definition register_user_mcp :: "string \<Rightarrow> string \<Rightarrow> string \<Rightarrow> string \<Rightarrow> user_mcp_args \<Rightarrow> api_call" where
  "register_user_mcp sandbox_id name base_url auth_kind a =
     POST (sources_base sandbox_id @ ''/user-mcp'')
       (PDict (set_fields
         [(''token'', some_str (ma_token a)), (''auth_header'', some_str (ma_auth_header a)),
          (''app_namespace'', some_str (ma_app_namespace a)), (''allowed_tools'', some_list (ma_allowed_tools a)),
          (''ingest_tool_calls'', map_option (\<lambda>ds. PList (map PDict ds)) (ma_ingest_tool_calls a)),
          (''rate_cap_per_minute'', some_int (ma_rate_cap_per_minute a)),
          (''webhook_rate_cap_per_minute'', some_int (ma_webhook_rate_cap_per_minute a))]
         [(''name'', PStr name), (''base_url'', PStr base_url), (''auth_kind'', PStr auth_kind)]))"

definition test_user_mcp :: "string \<Rightarrow> string \<Rightarrow> api_call" where
  "test_user_mcp sandbox_id source_id = POST (source_path sandbox_id source_id @ ''/user-mcp/test'') PNone"

definition revoke_user_mcp :: "string \<Rightarrow> string \<Rightarrow> api_call" where
  "revoke_user_mcp sandbox_id source_id = POST (source_path sandbox_id source_id @ ''/user-mcp/revoke'') PNone"

section \<open>Sandbox connections\<close>

record connection_args =
  ca_copass_id :: "string option"
  ca_user_id :: "string option"
  ca_email :: "string option"
  ca_project_id :: "string option"
  ca_label :: "string option"
  ca_expires_at :: "string option"

definition connections_path :: "string \<Rightarrow> string" where
  "connections_path sandbox_id = sandbox_path sandbox_id @ ''/connections''"

definition connections_create :: "string \<Rightarrow> string \<Rightarrow> connection_args \<Rightarrow> api_call" where
  "connections_create sandbox_id role a =
     POST (connections_path sandbox_id)
       (PDict (set_fields
         [(''copass_id'', some_str (ca_copass_id a)), (''user_id'', some_str (ca_user_id a)),
          (''email'', some_str (ca_email a)), (''project_id'', some_str (ca_project_id a)),
          (''label'', some_str (ca_label a)), (''expires_at'', some_str (ca_expires_at a))]
         [(''role'', PStr role)]))"

definition connections_list :: "string \<Rightarrow> bool \<Rightarrow> api_call" where
  "connections_list sandbox_id include_revoked =
     base_get (connections_path sandbox_id)
       (given_query [(''include_revoked'', if include_revoked then Some ''true'' else None)]) None"

definition connections_revoke :: "string \<Rightarrow> string \<Rightarrow> api_call" where
  "connections_revoke sandbox_id connection_id = DELETE (connections_path sandbox_id @ ''/'' @ connection_id)"

definition spawn_api_key :: "string \<Rightarrow> string \<Rightarrow> api_call" where
  "spawn_api_key sandbox_id connection_id =
     POST (connections_path sandbox_id @ ''/'' @ connection_id @ ''/api-keys'') PNone"

section \<open>Integrations\<close>

definition integrations_base :: "string \<Rightarrow> string" where
  "integrations_base sandbox_id = ''/api/v1/storage/sandboxes/'' @ sandbox_id @ ''/sources/integrations''"

definition integrations_catalog :: "string \<Rightarrow> string option \<Rightarrow> int option \<Rightarrow> string option \<Rightarrow> api_call" where
  "integrations_catalog sandbox_id q limit cursor =
     base_get (integrations_base sandbox_id @ ''/catalog'')
       (given_query [(''q'', q), (''limit'', map_option dec_int limit), (''cursor'', cursor)]) None"

definition integrations_list_accounts :: "string \<Rightarrow> string option \<Rightarrow> api_call" where
  "integrations_list_accounts sandbox_id app_slug =
     base_get (integrations_base sandbox_id @ ''/accounts'') (given_query [(''app_slug'', app_slug)]) None"

definition integrations_connect ::
    "string \<Rightarrow> string \<Rightarrow> string \<Rightarrow> string \<Rightarrow> string option \<Rightarrow> string option \<Rightarrow> string option \<Rightarrow> api_call" where
  "integrations_connect sandbox_id app success_uri error_uri scope project_id webhook_uri =
     POST (integrations_base sandbox_id @ ''/'' @ app @ ''/connect'')
       (PDict (set_fields
         [(''scope'', some_str scope), (''project_id'', some_str project_id), (''webhook_uri'', some_str webhook_uri)]
         [(''success_redirect_uri'', PStr success_uri), (''error_redirect_uri'', PStr error_uri)]))"

definition integrations_list :: "string \<Rightarrow> string option \<Rightarrow> api_call" where
  "integrations_list sandbox_id app =
     base_get (integrations_base sandbox_id @ ''/connections'') (given_query [(''app'', app)]) None"

definition integrations_disconnect :: "string \<Rightarrow> string \<Rightarrow> api_call" where
  "integrations_disconnect sandbox_id source_id = DELETE (integrations_base sandbox_id @ ''/connections/'' @ source_id)"

definition integrations_reconcile :: "string \<Rightarrow> string option \<Rightarrow> string option \<Rightarrow> string option \<Rightarrow> api_call" where
  "integrations_reconcile sandbox_id scope project_id app =
     POST (integrations_base sandbox_id @ ''/reconcile'')
       (PDict (set_fields
         [(''scope'', some_str scope), (''project_id'', some_str project_id), (''app'', some_str app)] []))"

section \<open>API keys, users, usage\<close>

definition api_keys_create :: "string \<Rightarrow> int option \<Rightarrow> api_call" where
  "api_keys_create name expires_in_days =
     POST ''/api/v1/api-keys'' (PDict (set_fields [(''expires_in_days'', some_int expires_in_days)] [(''name'', PStr name)]))"

definition api_keys_list :: api_call where
  "api_keys_list = GET ''/api/v1/api-keys''"

definition api_keys_result :: "pyval \<Rightarrow> pyval" where
  "api_keys_result response = (case as_list response of Some xs \<Rightarrow> PList xs | None \<Rightarrow> PList [])"

definition api_keys_revoke :: "string \<Rightarrow> api_call" where
  "api_keys_revoke key_id = DELETE (''/api/v1/api-keys/'' @ key_id)"

definition create_profile :: "string option \<Rightarrow> string option \<Rightarrow> api_call" where
  "create_profile display_name canonical_id =
     POST ''/api/v1/users/me/profile''
       (PDict (set_fields [(''display_name'', some_str display_name), (''canonical_id'', some_str canonical_id)] []))"

definition get_profile :: api_call where
  "get_profile = GET ''/api/v1/users/me/profile''"

definition usage_get_summary :: api_call where
  "usage_get_summary = GET ''/api/v1/usage''"

definition usage_get_balance :: api_call where
  "usage_get_balance = GET ''/api/v1/usage/balance''"

end
