(* ===== verification/PyConv.thy ===== *)
theory PyConv
  imports PyVal
begin

text \<open>
  Python's conversions \<open>int(v)\<close>, \<open>list(v)\<close> and \<open>dict(v)\<close> on the model's values, with the errors they raise, and
  method calls on a value that may not be a dict. A float literal denotes the nearest binary64 number.
\<close>

section \<open>Type names and attribute access\<close>

text \<open>The class of a \<open>PObj\<close> is not part of the model; values decoded from JSON never are one.\<close>

fun py_type_name :: "pyval \<Rightarrow> string" where
  "py_type_name PNone = ''NoneType''"
| "py_type_name (PBool b) = ''bool''"
| "py_type_name (PInt i) = ''int''"
| "py_type_name (PFloat l) = ''float''"
| "py_type_name (PStr s) = ''str''"
| "py_type_name (PList vs) = ''list''"
| "py_type_name (PDict d) = ''dict''"
| "py_type_name (PObj s r) = ''object''"

definition no_attribute :: "pyval \<Rightarrow> string \<Rightarrow> exn" where
  "no_attribute v a =
     OtherError ''AttributeError'' (sq # py_type_name v @ sq # '' object has no attribute '' @ sq # a @ [sq])"

text \<open>The dict whose \<open>.get\<close> the code calls.\<close>

definition need_dict :: "pyval \<Rightarrow> exn + pydict" where
  "need_dict v = (case v of PDict d \<Rightarrow> Inr d | _ \<Rightarrow> Inl (no_attribute v ''get''))"

section \<open>int\<close>

text \<open>The value of a string of digits, as an integer; \<open>undec\<close> on the naturals.\<close>

definition digits_value :: "string \<Rightarrow> int" where
  "digits_value s = foldl (\<lambda>n c. 10 * n + int (code c - 48)) 0 s"

function bit_len :: "int \<Rightarrow> int" where
  "bit_len n = (if n \<le> 0 then 0 else 1 + bit_len (n div 2))"
  by pat_completeness auto
termination by (relation "measure nat") auto

declare bit_len.simps [simp del]

text \<open>Round half to even of a quotient.\<close>

definition round_div :: "int \<Rightarrow> int \<Rightarrow> int" where
  "round_div p q =
     (let k = p div q; r = p mod q
      in if 2 * r > q \<or> (2 * r = q \<and> odd k) then k + 1 else k)"

text \<open>The binary64 number nearest to \<open>p / q\<close>, as \<open>m / 2 ^ s\<close> with 53 significant bits, and its integer part.\<close>

definition nearest_double :: "int \<Rightarrow> int \<Rightarrow> int \<times> int" where
  "nearest_double p q =
     (if p = 0 then (0, 0)
      else let s0 = 53 - (bit_len p - bit_len q);
               scaled = (\<lambda>s. if 0 \<le> s then (p * 2 ^ nat s, q) else (p, q * 2 ^ nat (- s)));
               big = (case scaled s0 of (a, b) \<Rightarrow> 2 ^ 53 * b \<le> a);
               s = (if big then s0 - 1 else s0)
           in (case scaled s of (a, b) \<Rightarrow> round_div a b, s))"

definition trunc_nearest :: "int \<Rightarrow> int \<Rightarrow> int" where
  "trunc_nearest p q =
     (case nearest_double p q of (m, s) \<Rightarrow> if 0 \<le> s then m div 2 ^ nat s else m * 2 ^ nat (- s))"

definition strip_sign :: "string \<Rightarrow> bool \<times> string" where
  "strip_sign s =
     (case s of
        [] \<Rightarrow> (False, [])
      | c # cs \<Rightarrow> if c = CHR ''-'' then (True, cs) else if c = CHR ''+'' then (False, cs) else (False, s))"

definition signed :: "bool \<Rightarrow> int \<Rightarrow> int" where
  "signed neg n = (if neg then - n else n)"

definition trunc_float :: "string \<Rightarrow> exn + int" where
  "trunc_float l =
     (case strip_sign l of
        (neg, s) \<Rightarrow>
          if s = ''inf'' then Inl (OtherError ''OverflowError'' ''cannot convert float infinity to integer'')
          else if s = ''nan'' then Inl (ValueError ''cannot convert float NaN to integer'')
          else
            (let mant = takeWhile (\<lambda>c. c \<noteq> CHR ''e'' \<and> c \<noteq> CHR ''E'') s;
                 ex = drop (Suc (length mant)) s;
                 x = (case strip_sign ex of (xneg, xs) \<Rightarrow> signed xneg (digits_value xs));
                 i = takeWhile (\<lambda>c. c \<noteq> CHR ''.'') mant;
                 f = drop (Suc (length i)) mant;
                 e = x - int (length f);
                 v = trunc_nearest (digits_value (i @ f) * 10 ^ nat e) (10 ^ nat (- e))
             in if 2 ^ 1024 \<le> v
                then Inl (OtherError ''OverflowError'' ''cannot convert float infinity to integer'')
                else Inr (signed neg v)))"

definition parse_int :: "string \<Rightarrow> int option" where
  "parse_int s =
     (case strip_sign (py_strip s) of
        (neg, t) \<Rightarrow>
          (let parts = py_split (CHR ''_'') t
           in if list_all (\<lambda>p. p \<noteq> [] \<and> list_all is_digit p) parts
              then Some (signed neg (digits_value (concat parts))) else None))"

fun py_int :: "pyval \<Rightarrow> exn + int" where
  "py_int (PBool b) = Inr (if b then 1 else 0)"
| "py_int (PInt i) = Inr i"
| "py_int (PFloat l) = trunc_float l"
| "py_int (PStr s) =
     (case parse_int s of
        Some i \<Rightarrow> Inr i
      | None \<Rightarrow> Inl (ValueError (''invalid literal for int() with base 10: '' @ repr_str s)))"
| "py_int v = Inl (TypeError
     (''int() argument must be a string, a bytes-like object or a real number, not '' @ sq # py_type_name v @ [sq]))"

section \<open>list and dict\<close>

definition not_iterable :: "pyval \<Rightarrow> exn" where
  "not_iterable v = TypeError (sq # py_type_name v @ sq # '' object is not iterable'')"

fun py_list :: "pyval \<Rightarrow> exn + pyval list" where
  "py_list (PStr s) = Inr (map (\<lambda>c. PStr [c]) s)"
| "py_list (PList vs) = Inr vs"
| "py_list (PDict d) = Inr (map (\<lambda>(k, v). PStr k) d)"
| "py_list v = Inl (not_iterable v)"

text \<open>\<open>dict(v)\<close> of a sequence of pairs. A key that is not a string has no counterpart in the model's
  dicts; it is reported as an error of its own class.\<close>

definition update_element :: "nat \<Rightarrow> pyval \<Rightarrow> exn + string \<times> pyval" where
  "update_element i v =
     (case py_list v of
        Inl e \<Rightarrow> Inl (TypeError (''cannot convert dictionary update sequence element #'' @ dec_nat i @ '' to a sequence''))
      | Inr [k, w] \<Rightarrow> (case as_str k of Some s \<Rightarrow> Inr (s, w) | None \<Rightarrow> Inl (OtherError ''UnmodelledKey'' (py_repr k)))
      | Inr vs \<Rightarrow> Inl (ValueError (''dictionary update sequence element #'' @ dec_nat i @ '' has length '' @
                   dec_nat (length vs) @ ''; 2 is required'')))"

fun update_from :: "nat \<Rightarrow> pyval list \<Rightarrow> pydict \<Rightarrow> exn + pydict" where
  "update_from i [] d = Inr d"
| "update_from i (v # vs) d =
     (case update_element i v of Inl e \<Rightarrow> Inl e | Inr (k, w) \<Rightarrow> update_from (Suc i) vs (dict_set k w d))"

definition py_dict :: "pyval \<Rightarrow> exn + pydict" where
  "py_dict v =
     (case v of
        PDict d \<Rightarrow> Inr d
      | _ \<Rightarrow> (case py_list v of Inl e \<Rightarrow> Inl e | Inr vs \<Rightarrow> update_from 0 vs []))"

text \<open>\<open>str(d.get(k, default))\<close>, \<open>int(d.get(k, 0))\<close> and \<open>dict(d.get(k) or {})\<close>.\<close>

definition str_field :: "pydict \<Rightarrow> string \<Rightarrow> string" where
  "str_field d k = py_str (get_or d k (PStr []))"

definition int_field :: "pydict \<Rightarrow> string \<Rightarrow> exn + int" where
  "int_field d k = py_int (get_or d k (PInt 0))"

definition dict_field :: "pydict \<Rightarrow> string \<Rightarrow> exn + pydict" where
  "dict_field d k = py_dict (py_or (get_none d k) (PDict []))"

text \<open>\<open>d[k]\<close>\<close>

definition need_key :: "pydict \<Rightarrow> string \<Rightarrow> exn + pyval" where
  "need_key d k = (case dict_get d k of None \<Rightarrow> Inl (KeyError k) | Some v \<Rightarrow> Inr v)"

section \<open>Facts\<close>

lemma digits_value_undec:
  "\<forall>c \<in> set s. is_digit c \<Longrightarrow> digits_value s = int (undec s)"
proof (induction s rule: rev_induct)
  case (snoc c s)
  then show ?case by (simp add: undec_snoc) (simp add: digits_value_def)
qed (simp add: digits_value_def undec_def)

lemma digits_value_dec_nat [simp]: "digits_value (dec_nat n) = int n"
  by (simp add: digits_value_undec dec_nat_digits)

lemma strip_sign_dec_nat [simp]: "strip_sign (dec_nat n) = (False, dec_nat n)"
proof (cases "dec_nat n")
  case (Cons c cs)
  then have "is_digit c" using dec_nat_digits [of n] by simp
  then show ?thesis using Cons by (auto simp: strip_sign_def is_digit_def code_def)
qed simp

end
