(* ===== verification/ResourceAgents.thy ===== *)
theory ResourceAgents
  imports Resources PyConv
begin

text \<open>
  The agents resource (\<open>resources/agents.py\<close>): agents, their triggers, runs and tool catalogue, and the
  decoding of the envelope of \<open>wire_integration\<close>.
\<close>

definition agents_base :: "string \<Rightarrow> string" where
  "agents_base sandbox_id = STORAGE_BASE @ ''/'' @ sandbox_id @ ''/agents''"

definition agent_path :: "string \<Rightarrow> string \<Rightarrow> string" where
  "agent_path sandbox_id slug = agents_base sandbox_id @ ''/'' @ slug"

section \<open>Triggers\<close>

definition trigger_path :: "string \<Rightarrow> string \<Rightarrow> string \<Rightarrow> string" where
  "trigger_path sandbox_id slug trigger_id = agent_path sandbox_id slug @ ''/triggers/'' @ trigger_id"

definition triggers_create ::
    "string \<Rightarrow> string \<Rightarrow> string \<Rightarrow> string \<Rightarrow> pydict option \<Rightarrow> int option \<Rightarrow> api_call" where
  "triggers_create sandbox_id slug data_source_id event_type_filter filter_config rate_limit =
     POST (agent_path sandbox_id slug @ ''/triggers'')
       (PDict (set_fields
         [(''filter_config'', some_dict filter_config), (''rate_limit_per_hour'', some_int rate_limit)]
         [(''data_source_id'', PStr data_source_id), (''event_type_filter'', PStr event_type_filter)]))"

definition triggers_list :: "string \<Rightarrow> string \<Rightarrow> string option \<Rightarrow> api_call" where
  "triggers_list sandbox_id slug status =
     base_get (agent_path sandbox_id slug @ ''/triggers'') (Some [(''status'', status)]) None"

definition triggers_retrieve :: "string \<Rightarrow> string \<Rightarrow> string \<Rightarrow> api_call" where
  "triggers_retrieve sandbox_id slug trigger_id = GET (trigger_path sandbox_id slug trigger_id)"

record trigger_patch =
  tp_event_type_filter :: "string option"
  tp_filter_config :: "pydict option"
  tp_clear_filter_config :: bool
  tp_rate_limit_per_hour :: "int option"
  tp_clear_rate_limit :: bool
  tp_status :: "string option"

definition trigger_patch_body :: "trigger_patch \<Rightarrow> pydict" where
  "trigger_patch_body p =
     set_fields
       [(''event_type_filter'', some_str (tp_event_type_filter p)), (''filter_config'', some_dict (tp_filter_config p)),
        (''rate_limit_per_hour'', some_int (tp_rate_limit_per_hour p)), (''status'', some_str (tp_status p))]
       [(''clear_filter_config'', PBool (tp_clear_filter_config p)), (''clear_rate_limit'', PBool (tp_clear_rate_limit p))]"

definition triggers_update :: "string \<Rightarrow> string \<Rightarrow> string \<Rightarrow> trigger_patch \<Rightarrow> api_call" where
  "triggers_update sandbox_id slug trigger_id p =
     PATCH (trigger_path sandbox_id slug trigger_id) (PDict (trigger_patch_body p))"

definition triggers_destroy :: "string \<Rightarrow> string \<Rightarrow> string \<Rightarrow> api_call" where
  "triggers_destroy sandbox_id slug trigger_id = DELETE (trigger_path sandbox_id slug trigger_id)"

definition triggers_update_by_id :: "string \<Rightarrow> string \<Rightarrow> trigger_patch \<Rightarrow> api_call" where
  "triggers_update_by_id sandbox_id trigger_id p =
     PATCH (STORAGE_BASE @ ''/'' @ sandbox_id @ ''/triggers/'' @ trigger_id) (PDict (trigger_patch_body p))"

section \<open>Agents\<close>

definition agents_create ::
    "string \<Rightarrow> string \<Rightarrow> string \<Rightarrow> string \<Rightarrow> string list \<Rightarrow> pydict \<Rightarrow> string option \<Rightarrow> api_call" where
  "agents_create sandbox_id slug name prompt tool_allowlist model_settings description =
     POST (agents_base sandbox_id)
       (PDict (set_fields [(''description'', some_str description)]
         [(''slug'', PStr slug), (''name'', PStr name), (''system_prompt'', PStr prompt),
          (''tool_allowlist'', PList (map PStr tool_allowlist)), (''model_settings'', PDict model_settings)]))"

definition agents_list :: "string \<Rightarrow> string option \<Rightarrow> api_call" where
  "agents_list sandbox_id status = base_get (agents_base sandbox_id) (Some [(''status'', status)]) None"

definition agents_retrieve :: "string \<Rightarrow> string \<Rightarrow> api_call" where
  "agents_retrieve sandbox_id slug = GET (agent_path sandbox_id slug)"

definition agents_update ::
    "string \<Rightarrow> string \<Rightarrow> string option \<Rightarrow> string option \<Rightarrow> string option \<Rightarrow> string list option \<Rightarrow> pydict option \<Rightarrow>
     string option \<Rightarrow> api_call" where
  "agents_update sandbox_id slug name description prompt tool_allowlist model_settings status =
     PATCH (agent_path sandbox_id slug)
       (PDict (set_fields
         [(''name'', some_str name), (''description'', some_str description), (''system_prompt'', some_str prompt),
          (''tool_allowlist'', some_list tool_allowlist), (''model_settings'', some_dict model_settings),
          (''status'', some_str status)] []))"

definition agents_archive :: "string \<Rightarrow> string \<Rightarrow> api_call" where
  "agents_archive sandbox_id slug = DELETE (agent_path sandbox_id slug)"

text \<open>A temperature is a float, carried by its literal.\<close>

definition update_model_settings ::
    "string \<Rightarrow> string \<Rightarrow> string option \<Rightarrow> string option \<Rightarrow> string option \<Rightarrow> int option \<Rightarrow> int option \<Rightarrow> int option \<Rightarrow>
     api_call" where
  "update_model_settings sandbox_id slug backend mdl temperature max_tokens max_turns timeout_s =
     PATCH (agent_path sandbox_id slug @ ''/model-settings'')
       (PDict (set_fields
         [(''backend'', some_str backend), (''model'', some_str mdl), (''temperature'', map_option PFloat temperature),
          (''max_tokens'', some_int max_tokens), (''max_turns'', some_int max_turns), (''timeout_s'', some_int timeout_s)]
         []))"

definition update_tool_sources :: "string \<Rightarrow> string \<Rightarrow> string list option \<Rightarrow> api_call" where
  "update_tool_sources sandbox_id slug tool_sources =
     PATCH (agent_path sandbox_id slug @ ''/tool-sources'')
       (PDict [(''tool_sources'', case tool_sources of None \<Rightarrow> PNone | Some ts \<Rightarrow> PList (map PStr ts))])"

definition wire_integration :: "string \<Rightarrow> string \<Rightarrow> string \<Rightarrow> api_call" where
  "wire_integration sandbox_id slug app_slug =
     POST (agent_path sandbox_id slug @ ''/wire-integration'') (PDict [(''app_slug'', PStr app_slug)])"

record wire_integration_result =
  wi_wired :: bool
  wi_agent_slug :: string
  wi_app_slug :: string
  wi_sources_added :: "pyval list"
  wi_tool_count :: int
  wi_mode :: pyval
  wi_message :: string

definition wire_integration_from_dict :: "pyval \<Rightarrow> exn + wire_integration_result" where
  "wire_integration_from_dict payload =
     (case need_dict payload of
        Inl e \<Rightarrow> Inl e
      | Inr d \<Rightarrow>
          (case py_list (py_or (get_none d ''sources_added'') (PList [])) of
             Inl e \<Rightarrow> Inl e
           | Inr added \<Rightarrow>
               (case int_field d ''tool_count'' of
                  Inl e \<Rightarrow> Inl e
                | Inr n \<Rightarrow> Inr \<lparr>wi_wired = truthy (get_or d ''wired'' (PBool False)),
                    wi_agent_slug = str_field d ''agent_slug'', wi_app_slug = str_field d ''app_slug'',
                    wi_sources_added = added, wi_tool_count = n,
                    wi_mode = get_or d ''mode'' (PStr ''explicit''), wi_message = str_field d ''message''\<rparr>)))"

section \<open>Invocation and runs\<close>

definition test_fire :: "string \<Rightarrow> string \<Rightarrow> pydict option \<Rightarrow> api_call" where
  "test_fire sandbox_id slug event_payload =
     POST (agent_path sandbox_id slug @ ''/test'') (PDict (set_fields [(''event_payload'', some_dict event_payload)] []))"

definition start_chat_run :: "string \<Rightarrow> string \<Rightarrow> string \<Rightarrow> string option \<Rightarrow> api_call" where
  "start_chat_run sandbox_id slug message session_id =
     POST (agent_path sandbox_id slug @ ''/invoke-async'')
       (PDict (set_fields [(''session_id'', some_str session_id)] [(''message'', PStr message)]))"

definition list_runs :: "string \<Rightarrow> string \<Rightarrow> int option \<Rightarrow> string option \<Rightarrow> api_call" where
  "list_runs sandbox_id slug limit before =
     base_get (agent_path sandbox_id slug @ ''/runs'')
       (given_query [(''limit'', map_option dec_int limit), (''before'', before)]) None"

definition get_run :: "string \<Rightarrow> string \<Rightarrow> api_call" where
  "get_run sandbox_id run_id = GET (agents_base sandbox_id @ ''/runs/'' @ run_id)"

definition list_tools :: "string \<Rightarrow> api_call" where
  "list_tools sandbox_id = GET (agents_base sandbox_id @ ''/tools'')"

definition list_trigger_components :: "string \<Rightarrow> string option \<Rightarrow> string option \<Rightarrow> int option \<Rightarrow> api_call" where
  "list_trigger_components sandbox_id app q limit =
     base_get (agents_base sandbox_id @ ''/triggers/components'')
       (given_query [(''app'', app), (''q'', q), (''limit'', map_option dec_int limit)]) None"

end
