(* ===== verification/Compute.thy ===== *)
theory Compute
  imports Resources PyConv
begin

text \<open>
  The compute resource (\<open>resources/compute.py\<close>): the calls, the decoding of the wire records, and the
  gateway URLs of a session.
\<close>

definition compute_base :: "string \<Rightarrow> string" where
  "compute_base sandbox_id = STORAGE_BASE @ ''/'' @ sandbox_id @ ''/compute''"

section \<open>Wire records\<close>

record compute_template =
  ct_name :: string
  ct_provider :: string
  ct_cpu_count :: int
  ct_memory_mb :: int
  ct_description :: string

definition template_from_dict :: "pyval \<Rightarrow> exn + compute_template" where
  "template_from_dict payload =
     (case need_dict payload of
        Inl e \<Rightarrow> Inl e
      | Inr d \<Rightarrow>
          (case int_field d ''cpu_count'' of
             Inl e \<Rightarrow> Inl e
           | Inr cpu \<Rightarrow>
               (case int_field d ''memory_mb'' of
                  Inl e \<Rightarrow> Inl e
                | Inr mem \<Rightarrow> Inr \<lparr>ct_name = str_field d ''name'', ct_provider = str_field d ''provider'',
                    ct_cpu_count = cpu, ct_memory_mb = mem, ct_description = str_field d ''description''\<rparr>)))"

record compute_gateway =
  gw_base_url :: string
  gw_url_template :: string
  gw_kind :: pyval

record compute_session_response =
  cs_session_id :: string
  cs_template :: string
  cs_status :: string
  cs_provisioned_at :: string
  cs_deadline_at :: string
  cs_last_activity_at :: string
  cs_metadata :: pydict
  cs_gateway :: "compute_gateway option"

definition gateway_from :: "pyval \<Rightarrow> exn + compute_gateway option" where
  "gateway_from v =
     (if v = PNone then Inr None
      else case need_dict v of
             Inl e \<Rightarrow> Inl e
           | Inr g \<Rightarrow> Inr (Some \<lparr>gw_base_url = str_field g ''base_url'', gw_url_template = str_field g ''url_template'',
               gw_kind = get_or g ''kind'' (PStr ''edge-proxy-v1'')\<rparr>))"

definition session_from_dict :: "pyval \<Rightarrow> exn + compute_session_response" where
  "session_from_dict payload =
     (case need_dict payload of
        Inl e \<Rightarrow> Inl e
      | Inr d \<Rightarrow>
          (case gateway_from (get_none d ''gateway'') of
             Inl e \<Rightarrow> Inl e
           | Inr g \<Rightarrow>
               (case dict_field d ''metadata'' of
                  Inl e \<Rightarrow> Inl e
                | Inr meta \<Rightarrow> Inr \<lparr>cs_session_id = str_field d ''session_id'', cs_template = str_field d ''template'',
                    cs_status = str_field d ''status'', cs_provisioned_at = str_field d ''provisioned_at'',
                    cs_deadline_at = str_field d ''deadline_at'', cs_last_activity_at = str_field d ''last_activity_at'',
                    cs_metadata = meta, cs_gateway = g\<rparr>)))"

record compute_exec_response =
  ce_stdout :: string
  ce_stderr :: string
  ce_exit_code :: int
  ce_elapsed_ms :: int
  ce_truncated :: bool

definition exec_from_dict :: "pyval \<Rightarrow> exn + compute_exec_response" where
  "exec_from_dict payload =
     (case need_dict payload of
        Inl e \<Rightarrow> Inl e
      | Inr d \<Rightarrow>
          (case int_field d ''exit_code'' of
             Inl e \<Rightarrow> Inl e
           | Inr exit_status \<Rightarrow>
               (case int_field d ''elapsed_ms'' of
                  Inl e \<Rightarrow> Inl e
                | Inr ms \<Rightarrow> Inr \<lparr>ce_stdout = str_field d ''stdout'', ce_stderr = str_field d ''stderr'',
                    ce_exit_code = exit_status, ce_elapsed_ms = ms, ce_truncated = truthy (get_or d ''truncated'' (PBool False))\<rparr>)))"

record compute_health =
  ch_session_id :: string
  ch_status :: string
  ch_last_activity_at :: string

definition health_from_dict :: "pyval \<Rightarrow> exn + compute_health" where
  "health_from_dict payload =
     map_sum id (\<lambda>d. \<lparr>ch_session_id = str_field d ''session_id'', ch_status = str_field d ''status'',
       ch_last_activity_at = str_field d ''last_activity_at''\<rparr>) (need_dict payload)"

record compute_stop =
  cp_session_id :: string
  cp_status :: string

definition stop_from_dict :: "pyval \<Rightarrow> exn + compute_stop" where
  "stop_from_dict payload =
     map_sum id (\<lambda>d. \<lparr>cp_session_id = str_field d ''session_id'', cp_status = str_field d ''status''\<rparr>)
       (need_dict (py_or payload (PDict [])))"

section \<open>The session wrapper\<close>

definition GATEWAY_NOT_CONFIGURED :: string where
  "GATEWAY_NOT_CONFIGURED =
     ''Gateway is not configured on this Copass deployment. '' @
     ''The compute session response did not include a `gateway` envelope '' @
     ''(ADR 0026 Phase 1 must be deployed server-side and the '' @
     ''COMPUTE_GATEWAY_BASE_URL env var must be set).''"

definition require_gateway :: "compute_session_response \<Rightarrow> exn + compute_gateway" where
  "require_gateway r =
     (case cs_gateway r of None \<Rightarrow> Inl (ValueError GATEWAY_NOT_CONFIGURED) | Some g \<Rightarrow> Inr g)"

definition proxy_url :: "compute_session_response \<Rightarrow> int \<Rightarrow> string \<Rightarrow> exn + string" where
  "proxy_url r port path =
     (case require_gateway r of
        Inl e \<Rightarrow> Inl e
      | Inr gw \<Rightarrow>
          (let u1 = py_replace ''{base_url}'' (gw_base_url gw) (gw_url_template gw);
               u2 = py_replace ''{session_id}'' (cs_session_id r) u1;
               u3 = py_replace ''{port}'' (dec_int port) u2
           in Inr (py_replace ''{path}'' path u3)))"

definition ws_scheme :: "string \<Rightarrow> string" where
  "ws_scheme url =
     (if py_startswith url ''https://'' then ''wss://'' @ drop (length ''https://'') url
      else if py_startswith url ''http://'' then ''ws://'' @ drop (length ''http://'') url
      else url)"

definition websocket_url :: "compute_session_response \<Rightarrow> int \<Rightarrow> string \<Rightarrow> exn + string" where
  "websocket_url r port path = map_sum id ws_scheme (proxy_url r port path)"

text \<open>\<open>fetch\<close>: the method, the URL and the headers handed to httpx; the other keyword arguments pass
  through. The URL is built before the session is asked for.\<close>

record fetch_request =
  fr_method :: string
  fr_url :: string
  fr_headers :: "(string, string) dict"

definition fetch_headers :: "session_context \<Rightarrow> (string, string) dict option \<Rightarrow> (string, string) dict" where
  "fetch_headers sess caller =
     dict_set ''Authorization'' (''Bearer '' @ access_token sess) (case caller of None \<Rightarrow> [] | Some h \<Rightarrow> h)"

definition fetch ::
    "compute_session_response \<Rightarrow> auth_provider \<Rightarrow> int \<Rightarrow> string \<Rightarrow> string option \<Rightarrow> (string, string) dict option \<Rightarrow>
     exn + fetch_request" where
  "fetch r auth port path meth caller =
     (case proxy_url r port path of
        Inl e \<Rightarrow> Inl e
      | Inr url \<Rightarrow>
          (case get_session auth of
             Inl e \<Rightarrow> Inl e
           | Inr sess \<Rightarrow> Inr \<lparr>fr_method = (case meth of None \<Rightarrow> ''GET'' | Some m \<Rightarrow> m), fr_url = url,
               fr_headers = fetch_headers sess caller\<rparr>))"

section \<open>The calls\<close>

fun sequence_results :: "(exn + 'a) list \<Rightarrow> exn + 'a list" where
  "sequence_results [] = Inr []"
| "sequence_results (r # rs) =
     (case r of Inl e \<Rightarrow> Inl e | Inr x \<Rightarrow> map_sum id (\<lambda>xs. x # xs) (sequence_results rs))"

definition list_templates :: "string \<Rightarrow> string option \<Rightarrow> api_call" where
  "list_templates sandbox_id provider =
     base_get (compute_base sandbox_id @ ''/templates'') (Some [(''provider'', provider)]) None"

text \<open>\<open>[from_dict(x) for x in (payload.get(key) or [])]\<close>.\<close>

definition decode_list :: "(pyval \<Rightarrow> exn + 'a) \<Rightarrow> string \<Rightarrow> pyval \<Rightarrow> exn + 'a list" where
  "decode_list from key payload =
     (case need_dict payload of
        Inl e \<Rightarrow> Inl e
      | Inr d \<Rightarrow>
          (case py_list (py_or (get_none d key) (PList [])) of
             Inl e \<Rightarrow> Inl e
           | Inr vs \<Rightarrow> sequence_results (map from vs)))"

definition list_templates_result :: "pyval \<Rightarrow> exn + compute_template list" where
  "list_templates_result = decode_list template_from_dict ''templates''"

definition create_session ::
    "string \<Rightarrow> string \<Rightarrow> (string, string) dict option \<Rightarrow> int option \<Rightarrow> (string, string) dict option \<Rightarrow> api_call" where
  "create_session sandbox_id template env_vars timeout_seconds metadata =
     POST (compute_base sandbox_id @ ''/sessions'')
       (PDict (set_fields
         [(''env_vars'', map_option (\<lambda>d. PDict (map (apsnd PStr) d)) env_vars),
          (''timeout_seconds'', some_int timeout_seconds),
          (''metadata'', map_option (\<lambda>d. PDict (map (apsnd PStr) d)) metadata)]
         [(''template'', PStr template)]))"

definition list_sessions :: "string \<Rightarrow> bool option \<Rightarrow> int option \<Rightarrow> api_call" where
  "list_sessions sandbox_id include_stopped limit =
     base_get (compute_base sandbox_id @ ''/sessions'')
       (given_query
         [(''include_stopped'', if include_stopped = Some True then Some ''true'' else None),
          (''limit'', map_option dec_int limit)]) None"

definition list_sessions_result :: "pyval \<Rightarrow> exn + compute_session_response list" where
  "list_sessions_result = decode_list session_from_dict ''sessions''"

definition compute_session_path :: "string \<Rightarrow> string \<Rightarrow> string" where
  "compute_session_path sandbox_id session_id = compute_base sandbox_id @ ''/sessions/'' @ session_id"

definition get_compute_session :: "string \<Rightarrow> string \<Rightarrow> api_call" where
  "get_compute_session sandbox_id session_id = GET (compute_session_path sandbox_id session_id)"

definition stop_session :: "string \<Rightarrow> string \<Rightarrow> api_call" where
  "stop_session sandbox_id session_id = DELETE (compute_session_path sandbox_id session_id)"

definition exec_command :: "string \<Rightarrow> string \<Rightarrow> string list \<Rightarrow> string option \<Rightarrow> int option \<Rightarrow> api_call" where
  "exec_command sandbox_id session_id cmd stdin timeout_seconds =
     POST (compute_session_path sandbox_id session_id @ ''/exec'')
       (PDict (set_fields [(''stdin'', some_str stdin), (''timeout_seconds'', some_int timeout_seconds)]
         [(''cmd'', PList (map PStr cmd))]))"

definition session_health :: "string \<Rightarrow> string \<Rightarrow> api_call" where
  "session_health sandbox_id session_id = GET (compute_session_path sandbox_id session_id @ ''/health'')"

end
