(* ===== verification/ResourceFacts.thy ===== *)
theory ResourceFacts
  imports ResourceSources ResourceAgents Compute
begin

text \<open>
  Lemmas on the resource layer: what a body built from optional arguments holds, when a path determines
  its segments, and what the chain of substitutions of a gateway URL computes.
\<close>


section \<open>Bodies\<close>

lemma set_fields_Nil [simp]: "set_fields [] d = d"
  by (simp add: set_fields_def)

lemma set_fields_Cons [simp]:
  "set_fields ((k, v) # fs) d = set_fields fs (case v of None \<Rightarrow> d | Some x \<Rightarrow> dict_set k x d)"
  by (simp add: set_fields_def split: option.split)

lemma set_fields_ok: "dict_ok d \<Longrightarrow> dict_ok (set_fields fs d)"
  by (induction fs arbitrary: d) (auto simp: distinct_update split: option.split)

lemma set_fields_get:
  "distinct (map fst fs) \<Longrightarrow> dict_get (set_fields fs d) k =
     (case map_of fs k of Some (Some v) \<Rightarrow> Some v | _ \<Rightarrow> dict_get d k)"
proof (induction fs arbitrary: d)
  case (Cons f fs)
  obtain k' v where f: "f = (k', v)" by (cases f)
  then have k': "map_of fs k' = None" "distinct (map fst fs)" using Cons.prems by (auto simp: map_of_eq_None_iff)
  show ?case using k' by (auto simp: f Cons.IH [OF k'(2)] split: option.split)
qed simp

lemma set_fields_cong:
  assumes "distinct (map fst fs)" "distinct (map fst fs')" 
    "\<And>k. (case map_of fs k of Some (Some v) \<Rightarrow> Some v | _ \<Rightarrow> dict_get d k) =
      (case map_of fs' k of Some (Some v) \<Rightarrow> Some v | _ \<Rightarrow> dict_get d' k)"
  shows "map_of (set_fields fs d) = map_of (set_fields fs' d')"
  using assms by (auto simp: set_fields_get)

section \<open>Paths\<close>

lemma py_join_inj:
  assumes "py_join [c] xs = py_join [c] ys" "xs \<noteq> []" "ys \<noteq> []"
    "\<forall>s \<in> set xs. c \<notin> set s" "\<forall>s \<in> set ys. c \<notin> set s"
  shows "xs = ys"
  using assms py_split_join by metis

section \<open>Template substitution\<close>

lemma py_replace_skip:
  "pat \<noteq> [] \<Longrightarrow> hd pat \<notin> set s \<Longrightarrow> py_replace pat new (s @ rest) = s @ py_replace pat new rest"
proof (induction s)
  case (Cons c s)
  then have "\<not> prefix pat (c # s @ rest)" by (cases pat) auto
  with Cons show ?case by (simp add: py_replace_miss)
qed simp

lemma parallel_no_prefix: "parallel p t \<Longrightarrow> \<not> prefix p (t @ rest)"
  by (metis parallelD1 parallelD2 prefix_append prefix_def prefix_same_cases)

text \<open>What a text may be for the substitution of \<open>pat\<close> to leave it alone.\<close>

definition inert :: "string \<Rightarrow> string \<Rightarrow> bool" where
  "inert pat t = (hd pat \<notin> set t \<or> (\<exists>t'. t = hd pat # t' \<and> hd pat \<notin> set t' \<and> parallel pat t))"

lemma py_replace_inert:
  assumes "pat \<noteq> []" "inert pat t"
  shows "py_replace pat new (t @ rest) = t @ py_replace pat new rest"
  using assms(2) unfolding inert_def
proof (elim disjE exE conjE)
  fix t' assume t: "t = hd pat # t'" "hd pat \<notin> set t'" "parallel pat t"
  then have "\<not> prefix pat (hd pat # t' @ rest)" using parallel_no_prefix [of pat t rest] by simp
  with assms(1) t(1,2) show ?thesis by (simp add: py_replace_miss py_replace_skip)
qed (simp add: assms(1) py_replace_skip)

lemma py_replace_concat:
  assumes "pat \<noteq> []" "\<forall>t \<in> set ts. t = pat \<or> inert pat t"
  shows "py_replace pat new (concat ts) = concat (map (\<lambda>t. if t = pat then new else t) ts)"
  using assms(2)
proof (induction ts)
  case (Cons t ts)
  then show ?case by (cases "t = pat") (simp_all add: py_replace_hit py_replace_inert assms(1))
qed (simp add: py_replace_Nil assms(1))


section \<open>URLs from templates\<close>

text \<open>A template as the pieces it is made of: the reference for \<open>proxy_url\<close>.\<close>

datatype url_piece = Lit string | BaseUrl | SessionId | Port | Path

fun piece_text :: "url_piece \<Rightarrow> string" where
  "piece_text (Lit s) = s"
| "piece_text BaseUrl = ''{base_url}''"
| "piece_text SessionId = ''{session_id}''"
| "piece_text Port = ''{port}''"
| "piece_text Path = ''{path}''"

fun piece_value :: "string \<Rightarrow> string \<Rightarrow> string \<Rightarrow> string \<Rightarrow> url_piece \<Rightarrow> string" where
  "piece_value b s p q (Lit t) = t"
| "piece_value b s p q BaseUrl = b"
| "piece_value b s p q SessionId = s"
| "piece_value b s p q Port = p"
| "piece_value b s p q Path = q"

definition plain_pieces :: "url_piece list \<Rightarrow> bool" where
  "plain_pieces ps = (\<forall>t. Lit t \<in> set ps \<longrightarrow> CHR ''{'' \<notin> set t)"

lemma dec_int_plain: "CHR ''{'' \<notin> set (dec_int i)"
proof -
  have "CHR ''{'' \<notin> set (dec_nat n)" for n
    using dec_nat_digits [of n] by (auto simp: is_digit_def code_def)
  then show ?thesis by (simp add: dec_int_def)
qed

fun placeholder :: "url_piece \<Rightarrow> bool" where
  "placeholder (Lit t) = False"
| "placeholder _ = True"

lemma placeholders_inert:
  "placeholder x \<Longrightarrow> placeholder y \<Longrightarrow> x \<noteq> y \<Longrightarrow> inert (piece_text y) (piece_text x)"
  by (cases x; cases y) (simp_all add: inert_def parallel_def)

lemma placeholder_text: "placeholder y \<Longrightarrow> \<exists>t. piece_text y = CHR ''{'' # t"
  by (cases y) auto

text \<open>One substitution of the chain: every other piece is already free of braces or still its placeholder.\<close>

lemma replace_stage:
  assumes "placeholder y" "f y = piece_text y"
    "\<forall>x \<in> set ps. x \<noteq> y \<longrightarrow> CHR ''{'' \<notin> set (f x) \<or> placeholder x \<and> f x = piece_text x"
  shows "py_replace (piece_text y) new (concat (map f ps)) = concat (map (f(y := new)) ps)"
proof -
  obtain t where t: "piece_text y = CHR ''{'' # t" using placeholder_text [OF assms(1)] by blast
  have "f x = piece_text y \<longleftrightarrow> x = y" if x: "x \<in> set ps" for x
    using assms x t placeholders_inert [of x y]
    by (metis inert_def list.sel(1) list.set_intros(1) parallel_def prefix_order.refl)
  moreover have "inert (piece_text y) (f x)" if x: "x \<in> set ps" and y: "x \<noteq> y" for x
  proof (cases "placeholder x \<and> f x = piece_text x")
    case True
    then show ?thesis using placeholders_inert [of x y] assms(1) y by simp
  next
    case False
    then show ?thesis using assms(3) x y t by (auto simp: inert_def)
  qed
  ultimately show ?thesis
    by (subst py_replace_concat) (auto simp: t comp_def intro!: arg_cong [where f = concat])
qed

lemma template_renders:
  assumes "plain_pieces ps" "CHR ''{'' \<notin> set b" "CHR ''{'' \<notin> set s" "CHR ''{'' \<notin> set p"
  shows "py_replace ''{path}'' q (py_replace ''{port}'' p (py_replace ''{session_id}'' s
      (py_replace ''{base_url}'' b (concat (map piece_text ps))))) =
    concat (map (piece_value b s p q) ps)"
proof -
  let ?f1 = "piece_text(BaseUrl := b)" and ?f2 = "piece_text(BaseUrl := b, SessionId := s)"
    and ?f3 = "piece_text(BaseUrl := b, SessionId := s, Port := p)"
  have lit: "CHR ''{'' \<notin> set (piece_text x) \<or> placeholder x" if x: "x \<in> set ps" for x
    using assms(1) x by (cases x) (auto simp: plain_pieces_def)
  note st = replace_stage [of _ _ ps]
  have 1: "py_replace ''{base_url}'' b (concat (map piece_text ps)) = concat (map ?f1 ps)"
    using st [of BaseUrl piece_text b] lit by auto
  have 2: "py_replace ''{session_id}'' s (concat (map ?f1 ps)) = concat (map ?f2 ps)"
    using st [of SessionId ?f1 s] lit assms(2) by auto
  have 3: "py_replace ''{port}'' p (concat (map ?f2 ps)) = concat (map ?f3 ps)"
    using st [of Port ?f2 p] lit assms(2,3) by auto
  have 4: "py_replace ''{path}'' q (concat (map ?f3 ps)) = concat (map (?f3(Path := q)) ps)"
    using st [of Path ?f3 q] lit assms(2-4) by auto
  have 5: "?f3(Path := q) = piece_value b s p q"
    by (rule ext, rename_tac x, case_tac x) auto
  show ?thesis unfolding 1 2 3 4 5 ..
qed

section \<open>Routes of the agents resource\<close>

text \<open>The read operations of the agents resource, by what they ask for.\<close>

datatype agent_read =
    Retrieve string | ListTools | GetRun string | ListRuns string
  | ListTriggers string | RetrieveTrigger string string | ListComponents

fun read_call :: "string \<Rightarrow> agent_read \<Rightarrow> api_call" where
  "read_call sb (Retrieve slug) = agents_retrieve sb slug"
| "read_call sb ListTools = list_tools sb"
| "read_call sb (GetRun run) = get_run sb run"
| "read_call sb (ListRuns slug) = list_runs sb slug None None"
| "read_call sb (ListTriggers slug) = triggers_list sb slug None"
| "read_call sb (RetrieveTrigger slug t) = triggers_retrieve sb slug t"
| "read_call sb ListComponents = list_trigger_components sb None None None"

fun read_segments :: "agent_read \<Rightarrow> string list" where
  "read_segments (Retrieve slug) = [slug]"
| "read_segments ListTools = [''tools'']"
| "read_segments (GetRun run) = [''runs'', run]"
| "read_segments (ListRuns slug) = [slug, ''runs'']"
| "read_segments (ListTriggers slug) = [slug, ''triggers'']"
| "read_segments (RetrieveTrigger slug t) = [slug, ''triggers'', t]"
| "read_segments ListComponents = [''triggers'', ''components'']"

text \<open>Identifiers without a slash, and no agent named like a route.\<close>

fun unreserved :: "agent_read \<Rightarrow> bool" where
  "unreserved (Retrieve slug) = (slug \<notin> {''tools'', ''runs''})"
| "unreserved (ListRuns slug) = (slug \<notin> {''tools'', ''runs''})"
| "unreserved (ListTriggers slug) = (slug \<notin> {''tools'', ''runs''})"
| "unreserved (RetrieveTrigger slug t) = (slug \<notin> {''tools'', ''runs''})"
| "unreserved _ = True"

definition slash_free :: "string \<Rightarrow> bool" where
  "slash_free s = (CHR ''/'' \<notin> set s)"

lemma read_path_segments:
  "call_path (read_call sb op) =
     py_join ''/'' ([''/api/v1/storage/sandboxes'', sb, ''agents''] @ read_segments op)"
  by (cases op) (simp_all add: agents_retrieve_def list_tools_def get_run_def list_runs_def triggers_list_def
      triggers_retrieve_def list_trigger_components_def base_get_def agent_path_def agents_base_def
      trigger_path_def STORAGE_BASE_def)

lemma read_segments_inj:
  "read_segments op = read_segments op' \<Longrightarrow> unreserved op \<Longrightarrow> unreserved op' \<Longrightarrow> op = op'"
  by (cases op; cases op') auto

lemma read_path_split:
  assumes "slash_free sb" "\<forall>s \<in> set (read_segments op). slash_free s"
  shows "py_split (CHR ''/'') (call_path (read_call sb op)) =
    [[], ''api'', ''v1'', ''storage'', ''sandboxes'', sb, ''agents''] @ read_segments op"
proof -
  have "call_path (read_call sb op) = py_join ''/'' ([[], ''api'', ''v1'', ''storage'', ''sandboxes'', sb, ''agents''] @ read_segments op)"
    by (cases "read_segments op") (simp_all add: read_path_segments)
  with assms show ?thesis by (simp only:) (rule py_split_join, auto simp: slash_free_def)
qed

end
