(* ===== verification/PropertiesResources.thy ===== *)
theory PropertiesResources
  imports ResourceFacts
begin

text \<open>
  The properties of the resource layer: equal ingest calls, unambiguous reads of the agents resource,
  gateway URLs, the gateway's credentials, and the decoding of nulls.
\<close>

section \<open>Properties\<close>

text \<open>Pushing text through a data source asks for the same thing as the sandbox ingest with that
  data source: the same method and path, and bodies with the same entries.\<close>

theorem source_ingest_is_sandbox_ingest:
  "\<exists>d d'. sources_ingest sb src txt a = POST (explicit_base sb) (PDict d) \<and>
     text_in_sandbox sb txt (Some src) a = POST (explicit_base sb) (PDict d') \<and>
     dict_ok d \<and> dict_ok d' \<and> map_of d = map_of d'"
proof (intro exI conjI)
  show "sources_ingest sb src txt a = POST (explicit_base sb) (PDict (set_fields
         [(''source_type'', some_str (ia_source_type a)), (''storage_only'', some_bool (ia_storage_only a)),
          (''project_id'', some_str (ia_project_id a)), (''occurred_at'', some_str (ia_occurred_at a)),
          (''speaker'', some_str (ia_speaker a)), (''participants'', some_list (ia_participants a))]
         [(''text'', PStr txt), (''data_source_id'', PStr src)]))"
    by (simp add: sources_ingest_def ingest_base_def explicit_base_def)
  show "text_in_sandbox sb txt (Some src) a = POST (explicit_base sb) (PDict (build_ingest_body txt (Some src) a))"
    by (simp add: text_in_sandbox_def)
  show "map_of (set_fields
         [(''source_type'', some_str (ia_source_type a)), (''storage_only'', some_bool (ia_storage_only a)),
          (''project_id'', some_str (ia_project_id a)), (''occurred_at'', some_str (ia_occurred_at a)),
          (''speaker'', some_str (ia_speaker a)), (''participants'', some_list (ia_participants a))]
         [(''text'', PStr txt), (''data_source_id'', PStr src)]) = map_of (build_ingest_body txt (Some src) a)"
    unfolding build_ingest_body_def by (rule set_fields_cong) (simp_all split: option.split)
qed (auto simp: build_ingest_body_def simp del: set_fields_Cons intro!: set_fields_ok)

text \<open>A read of the agents resource is determined by its path: with identifiers that contain no
  slash and no agent named tools or runs, two calls with the same path ask for the same thing of
  the same sandbox.\<close>

theorem agent_reads_unambiguous:
  assumes "slash_free sb" "slash_free sb'" "\<forall>s \<in> set (read_segments op @ read_segments op'). slash_free s"
    "unreserved op" "unreserved op'"
    "call_path (read_call sb op) = call_path (read_call sb' op')"
  shows "sb = sb' \<and> op = op'"
proof -
  have "[[], ''api'', ''v1'', ''storage'', ''sandboxes'', sb, ''agents''] @ read_segments op =
      [[], ''api'', ''v1'', ''storage'', ''sandboxes'', sb', ''agents''] @ read_segments op'"
    using assms(3,6) read_path_split [OF assms(1), of op] read_path_split [OF assms(2), of op'] by simp
  then show ?thesis using read_segments_inj [OF _ assms(4,5)] by simp
qed

theorem agent_reads_unambiguous_witness:
  "call_path (agents_retrieve ''sb_1'' ''gtm'') \<noteq> call_path (list_runs ''sb_1'' ''gtm'' None None)"
  using agent_reads_unambiguous [of "''sb_1''" "''sb_1''" "Retrieve ''gtm''" "ListRuns ''gtm''"]
  by (auto simp: slash_free_def)

text \<open>An agent named tools cannot be retrieved, nor one named runs have its runs listed apart
  from the run of that name: those calls are the very calls of other operations.\<close>

theorem reserved_slugs_collide:
  "agents_retrieve sb ''tools'' = list_tools sb \<and> list_runs sb ''runs'' None None = get_run sb ''runs''"
  by (simp add: agents_retrieve_def list_tools_def list_runs_def get_run_def agent_path_def agents_base_def given_query_def Let_def)

text \<open>A gateway URL is the rendering of its template: cut into literals and placeholders, every
  placeholder is replaced by its value and nothing else changes, whatever the path contains, as
  long as literals, base URL and session id have no opening brace.\<close>

theorem proxy_url_renders_template:
  assumes "cs_gateway r = Some gw" "gw_url_template gw = concat (map piece_text ps)" "plain_pieces ps"
    "CHR ''{'' \<notin> set (gw_base_url gw)" "CHR ''{'' \<notin> set (cs_session_id r)"
  shows "proxy_url r port path =
    Inr (concat (map (piece_value (gw_base_url gw) (cs_session_id r) (dec_int port) path) ps))"
  using template_renders [OF assms(3-5) dec_int_plain, of path port] assms(1,2)
  by (simp add: proxy_url_def require_gateway_def)

definition ex_session :: "compute_gateway option \<Rightarrow> compute_session_response" where
  "ex_session gw = \<lparr>cs_session_id = ''cs_1'', cs_template = ''python'', cs_status = ''running'',
     cs_provisioned_at = [], cs_deadline_at = [], cs_last_activity_at = [], cs_metadata = [], cs_gateway = gw\<rparr>"

definition ex_gateway :: compute_gateway where
  "ex_gateway = \<lparr>gw_base_url = ''https://gw.id'', gw_url_template = ''{base_url}/s/{session_id}/{port}{path}'',
     gw_kind = PStr ''edge-proxy-v1''\<rparr>"

theorem proxy_url_renders_template_witness:
  "proxy_url (ex_session (Some ex_gateway)) 3000 ''/x?q={port}'' = Inr ''https://gw.id/s/cs_1/3000/x?q={port}''"
proof -
  have d: "dec_int 3000 = ''3000''" by code_simp
  show ?thesis
    using proxy_url_renders_template [of "ex_session (Some ex_gateway)" ex_gateway
      "[BaseUrl, Lit ''/s/'', SessionId, Lit ''/'', Port, Path]" 3000 "''/x?q={port}''"]
    by (simp add: ex_session_def ex_gateway_def plain_pieces_def d)
qed

text \<open>Without a gateway envelope the three gateway helpers raise the same ValueError, and fetch
  does so before it asks for credentials.\<close>

theorem no_gateway_no_request:
  assumes "cs_gateway r = None"
  shows "proxy_url r port path = Inl (ValueError GATEWAY_NOT_CONFIGURED) \<and>
    websocket_url r port path = Inl (ValueError GATEWAY_NOT_CONFIGURED) \<and>
    fetch r auth port path meth caller = Inl (ValueError GATEWAY_NOT_CONFIGURED)"
  using assms by (simp add: proxy_url_def websocket_url_def fetch_def require_gateway_def)

theorem no_gateway_no_request_witness:
  "fetch (ex_session None) (CustomAuthProvider (Inl (RuntimeError ''expired''))) 80 [] None None =
     Inl (ValueError GATEWAY_NOT_CONFIGURED)"
  using no_gateway_no_request [of "ex_session None" 80 "[]" _ None None] by (simp add: ex_session_def)

text \<open>A fetch carries the session's bearer token under Authorization whatever the caller put
  there, but a caller's header written in another case stays beside it: the request then has two
  authorization headers.\<close>

theorem fetch_authorization:
  assumes "fetch r auth port path meth caller = Inr q" "get_session auth = Inr s"
  shows "dict_get (fr_headers q) ''Authorization'' = Some (''Bearer '' @ access_token s) \<and>
    (\<forall>k. k \<noteq> ''Authorization'' \<longrightarrow>
       dict_get (fr_headers q) k = (case caller of None \<Rightarrow> None | Some h \<Rightarrow> dict_get h k))"
  using assms by (auto simp: fetch_def fetch_headers_def split: sum.splits option.splits)

theorem fetch_authorization_witness:
  "\<exists>q. fetch (ex_session (Some ex_gateway)) (ApiKeyAuthProvider ''olk_1'') 80 [] None
         (Some [(''authorization'', ''Basic x'')]) = Inr q \<and>
     dict_get (fr_headers q) ''Authorization'' = Some ''Bearer olk_1'' \<and>
     dict_get (fr_headers q) ''authorization'' = Some ''Basic x''"
proof -
  let ?f = "fetch (ex_session (Some ex_gateway)) (ApiKeyAuthProvider ''olk_1'') 80 [] None
      (Some [(''authorization'', ''Basic x'')])"
  obtain q where q: "?f = Inr q"
    by (simp add: fetch_def proxy_url_def require_gateway_def ex_session_def Let_def)
  from fetch_authorization [OF q, of "plain_session ''olk_1''"] q show ?thesis
    by (simp add: plain_session_def)
qed

text \<open>Decoding a session: a text field that is absent reads as empty, but one that the server sends
  as null reads as the text None.\<close>

theorem null_text_field_reads_None:
  assumes "session_from_dict (PDict d) = Inr r"
  shows "(dict_get d ''deadline_at'' = None \<longrightarrow> cs_deadline_at r = []) \<and>
    (dict_get d ''deadline_at'' = Some PNone \<longrightarrow> cs_deadline_at r = ''None'') \<and>
    (\<forall>s. dict_get d ''deadline_at'' = Some (PStr s) \<longrightarrow> cs_deadline_at r = s)"
  using assms
  by (auto simp: session_from_dict_def need_dict_def str_field_def get_or_def split: sum.splits)

theorem null_text_field_reads_None_witness:
  "\<exists>r. session_from_dict (PDict [(''session_id'', PStr ''cs_1''), (''deadline_at'', PNone)]) = Inr r \<and>
     cs_deadline_at r = ''None''"
proof -
  let ?d = "[(''session_id'', PStr ''cs_1''), (''deadline_at'', PNone)]"
  obtain r where r: "session_from_dict (PDict ?d) = Inr r"
    by (simp add: session_from_dict_def need_dict_def gateway_from_def dict_field_def py_dict_def get_or_def py_or_def)
  from null_text_field_reads_None [OF r] r show ?thesis by simp
qed

end
