(* ===== verification/ContextWindow.thy ===== *)
theory ContextWindow
  imports ResourceSources PyConv
begin

text \<open>
  Data source drivers (\<open>data_sources.py\<close>) and the context window built on them (\<open>context_window.py\<close>). The
  API is a state-passing function from calls to a decoded response or the exception raised: what the
  HTTP layer makes of the service. A driver's identifiers are strings; a response whose
  \<open>data_source_id\<close> is neither a string nor empty has no counterpart and is reported as an error of its own class.
\<close>

type_synonym 's api = "'s \<Rightarrow> api_call \<Rightarrow> 's \<times> (exn + pyval)"

section \<open>Drivers\<close>

record data_source =
  ds_sandbox_id :: string
  ds_source_id :: string
  ds_project_id :: "string option"

definition make_data_source :: "string \<Rightarrow> string \<Rightarrow> string option \<Rightarrow> exn + data_source" where
  "make_data_source sandbox_id data_source_id project_id =
     (if sandbox_id = [] then Inl (ValueError ''BaseDataSource: sandbox_id is required'')
      else if data_source_id = [] then Inl (ValueError ''BaseDataSource: data_source_id is required'')
      else Inr \<lparr>ds_sandbox_id = sandbox_id, ds_source_id = data_source_id, ds_project_id = project_id\<rparr>)"

definition push_call :: "data_source \<Rightarrow> string \<Rightarrow> ingest_args \<Rightarrow> api_call" where
  "push_call ds txt a =
     sources_ingest (ds_sandbox_id ds) (ds_source_id ds) txt
       (a\<lparr>ia_project_id := (case ia_project_id a of None \<Rightarrow> ds_project_id ds | Some p \<Rightarrow> Some p)\<rparr>)"

definition ds_get_job :: "data_source \<Rightarrow> string \<Rightarrow> api_call" where
  "ds_get_job ds job_id = get_sandbox_job (ds_sandbox_id ds) job_id"

definition ds_describe :: "data_source \<Rightarrow> api_call" where
  "ds_describe ds = sources_retrieve (ds_sandbox_id ds) (ds_source_id ds)"

definition ds_pause :: "data_source \<Rightarrow> api_call" where
  "ds_pause ds = sources_pause (ds_sandbox_id ds) (ds_source_id ds)"

definition ds_resume :: "data_source \<Rightarrow> api_call" where
  "ds_resume ds = sources_resume (ds_sandbox_id ds) (ds_source_id ds)"

definition ds_disconnect :: "data_source \<Rightarrow> api_call" where
  "ds_disconnect ds = sources_disconnect (ds_sandbox_id ds) (ds_source_id ds)"

text \<open>The loop of \<open>ensure_data_source\<close> over the listed sources.\<close>

fun find_source :: "string \<Rightarrow> pyval list \<Rightarrow> exn + pyval option" where
  "find_source name [] = Inr None"
| "find_source name (v # vs) =
     (case need_dict v of
        Inl e \<Rightarrow> Inl e
      | Inr d \<Rightarrow> if get_none d ''name'' = PStr name then Inr (Some v) else find_source name vs)"

definition listed_sources :: "pyval \<Rightarrow> exn + pyval list" where
  "listed_sources existing =
     (case as_dict existing of None \<Rightarrow> Inr [] | Some d \<Rightarrow> py_list (get_or d ''sources'' (PList [])))"

definition ensure_data_source ::
    "'s api \<Rightarrow> 's \<Rightarrow> string \<Rightarrow> string \<Rightarrow> string \<Rightarrow> bool \<Rightarrow> string option \<Rightarrow> string option \<Rightarrow> string option \<Rightarrow>
     pydict option \<Rightarrow> int option \<Rightarrow> 's \<times> (exn + pyval)" where
  "ensure_data_source api s sandbox_id provider name reuse_existing ingestion_mode kind external adapter_config poll =
     (let register = (\<lambda>s. api s (sources_register sandbox_id provider name ingestion_mode kind external adapter_config poll))
      in if \<not> reuse_existing then register s
         else case api s (sources_list sandbox_id (Some provider) None) of
                (s1, Inl e) \<Rightarrow> (s1, Inl e)
              | (s1, Inr existing) \<Rightarrow>
                  (case listed_sources existing of
                     Inl e \<Rightarrow> (s1, Inl e)
                   | Inr vs \<Rightarrow>
                       (case find_source name vs of
                          Inl e \<Rightarrow> (s1, Inl e)
                        | Inr (Some v) \<Rightarrow> (s1, Inr v)
                        | Inr None \<Rightarrow> register s1)))"

section \<open>Context windows\<close>

record context_window =
  cw_source :: data_source
  cw_turns :: "chat_message list"
  cw_participants :: "string list option"

text \<open>The upper case of a character below 256 that has one in that range; the three letters of Latin-1
  whose upper case lies outside it stay as they are. Roles are ASCII.\<close>

definition upper_char :: "char \<Rightarrow> char" where
  "upper_char c =
     (if (97 \<le> code c \<and> code c \<le> 122) \<or> (224 \<le> code c \<and> code c \<le> 254 \<and> code c \<noteq> 247)
      then char_of (code c - 32) else c)"

definition capitalize_role :: "string \<Rightarrow> string" where
  "capitalize_role role = (case role of [] \<Rightarrow> [] | c # cs \<Rightarrow> upper_char c # cs)"

definition make_context_window ::
    "string \<Rightarrow> string \<Rightarrow> string option \<Rightarrow> chat_message list option \<Rightarrow> string list option \<Rightarrow> exn + context_window" where
  "make_context_window sandbox_id data_source_id project_id initial_turns participants =
     map_sum id (\<lambda>ds. \<lparr>cw_source = ds, cw_turns = (case initial_turns of None \<Rightarrow> [] | Some ts \<Rightarrow> ts),
       cw_participants = participants\<rparr>) (make_data_source sandbox_id data_source_id project_id)"

definition turn_speaker :: "chat_message \<Rightarrow> string" where
  "turn_speaker t =
     (case chat_name t of Some (c # cs) \<Rightarrow> c # cs | _ \<Rightarrow> capitalize_role (chat_role t))"

definition turn_call :: "context_window \<Rightarrow> chat_message \<Rightarrow> string list option \<Rightarrow> api_call" where
  "turn_call w t participants =
     push_call (cw_source w) (chat_content t)
       \<lparr>ia_source_type = Some ''conversation'', ia_storage_only = None, ia_project_id = None, ia_occurred_at = None,
        ia_speaker = Some (turn_speaker t),
        ia_participants = (case participants of None \<Rightarrow> cw_participants w | Some ps \<Rightarrow> Some ps)\<rparr>"

text \<open>The turn is in the log before the push, and stays there when the push fails.\<close>

definition add_turn ::
    "'s api \<Rightarrow> 's \<Rightarrow> context_window \<Rightarrow> chat_message \<Rightarrow> string list option \<Rightarrow> 's \<times> context_window \<times> (exn + unit)" where
  "add_turn api s w t participants =
     (case api s (turn_call w t participants) of
        (s', r) \<Rightarrow> (s', w\<lparr>cw_turns := cw_turns w @ [t]\<rparr>, map_sum id (\<lambda>v. ()) r))"

definition get_turns :: "context_window \<Rightarrow> turn list" where
  "get_turns w = map ChatTurn (cw_turns w)"

definition close_call :: "context_window \<Rightarrow> api_call" where
  "close_call w = ds_disconnect (cw_source w)"

text \<open>\<open>source["data_source_id"]\<close>, as the string the driver keeps.\<close>

definition source_id_of :: "pyval \<Rightarrow> exn + string" where
  "source_id_of v =
     (case v of
        PDict d \<Rightarrow>
          (case dict_get d ''data_source_id'' of
             None \<Rightarrow> Inl (KeyError ''data_source_id'')
           | Some (PStr i) \<Rightarrow> Inr i
           | Some x \<Rightarrow> if truthy x then Inl (OtherError ''UnmodelledId'' (py_repr x)) else Inr [])
      | PList vs \<Rightarrow> Inl (TypeError ''list indices must be integers or slices, not str'')
      | PStr t \<Rightarrow> Inl (TypeError (''string indices must be integers, not '' @ sq # ''str'' @ [sq]))
      | _ \<Rightarrow> Inl (TypeError (sq # py_type_name v @ sq # '' object is not subscriptable'')))"

definition window_create ::
    "'s api \<Rightarrow> 's \<Rightarrow> int \<Rightarrow> string \<Rightarrow> string option \<Rightarrow> string option \<Rightarrow> string list option \<Rightarrow>
     's \<times> (exn + context_window)" where
  "window_create api s now_ms sandbox_id project_id name participants =
     (let source_name = (case name of Some n \<Rightarrow> n | None \<Rightarrow> ''window-'' @ dec_int now_ms)
      in case api s (sources_register sandbox_id ''custom'' source_name (Some ''manual'') (Some ''ephemeral'') None None None) of
           (s', Inl e) \<Rightarrow> (s', Inl e)
         | (s', Inr source) \<Rightarrow>
             (s', case source_id_of source of
                    Inl e \<Rightarrow> Inl e
                  | Inr i \<Rightarrow> make_context_window sandbox_id i project_id None participants))"

definition window_attach ::
    "'s api \<Rightarrow> 's \<Rightarrow> string \<Rightarrow> string \<Rightarrow> string option \<Rightarrow> chat_message list option \<Rightarrow> string list option \<Rightarrow>
     's \<times> (exn + context_window)" where
  "window_attach api s sandbox_id data_source_id project_id initial_turns participants =
     (case api s (sources_retrieve sandbox_id data_source_id) of
        (s', Inl e) \<Rightarrow> (s', Inl e)
      | (s', Inr source) \<Rightarrow>
          (s', case source_id_of source of
                 Inl e \<Rightarrow> Inl e
               | Inr i \<Rightarrow> make_context_window sandbox_id i project_id initial_turns participants))"

end
