(* ===== verification/TurnMirror.thy ===== *)
theory TurnMirror
  imports ContextWindow
begin

text \<open>
  The contract shared by the two components that mirror a conversation into a context window, the turn
  recorder and the LangChain callback: a turn whose key was seen is dropped, any other is queued
  for a push and its key remembered.
\<close>

text \<open>The turns that a mirror which has seen the keys \<open>S\<close> queues.\<close>

fun new_turns :: "(chat_message \<Rightarrow> string) \<Rightarrow> string set \<Rightarrow> chat_message list \<Rightarrow> chat_message list" where
  "new_turns key S [] = []"
| "new_turns key S (t # ts) =
     (if key t \<in> S then new_turns key S ts else t # new_turns key (insert (key t) S) ts)"

lemma new_turns_append:
  "new_turns key S (ts @ us) = new_turns key S ts @ new_turns key (S \<union> key ` set ts) us"
  by (induction ts arbitrary: S) (auto simp: insert_absorb)

lemma new_turns_subset: "set (new_turns key S ts) \<subseteq> set ts"
  by (induction ts arbitrary: S) auto

lemma new_turns_keys: "key ` set (new_turns key S ts) = key ` set ts - S"
  by (induction ts arbitrary: S) auto

lemma new_turns_distinct: "distinct (map key (new_turns key S ts))"
proof (induction ts arbitrary: S)
  case (Cons t ts)
  have "key t \<notin> key ` set (new_turns key (insert (key t) S) ts)" by (auto simp: new_turns_keys)
  with Cons show ?case by auto
qed simp

lemma new_turns_subseq: "subseq (new_turns key S ts) ts"
  by (induction ts arbitrary: S) auto

locale turn_mirror =
  fixes key :: "chat_message \<Rightarrow> string"
    and record_turn :: "chat_message \<Rightarrow> 's \<Rightarrow> 's"
    and seen :: "'s \<Rightarrow> string set"
    and queued :: "'s \<Rightarrow> chat_message list"
    and keeps :: "chat_message \<Rightarrow> bool"
  assumes record_blank: "\<not> keeps t \<Longrightarrow> record_turn t s = s"
    and record_seen: "key t \<in> seen s \<Longrightarrow> record_turn t s = s"
    and record_new: "keeps t \<Longrightarrow> key t \<notin> seen s \<Longrightarrow>
      seen (record_turn t s) = insert (key t) (seen s) \<and> queued (record_turn t s) = queued s @ [t]"
begin

lemma seen_record: "seen (record_turn t s) = (if keeps t then insert (key t) (seen s) else seen s)"
  using record_blank record_seen record_new by (cases "key t \<in> seen s") (auto simp: insert_absorb)

lemma record_all:
  "queued (fold record_turn ts s) = queued s @ new_turns key (seen s) (filter keeps ts) \<and>
   seen (fold record_turn ts s) = seen s \<union> key ` set (filter keeps ts)"
proof (induction ts arbitrary: s)
  case (Cons t ts)
  show ?case
  proof (cases "keeps t")
    case True
    then show ?thesis using Cons [of "record_turn t s"] record_seen [of t s] record_new [of t s]
      by (cases "key t \<in> seen s") auto
  next
    case False
    then show ?thesis using Cons [of s] by (simp add: record_blank)
  qed
qed simp

text \<open>No two queued turns share a key, and every turn worth keeping is either queued or was seen.\<close>

lemma queued_once: "queued s = [] \<Longrightarrow> distinct (map key (queued (fold record_turn ts s)))"
  using record_all [of ts s] new_turns_distinct by simp

lemma covered:
  "t \<in> set ts \<Longrightarrow> keeps t \<Longrightarrow>
   key t \<in> seen s \<or> (\<exists>u \<in> set (queued (fold record_turn ts s)). key u = key t)"
proof -
  assume "t \<in> set ts" "keeps t"
  then have "key t \<in> seen s \<or> key t \<in> key ` set (new_turns key (seen s) (filter keeps ts))"
    by (auto simp: new_turns_keys)
  then show ?thesis using record_all [of ts s] by auto
qed

text \<open>Turns offered again change nothing.\<close>

lemma record_known: "\<forall>t \<in> set ts. keeps t \<longrightarrow> key t \<in> seen s \<Longrightarrow> fold record_turn ts s = s"
proof (induction ts)
  case (Cons t ts)
  then have "record_turn t s = s" by (cases "keeps t") (simp_all add: record_seen record_blank)
  with Cons show ?case by simp
qed simp

lemma record_again: "fold record_turn (ts @ us) (fold record_turn ts s) = fold record_turn (ts @ us) s"
  using record_known [of ts "fold record_turn ts s"] record_all [of ts s] by simp

end

end
