(* ===== verification/TurnRecorder.thy ===== *)
theory TurnRecorder
  imports TurnMirror CoreAgents
begin

text \<open>
  The turn recorder (\<open>copass-context-agents/turn_recorder.py\<close>): agent events become turns, pushed to
  the context window by background tasks in the order in which they were created. The digest of the
  dedupe key (the first 16 hex digits of a sha256) is a parameter.
\<close>

record recorder =
  rc_include_tools :: bool
  rc_author :: "string option"
  rc_user_speaker :: string
  rc_author_prefix :: bool
  rc_participants :: "string list option"
  rc_seen :: "string set"
  rc_pending_text :: "string list"
  rc_tasks :: "chat_message list"

definition dedupe_key :: "(string \<Rightarrow> string) \<Rightarrow> chat_message \<Rightarrow> string" where
  "dedupe_key digest t = chat_role t @ '':'' @ digest (take 500 (chat_content t))"

definition default_roster :: "string \<Rightarrow> string option \<Rightarrow> string list option \<Rightarrow> string list option" where
  "default_roster user_speaker author participants =
     (case participants of
        None \<Rightarrow> Some [user_speaker, case author of Some (c # cs) \<Rightarrow> c # cs | _ \<Rightarrow> ''Assistant'']
      | Some [] \<Rightarrow> None
      | Some ps \<Rightarrow> Some ps)"

definition make_recorder ::
    "(string \<Rightarrow> string) \<Rightarrow> context_window \<Rightarrow> bool \<Rightarrow> string option \<Rightarrow> bool \<Rightarrow> string list option \<Rightarrow> string \<Rightarrow> recorder" where
  "make_recorder digest w include_tools author author_prefix participants user_speaker =
     \<lparr>rc_include_tools = include_tools, rc_author = author, rc_user_speaker = user_speaker,
      rc_author_prefix = author_prefix, rc_participants = default_roster user_speaker author participants,
      rc_seen = set (map (dedupe_key digest) (cw_turns w)), rc_pending_text = [], rc_tasks = []\<rparr>"

section \<open>Recording\<close>

definition record_chat :: "(string \<Rightarrow> string) \<Rightarrow> chat_message \<Rightarrow> recorder \<Rightarrow> recorder" where
  "record_chat digest t rc =
     (if py_strip (chat_content t) = [] then rc
      else if dedupe_key digest t \<in> rc_seen rc then rc
      else rc\<lparr>rc_seen := insert (dedupe_key digest t) (rc_seen rc), rc_tasks := rc_tasks rc @ [t]\<rparr>)"

definition assistant_turn :: "recorder \<Rightarrow> string \<Rightarrow> chat_message" where
  "assistant_turn rc txt =
     \<lparr>chat_role = ''assistant'',
      chat_content = (case rc_author rc of
          Some (c # cs) \<Rightarrow> if rc_author_prefix rc then ''[author='' @ (c # cs) @ '']'' @ nl # txt else txt
        | _ \<Rightarrow> txt),
      chat_name = rc_author rc\<rparr>"

definition flush_assistant :: "(string \<Rightarrow> string) \<Rightarrow> recorder \<Rightarrow> recorder" where
  "flush_assistant digest rc =
     (if rc_pending_text rc = [] then rc
      else let txt = py_strip (concat (rc_pending_text rc)); rc1 = rc\<lparr>rc_pending_text := []\<rparr>
           in if txt = [] then rc1 else record_chat digest (assistant_turn rc txt) rc1)"

definition record_user :: "(string \<Rightarrow> string) \<Rightarrow> string \<Rightarrow> recorder \<Rightarrow> recorder" where
  "record_user digest content rc =
     record_chat digest
       \<lparr>chat_role = ''user'', chat_content = content, chat_name = Some (rc_user_speaker rc)\<rparr>
       (flush_assistant digest rc)"

definition record_assistant_delta :: "string \<Rightarrow> recorder \<Rightarrow> recorder" where
  "record_assistant_delta txt rc =
     (if txt = [] then rc else rc\<lparr>rc_pending_text := rc_pending_text rc @ [txt]\<rparr>)"

definition system_turn :: "string \<Rightarrow> chat_message" where
  "system_turn content = \<lparr>chat_role = ''system'', chat_content = content, chat_name = None\<rparr>"

fun record_event :: "(string \<Rightarrow> string) \<Rightarrow> agent_event \<Rightarrow> recorder \<Rightarrow> recorder" where
  "record_event digest (AgentTextDelta txt) rc = record_assistant_delta txt rc"
| "record_event digest (AgentFinish st u sid) rc = flush_assistant digest rc"
| "record_event digest (AgentToolCall i n args) rc =
     (if rc_include_tools rc
      then record_chat digest
             (system_turn (''[tool_call name='' @ repr_str n @ '' args='' @ py_repr (PDict args) @ '']'')) rc
      else rc)"
| "record_event digest (AgentToolResult i n res err) rc =
     (if rc_include_tools rc
      then record_chat digest
             (system_turn (''[tool_result name='' @ repr_str n @ '' result='' @ py_repr res @ '']'')) rc
      else rc)"

section \<open>Pushes in the background\<close>

text \<open>A recorder, its window and the service; between two recorded items the event loop may start the
  oldest push. A failed push is logged and dropped.\<close>

record 's recording =
  rg_recorder :: recorder
  rg_window :: context_window
  rg_state :: 's

definition run_push :: "'s api \<Rightarrow> 's recording \<Rightarrow> 's recording" where
  "run_push api g =
     (case rc_tasks (rg_recorder g) of
        [] \<Rightarrow> g
      | t # ts \<Rightarrow>
          (case add_turn api (rg_state g) (rg_window g) t (rc_participants (rg_recorder g)) of
             (s', w', r) \<Rightarrow> g\<lparr>rg_recorder := (rg_recorder g)\<lparr>rc_tasks := ts\<rparr>, rg_window := w', rg_state := s'\<rparr>))"

datatype rec_action = RecordEvent agent_event | RecordUser string | RunPush

fun record_step :: "'s api \<Rightarrow> (string \<Rightarrow> string) \<Rightarrow> rec_action \<Rightarrow> 's recording \<Rightarrow> 's recording" where
  "record_step api digest (RecordEvent e) g = g\<lparr>rg_recorder := record_event digest e (rg_recorder g)\<rparr>"
| "record_step api digest (RecordUser c) g = g\<lparr>rg_recorder := record_user digest c (rg_recorder g)\<rparr>"
| "record_step api digest RunPush g = run_push api g"

text \<open>\<open>flush\<close> awaits every push in flight.\<close>

definition flush :: "'s api \<Rightarrow> 's recording \<Rightarrow> 's recording" where
  "flush api g = (run_push api ^^ length (rc_tasks (rg_recorder g))) g"

text \<open>\<open>record_stream\<close>: the events pass through, and the pushes are awaited in the end. \<open>pushes n\<close> is how
  many pushes the event loop starts after the n-th event.\<close>

fun stream_actions :: "(nat \<Rightarrow> nat) \<Rightarrow> nat \<Rightarrow> agent_event list \<Rightarrow> rec_action list" where
  "stream_actions pushes n [] = []"
| "stream_actions pushes n (e # es) =
     RecordEvent e # replicate (pushes n) RunPush @ stream_actions pushes (Suc n) es"

definition record_stream ::
    "'s api \<Rightarrow> (string \<Rightarrow> string) \<Rightarrow> (nat \<Rightarrow> nat) \<Rightarrow> agent_event list \<Rightarrow> 's recording \<Rightarrow> agent_event list \<times> 's recording" where
  "record_stream api digest pushes events g =
     (events, flush api (fold (record_step api digest) (stream_actions pushes 0 events) g))"

end
