(* ===== verification/LangChainCallback.thy ===== *)
theory LangChainCallback
  imports TurnMirror
begin

text \<open>
  The LangChain window callback (\<open>copass-langchain/callback.py\<close>): the messages handed to a chat model,
  mirrored into a context window. LangChain's message classes are given by their name
  and content.
\<close>

datatype lc_class = HumanMessage | AIMessage | SystemMessage | ToolMessage | OtherMessage

record lc_message =
  lc_kind :: lc_class
  lc_content :: pyval

fun role_from_message :: "lc_class \<Rightarrow> bool \<Rightarrow> string option" where
  "role_from_message HumanMessage tools = Some ''user''"
| "role_from_message AIMessage tools = Some ''assistant''"
| "role_from_message SystemMessage tools = Some ''system''"
| "role_from_message ToolMessage tools = (if tools then Some ''system'' else None)"
| "role_from_message OtherMessage tools = None"

fun content_part :: "pyval \<Rightarrow> string list" where
  "content_part (PStr s) = [s]"
| "content_part (PDict d) = (let t = get_none d ''text'' in if truthy t then [py_str t] else [])"
| "content_part _ = []"

fun content_to_string :: "pyval \<Rightarrow> string" where
  "content_to_string (PStr s) = s"
| "content_to_string (PList parts) =
     py_join [nl] (filter (\<lambda>p. p \<noteq> []) (concat (map content_part parts)))"
| "content_to_string PNone = []"
| "content_to_string v = py_str v"

definition to_turn :: "bool \<Rightarrow> lc_message \<Rightarrow> chat_message option" where
  "to_turn tools msg =
     (case role_from_message (lc_kind msg) tools of
        None \<Rightarrow> None
      | Some role \<Rightarrow>
          (let content = content_to_string (lc_content msg)
           in if py_strip content = [] then None
              else Some \<lparr>chat_role = role, chat_content = content, chat_name = None\<rparr>))"

definition hash_turn :: "chat_message \<Rightarrow> string" where
  "hash_turn t = chat_role t @ '':'' @ take 500 (chat_content t)"

record callback =
  cb_include_tools :: bool
  cb_seen :: "string set"
  cb_tasks :: "chat_message list"

definition make_callback :: "context_window \<Rightarrow> bool \<Rightarrow> callback" where
  "make_callback w tools =
     \<lparr>cb_include_tools = tools, cb_seen = set (map hash_turn (cw_turns w)), cb_tasks = []\<rparr>"

definition mirror_turn :: "chat_message \<Rightarrow> callback \<Rightarrow> callback" where
  "mirror_turn t cb =
     (if hash_turn t \<in> cb_seen cb then cb
      else cb\<lparr>cb_seen := insert (hash_turn t) (cb_seen cb), cb_tasks := cb_tasks cb @ [t]\<rparr>)"

definition on_chat_model_start :: "lc_message list list \<Rightarrow> callback \<Rightarrow> callback" where
  "on_chat_model_start messages cb =
     fold (\<lambda>msg cb. case to_turn (cb_include_tools cb) msg of None \<Rightarrow> cb | Some t \<Rightarrow> mirror_turn t cb)
       (concat messages) cb"

text \<open>A task: the turn is added to the window, and an exception swallowed.\<close>

definition safe_add_turn :: "'s api \<Rightarrow> 's \<Rightarrow> context_window \<Rightarrow> chat_message \<Rightarrow> 's \<times> context_window" where
  "safe_add_turn api s w t = (case add_turn api s w t None of (s', w', r) \<Rightarrow> (s', w'))"

end
