(* ===== verification/MirrorFacts.thy ===== *)
theory MirrorFacts
  imports TurnRecorder LangChainCallback ResourceFacts
begin

text \<open>
  Lemmas on the two mirrors of a conversation: both keep the contract of \<open>turn_mirror\<close>; what the recorder
  offers for recording, and that the window it fills does not depend on when the pushes run.
\<close>


section \<open>Recording one item\<close>

text \<open>Every turn with visible content is kept; a blank one is dropped.\<close>

abbreviation visible :: "chat_message \<Rightarrow> bool" where
  "visible t \<equiv> py_strip (chat_content t) \<noteq> []"

interpretation rec_mirror: turn_mirror "dedupe_key digest" "record_chat digest" rc_seen rc_tasks visible
  for digest :: "string \<Rightarrow> string"
  by unfold_locales (simp_all add: record_chat_def)

definition settings :: "recorder \<Rightarrow> bool \<times> string option \<times> string \<times> bool \<times> string list option" where
  "settings rc = (rc_include_tools rc, rc_author rc, rc_user_speaker rc, rc_author_prefix rc, rc_participants rc)"

definition pending_text :: "recorder \<Rightarrow> string" where
  "pending_text rc = concat (rc_pending_text rc)"

definition flushed :: "recorder \<Rightarrow> string \<Rightarrow> chat_message list" where
  "flushed rc p = (if py_strip p = [] then [] else [assistant_turn rc (py_strip p)])"

text \<open>The turns that an item offers for recording, and the assistant text pending after it.\<close>

fun offers :: "recorder \<Rightarrow> string \<Rightarrow> rec_action \<Rightarrow> chat_message list" where
  "offers rc p (RecordEvent (AgentTextDelta txt)) = []"
| "offers rc p (RecordEvent (AgentFinish st u sid)) = flushed rc p"
| "offers rc p (RecordEvent (AgentToolCall i n args)) =
     (if rc_include_tools rc
      then [system_turn (''[tool_call name='' @ repr_str n @ '' args='' @ py_repr (PDict args) @ '']'')] else [])"
| "offers rc p (RecordEvent (AgentToolResult i n res err)) =
     (if rc_include_tools rc
      then [system_turn (''[tool_result name='' @ repr_str n @ '' result='' @ py_repr res @ '']'')] else [])"
| "offers rc p (RecordUser c) =
     flushed rc p @ [\<lparr>chat_role = ''user'', chat_content = c, chat_name = Some (rc_user_speaker rc)\<rparr>]"
| "offers rc p RunPush = []"

fun pending_after :: "string \<Rightarrow> rec_action \<Rightarrow> string" where
  "pending_after p (RecordEvent (AgentTextDelta txt)) = p @ txt"
| "pending_after p (RecordEvent (AgentFinish st u sid)) = []"
| "pending_after p (RecordUser c) = []"
| "pending_after p _ = p"

fun record_item :: "(string \<Rightarrow> string) \<Rightarrow> rec_action \<Rightarrow> recorder \<Rightarrow> recorder" where
  "record_item digest (RecordEvent e) rc = record_event digest e rc"
| "record_item digest (RecordUser c) rc = record_user digest c rc"
| "record_item digest RunPush rc = rc"

lemma record_chat_pending:
  "record_chat digest t (rc\<lparr>rc_pending_text := p\<rparr>) = (record_chat digest t rc)\<lparr>rc_pending_text := p\<rparr>"
  by (simp add: record_chat_def)

lemma record_chat_settings [simp]:
  "settings (record_chat digest t rc) = settings rc" "rc_pending_text (record_chat digest t rc) = rc_pending_text rc"
  by (simp_all add: record_chat_def settings_def)

lemma settings_pending [simp]: "settings (rc\<lparr>rc_pending_text := p\<rparr>) = settings rc"
  by (simp add: settings_def)

lemma flush_assistant_flushed:
  "flush_assistant digest rc = (fold (record_chat digest) (flushed rc (pending_text rc)) rc)\<lparr>rc_pending_text := []\<rparr>"
  by (simp add: flush_assistant_def flushed_def pending_text_def record_chat_pending Let_def)

lemma record_item_offers:
  "\<exists>ps. record_item digest a rc = (fold (record_chat digest) (offers rc (pending_text rc) a) rc)\<lparr>rc_pending_text := ps\<rparr> \<and>
     concat ps = pending_after (pending_text rc) a"
proof -
  have s: "rc_user_speaker (flush_assistant digest rc) = rc_user_speaker rc"
    by (simp add: flush_assistant_def record_chat_def Let_def)
  show ?thesis
  proof (cases a)
    case (RecordEvent e)
    have unchanged: "rc = rc\<lparr>rc_pending_text := rc_pending_text rc\<rparr>"
      "record_chat digest t rc = (record_chat digest t rc)\<lparr>rc_pending_text := rc_pending_text rc\<rparr>" for t
      by (simp_all add: record_chat_def)
    show ?thesis
    proof (cases e)
      case (AgentTextDelta x)
      then show ?thesis using RecordEvent unchanged
        by (intro exI [of _ "rc_pending_text rc @ (if x = [] then [] else [x])"])
          (simp add: record_assistant_delta_def pending_text_def)
    next
      case (AgentFinish st u sid)
      then show ?thesis using RecordEvent
        by (intro exI [of _ "[]"]) (simp add: flush_assistant_flushed)
    next
      case (AgentToolCall i n args)
      then show ?thesis using RecordEvent unchanged
        by (intro exI [of _ "rc_pending_text rc"]) (simp add: pending_text_def)
    next
      case (AgentToolResult i n res err)
      then show ?thesis using RecordEvent unchanged
        by (intro exI [of _ "rc_pending_text rc"]) (simp add: pending_text_def)
    qed
  next
    case (RecordUser c)
    then show ?thesis
      by (auto simp: record_user_def flush_assistant_flushed record_chat_pending s [unfolded flush_assistant_flushed])
  next
    case RunPush
    then show ?thesis by (auto simp: pending_text_def intro!: exI [of _ "rc_pending_text rc"])
  qed
qed

lemma fold_record_settings [simp]: "settings (fold (record_chat digest) ts rc) = settings rc"
  by (induction ts arbitrary: rc) simp_all

lemma record_item_effect:
  "rc_tasks (record_item digest a rc) =
     rc_tasks rc @ new_turns (dedupe_key digest) (rc_seen rc) (filter visible (offers rc (pending_text rc) a))"
  "rc_seen (record_item digest a rc) =
     rc_seen rc \<union> dedupe_key digest ` set (filter visible (offers rc (pending_text rc) a))"
  "pending_text (record_item digest a rc) = pending_after (pending_text rc) a"
  "settings (record_item digest a rc) = settings rc"
  using record_item_offers [of digest a rc] rec_mirror.record_all [of digest "offers rc (pending_text rc) a" rc]
  by (auto simp: pending_text_def)

lemma assistant_turn_settings: "settings rc = settings rc' \<Longrightarrow> assistant_turn rc t = assistant_turn rc' t"
  by (auto simp: settings_def assistant_turn_def split: option.split list.split)

lemma offers_settings: "settings rc = settings rc' \<Longrightarrow> offers rc p a = offers rc' p a"
proof -
  assume s: "settings rc = settings rc'"
  then have f: "flushed rc p = flushed rc' p" "rc_user_speaker rc = rc_user_speaker rc'"
    "rc_include_tools rc = rc_include_tools rc'"
    using assistant_turn_settings [OF s] by (simp_all add: flushed_def) (simp_all add: settings_def)
  show ?thesis
  proof (cases a)
    case (RecordEvent e)
    then show ?thesis by (cases e) (simp_all add: f)
  qed (simp_all add: f)
qed

fun all_offers :: "recorder \<Rightarrow> string \<Rightarrow> rec_action list \<Rightarrow> chat_message list" where
  "all_offers rc p [] = []"
| "all_offers rc p (a # as) = offers rc p a @ all_offers rc (pending_after p a) as"

lemma all_offers_settings: "settings rc = settings rc' \<Longrightarrow> all_offers rc p as = all_offers rc' p as"
  by (induction as arbitrary: p) (auto dest: offers_settings)

section \<open>The window after any schedule of pushes\<close>

definition log_of :: "'s recording \<Rightarrow> chat_message list" where
  "log_of g = cw_turns (rg_window g) @ rc_tasks (rg_recorder g)"

lemma run_push_log [simp]:
  "log_of (run_push api g) = log_of g" "rc_seen (rg_recorder (run_push api g)) = rc_seen (rg_recorder g)"
  "pending_text (rg_recorder (run_push api g)) = pending_text (rg_recorder g)"
  "settings (rg_recorder (run_push api g)) = settings (rg_recorder g)"
  "rc_tasks (rg_recorder (run_push api g)) = tl (rc_tasks (rg_recorder g))"
  by (auto simp: run_push_def log_of_def add_turn_def pending_text_def settings_def split: list.split prod.split)

lemma record_step_item:
  "a \<noteq> RunPush \<Longrightarrow> record_step api digest a g = g\<lparr>rg_recorder := record_item digest a (rg_recorder g)\<rparr>"
  by (cases a) simp_all

lemma record_step_log:
  "log_of (record_step api digest a g) = log_of g @
     new_turns (dedupe_key digest) (rc_seen (rg_recorder g))
       (filter visible (offers (rg_recorder g) (pending_text (rg_recorder g)) a))"
  "rc_seen (rg_recorder (record_step api digest a g)) = rc_seen (rg_recorder g) \<union>
     dedupe_key digest ` set (filter visible (offers (rg_recorder g) (pending_text (rg_recorder g)) a))"
  "pending_text (rg_recorder (record_step api digest a g)) = pending_after (pending_text (rg_recorder g)) a"
  "settings (rg_recorder (record_step api digest a g)) = settings (rg_recorder g)"
  by (cases "a = RunPush"; simp add: record_step_item record_item_effect; simp add: log_of_def record_item_effect)+

lemma recording_log:
  "log_of (fold (record_step api digest) as g) = log_of g @
     new_turns (dedupe_key digest) (rc_seen (rg_recorder g))
       (filter visible (all_offers (rg_recorder g) (pending_text (rg_recorder g)) as))"
proof (induction as arbitrary: g)
  case (Cons a as)
  let ?g = "record_step api digest a g"
  have "all_offers (rg_recorder ?g) p as = all_offers (rg_recorder g) p as" for p
    by (rule all_offers_settings) (rule record_step_log(4))
  then show ?case using Cons [of ?g] by (simp add: record_step_log new_turns_append)
qed simp

lemma flush_log: "cw_turns (rg_window (flush api g)) = log_of g \<and> rc_tasks (rg_recorder (flush api g)) = []"
proof -
  have "log_of ((run_push api ^^ n) g) = log_of g \<and> rc_tasks (rg_recorder ((run_push api ^^ n) g)) = drop n (rc_tasks (rg_recorder g))" for n
    by (induction n) (auto simp: drop_Suc tl_drop)
  note at_end = this [of "length (rc_tasks (rg_recorder g))"]
  then have "rc_tasks (rg_recorder (flush api g)) = []" by (simp add: flush_def)
  moreover from at_end have "log_of (flush api g) = log_of g" by (simp only: flush_def)
  ultimately show ?thesis unfolding log_of_def [of "flush api g"] by simp
qed

section \<open>Completed responses\<close>

text \<open>The abstract reading of a stream: the text deltas between finishes, joined and stripped, without
  the blank ones; what follows the last finish is not in it.\<close>

fun responses :: "string \<Rightarrow> agent_event list \<Rightarrow> string list" where
  "responses p [] = []"
| "responses p (AgentTextDelta txt # es) = responses (p @ txt) es"
| "responses p (AgentFinish st u sid # es) =
     (if py_strip p = [] then responses [] es else py_strip p # responses [] es)"
| "responses p (e # es) = responses p es"

lemma all_offers_replicate: "all_offers rc p (replicate n RunPush @ as) = all_offers rc p as"
  by (induction n) simp_all

lemma all_offers_stream:
  "\<not> rc_include_tools rc \<Longrightarrow>
   all_offers rc p (stream_actions pushes n es) = map (assistant_turn rc) (responses p es)"
  by (induction p es arbitrary: n rule: responses.induct) (simp_all add: all_offers_replicate flushed_def)

lemma py_strip_visible: "py_strip s \<noteq> [] \<Longrightarrow> py_strip (py_strip s) \<noteq> []"
proof
  assume a: "py_strip s \<noteq> []" "py_strip (py_strip s) = []"
  let ?r = "dropWhile py_isspace (rev (py_lstrip s))"
  have "py_strip s = rev ?r" by (simp add: py_strip_def py_rstrip_def)
  with a(1) have "?r \<noteq> []" "hd ?r \<in> set (py_strip s)" by auto
  moreover have "\<not> py_isspace (hd ?r)" using hd_dropWhile \<open>?r \<noteq> []\<close> by blast
  ultimately show False using a(2) by (auto simp: py_strip_eq_Nil)
qed

lemma responses_visible: "r \<in> set (responses p es) \<Longrightarrow> py_strip r \<noteq> []"
  by (induction p es rule: responses.induct) (auto split: if_splits dest: py_strip_visible)

lemma assistant_turn_visible: "py_strip r \<noteq> [] \<Longrightarrow> visible (assistant_turn rc r)"
  by (auto simp: assistant_turn_def py_strip_eq_Nil split: option.split list.split)

lemma record_stream_log:
  assumes "\<not> rc_include_tools (rg_recorder g)"
  shows "cw_turns (rg_window (snd (record_stream api digest pushes es g))) = log_of g @
    new_turns (dedupe_key digest) (rc_seen (rg_recorder g))
      (map (assistant_turn (rg_recorder g)) (responses (pending_text (rg_recorder g)) es))"
proof -
  have "filter visible (map (assistant_turn (rg_recorder g)) (responses (pending_text (rg_recorder g)) es)) =
      map (assistant_turn (rg_recorder g)) (responses (pending_text (rg_recorder g)) es)"
    using assistant_turn_visible responses_visible by (auto simp: filter_id_conv)
  then show ?thesis using assms
    by (simp add: record_stream_def flush_log recording_log all_offers_stream)
qed

section \<open>The LangChain callback\<close>

interpretation cb_mirror: turn_mirror hash_turn mirror_turn cb_seen cb_tasks "\<lambda>t. True"
  by unfold_locales (simp_all add: mirror_turn_def)

lemma on_chat_model_start_fold:
  "on_chat_model_start messages cb =
     fold mirror_turn (List.map_filter (to_turn (cb_include_tools cb)) (concat messages)) cb"
proof -
  have "fold (\<lambda>msg cb. case to_turn (cb_include_tools cb) msg of None \<Rightarrow> cb | Some t \<Rightarrow> mirror_turn t cb) msgs cb =
      fold mirror_turn (List.map_filter (to_turn (cb_include_tools cb)) msgs) cb" for msgs
  proof (induction msgs arbitrary: cb)
    case (Cons m msgs)
    have "cb_include_tools (mirror_turn t cb) = cb_include_tools cb" for t by (simp add: mirror_turn_def)
    with Cons show ?case by (auto simp: map_filter_simps split: option.split)
  qed (simp add: map_filter_simps)
  then show ?thesis by (simp add: on_chat_model_start_def)
qed

section \<open>Windows\<close>

text \<open>Several turns added one after the other, and a service that keeps a log of its calls.\<close>

fun add_turns :: "'s api \<Rightarrow> 's \<Rightarrow> context_window \<Rightarrow> chat_message list \<Rightarrow> 's \<times> context_window" where
  "add_turns api s w [] = (s, w)"
| "add_turns api s w (t # ts) =
     (case add_turn api s w t None of (s', w', r) \<Rightarrow> add_turns api s' w' ts)"

definition logged :: "'s api \<Rightarrow> (api_call list \<times> 's) api" where
  "logged api ls c = (case api (snd ls) c of (s', r) \<Rightarrow> ((fst ls @ [c], s'), r))"

lemma logged_simp: "logged api (l, s) c = ((l @ [c], fst (api s c)), snd (api s c))"
  by (simp add: logged_def split: prod.split)

lemma turn_call_turns [simp]: "turn_call (w\<lparr>cw_turns := ts\<rparr>) t ps = turn_call w t ps"
  by (simp add: turn_call_def split: option.split)

lemma add_turns_logged:
  "case add_turns (logged api) (l, s) w ts of ((l', s'), w') \<Rightarrow>
     l' = l @ map (\<lambda>t. turn_call w t None) ts \<and> w' = w\<lparr>cw_turns := cw_turns w @ ts\<rparr>"
proof (induction ts arbitrary: l s w)
  case (Cons t ts)
  let ?c = "turn_call w t None"
  have "add_turns (logged api) (l, s) w (t # ts) =
      add_turns (logged api) (l @ [?c], fst (api s ?c)) (w\<lparr>cw_turns := cw_turns w @ [t]\<rparr>) ts"
    by (simp add: add_turn_def logged_simp)
  with Cons [where l = "l @ [?c]" and s = "fst (api s ?c)" and w = "w\<lparr>cw_turns := cw_turns w @ [t]\<rparr>"]
  show ?case by (simp split: prod.splits)
qed simp

lemma turns_to_dicts_chat:
  "turns_to_dicts (map ChatTurn ms) = Inr (map (\<lambda>m. message_dict (chat_role m) (chat_content m)) ms)"
  by (induction ms) simp_all

text \<open>A retrieval body that sends the given turns as its history.\<close>

definition carries_history :: "pydict \<Rightarrow> string \<Rightarrow> chat_message list \<Rightarrow> bool" where
  "carries_history b q ms =
     (dict_get b ''query'' = Some (PStr q) \<and>
      dict_get b ''history'' = Some (PList (map (\<lambda>m. message_dict (chat_role m) (chat_content m)) ms)))"

section \<open>Keys\<close>

lemma colon_suffix:
  "a @ CHR '':'' # d = b @ CHR '':'' # e \<Longrightarrow> CHR '':'' \<notin> set d \<Longrightarrow> CHR '':'' \<notin> set e \<Longrightarrow> a = b \<and> d = e"
proof -
  assume eq: "a @ CHR '':'' # d = b @ CHR '':'' # e" and n: "CHR '':'' \<notin> set d" "CHR '':'' \<notin> set e"
  have t: "takeWhile (\<lambda>c. c \<noteq> CHR '':'') (rev (x @ CHR '':'' # y)) = rev y" if y: "CHR '':'' \<notin> set y" for x y
    using y by (simp, subst takeWhile_append2) auto
  from eq have "rev d = rev e" using t [OF n(1)] t [OF n(2)] by metis
  with eq show ?thesis by simp
qed

end
