(* ===== verification/PropertiesContext.thy ===== *)
theory PropertiesContext
  imports MirrorFacts ResourceFacts
begin

text \<open>
  The properties of context windows, source registration, and the two components that mirror a
  conversation into a window.
\<close>

section \<open>Properties\<close>

text \<open>Claim C24. What a window collects is what retrieval gets: after any turns were added, whether their
  pushes succeed or not, one ingest call per turn has been made, in order, and discover, interpret
  and search given the window send the window's turns followed by the new ones as their history,
  whatever history argument comes with it.\<close>

theorem window_feeds_retrieval:
  "case add_turns (logged api) (l, s) w ts of ((l', s'), w') \<Rightarrow>
     l' = l @ map (\<lambda>t. turn_call w t None) ts \<and>
     (\<exists>b1 b2 b3.
        discover sb q (Some (get_turns w')) h p d pr = Inr (POST (query_base sb ''discover'') (PDict b1)) \<and>
        interpret_items sb q is (Some (get_turns w')) h p d pr mt = Inr (POST (query_base sb ''interpret'') (PDict b2)) \<and>
        search sb q (Some (get_turns w')) h p d pr dl mt = Inr (POST (query_base sb ''search'') (PDict b3)) \<and>
        carries_history b1 q (cw_turns w @ ts) \<and> carries_history b2 q (cw_turns w @ ts) \<and>
        carries_history b3 q (cw_turns w @ ts))"
proof -
  obtain l' s' w' where a: "add_turns (logged api) (l, s) w ts = ((l', s'), w')" by (metis surj_pair)
  with add_turns_logged [where api = api and l = l and s = s and w = w and ts = ts]
  have w: "l' = l @ map (\<lambda>t. turn_call w t None) ts" "cw_turns w' = cw_turns w @ ts" by simp_all
  have h: "history (Some (get_turns w')) h =
      Inr (map (\<lambda>m. message_dict (chat_role m) (chat_content m)) (cw_turns w @ ts))"
    by (simp only: history_def turns_from_def get_turns_def option.simps turns_to_dicts_chat w(2))
  show ?thesis
    unfolding a prod.case discover_def interpret_items_def search_def h sum.case
    by (intro conjI exI, rule w(1), rule refl, rule refl, rule refl)
       (auto simp: carries_history_def set_fields_get simp del: set_fields_Cons)
qed

text \<open>A turn is pushed as it is: its content is the whole text, under the conversation source
  type, with its name as the speaker or else its capitalised role, the call's roster or else the
  window's, the window's data source and project, and nothing more.\<close>

theorem turn_push_body:
  "\<exists>d. turn_call w t ps = POST (ingest_base (ds_sandbox_id (cw_source w))) (PDict d) \<and> dict_ok d \<and>
     map_of d = [''text'' \<mapsto> PStr (chat_content t), ''data_source_id'' \<mapsto> PStr (ds_source_id (cw_source w)),
       ''source_type'' \<mapsto> PStr ''conversation'',
       ''speaker'' \<mapsto> PStr (case chat_name t of Some (c # cs) \<Rightarrow> c # cs | _ \<Rightarrow> capitalize_role (chat_role t))] ++
       (case (case ps of None \<Rightarrow> cw_participants w | Some xs \<Rightarrow> Some xs) of
          None \<Rightarrow> Map.empty | Some xs \<Rightarrow> [''participants'' \<mapsto> PList (map PStr xs)]) ++
       (case ds_project_id (cw_source w) of None \<Rightarrow> Map.empty | Some x \<Rightarrow> [''project_id'' \<mapsto> PStr x])"
proof (intro exI conjI)
  show "turn_call w t ps = POST (ingest_base (ds_sandbox_id (cw_source w))) (PDict (set_fields
      [(''source_type'', Some (PStr ''conversation'')), (''storage_only'', None),
       (''project_id'', some_str (ds_project_id (cw_source w))), (''occurred_at'', None),
       (''speaker'', Some (PStr (turn_speaker t))),
       (''participants'', some_list (case ps of None \<Rightarrow> cw_participants w | Some xs \<Rightarrow> Some xs))]
      [(''text'', PStr (chat_content t)), (''data_source_id'', PStr (ds_source_id (cw_source w)))]))" (is "_ = POST _ (PDict ?d)")
    by (simp add: turn_call_def push_call_def sources_ingest_def)
  show "dict_ok ?d" by (rule set_fields_ok) simp
  show "map_of ?d = [''text'' \<mapsto> PStr (chat_content t), ''data_source_id'' \<mapsto> PStr (ds_source_id (cw_source w)),
       ''source_type'' \<mapsto> PStr ''conversation'',
       ''speaker'' \<mapsto> PStr (case chat_name t of Some (c # cs) \<Rightarrow> c # cs | _ \<Rightarrow> capitalize_role (chat_role t))] ++
       (case (case ps of None \<Rightarrow> cw_participants w | Some xs \<Rightarrow> Some xs) of
          None \<Rightarrow> Map.empty | Some xs \<Rightarrow> [''participants'' \<mapsto> PList (map PStr xs)]) ++
       (case ds_project_id (cw_source w) of None \<Rightarrow> Map.empty | Some x \<Rightarrow> [''project_id'' \<mapsto> PStr x])"
    by (rule ext) (auto simp: set_fields_get turn_speaker_def map_add_def simp del: set_fields_Cons split: option.split)
qed

text \<open>Registration is idempotent when the service lists what it registered: after one successful
  call to ensure a source, a second one makes a single list call and returns the same source.\<close>

theorem ensured_source_is_reused:
  assumes "\<And>s s' r. api s (sources_list sb (Some prov) None) = (s', r) \<Longrightarrow> s' = s"
    "\<And>s s' v. api s (sources_register sb prov name mode kind ext cfg poll) = (s', Inr v) \<Longrightarrow>
       \<exists>l vs d. api s' (sources_list sb (Some prov) None) = (s', Inr l) \<and> listed_sources l = Inr (v # vs) \<and>
         v = PDict d \<and> dict_get d ''name'' = Some (PStr name)"
    "ensure_data_source api s sb prov name True mode kind ext cfg poll = (s1, Inr v)"
  shows "ensure_data_source (logged api) (l, s1) sb prov name True mode kind ext cfg poll =
    ((l @ [sources_list sb (Some prov) None], s1), Inr v)"
proof -
  let ?L = "sources_list sb (Some prov) None"
  obtain r where r: "api s ?L = (s, r)" using assms(1) by (metis surj_pair)
  have again: "ensure_data_source (logged api) (l, s1) sb prov name True mode kind ext cfg poll =
      ((l @ [?L], s1), Inr v)" if found: "api s1 ?L = (s1, Inr e)" "listed_sources e = Inr vs" "find_source name vs = Inr (Some v)" for e vs
    using found by (simp add: ensure_data_source_def logged_simp)
  from r assms(3) show ?thesis
  proof (cases r)
    case (Inr e)
    with r assms(3) obtain vs where vs: "listed_sources e = Inr vs"
      by (auto simp: ensure_data_source_def Let_def split: sum.splits)
    then consider "find_source name vs = Inr (Some v)" "s1 = s"
      | "find_source name vs = Inr None" "api s (sources_register sb prov name mode kind ext cfg poll) = (s1, Inr v)"
      using r Inr assms(3) by (auto simp: ensure_data_source_def Let_def split: sum.splits option.splits)
    then show ?thesis
    proof cases
      case 1
      then show ?thesis using again r Inr vs by blast
    next
      case 2
      from assms(2) [OF this(2)] obtain e' vs' d where e': "api s1 ?L = (s1, Inr e')"
        "listed_sources e' = Inr (v # vs')" "v = PDict d" "dict_get d ''name'' = Some (PStr name)" by blast
      then have "find_source name (v # vs') = Inr (Some v)" by (simp add: need_dict_def get_or_def)
      with again e' show ?thesis by blast
    qed
  qed (simp add: ensure_data_source_def Let_def)
qed


text \<open>A service for the witnesses: it keeps the sources registered, the newest first, and lists them.\<close>

definition demo_api :: "pyval list api" where
  "demo_api s c =
     (if opt_method (call_options c) = ''POST'' then (opt_body (call_options c) # s, Inr (opt_body (call_options c)))
      else (s, Inr (PDict [(''sources'', PList s)])))"

definition demo_source :: pyval where
  "demo_source = PDict [(''provider'', PStr ''custom''), (''name'', PStr ''notes'')]"

lemma demo_api_register:
  "demo_api s (sources_register sb ''custom'' ''notes'' None None None None None) = (demo_source # s, Inr demo_source)"
  by (simp add: demo_api_def sources_register_def base_post_def demo_source_def)

lemma demo_api_list: "demo_api s (sources_list sb p st) = (s, Inr (PDict [(''sources'', PList s)]))"
  by (simp add: demo_api_def sources_list_def base_get_def)

theorem ensured_source_is_reused_witness:
  "ensure_data_source (logged demo_api) ([], [demo_source]) ''sb'' ''custom'' ''notes'' True None None None None None =
     (([sources_list ''sb'' (Some ''custom'') None], [demo_source]), Inr demo_source)"
proof -
  have first: "ensure_data_source demo_api [] ''sb'' ''custom'' ''notes'' True None None None None None =
      ([demo_source], Inr demo_source)"
    by (simp add: ensure_data_source_def demo_api_list demo_api_register listed_sources_def get_or_def)
  show ?thesis
    using ensured_source_is_reused [OF _ _ first, where l = "[]", simplified]
    by (simp add: demo_api_list demo_api_register listed_sources_def get_or_def) (simp add: demo_source_def)
qed

text \<open>Claim C25. Recording a stream passes its events through unchanged, and fills the window with the
  completed responses, in order, each the joined and stripped text of its deltas as one assistant
  turn, without those whose key was seen before. When the event loop runs the pushes makes no
  difference, nor do pushes that fail.\<close>

theorem recorder_fills_window:
  assumes "\<not> rc_include_tools (rg_recorder g)"
  shows "fst (record_stream api digest pushes es g) = es \<and>
    cw_turns (rg_window (snd (record_stream api digest pushes es g))) =
      cw_turns (rg_window g) @ rc_tasks (rg_recorder g) @
      new_turns (dedupe_key digest) (rc_seen (rg_recorder g))
        (map (assistant_turn (rg_recorder g)) (responses (pending_text (rg_recorder g)) es))"
  using record_stream_log [OF assms, of api digest pushes es]
  by (simp add: record_stream_def log_of_def)

definition ex_window :: context_window where
  "ex_window = \<lparr>cw_source = \<lparr>ds_sandbox_id = ''sb'', ds_source_id = ''src'', ds_project_id = None\<rparr>,
     cw_turns = [], cw_participants = None\<rparr>"

definition ex_recording :: "pyval list recording" where
  "ex_recording = \<lparr>rg_recorder = make_recorder id ex_window False None False None ''User'',
     rg_window = ex_window, rg_state = []\<rparr>"

lemma ex_recording_parts:
  "cw_turns (rg_window ex_recording) = []" "rc_tasks (rg_recorder ex_recording) = []"
  "pending_text (rg_recorder ex_recording) = []" "rc_seen (rg_recorder ex_recording) = {}"
  "\<not> rc_include_tools (rg_recorder ex_recording)" "rc_author (rg_recorder ex_recording) = None"
  by (simp_all add: ex_recording_def make_recorder_def ex_window_def pending_text_def)

definition ex_events :: "agent_event list" where
  "ex_events = [AgentTextDelta ''Hel'', AgentTextDelta ''lo '', AgentFinish ''end_turn'' [] None, AgentTextDelta ''lost'']"

lemma ex_events_responses: "responses [] ex_events = [''Hello'']"
  by code_simp

theorem recorder_fills_window_witness:
  "cw_turns (rg_window (snd (record_stream demo_api id (\<lambda>n. n) ex_events ex_recording))) =
   [\<lparr>chat_role = ''assistant'', chat_content = ''Hello'', chat_name = None\<rparr>]"
  using recorder_fills_window [of ex_recording demo_api id "\<lambda>n. n" ex_events]
  by (simp add: ex_recording_parts ex_events_responses assistant_turn_def)

text \<open>No completed response is lost: with a digest that has no colon and does not confuse the
  openings in question, a recorder made for the window leaves, for each completed response of the
  stream, an assistant turn in the window that agrees with it on its first 500 characters.\<close>

theorem completed_responses_recorded:
  assumes "rg_recorder g = make_recorder digest (rg_window g) False author prefixed roster speaker"
    "r \<in> set (responses [] es)" "\<And>x. CHR '':'' \<notin> set (digest x)"
    "inj_on digest (insert (take 500 (chat_content (assistant_turn (rg_recorder g) r)))
       ((\<lambda>t. take 500 (chat_content t)) ` (set (cw_turns (rg_window g)) \<union> assistant_turn (rg_recorder g) ` set (responses [] es))))"
  shows "\<exists>t \<in> set (cw_turns (rg_window (snd (record_stream api digest pushes es g)))).
    chat_role t = ''assistant'' \<and>
    take 500 (chat_content t) = take 500 (chat_content (assistant_turn (rg_recorder g) r))"
proof -
  let ?rc = "rg_recorder g" and ?k = "dedupe_key digest"
  let ?a = "assistant_turn ?rc r"
  let ?new = "new_turns ?k (rc_seen ?rc) (map (assistant_turn ?rc) (responses [] es))"
  have rc: "\<not> rc_include_tools ?rc" "rc_tasks ?rc = []" "pending_text ?rc = []" "rc_seen ?rc = ?k ` set (cw_turns (rg_window g))"
    by (simp_all add: assms(1) make_recorder_def pending_text_def)
  have turns: "cw_turns (rg_window (snd (record_stream api digest pushes es g))) = cw_turns (rg_window g) @ ?new"
    using record_stream_log [OF rc(1), of api digest pushes es] rc(2,3) by (simp add: log_of_def)
  have "?k ?a \<in> ?k ` set (cw_turns (rg_window g)) \<or> ?k ?a \<in> ?k ` set ?new"
    using assms(2) by (auto simp: new_turns_keys rc(4))
  then have "?k ?a \<in> ?k ` (set (cw_turns (rg_window g)) \<union> set ?new)" by (simp only: image_Un Un_iff)
  then obtain t where t: "t \<in> set (cw_turns (rg_window g)) \<union> set ?new" "?k t = ?k ?a" by (metis imageE)
  then have "chat_role t = chat_role ?a \<and> digest (take 500 (chat_content t)) = digest (take 500 (chat_content ?a))"
    using colon_suffix [of "chat_role t" _ "chat_role ?a"] assms(3) by (simp add: dedupe_key_def)
  moreover have "t \<in> set (cw_turns (rg_window g)) \<union> assistant_turn ?rc ` set (responses [] es)"
    using t(1) new_turns_subset [of ?k "rc_seen ?rc" "map (assistant_turn ?rc) (responses [] es)"] by auto
  ultimately have "chat_role t = ''assistant'' \<and> take 500 (chat_content t) = take 500 (chat_content ?a)"
    using assms(4) by (auto simp: inj_on_def assistant_turn_def)
  with t(1) show ?thesis unfolding turns by auto
qed

theorem completed_responses_recorded_witness:
  "\<exists>t \<in> set (cw_turns (rg_window (snd (record_stream demo_api (filter (\<lambda>c. c \<noteq> CHR '':'')) (\<lambda>n. 0) ex_events
       (ex_recording\<lparr>rg_recorder := make_recorder (filter (\<lambda>c. c \<noteq> CHR '':'')) ex_window False None False None ''User''\<rparr>))))).
     chat_role t = ''assistant'' \<and> take 500 (chat_content t) = ''Hello''"
proof -
  let ?d = "filter (\<lambda>c. c \<noteq> CHR '':'')"
  let ?g = "ex_recording\<lparr>rg_recorder := make_recorder ?d ex_window False None False None ''User''\<rparr>"
  have a: "chat_content (assistant_turn (make_recorder ?d ex_window False None False None ''User'') ''Hello'') = ''Hello''"
    by (simp add: assistant_turn_def make_recorder_def)
  have w: "rg_window ?g = ex_window" "cw_turns ex_window = []" by (simp_all add: ex_recording_def ex_window_def)
  show ?thesis
    using completed_responses_recorded [of ?g ?d None False None "''User''" "''Hello''" ex_events demo_api "\<lambda>n. 0"]
    by (simp add: a w ex_events_responses)
qed

text \<open>Text that no finish follows is not recorded: a stream without a finish event leaves the
  window as the pushes already queued leave it.\<close>

theorem unfinished_response_not_recorded:
  assumes "\<not> rc_include_tools (rg_recorder g)" "\<forall>e \<in> set es. \<not> is_finish e"
  shows "cw_turns (rg_window (snd (record_stream api digest pushes es g))) =
    cw_turns (rg_window g) @ rc_tasks (rg_recorder g)"
proof -
  have "responses p es = []" for p using assms(2)
    by (induction p es rule: responses.induct) simp_all
  then show ?thesis using record_stream_log [OF assms(1), of api digest pushes es] by (simp add: log_of_def)
qed

theorem unfinished_response_not_recorded_witness:
  "cw_turns (rg_window (snd (record_stream demo_api id (\<lambda>n. n) [AgentTextDelta ''Hello''] ex_recording))) = []"
  using unfinished_response_not_recorded [of ex_recording "[AgentTextDelta ''Hello'']" demo_api id "\<lambda>n. n"]
  by (simp add: ex_recording_def make_recorder_def ex_window_def)

text \<open>A user turn that opens with the same 500 characters as one recorded before is dropped, an
  equal one in particular.\<close>

theorem same_opening_is_dropped:
  assumes "py_strip c \<noteq> []" "take 500 c' = take 500 c"
  shows "record_user digest c' (record_user digest c rc) = record_user digest c rc"
proof -
  have idle: "rc_pending_text (record_user digest c rc) = []"
    by (simp add: record_user_def flush_assistant_def record_chat_pending Let_def)
  let ?t = "\<lparr>chat_role = ''user'', chat_content = c, chat_name = Some (rc_user_speaker rc)\<rparr>"
  have "dedupe_key digest ?t \<in> rc_seen (record_user digest c rc)"
    using assms(1) by (auto simp: record_user_def record_chat_def dedupe_key_def)
  then show ?thesis using idle assms(2)
    by (auto simp: record_user_def [of digest c'] flush_assistant_def record_chat_def dedupe_key_def)
qed

theorem same_opening_is_dropped_witness:
  "rc_tasks (record_user id ''yes'' (record_user id ''yes'' (rg_recorder ex_recording))) =
     [\<lparr>chat_role = ''user'', chat_content = ''yes'', chat_name = Some ''User''\<rparr>]"
proof -
  have v: "py_strip ''yes'' \<noteq> []" by code_simp
  show ?thesis
    using same_opening_is_dropped [OF v refl, of id "rg_recorder ex_recording"] v
    by (simp add: record_user_def ex_recording_def make_recorder_def ex_window_def flush_assistant_def record_chat_def)
qed

text \<open>The LangChain callback mirrors each turn once: called with a conversation and then with the
  conversation grown, it ends in the same state as called with the grown one alone, and it never
  queues two turns with one key.\<close>

theorem callback_is_incremental:
  assumes "cb_tasks cb = []"
  shows "on_chat_model_start [old @ new] (on_chat_model_start [old] cb) = on_chat_model_start [old @ new] cb \<and>
    distinct (map hash_turn (cb_tasks (on_chat_model_start [old @ new] cb)))"
proof -
  let ?f = "List.map_filter (to_turn (cb_include_tools cb))"
  have "cb_include_tools (fold mirror_turn ts cb) = cb_include_tools cb" for ts
    by (induction ts arbitrary: cb) (simp_all add: mirror_turn_def)
  moreover have "?f (old @ new) = ?f old @ ?f new" by (simp add: map_filter_def)
  ultimately show ?thesis
    using cb_mirror.record_again [of "?f old" "?f new" cb] cb_mirror.queued_once [OF assms, of "?f (old @ new)"]
    by (simp add: on_chat_model_start_fold)
qed

theorem callback_is_incremental_witness:
  "on_chat_model_start [[\<lparr>lc_kind = HumanMessage, lc_content = PStr ''hi''\<rparr>, \<lparr>lc_kind = AIMessage, lc_content = PStr ''yo''\<rparr>]]
     (on_chat_model_start [[\<lparr>lc_kind = HumanMessage, lc_content = PStr ''hi''\<rparr>]] (make_callback ex_window False)) =
   on_chat_model_start [[\<lparr>lc_kind = HumanMessage, lc_content = PStr ''hi''\<rparr>, \<lparr>lc_kind = AIMessage, lc_content = PStr ''yo''\<rparr>]]
     (make_callback ex_window False)"
  using callback_is_incremental [of "make_callback ex_window False" "[\<lparr>lc_kind = HumanMessage, lc_content = PStr ''hi''\<rparr>]"
    "[\<lparr>lc_kind = AIMessage, lc_content = PStr ''yo''\<rparr>]"]
  by (simp add: make_callback_def)

end
