(* ===== verification/Sse.thy ===== *)
theory Sse
  imports CoreAgents Json PyConv
begin

text \<open>
  The SSE parser of the agent router (\<open>copass-agent-router/sse.py\<close>): lines to frames, chunks of text to
  frames, frames to agent events.
\<close>

record sse_frame =
  frame_event :: string
  frame_data :: string

text \<open>One line of a block: the event name so far and the data lines so far.\<close>

definition block_line :: "string \<Rightarrow> string \<times> string list \<Rightarrow> string \<times> string list" where
  "block_line raw acc =
     (case acc of (event, data_lines) \<Rightarrow>
        let line = rstrip_char cr raw
        in if line = [] \<or> py_startswith line '':'' then acc
           else case find_sub '':'' line of
                  None \<Rightarrow> acc
                | Some colon \<Rightarrow>
                    (let field = take colon line;
                         v0 = drop (Suc colon) line;
                         v = (if py_startswith v0 '' '' then drop 1 v0 else v0)
                     in if field = ''event'' then (v, data_lines)
                        else if field = ''data'' then (event, data_lines @ [v])
                        else acc))"

definition parse_block :: "string \<Rightarrow> sse_frame option" where
  "parse_block block =
     (case fold block_line (py_split nl block) (''message'', []) of
        (event, data_lines) \<Rightarrow>
          if data_lines = [] then None
          else Some \<lparr>frame_event = event, frame_data = py_join [nl] data_lines\<rparr>)"

definition option_list :: "'a option \<Rightarrow> 'a list" where
  "option_list x = (case x of None \<Rightarrow> [] | Some y \<Rightarrow> [y])"

text \<open>The inner loop: blocks are cut off the buffer at blank lines.\<close>

lemma find_sub_bound: "find_sub p s = Some i \<Longrightarrow> i + length p \<le> length s"
  using find_sub_Some by blast

function split_frames :: "string \<Rightarrow> sse_frame list \<times> string" where
  "split_frames buffer =
     (case find_sub [nl, nl] buffer of
        None \<Rightarrow> ([], buffer)
      | Some sep \<Rightarrow>
          (case split_frames (drop (sep + 2) buffer) of
             (fs, rest) \<Rightarrow> (option_list (parse_block (take sep buffer)) @ fs, rest)))"
  by pat_completeness auto
termination
  by (relation "measure length") (auto dest: find_sub_bound)

declare split_frames.simps [simp del]

definition crlf_to_lf :: "string \<Rightarrow> string" where
  "crlf_to_lf s = py_replace [cr, nl] [nl] s"

definition tail_frame :: "string \<Rightarrow> sse_frame list" where
  "tail_frame buffer =
     (let tl = py_strip buffer in if tl = [] then [] else option_list (parse_block tl))"

fun iterate_from :: "string \<Rightarrow> string list \<Rightarrow> sse_frame list" where
  "iterate_from buffer [] = tail_frame buffer"
| "iterate_from buffer (chunk # chunks) =
     (case split_frames (crlf_to_lf (buffer @ chunk)) of (fs, rest) \<Rightarrow> fs @ iterate_from rest chunks)"

definition iterate_sse_frames :: "string list \<Rightarrow> sse_frame list" where
  "iterate_sse_frames chunks = iterate_from [] chunks"

section \<open>Frames to events\<close>

text \<open>\<open>payload.get("session_id") or None\<close>: an event's session id is a string; one that is neither a string
  nor empty has no counterpart and is reported as an error of its own class.\<close>

definition session_field :: "pydict \<Rightarrow> exn + string option" where
  "session_field d =
     (let v = get_none d ''session_id''
      in if \<not> truthy v then Inr None
         else case as_str v of Some s \<Rightarrow> Inr (Some s) | None \<Rightarrow> Inl (OtherError ''UnmodelledId'' (py_repr v)))"

definition frame_to_agent_event :: "sse_frame \<Rightarrow> exn + agent_event option" where
  "frame_to_agent_event frame =
     (case loads (frame_data frame) of
        Inr (PDict d) \<Rightarrow>
          (if frame_event frame = ''agent_text_delta'' then Inr (Some (AgentTextDelta (str_field d ''text'')))
           else if frame_event frame = ''agent_tool_call'' then
             map_sum id (\<lambda>args. Some (AgentToolCall (str_field d ''call_id'') (str_field d ''name'') args))
               (dict_field d ''arguments'')
           else if frame_event frame = ''agent_tool_result'' then
             map_sum id (\<lambda>res. Some (AgentToolResult (str_field d ''call_id'') (str_field d ''name'') (PDict res)
                 (let e = get_none d ''error'' in if truthy e then Some (py_str e) else None)))
               (dict_field d ''result'')
           else if frame_event frame = ''agent_finish'' then
             (case session_field d of
                Inl e \<Rightarrow> Inl e
              | Inr sid \<Rightarrow>
                  map_sum id (\<lambda>usage. Some (AgentFinish (py_str (get_or d ''stop_reason'' (PStr ''unknown''))) usage sid))
                    (dict_field d ''usage''))
           else Inr None)
      | _ \<Rightarrow> Inr None)"

end
