(* ===== verification/Router.thy ===== *)
theory Router
  imports Sse Http ContextWindow
begin

text \<open>
  The agent router (\<open>copass-agent-router/router.py\<close>, \<open>connect_flow.py\<close>) and the client it wraps
  (\<open>copass_core/client.py\<close>): one streamed agent run, the integrations facade, and the OAuth connect
  flow. The HTTP stream, the API, the clock and the redirect listener are parameters.
\<close>

section \<open>The client\<close>

definition DEFAULT_API_URL :: string where
  "DEFAULT_API_URL = ''https://ai.copass.id''"

text \<open>What the router uses of a client: its HTTP client, and its attribute \<open>_auth_provider\<close>, if it has one.
  The constructor of \<open>CopassClient\<close> sets \<open>_http\<close> and the resources, and no such attribute.\<close>

record copass_client =
  client_http :: http_client
  attr_auth_provider :: "auth_provider option"

definition make_copass_client ::
    "auth_config \<Rightarrow> string \<Rightarrow> retry_config option \<Rightarrow> (request_context \<Rightarrow> exn + request_context) list \<Rightarrow>
     (request_context \<Rightarrow> int \<Rightarrow> exn option) list \<Rightarrow> ((string, string) dict \<Rightarrow> string) \<Rightarrow> exn + copass_client" where
  "make_copass_client auth url retry reqs resps enc =
     map_sum id (\<lambda>p. \<lparr>client_http = make_http_client url p retry reqs resps enc, attr_auth_provider = None\<rparr>)
       (build_auth_provider auth)"

section \<open>Running an agent\<close>

record run_agent_options =
  ro_provider :: string
  ro_model :: string
  ro_system :: string
  ro_end_user_id :: string
  ro_message :: "string option"
  ro_messages :: "pydict list option"
  ro_session_id :: "string option"
  ro_reasoning_engine_id :: "string option"
  ro_location :: "string option"

record agent_router =
  ar_client :: copass_client
  ar_api_url :: string
  ar_sandbox_id :: string

definition make_agent_router ::
    "auth_config \<Rightarrow> string \<Rightarrow> string \<Rightarrow> copass_client option \<Rightarrow> ((string, string) dict \<Rightarrow> string) \<Rightarrow> exn + agent_router" where
  "make_agent_router auth sbid url client enc =
     map_sum id (\<lambda>c. \<lparr>ar_client = c, ar_api_url = url, ar_sandbox_id = sbid\<rparr>)
       (case client of Some c \<Rightarrow> Inr c | None \<Rightarrow> make_copass_client auth url None [] [] enc)"

definition run_messages :: "run_agent_options \<Rightarrow> exn + pydict list" where
  "run_messages opts =
     (case ro_messages opts of
        Some ms \<Rightarrow> Inr ms
      | None \<Rightarrow>
          (case ro_message opts of
             Some (c # cs) \<Rightarrow> Inr [[(''role'', PStr ''user''), (''content'', PStr (c # cs))]]
           | _ \<Rightarrow> Inl (ValueError ''Either `message` or `messages` must be supplied.'')))"

definition run_body :: "run_agent_options \<Rightarrow> pydict list \<Rightarrow> pydict" where
  "run_body opts ms =
     set_fields
       [(''session_id'', some_str (ro_session_id opts)), (''reasoning_engine_id'', some_str (ro_reasoning_engine_id opts)),
        (''location'', some_str (ro_location opts))]
       [(''provider'', PStr (ro_provider opts)), (''model'', PStr (ro_model opts)), (''system_prompt'', PStr (ro_system opts)),
        (''messages'', PList (map PDict ms)), (''end_user_id'', PStr (ro_end_user_id opts))]"

definition run_headers :: "session_context option \<Rightarrow> (string, string) dict" where
  "run_headers session =
     [(''content-type'', ''application/json''), (''accept'', ''text/event-stream'')] @
     (case session of
        Some s \<Rightarrow> if access_token s = [] then [] else [(''authorization'', ''Bearer '' @ access_token s)]
      | None \<Rightarrow> [])"

record run_request =
  rr_url :: string
  rr_headers :: "(string, string) dict"
  rr_json :: pyval

record stream_response =
  sr_status :: int
  sr_text :: string
  sr_chunks :: "string list"

text \<open>The events yielded, and the exception that ends them, if any.\<close>

fun yield_events :: "sse_frame list \<Rightarrow> agent_event list \<times> exn option" where
  "yield_events [] = ([], None)"
| "yield_events (f # fs) =
     (case frame_to_agent_event f of
        Inl e \<Rightarrow> ([], Some e)
      | Inr None \<Rightarrow> yield_events fs
      | Inr (Some ev) \<Rightarrow> apfst (Cons ev) (yield_events fs))"

definition router_request :: "agent_router \<Rightarrow> run_agent_options \<Rightarrow> string option \<Rightarrow> exn + run_request" where
  "router_request ar opts sbid =
     (let sb = (case sbid of Some (c # cs) \<Rightarrow> c # cs | _ \<Rightarrow> ar_sandbox_id ar)
      in if sb = [] then Inl (ValueError ''sandbox_id is required.'')
         else case run_messages opts of
                Inl e \<Rightarrow> Inl e
              | Inr ms \<Rightarrow>
                  (case (case attr_auth_provider (ar_client ar) of
                           None \<Rightarrow> Inr None | Some p \<Rightarrow> map_sum id Some (get_session p)) of
                     Inl e \<Rightarrow> Inl e
                   | Inr session \<Rightarrow>
                       Inr \<lparr>rr_url = rstrip_char (CHR ''/'') (ar_api_url ar) @ ''/api/v1/storage/sandboxes/'' @ sb @ ''/agents/run'',
                         rr_headers = run_headers session, rr_json = PDict (run_body opts ms)\<rparr>))"

definition router_run ::
    "(run_request \<Rightarrow> exn + stream_response) \<Rightarrow> agent_router \<Rightarrow> run_agent_options \<Rightarrow> string option \<Rightarrow>
     agent_event list \<times> exn option" where
  "router_run http ar opts sbid =
     (case router_request ar opts sbid of
        Inl e \<Rightarrow> ([], Some e)
      | Inr rq \<Rightarrow>
          (case http rq of
             Inl e \<Rightarrow> ([], Some e)
           | Inr resp \<Rightarrow>
               if 400 \<le> sr_status resp
               then ([], Some (RuntimeError (''agents.run: HTTP '' @ dec_int (sr_status resp) @ '' '' @ take 300 (sr_text resp))))
               else yield_events (iterate_sse_frames (sr_chunks resp))))"

section \<open>Integrations facade\<close>

definition facade_sb :: "string \<Rightarrow> string option \<Rightarrow> exn + string" where
  "facade_sb dflt sbid =
     (let sid = (case sbid of Some (c # cs) \<Rightarrow> c # cs | _ \<Rightarrow> dflt)
      in if sid = [] then Inl (ValueError ''sandbox_id is required (no default on AgentRouter).'') else Inr sid)"

definition facade_catalog ::
    "string \<Rightarrow> string option \<Rightarrow> int option \<Rightarrow> string option \<Rightarrow> string option \<Rightarrow> exn + api_call" where
  "facade_catalog dflt q limit cursor sbid =
     map_sum id (\<lambda>sb. integrations_catalog sb q limit cursor) (facade_sb dflt sbid)"

definition facade_list :: "string \<Rightarrow> string option \<Rightarrow> string option \<Rightarrow> exn + api_call" where
  "facade_list dflt app sbid = map_sum id (\<lambda>sb. integrations_list sb app) (facade_sb dflt sbid)"

definition facade_disconnect :: "string \<Rightarrow> string \<Rightarrow> string option \<Rightarrow> exn + api_call" where
  "facade_disconnect dflt source_id sbid =
     map_sum id (\<lambda>sb. integrations_disconnect sb source_id) (facade_sb dflt sbid)"

definition facade_reconcile ::
    "string \<Rightarrow> string option \<Rightarrow> string \<Rightarrow> string option \<Rightarrow> string option \<Rightarrow> exn + api_call" where
  "facade_reconcile dflt app scp proj sbid =
     map_sum id (\<lambda>sb. integrations_reconcile sb (Some scp) proj app) (facade_sb dflt sbid)"

section \<open>The connect flow\<close>

text \<open>The path of a redirect, before its query, and the outcome it stands for.\<close>

definition redirect_outcome :: "string \<Rightarrow> string option" where
  "redirect_outcome path =
     (let p = hd (py_split (CHR ''?'') (if path = [] then ''/'' else path))
      in if p = ''/oauth/success'' then Some ''success''
         else if p = ''/oauth/error'' then Some ''error'' else None)"

text \<open>\<open>c["source_id"]\<close> used as an element of a set: it must be there and hashable.\<close>

definition source_key :: "pyval \<Rightarrow> exn + pyval" where
  "source_key c =
     (case c of
        PDict d \<Rightarrow>
          (case dict_get d ''source_id'' of
             None \<Rightarrow> Inl (KeyError ''source_id'')
           | Some v \<Rightarrow>
               (case v of
                  PList vs \<Rightarrow> Inl (TypeError (''unhashable type: '' @ sq # ''list'' @ [sq]))
                | PDict d' \<Rightarrow> Inl (TypeError (''unhashable type: '' @ sq # ''dict'' @ [sq]))
                | _ \<Rightarrow> Inr v))
      | _ \<Rightarrow> Inl (TypeError ''indices must be integers''))"

fun known_keys :: "pyval list \<Rightarrow> exn + pyval set" where
  "known_keys [] = Inr {}"
| "known_keys (c # cs) =
     (case source_key c of Inl e \<Rightarrow> Inl e | Inr k \<Rightarrow> map_sum id (insert k) (known_keys cs))"

definition field_list :: "string \<Rightarrow> pyval \<Rightarrow> exn + pyval list" where
  "field_list key v =
     (case need_dict v of Inl e \<Rightarrow> Inl e | Inr d \<Rightarrow> py_list (get_or d key (PList [])))"

text \<open>The snapshot; any failure gives the empty set.\<close>

definition snapshot :: "'s api \<Rightarrow> 's \<Rightarrow> string \<Rightarrow> string \<Rightarrow> 's \<times> pyval set" where
  "snapshot api s sbid app =
     (case api s (integrations_list sbid (Some app)) of
        (s', r) \<Rightarrow>
          (s', case r of
                 Inl e \<Rightarrow> {}
               | Inr existing \<Rightarrow>
                   (case field_list ''items'' existing of
                      Inl e \<Rightarrow> {}
                    | Inr cs \<Rightarrow> (case known_keys cs of Inl e \<Rightarrow> {} | Inr ks \<Rightarrow> ks))))"

text \<open>The first connection that is not known; an exception on the way ends the search of this round.\<close>

fun first_new :: "pyval set \<Rightarrow> pyval list \<Rightarrow> pyval option" where
  "first_new known [] = None"
| "first_new known (c # cs) =
     (case source_key c of
        Inl e \<Rightarrow> None
      | Inr k \<Rightarrow> if k \<in> known then first_new known cs else Some c)"

record connect_flow_result =
  cf_connection :: pyval
  cf_session_id :: string

text \<open>What the flow's loop sees of time and of the listener: the clock in milliseconds at the n-th check of
  the loop condition, and whether the redirect task is done then, with its outcome.\<close>

record flow_env =
  clock :: "nat \<Rightarrow> int"
  redirect :: "nat \<Rightarrow> string option option"

definition poll_timeout :: "int \<Rightarrow> exn" where
  "poll_timeout timeout_ms =
     TimeoutError (''Timed out after '' @ dec_int (if timeout_ms < 0 then - (- timeout_ms div 1000) else timeout_ms div 1000) @ ''s - the connection may still '' @
       ''land. Check `client.integrations.list(sandbox_id)` or run reconcile.'')"

definition denied :: exn where
  "denied = RuntimeError ''User denied the authorization or provider returned an error.''"

definition poll_round :: "'s api \<Rightarrow> 's \<Rightarrow> string \<Rightarrow> string \<Rightarrow> string \<Rightarrow> pyval set \<Rightarrow> 's \<times> pyval option" where
  "poll_round api s sbid app scp known =
     (case api s (integrations_reconcile sbid (Some scp) None (Some app)) of
        (s', r) \<Rightarrow>
          (s', case r of
                 Inl e \<Rightarrow> None
               | Inr v \<Rightarrow> (case field_list ''connections'' v of Inl e \<Rightarrow> None | Inr cs \<Rightarrow> first_new known cs)))"

partial_function (option) poll_loop ::
    "'s api \<Rightarrow> flow_env \<Rightarrow> bool \<Rightarrow> string \<Rightarrow> string \<Rightarrow> string \<Rightarrow> pyval set \<Rightarrow> int \<Rightarrow> int \<Rightarrow> nat \<Rightarrow> 's \<Rightarrow>
     ('s \<times> (exn + pyval)) option" where
  "poll_loop api env listening sbid app scp known timeout_ms deadline n s =
     (if deadline \<le> clock env n then Some (s, Inl (poll_timeout timeout_ms))
      else case poll_round api s sbid app scp known of
             (s', Some c) \<Rightarrow> Some (s', Inr c)
           | (s', None) \<Rightarrow>
               if listening \<and> redirect env n = Some (Some ''error'') then Some (s', Inl denied)
               else poll_loop api env listening sbid app scp known timeout_ms deadline (Suc n) s')"

text \<open>\<open>str(resp[key])\<close>.\<close>

definition str_item :: "pyval \<Rightarrow> string \<Rightarrow> exn + string" where
  "str_item v key =
     (case v of
        PDict d \<Rightarrow> (case dict_get d key of None \<Rightarrow> Inl (KeyError key) | Some x \<Rightarrow> Inr (py_str x))
      | PList vs \<Rightarrow> Inl (TypeError ''list indices must be integers or slices, not str'')
      | _ \<Rightarrow> Inl (TypeError (sq # py_type_name v @ sq # '' object is not subscriptable'')))"

definition or_else :: "string option \<Rightarrow> string \<Rightarrow> string" where
  "or_else x d = (case x of Some (c # cs) \<Rightarrow> c # cs | _ \<Rightarrow> d)"

text \<open>\<open>on_connect_url\<close> is the callback's exception on the URL, if it raises; \<open>local\<close> the two URLs of the listener.
  The clock is first read for the deadline, as \<open>started\<close>.\<close>

definition run_connect_flow ::
    "'s api \<Rightarrow> flow_env \<Rightarrow> int \<Rightarrow> (string \<Rightarrow> exn option) \<Rightarrow> string \<times> string \<Rightarrow> 's \<Rightarrow> string \<Rightarrow> string \<Rightarrow> string \<Rightarrow>
     string option \<Rightarrow> int \<Rightarrow> string option \<Rightarrow> string option \<Rightarrow> ('s \<times> (exn + connect_flow_result)) option" where
  "run_connect_flow api env started on_connect_url local s sbid app scp proj timeout_ms success_uri error_uri =
     (case snapshot api s sbid app of
        (s1, known) \<Rightarrow>
          (let listening = (success_uri = None \<or> error_uri = None);
               ok_uri = (if listening then or_else success_uri (fst local) else the success_uri);
               err_uri = (if listening then or_else error_uri (snd local) else the error_uri)
           in case api s1 (integrations_connect sbid app ok_uri err_uri (Some scp) proj None) of
                (s2, Inl e) \<Rightarrow> Some (s2, Inl e)
              | (s2, Inr resp) \<Rightarrow>
                  (case str_item resp ''session_id'' of
                     Inl e \<Rightarrow> Some (s2, Inl e)
                   | Inr sid \<Rightarrow>
                       (case str_item resp ''connect_url'' of
                          Inl e \<Rightarrow> Some (s2, Inl e)
                        | Inr url \<Rightarrow>
                            (case on_connect_url url of
                               Some e \<Rightarrow> Some (s2, Inl e)
                             | None \<Rightarrow>
                                 map_option (apsnd (map_sum id (\<lambda>c. \<lparr>cf_connection = c, cf_session_id = sid\<rparr>)))
                                   (poll_loop api env listening sbid app scp known timeout_ms
                                      (started + timeout_ms) 0 s2))))))"

text \<open>The facade's \<open>connect\<close> runs the flow.\<close>

definition facade_connect ::
    "'s api \<Rightarrow> flow_env \<Rightarrow> int \<Rightarrow> (string \<Rightarrow> exn option) \<Rightarrow> string \<times> string \<Rightarrow> 's \<Rightarrow> string \<Rightarrow> string \<Rightarrow> string \<Rightarrow>
     string option \<Rightarrow> int \<Rightarrow> string option \<Rightarrow> string option \<Rightarrow> string option \<Rightarrow> ('s \<times> (exn + connect_flow_result)) option" where
  "facade_connect api env started cb local s dflt app scp proj timeout_ms success_uri error_uri sbid =
     (case facade_sb dflt sbid of
        Inl e \<Rightarrow> Some (s, Inl e)
      | Inr sb \<Rightarrow> run_connect_flow api env started cb local s sb app scp proj timeout_ms success_uri error_uri)"

end
