(* ===== verification/SseFacts.thy ===== *)
theory SseFacts
  imports Sse JsonRoundtrip
begin

text \<open>
  Lemmas on the SSE parser: frames are cut off the same way however the text is split into chunks, and a
  reference writer of frames and events is read back.
\<close>


section \<open>Cutting frames off a buffer\<close>

lemma find_sub_prefix: "prefix p s \<Longrightarrow> find_sub p s = Some 0"
  by (cases s) simp_all

lemma find_sub_append: "find_sub p x = Some i \<Longrightarrow> find_sub p (x @ y) = Some i"
proof (induction x arbitrary: i)
  case Nil
  then show ?case by (simp add: find_sub_prefix split: if_splits)
next
  case (Cons c x)
  show ?case
  proof (cases "prefix p (c # x)")
    case True
    then have "prefix p ((c # x) @ y)" by (metis prefix_append)
    with True Cons.prems show ?thesis by (simp add: find_sub_prefix)
  next
    case False
    with Cons.prems obtain z where z: "find_sub p x = Some z" "i = Suc z" by auto
    with False find_sub_bound [OF z(1)] have "\<not> prefix p (c # x @ y)"
      using prefix_length_prefix [of p "c # x @ y" "c # x"] by auto
    with Cons.IH [OF z(1)] z(2) show ?thesis by simp
  qed
qed

lemma find_sub_take: "find_sub p x = Some i \<Longrightarrow> find_sub p (take (i + length p) x) = Some i"
proof (induction x arbitrary: i)
  case (Cons c x)
  show ?case
  proof (cases "prefix p (c # x)")
    case True
    with Cons.prems have "i = 0" by simp
    then show ?thesis using True by (simp add: find_sub_prefix prefix_def split: if_splits) (metis append_eq_conv_conj prefix_def find_sub_prefix prefix_order.refl)
  next
    case False
    with Cons.prems obtain z where z: "find_sub p x = Some z" "i = Suc z" by auto
    have "\<not> prefix p (c # take (z + length p) x)"
      using False take_is_prefix [of "z + length p" x] by (metis Cons_prefix_Cons prefix_order.trans)
    with Cons.IH [OF z(1)] z(2) show ?thesis by simp
  qed
qed simp

lemma split_frames_None: "find_sub [nl, nl] s = None \<Longrightarrow> split_frames s = ([], s)"
  by (simp add: split_frames.simps [of s])

lemma split_frames_Some:
  "find_sub [nl, nl] s = Some i \<Longrightarrow> split_frames s =
     (option_list (parse_block (take i s)) @ fst (split_frames (drop (i + 2) s)), snd (split_frames (drop (i + 2) s)))"
  by (simp add: split_frames.simps [of s] split: prod.split)

lemma split_frames_append:
  "split_frames (x @ y) =
     (fst (split_frames x) @ fst (split_frames (snd (split_frames x) @ y)),
      snd (split_frames (snd (split_frames x) @ y)))"
proof (induction x rule: split_frames.induct)
  case (1 x)
  show ?case
  proof (cases "find_sub [nl, nl] x")
    case None
    then show ?thesis by (simp add: split_frames_None)
  next
    case (Some i)
    note b = find_sub_bound [OF Some]
    have "split_frames (x @ y) = (option_list (parse_block (take i x)) @ fst (split_frames (drop (i + 2) x @ y)),
        snd (split_frames (drop (i + 2) x @ y)))"
      using split_frames_Some [OF find_sub_append [OF Some, of y]] b by simp
    with 1 [OF Some] show ?thesis by (simp add: split_frames_Some [OF Some])
  qed
qed

text \<open>What was cut off ends in a line feed, and is cut up entirely by itself.\<close>

lemma split_frames_prefix:
  "\<exists>pre. x = pre @ snd (split_frames x) \<and> split_frames pre = (fst (split_frames x), []) \<and>
     (pre = [] \<or> last pre = nl)"
proof (induction x rule: split_frames.induct)
  case (1 x)
  show ?case
  proof (cases "find_sub [nl, nl] x")
    case None
    then show ?thesis by (simp add: split_frames_None)
  next
    case (Some i)
    from 1 [OF Some] obtain pre where pre: "drop (i + 2) x = pre @ snd (split_frames (drop (i + 2) x))"
      "split_frames pre = (fst (split_frames (drop (i + 2) x)), [])" "pre = [] \<or> last pre = nl" by blast
    from find_sub_Some [OF Some] have b: "i + 2 \<le> length x" "take 2 (drop i x) = [nl, nl]"
      by (simp_all add: numeral_2_eq_2)
    then have x: "x = take i x @ [nl, nl] @ drop (i + 2) x"
      by (metis append.assoc append_take_drop_id drop_drop add.commute)
    let ?p = "take i x @ [nl, nl] @ pre"
    have "find_sub [nl, nl] ?p = Some i"
    proof -
      have "take (i + 2) x = take i x @ [nl, nl]" using b by (metis take_add)
      then have "find_sub [nl, nl] (take i x @ [nl, nl]) = Some i"
        using find_sub_take [OF Some] by (simp add: numeral_2_eq_2)
      then show ?thesis using find_sub_append by fastforce
    qed
    then have "split_frames ?p = (fst (split_frames x), [])"
      using b pre(2) by (simp add: split_frames_Some split_frames_Some [OF Some])
    moreover have "x = ?p @ snd (split_frames x)" using x pre(1) by (simp add: split_frames_Some [OF Some])
    moreover have "last ?p = nl" using pre(3) by auto
    ultimately show ?thesis by blast
  qed
qed


section \<open>Line endings\<close>

lemma crlf_Nil [simp]: "crlf_to_lf [] = []"
  by (simp add: crlf_to_lf_def py_replace_Nil)

lemma crlf_Cons:
  "crlf_to_lf (c # s) = (if c = cr \<and> s \<noteq> [] \<and> hd s = nl then nl # crlf_to_lf (tl s) else c # crlf_to_lf s)"
proof (cases "c = cr \<and> s \<noteq> [] \<and> hd s = nl")
  case True
  then have s: "c # s = [cr, nl] @ tl s" by (cases s) auto
  show ?thesis unfolding crlf_to_lf_def s using True by (simp add: py_replace_hit del: append_Cons)
next
  case False
  then have "\<not> prefix [cr, nl] (c # s)" by (cases s) auto
  then show ?thesis using False by (simp add: crlf_to_lf_def py_replace_miss)
qed

lemma nl_neq_cr [simp]: "nl \<noteq> cr" "cr \<noteq> nl"
  by simp_all

text \<open>A carriage return that stands before a line ending is kept by one pass over the whole text but lost
  by two: the texts in question have none.\<close>

definition single_cr :: "string \<Rightarrow> bool" where
  "single_cr s = (\<not> sublist [cr, cr, nl] s)"

lemma single_cr_Cons: "single_cr (a # s) = ((\<nexists>t. a = cr \<and> s = cr # nl # t) \<and> single_cr s)"
  by (auto simp: single_cr_def sublist_Cons_right prefix_def)

lemma single_cr_append: "single_cr (x @ y) \<Longrightarrow> single_cr y \<and> single_cr x"
  unfolding single_cr_def by (meson sublist_appendI sublist_append_leftI sublist_append_rightI sublist_append)

lemma crlf_stream: "single_cr (s @ c) \<Longrightarrow> crlf_to_lf (crlf_to_lf s @ c) = crlf_to_lf (s @ c)"
proof (induction s rule: length_induct)
  case (1 s)
  show ?case
  proof (cases s)
    case (Cons d s')
    have sc: "single_cr (s' @ c)" using 1(2) Cons by (simp add: single_cr_Cons)
    show ?thesis
    proof (cases "d = cr")
      case True
      show ?thesis
      proof (cases s')
        case Nil
        then show ?thesis using Cons True by (simp add: crlf_Cons)
      next
        case (Cons e u)
        show ?thesis
        proof (cases "e = nl")
          case True
          have "single_cr (u @ c)" using sc \<open>s' = e # u\<close> by (simp add: single_cr_Cons)
          then have "crlf_to_lf (crlf_to_lf u @ c) = crlf_to_lf (u @ c)"
            using 1(1) \<open>s = d # s'\<close> \<open>s' = e # u\<close> by simp
          then show ?thesis using \<open>s = d # s'\<close> \<open>s' = e # u\<close> \<open>d = cr\<close> True by (simp add: crlf_Cons)
        next
          case False
          have "\<not> (e = cr \<and> u \<noteq> [] \<and> hd u = nl)"
            using 1(2) \<open>s = d # s'\<close> \<open>d = cr\<close> Cons by (cases u) (auto simp: single_cr_Cons)
          then obtain t where t: "crlf_to_lf s' = e # t" using Cons by (simp add: crlf_Cons split: if_splits)
          have "crlf_to_lf (crlf_to_lf s' @ c) = crlf_to_lf (s' @ c)" using 1(1) sc \<open>s = d # s'\<close> by simp
          then show ?thesis using \<open>s = d # s'\<close> \<open>d = cr\<close> Cons False t by (simp add: crlf_Cons [of cr])
        qed
      qed
    next
      case False
      then show ?thesis using 1(1) sc Cons by (simp add: crlf_Cons)
    qed
  qed simp
qed


lemma crlf_starts_nl:
  "crlf_to_lf s = nl # t \<Longrightarrow> (\<exists>u. s = nl # u) \<or> (\<exists>u. s = cr # nl # u)"
  by (cases s; cases "tl s") (auto simp: crlf_Cons split: if_splits)

lemma crlf_clean: "single_cr s \<Longrightarrow> \<not> sublist [cr, nl] (crlf_to_lf s)"
proof (induction s rule: length_induct)
  case (1 s)
  show ?case
  proof (cases s)
    case (Cons d u)
    then have u: "single_cr u" "single_cr (tl u)" using 1(2) by (cases u; simp add: single_cr_Cons)+
    have "\<not> sublist [cr, nl] (crlf_to_lf u)" "\<not> sublist [cr, nl] (crlf_to_lf (tl u))"
      using 1(1) u Cons by (simp_all add: less_Suc_eq_le)
    moreover have "\<not> prefix [cr, nl] (d # crlf_to_lf u)" if k: "\<not> (d = cr \<and> u \<noteq> [] \<and> hd u = nl)"
    proof
      assume "prefix [cr, nl] (d # crlf_to_lf u)"
      then obtain t where "d = cr" "crlf_to_lf u = nl # t" by (auto simp: prefix_def)
      with crlf_starts_nl [OF this(2)] k 1(2) Cons show False by (auto simp: single_cr_Cons)
    qed
    ultimately show ?thesis using Cons by (auto simp: crlf_Cons sublist_Cons_right)
  qed simp
qed

lemma crlf_append:
  "\<not> sublist [cr, nl] x \<Longrightarrow> x = [] \<or> last x = nl \<Longrightarrow> crlf_to_lf (x @ y) = x @ crlf_to_lf y"
proof (induction x)
  case (Cons c x)
  then have "x = [] \<or> last x = nl" by (auto split: if_splits)
  with Cons have "crlf_to_lf (x @ y) = x @ crlf_to_lf y" by (simp add: sublist_Cons_right)
  moreover have "\<not> (c = cr \<and> x @ y \<noteq> [] \<and> hd (x @ y) = nl)"
    using Cons.prems by (cases x) (auto simp: sublist_Cons_right)
  ultimately show ?case by (simp add: crlf_Cons)
qed simp

section \<open>Chunks do not matter\<close>

lemma feed_chunk:
  assumes "single_cr (s @ c)"
  defines "b \<equiv> snd (split_frames (crlf_to_lf s))"
  shows "split_frames (crlf_to_lf (s @ c)) =
    (fst (split_frames (crlf_to_lf s)) @ fst (split_frames (crlf_to_lf (b @ c))), snd (split_frames (crlf_to_lf (b @ c))))"
proof -
  have s: "single_cr s" using single_cr_append [OF assms(1)] ..
  obtain pre where pre: "crlf_to_lf s = pre @ b" "split_frames pre = (fst (split_frames (crlf_to_lf s)), [])"
    "pre = [] \<or> last pre = nl"
    using split_frames_prefix [of "crlf_to_lf s"] b_def by blast
  have "\<not> sublist [cr, nl] pre" using crlf_clean [OF s] pre(1)
    by (metis sublist_append_rightI sublist_appendI sublist_append)
  then have "crlf_to_lf (s @ c) = pre @ crlf_to_lf (b @ c)"
    using crlf_stream [OF assms(1)] crlf_append [OF _ pre(3)] pre(1) by simp
  then show ?thesis using split_frames_append [of pre "crlf_to_lf (b @ c)"] pre(2) by simp
qed

lemma iterate_from_eq:
  assumes "single_cr (s @ concat chunks)"
  shows "fst (split_frames (crlf_to_lf s)) @ iterate_from (snd (split_frames (crlf_to_lf s))) chunks =
    fst (split_frames (crlf_to_lf (s @ concat chunks))) @
    tail_frame (snd (split_frames (crlf_to_lf (s @ concat chunks))))"
  using assms
proof (induction chunks arbitrary: s)
  case (Cons c chunks)
  have "single_cr (s @ c)" using Cons.prems single_cr_append [of "s @ c" "concat chunks"] by simp
  from feed_chunk [OF this] Cons.IH [of "s @ c"] Cons.prems
  show ?case by (simp add: case_prod_beta)
qed simp

lemma iterate_sse_frames_eq:
  assumes "single_cr (concat chunks)"
  shows "iterate_sse_frames chunks =
    fst (split_frames (crlf_to_lf (concat chunks))) @ tail_frame (snd (split_frames (crlf_to_lf (concat chunks))))"
proof -
  have "split_frames [] = ([], [])" by (rule split_frames_None) simp
  then show ?thesis using iterate_from_eq [of "[]" chunks] assms by (simp add: iterate_sse_frames_def)
qed


section \<open>Reading what a server writes\<close>

text \<open>The reference writer: a frame as the text of an event stream, with either line ending.\<close>

definition frame_lines :: "sse_frame \<Rightarrow> string list" where
  "frame_lines f = (''event: '' @ frame_event f) # map (\<lambda>l. ''data: '' @ l) (py_split nl (frame_data f))"

definition render_frame :: "string \<Rightarrow> sse_frame \<Rightarrow> string" where
  "render_frame eol f = concat (map (\<lambda>l. l @ eol) (frame_lines f)) @ eol"

definition line_text :: "string \<Rightarrow> bool" where
  "line_text s = (nl \<notin> set s \<and> cr \<notin> set s)"

definition frame_ok :: "sse_frame \<Rightarrow> bool" where
  "frame_ok f = (line_text (frame_event f) \<and> cr \<notin> set (frame_data f))"

lemma find_sub_line: "nl \<notin> set l \<Longrightarrow> find_sub [nl, nl] (l @ s) = map_option (\<lambda>i. length l + i) (find_sub [nl, nl] s)"
  by (cases "find_sub [nl, nl] s"; induction l) auto

lemma find_sub_lines:
  assumes "ls \<noteq> []" "\<forall>l \<in> set ls. l \<noteq> [] \<and> nl \<notin> set l"
  shows "find_sub [nl, nl] (concat (map (\<lambda>l. l @ [nl]) ls) @ nl # rest) = Some (length (py_join [nl] ls))"
  using assms
proof (induction ls rule: induct_list012)
  case (2 l)
  then show ?case by (simp add: find_sub_line)
next
  case (3 l m ls)
  obtain c k where m: "m = c # k" "c \<noteq> nl" using 3(4) by (cases m) auto
  have "find_sub [nl, nl] (nl # s) = map_option Suc (find_sub [nl, nl] s)" if "\<exists>t. s = m @ t" for s
    using that m by auto
  then show ?case using 3 by (simp add: find_sub_line option.map_comp comp_def)
qed simp

lemma lines_join: "ls \<noteq> [] \<Longrightarrow> concat (map (\<lambda>l. l @ [nl]) ls) = py_join [nl] ls @ [nl]"
  by (induction ls rule: induct_list012) simp_all

lemma py_split_no: "l \<in> set (py_split c s) \<Longrightarrow> c \<notin> set l \<and> set l \<subseteq> set s"
proof (induction s arbitrary: l)
  case (Cons x s)
  then show ?case by (cases "py_split c s") (fastforce split: if_splits)+
qed simp

lemma frame_lines_ok:
  assumes "frame_ok f"
  shows "\<forall>l \<in> set (frame_lines f). l \<noteq> [] \<and> nl \<notin> set l \<and> cr \<notin> set l"
  using assms by (auto simp: frame_lines_def frame_ok_def line_text_def dest: py_split_no)

lemma rstrip_char_id: "c \<notin> set s \<Longrightarrow> rstrip_char c s = s"
  by (cases s rule: rev_cases) (auto simp: rstrip_char_def)

lemma block_data_lines:
  "\<forall>l \<in> set ls. cr \<notin> set l \<Longrightarrow> fold block_line (map (\<lambda>l. ''data: '' @ l) ls) (e, ds) = (e, ds @ ls)"
  by (induction ls arbitrary: ds) (simp_all add: block_line_def rstrip_char_id)

lemma parse_block_lines:
  assumes "frame_ok f"
  shows "parse_block (py_join [nl] (frame_lines f)) = Some f"
proof -
  have "py_split nl (py_join [nl] (frame_lines f)) = frame_lines f"
    using frame_lines_ok [OF assms] by (intro py_split_join) (auto simp: frame_lines_def)
  moreover have "block_line (''event: '' @ frame_event f) (''message'', []) = (frame_event f, [])"
    using assms by (simp add: block_line_def rstrip_char_id frame_ok_def line_text_def)
  moreover have "fold block_line (map (\<lambda>l. ''data: '' @ l) (py_split nl (frame_data f))) (frame_event f, []) =
      (frame_event f, py_split nl (frame_data f))"
    using assms by (subst block_data_lines) (auto simp: frame_ok_def dest: py_split_no)
  ultimately show ?thesis by (simp add: parse_block_def frame_lines_def py_join_split)
qed

lemma split_rendered:
  assumes "frame_ok f"
  shows "split_frames (render_frame [nl] f @ rest) = (f # fst (split_frames rest), snd (split_frames rest))"
proof -
  let ?j = "py_join [nl] (frame_lines f)"
  have ne: "frame_lines f \<noteq> []" by (simp add: frame_lines_def)
  have r: "render_frame [nl] f @ rest = ?j @ [nl, nl] @ rest"
    by (simp add: render_frame_def lines_join [OF ne])
  have "find_sub [nl, nl] (render_frame [nl] f @ rest) = Some (length ?j)"
    using find_sub_lines [OF ne, of rest] frame_lines_ok [OF assms] by (simp add: render_frame_def)
  from split_frames_Some [OF this] show ?thesis
    unfolding r by (simp add: parse_block_lines [OF assms] option_list_def)
qed

lemma split_all_rendered:
  "\<forall>f \<in> set fs. frame_ok f \<Longrightarrow> split_frames (concat (map (render_frame [nl]) fs)) = (fs, [])"
  by (induction fs) (simp_all add: split_rendered split_frames_None)

lemma crlf_line: "cr \<notin> set l \<Longrightarrow> crlf_to_lf (l @ s) = l @ crlf_to_lf s"
  by (induction l) (auto simp: crlf_Cons)

lemma crlf_lines:
  "\<forall>l \<in> set ls. cr \<notin> set l \<Longrightarrow> eol = [nl] \<or> eol = [cr, nl] \<Longrightarrow>
   crlf_to_lf (concat (map (\<lambda>l. l @ eol) ls) @ eol @ rest) = concat (map (\<lambda>l. l @ [nl]) ls) @ nl # crlf_to_lf rest"
  by (induction ls) (auto simp: crlf_line crlf_Cons)

lemma crlf_rendered:
  "\<forall>f \<in> set fs. frame_ok f \<Longrightarrow> eol = [nl] \<or> eol = [cr, nl] \<Longrightarrow>
   crlf_to_lf (concat (map (render_frame eol) fs)) = concat (map (render_frame [nl]) fs)"
proof (induction fs)
  case (Cons f fs)
  then show ?case using crlf_lines [of "frame_lines f" eol "concat (map (render_frame eol) fs)"]
    frame_lines_ok [of f] by (auto simp: render_frame_def [of _ f])
qed simp

lemma single_cr_line: "cr \<notin> set l \<Longrightarrow> single_cr (l @ s) = single_cr s"
  by (induction l) (auto simp: single_cr_Cons)

lemma single_cr_nl: "single_cr (nl # s) = single_cr s"
  by (auto simp: single_cr_Cons)

lemma single_cr_eol: "eol = [nl] \<or> eol = [cr, nl] \<Longrightarrow> single_cr (eol @ s) = single_cr s"
  by (auto simp: single_cr_Cons)

lemma single_cr_lines:
  "\<forall>l \<in> set ls. cr \<notin> set l \<Longrightarrow> eol = [nl] \<or> eol = [cr, nl] \<Longrightarrow>
   single_cr (concat (map (\<lambda>l. l @ eol) ls) @ s) = single_cr s"
  by (induction ls) (simp_all add: single_cr_line single_cr_eol)

lemma single_cr_rendered:
  "\<forall>f \<in> set fs. frame_ok f \<Longrightarrow> eol = [nl] \<or> eol = [cr, nl] \<Longrightarrow> single_cr (concat (map (render_frame eol) fs))"
proof (induction fs)
  case (Cons f fs)
  then show ?case using frame_lines_ok [of f]
    by (simp add: render_frame_def single_cr_lines single_cr_eol)
qed (simp add: single_cr_def)

lemma rendered_roundtrip:
  assumes "\<forall>f \<in> set fs. frame_ok f" "eol = [nl] \<or> eol = [cr, nl]" "concat chunks = concat (map (render_frame eol) fs)"
  shows "iterate_sse_frames chunks = fs"
  using iterate_sse_frames_eq [of chunks] assms
  by (simp add: single_cr_rendered crlf_rendered split_all_rendered tail_frame_def)


section \<open>Printed JSON has no control characters\<close>

definition printable :: "string \<Rightarrow> bool" where
  "printable s = (\<forall>c \<in> set s. 32 \<le> code c)"

lemma printable_simps [simp]:
  "printable []" "printable (c # s) = (32 \<le> code c \<and> printable s)" "printable (s @ t) = (printable s \<and> printable t)"
  by (auto simp: printable_def)

lemma printable_concat: "\<forall>s \<in> set ss. printable s \<Longrightarrow> printable (concat ss)"
  by (auto simp: printable_def)

lemma printable_join: "printable sep \<Longrightarrow> \<forall>s \<in> set ss. printable s \<Longrightarrow> printable (py_join sep ss)"
  by (induction sep ss rule: py_join.induct) simp_all

lemma printable_digits: "\<forall>c \<in> set s. is_digit c \<Longrightarrow> printable s"
  by (auto simp: printable_def is_digit_def)

lemma printable_dec_int: "printable (dec_int i)"
  using printable_digits [OF dec_nat_digits] by (simp add: dec_int_def) (simp add: code_def)

lemma printable_hex_digit: "n < 16 \<Longrightarrow> 32 \<le> code (hex_digit n)"
  by (simp add: hex_digit_def)

lemma printable_esc: "printable (esc_char c)"
proof -
  have "32 \<le> code (hex_digit (n mod 16))" for n by (simp add: printable_hex_digit)
  moreover have "32 \<le> code (hex_digit 0)" by (simp add: printable_hex_digit)
  ultimately have "printable (hex4 (code c))" by (simp add: hex4_def)
  moreover have "32 \<le> code bsl" "32 \<le> code (CHR ''n'')" "32 \<le> code (CHR ''r'')" "32 \<le> code (CHR ''t'')"
    "32 \<le> code (CHR ''f'')" "32 \<le> code (CHR ''b'')" "32 \<le> code (CHR ''u'')" "32 \<le> code dq"
    by (simp_all add: code_def)
  ultimately show ?thesis by (auto simp: esc_char_def)
qed

lemma printable_dumps_str: "printable (dumps_str s)"
  by (auto simp: dumps_str_def printable_esc intro!: printable_concat) (simp_all add: code_def)

lemma digit_code: "is_digit c \<Longrightarrow> 32 \<le> code c"
  by (simp add: is_digit_def)

lemma printable_takeWhile: "printable (takeWhile is_digit t)"
  by (rule printable_digits) (auto dest: set_takeWhileD)

lemma printable_frac: "p_frac s = (f, r) \<Longrightarrow> printable f"
  by (auto simp: p_frac_def printable_takeWhile digit_code split: list.splits if_splits) (simp_all add: code_def)

lemma printable_exp: "p_exp s = (e, r) \<Longrightarrow> printable e"
proof -
  assume "p_exp s = (e, r)"
  then show ?thesis by (auto simp: p_exp_def p_sign_def Let_def printable_takeWhile split: list.splits if_splits) (auto simp: code_def)
qed

lemma printable_float: "float_lit l \<Longrightarrow> printable (dumps_float l)"
proof -
  assume l: "float_lit l"
  show ?thesis
  proof (cases "l \<in> {''nan'', ''inf'', ''-inf''}")
    case True
    then show ?thesis by (auto simp: dumps_float_def code_def)
  next
    case False
    with l have "parse_num l = Some (PFloat l, [])" by (simp add: float_lit_def)
    moreover have "printable i" if "p_int t = Some (i, r)" for t i r
      using that by (auto simp: p_int_def printable_def is_digit_def code_def split: list.splits if_splits dest!: set_takeWhileD)
    ultimately have "printable l"
      by (auto simp: parse_num_def Let_def printable_frac printable_exp split: option.splits prod.splits if_splits) (auto simp: code_def)
    then show ?thesis using False by (simp add: dumps_float_def)
  qed
qed

lemma printable_dumps: "json_wf v \<Longrightarrow> printable (dumps v)"
proof (induction v)
  case (PList vs)
  then have "printable (py_join '', '' (map dumps vs))"
    by (intro printable_join) (auto simp: list_all_iff code_def)
  then show ?case by (simp add: code_def)
next
  case (PDict d)
  then have "printable (py_join '', '' (map (\<lambda>(k, v). dumps_str k @ '': '' @ dumps v) d))"
    by (intro printable_join) (auto simp: list_all_iff printable_dumps_str code_def)
  then show ?case by (simp add: code_def)
qed (simp_all add: printable_dec_int printable_float printable_dumps_str code_def)

lemma printable_line: "printable s \<Longrightarrow> line_text s"
  by (auto simp: line_text_def printable_def code_def)

section \<open>Events on the wire\<close>

text \<open>The reference encoding of an event as a frame: its fields as a JSON object, absent options as null.\<close>

fun event_frame :: "agent_event \<Rightarrow> sse_frame" where
  "event_frame (AgentTextDelta t) =
     \<lparr>frame_event = ''agent_text_delta'', frame_data = dumps (PDict [(''text'', PStr t)])\<rparr>"
| "event_frame (AgentToolCall i n args) =
     \<lparr>frame_event = ''agent_tool_call'',
      frame_data = dumps (PDict [(''call_id'', PStr i), (''name'', PStr n), (''arguments'', PDict args)])\<rparr>"
| "event_frame (AgentToolResult i n res err) =
     \<lparr>frame_event = ''agent_tool_result'',
      frame_data = dumps (PDict [(''call_id'', PStr i), (''name'', PStr n), (''result'', res), (''error'', opt_str err)])\<rparr>"
| "event_frame (AgentFinish st usage sid) =
     \<lparr>frame_event = ''agent_finish'',
      frame_data = dumps (PDict [(''stop_reason'', PStr st), (''usage'', PDict usage), (''session_id'', opt_str sid)])\<rparr>"

text \<open>Events whose dicts are JSON, whose result is a dict, and whose optional strings are not empty.\<close>

definition json_value :: "pyval \<Rightarrow> bool" where
  "json_value v = (json_wf v \<and> plain v = v)"

fun event_ok :: "agent_event \<Rightarrow> bool" where
  "event_ok (AgentTextDelta t) = True"
| "event_ok (AgentToolCall i n args) = json_value (PDict args)"
| "event_ok (AgentToolResult i n res err) = ((\<exists>d. res = PDict d) \<and> json_value res \<and> err \<noteq> Some [])"
| "event_ok (AgentFinish st usage sid) = (json_value (PDict usage) \<and> sid \<noteq> Some [])"

lemma event_frame_ok: "event_ok e \<Longrightarrow> frame_ok (event_frame e)"
proof -
  have d: "json_wf v \<Longrightarrow> cr \<notin> set (dumps v)" for v
    using printable_line [OF printable_dumps] by (simp add: line_text_def)
  assume "event_ok e"
  then show ?thesis
    by (cases e) (auto simp: frame_ok_def json_value_def opt_str_def line_text_def
        simp del: dumps.simps intro!: d split: option.split)
qed

lemma need_dict_or: "py_dict (py_or (PDict d) (PDict [])) = Inr d"
  by (simp add: py_or_def py_dict_def)

lemma event_frame_decodes: "event_ok e \<Longrightarrow> frame_to_agent_event (event_frame e) = Inr (Some e)"
proof (cases e)
  case (AgentTextDelta t)
  then show ?thesis by (simp add: frame_to_agent_event_def loads_dumps str_field_def get_or_def del: dumps.simps)
next
  case (AgentToolCall i n args)
  moreover assume "event_ok e"
  ultimately show ?thesis
    by (simp add: frame_to_agent_event_def loads_dumps str_field_def dict_field_def get_or_def need_dict_or json_value_def del: dumps.simps)
next
  case (AgentToolResult i n res err)
  moreover assume "event_ok e"
  ultimately show ?thesis
    by (auto simp: frame_to_agent_event_def loads_dumps str_field_def dict_field_def get_or_def need_dict_or
        json_value_def opt_str_def Let_def simp del: dumps.simps split: option.split)
next
  case (AgentFinish st usage sid)
  moreover assume "event_ok e"
  ultimately show ?thesis
    by (auto simp: frame_to_agent_event_def loads_dumps str_field_def dict_field_def get_or_def need_dict_or
        json_value_def opt_str_def session_field_def Let_def simp del: dumps.simps split: option.split)
qed

end
