(* ===== verification/PropertiesRouter.thy ===== *)
theory PropertiesRouter
  imports Router SseFacts MirrorFacts
begin

text \<open>
  The poll loop of the connect flow, and the properties of the agent router: events come back as the
  server wrote them, chunking is irrelevant, which credentials a run carries, and the flow ends.
\<close>


section \<open>The poll loop\<close>

lemma poll_loop_stop: "deadline \<le> clock env n \<Longrightarrow>
    poll_loop api env b sb app scp known tmo deadline n s = Some (s, Inl (poll_timeout tmo))"
  by (subst poll_loop.simps) simp

lemma poll_loop_found: "clock env n < deadline \<Longrightarrow> poll_round api s sb app scp known = (s', Some c) \<Longrightarrow>
    poll_loop api env b sb app scp known tmo deadline n s = Some (s', Inr c)"
  by (subst poll_loop.simps) simp

lemma poll_loop_denied: "clock env n < deadline \<Longrightarrow> poll_round api s sb app scp known = (s', None) \<Longrightarrow>
    b \<Longrightarrow> redirect env n = Some (Some ''error'') \<Longrightarrow>
    poll_loop api env b sb app scp known tmo deadline n s = Some (s', Inl denied)"
  by (subst poll_loop.simps) simp

lemma poll_loop_next: "clock env n < deadline \<Longrightarrow> poll_round api s sb app scp known = (s', None) \<Longrightarrow>
    \<not> (b \<and> redirect env n = Some (Some ''error'')) \<Longrightarrow>
    poll_loop api env b sb app scp known tmo deadline n s =
    poll_loop api env b sb app scp known tmo deadline (Suc n) s'"
  by (subst poll_loop.simps) auto

lemma poll_round_logged:
  "poll_round (logged api) (l, s) sb app scp known =
     ((l @ [integrations_reconcile sb (Some scp) None (Some app)], fst (poll_round api s sb app scp known)),
      snd (poll_round api s sb app scp known))"
  by (simp add: poll_round_def logged_simp split: prod.split)

lemma first_new_is_new: "first_new known cs = Some c \<Longrightarrow> c \<in> set cs \<and> (\<exists>k. source_key c = Inr k \<and> k \<notin> known)"
  by (induction cs) (auto split: sum.splits if_splits)

lemma poll_round_new:
  "poll_round api s sb app scp known = (s', Some c) \<Longrightarrow> \<exists>k. source_key c = Inr k \<and> k \<notin> known"
  using first_new_is_new by (fastforce simp: poll_round_def split: prod.splits sum.splits)

text \<open>With a clock that advances by two seconds from one check to the next, the loop ends, and the number of
  rounds is bounded by the time left.\<close>

lemma poll_loop_ends:
  assumes step: "\<And>i. clock env i + 2000 \<le> clock env (Suc i)"
  shows "\<exists>k s' r. poll_loop (logged api) env b sb app scp known tmo deadline n (l, s) =
      Some ((l @ replicate k (integrations_reconcile sb (Some scp) None (Some app)), s'), r) \<and>
    int k \<le> max 0 ((deadline - clock env n + 1999) div 2000) \<and>
    (case r of Inl e \<Rightarrow> e = poll_timeout tmo \<or> b \<and> e = denied | Inr c \<Rightarrow> \<exists>k. source_key c = Inr k \<and> k \<notin> known)"
    (is "\<exists>k s' r. ?loop n (l, s) = Some ((l @ ?calls k, s'), r) \<and> ?bound n k \<and> ?res r")
proof (induction "nat (deadline - clock env n)" arbitrary: n l s rule: less_induct)
  case less
  obtain s1 p where p: "poll_round api s sb app scp known = (s1, p)" by (metis surj_pair)
  then have pl: "poll_round (logged api) (l, s) sb app scp known = ((l @ ?calls 1, s1), p)"
    by (simp add: poll_round_logged)
  show ?case
  proof (cases "deadline \<le> clock env n")
    case True
    then show ?thesis using poll_loop_stop [OF True] by (intro exI [of _ 0] exI [of _ s] exI [of _ "Inl (poll_timeout tmo)"]) simp
  next
    case False
    then have lt: "clock env n < deadline" by simp
    have one: "?bound n 1" using lt by simp
    show ?thesis
    proof (cases p)
      case (Some c)
      then show ?thesis using poll_loop_found [OF lt pl [unfolded Some]] one poll_round_new [of api s sb app scp known s1 c] p
        by (intro exI [of _ 1]) auto
    next
      case None
      show ?thesis
      proof (cases "b \<and> redirect env n = Some (Some ''error'')")
        case True
        then show ?thesis using poll_loop_denied [OF lt pl [unfolded None]] one by (intro exI [of _ 1]) auto
      next
        case False
        have "nat (deadline - clock env (Suc n)) < nat (deadline - clock env n)" using step [of n] lt by linarith
        from less [OF this, of "l @ ?calls 1" s1] obtain k s' r where
          k: "?loop (Suc n) (l @ ?calls 1, s1) = Some (((l @ ?calls 1) @ ?calls k, s'), r)" "?bound (Suc n) k" "?res r"
          by blast
        have "(deadline - clock env (Suc n) + 1999) div 2000 + 1 \<le> (deadline - clock env n + 1999) div 2000"
          using step [of n] by linarith
        then have "?bound n (Suc k)" using k(2) one by linarith
        moreover have "?loop n (l, s) = Some ((l @ ?calls (Suc k), s'), r)"
          using poll_loop_next [OF lt pl [unfolded None] False] k(1) by simp
        ultimately show ?thesis using k(3) by blast
      qed
    qed
  qed
qed

section \<open>Properties\<close>

text \<open>Claim C26. A run of an agent yields exactly the events the server wrote: when the response is the text
  of an event stream, with either line ending and split into chunks anywhere, the events come back
  in order and nothing is raised.\<close>

theorem router_run_reads_events:
  assumes "\<forall>e \<in> set es. event_ok e" "eol = [nl] \<or> eol = [cr, nl]"
    "router_request ar opts sb = Inr rq" "http rq = Inr resp" "sr_status resp < 400"
    "concat (sr_chunks resp) = concat (map (\<lambda>e. render_frame eol (event_frame e)) es)"
  shows "router_run http ar opts sb = (es, None)"
proof -
  have "iterate_sse_frames (sr_chunks resp) = map event_frame es"
    using assms(1,2,6) by (intro rendered_roundtrip [of _ eol]) (auto simp: event_frame_ok comp_def)
  moreover have "yield_events (map event_frame es) = (es, None)"
    using assms(1) by (induction es) (simp_all add: event_frame_decodes del: event_frame.simps)
  ultimately show ?thesis using assms(3-5) by (simp add: router_run_def)
qed

definition ex_router :: agent_router where
  "ex_router = \<lparr>ar_client = \<lparr>client_http = make_http_client ''https://ai.copass.id'' (ApiKeyAuthProvider ''olk_1'') None [] [] (\<lambda>q. []),
      attr_auth_provider = None\<rparr>, ar_api_url = ''https://ai.copass.id'', ar_sandbox_id = ''sb''\<rparr>"

definition ex_options :: run_agent_options where
  "ex_options = \<lparr>ro_provider = ''anthropic'', ro_model = ''m'', ro_system = ''s'', ro_end_user_id = ''u'',
     ro_message = Some ''hi'', ro_messages = None, ro_session_id = None, ro_reasoning_engine_id = None, ro_location = None\<rparr>"

definition ex_stream :: "agent_event list" where
  "ex_stream = [AgentTextDelta (''one'' @ nl # ''two''), AgentFinish ''end_turn'' [] (Some ''s1'')]"

definition ex_response :: stream_response where
  "ex_response = \<lparr>sr_status = 200, sr_text = [],
     sr_chunks = map (\<lambda>c. [c]) (concat (map (\<lambda>e. render_frame [cr, nl] (event_frame e)) ex_stream))\<rparr>"

theorem router_run_reads_events_witness:
  "router_run (\<lambda>rq. Inr ex_response) ex_router ex_options None = (ex_stream, None)"
proof -
  obtain rq where rq: "router_request ex_router ex_options None = Inr rq"
    by (simp add: router_request_def ex_router_def ex_options_def run_messages_def)
  have ok: "\<forall>e \<in> set ex_stream. event_ok e" by (simp add: ex_stream_def json_value_def)
  have c: "concat (map (\<lambda>c. [c]) s) = s" for s :: string by (induction s) simp_all
  show ?thesis by (rule router_run_reads_events [OF ok _ rq, of "[cr, nl]" _ ex_response]) (simp_all add: ex_response_def c)
qed

text \<open>Claim C27. How a stream is cut into chunks makes no difference to its frames, unless a carriage return
  stands before a CRLF.\<close>

theorem chunking_is_irrelevant:
  assumes "concat chunks = concat chunks'" "single_cr (concat chunks)"
  shows "iterate_sse_frames chunks = iterate_sse_frames chunks'"
  using assms by (simp add: iterate_sse_frames_eq)

definition ex_text :: string where
  "ex_text = ''data: a'' @ [cr, nl, cr, nl] @ ''data: b'' @ [nl]"

theorem chunking_is_irrelevant_witness:
  "iterate_sse_frames [ex_text] = iterate_sse_frames (map (\<lambda>c. [c]) ex_text)"
proof -
  have c: "concat (map (\<lambda>c. [c]) s) = s" for s :: string by (induction s) simp_all
  have "single_cr ex_text" by (simp add: ex_text_def single_cr_Cons single_cr_def [of "[]"])
  then show ?thesis using chunking_is_irrelevant [of "[ex_text]" "map (\<lambda>c. [c]) ex_text"] by (simp add: c)
qed

text \<open>The exception is real: the same text, whole and in two chunks.\<close>

lemma cr_before_crlf_depends_on_chunks:
  "iterate_sse_frames [''data: a'' @ [nl, cr, cr, nl] @ ''data: b''] \<noteq>
   iterate_sse_frames [''data: a'' @ [nl, cr, cr, nl], ''data: b'']"
  by code_simp

text \<open>A router that builds its own client sends no credentials with a run: the client has no
  attribute from which the router reads them.\<close>

theorem router_run_sends_no_credentials:
  assumes "make_agent_router auth sb url None enc = Inr ar" "router_request ar opts sid = Inr rq"
  shows "dict_keys (rr_headers rq) = [''content-type'', ''accept'']"
proof -
  have "attr_auth_provider (ar_client ar) = None"
    using assms(1) by (cases "build_auth_provider auth") (auto simp: make_agent_router_def make_copass_client_def)
  then show ?thesis using assms(2)
    by (auto simp: router_request_def run_headers_def Let_def split: if_splits sum.splits)
qed

theorem router_run_sends_no_credentials_witness:
  "\<exists>rq. router_request ex_router ex_options None = Inr rq \<and> dict_keys (rr_headers rq) = [''content-type'', ''accept'']"
proof -
  have m: "make_agent_router (ApiKeyAuth ''olk_1'') ''sb'' ''https://ai.copass.id'' None (\<lambda>q. []) = Inr ex_router"
    by (simp add: make_agent_router_def make_copass_client_def make_api_key_provider_def ex_router_def)
  obtain rq where rq: "router_request ex_router ex_options None = Inr rq"
    by (simp add: router_request_def ex_router_def ex_options_def run_messages_def)
  show ?thesis by (rule exI [of _ rq]) (rule conjI [OF rq router_run_sends_no_credentials [OF m rq]])
qed

text \<open>Claim C28. The connect flow ends when the clock advances by the two seconds of each pause: it lists the
  connections once, asks for one connect URL, and polls a bounded number of times, whatever the
  service answers; and the connection it returns was not in the snapshot.\<close>

theorem connect_flow_terminates:
  assumes "\<And>i. clock env i + 2000 \<le> clock env (Suc i)"
  shows "\<exists>k u v s' r. run_connect_flow (logged api) env started cb local (l, s) sb app scp proj tmo ok err =
      Some ((l @ [integrations_list sb (Some app), integrations_connect sb app u v (Some scp) proj None] @
        replicate k (integrations_reconcile sb (Some scp) None (Some app)), s'), r) \<and>
    int k \<le> max 0 ((started + tmo - clock env 0 + 1999) div 2000) \<and>
    (case r of Inl e \<Rightarrow> True
     | Inr res \<Rightarrow> \<exists>key. source_key (cf_connection res) = Inr key \<and> key \<notin> snd (snapshot api s sb app))"
proof -
  obtain s1 known where sn: "snapshot api s sb app = (s1, known)" by (metis surj_pair)
  then have snl: "snapshot (logged api) (l, s) sb app = ((l @ [integrations_list sb (Some app)], s1), known)"
    by (auto simp: snapshot_def logged_simp split: prod.splits)
  let ?lis = "ok = None \<or> err = None"
  define u where "u = (if ?lis then or_else ok (fst local) else the ok)"
  define v where "v = (if ?lis then or_else err (snd local) else the err)"
  define c where "c = integrations_connect sb app u v (Some scp) proj None"
  let ?l2 = "l @ [integrations_list sb (Some app), c]"
  obtain s2 q where q: "api s1 c = (s2, q)" by (metis surj_pair)
  then have ql: "logged api (l @ [integrations_list sb (Some app)], s1) c = ((?l2, s2), q)" by (simp add: logged_simp)
  note flow = run_connect_flow_def snl prod.case Let_def u_def [symmetric] v_def [symmetric] c_def [symmetric] ql
  show ?thesis
  proof (cases "\<exists>r0 sid url. q = Inr r0 \<and> str_item r0 ''session_id'' = Inr sid \<and> str_item r0 ''connect_url'' = Inr url \<and> cb url = None")
    case True
    then obtain r0 sid url where r0: "q = Inr r0" "str_item r0 ''session_id'' = Inr sid"
      "str_item r0 ''connect_url'' = Inr url" "cb url = None" by blast
    from poll_loop_ends [where env = env and api = api and b = ?lis and sb = sb and app = app and scp = scp and known = known
        and tmo = tmo and deadline = "started + tmo" and n = 0 and l = ?l2 and s = s2, OF assms]
    obtain k s' r where k: "poll_loop (logged api) env ?lis sb app scp known tmo (started + tmo) 0 (?l2, s2) =
        Some ((?l2 @ replicate k (integrations_reconcile sb (Some scp) None (Some app)), s'), r)"
      "int k \<le> max 0 ((started + tmo - clock env 0 + 1999) div 2000)"
      "case r of Inl e \<Rightarrow> e = poll_timeout tmo \<or> ?lis \<and> e = denied | Inr c \<Rightarrow> \<exists>k. source_key c = Inr k \<and> k \<notin> known"
      by blast
    have "run_connect_flow (logged api) env started cb local (l, s) sb app scp proj tmo ok err =
        Some ((?l2 @ replicate k (integrations_reconcile sb (Some scp) None (Some app)), s'),
          map_sum id (\<lambda>c. \<lparr>cf_connection = c, cf_session_id = sid\<rparr>) r)"
      unfolding flow r0 k(1) by (simp add: r0 k(1))
    then show ?thesis using k(2,3) sn unfolding c_def
      by (intro exI [of _ k] exI [of _ u] exI [of _ v] exI [of _ s']
          exI [of _ "map_sum id (\<lambda>c. \<lparr>cf_connection = c, cf_session_id = sid\<rparr>) r"]) (auto split: sum.splits)
  next
    case False
    then have "\<exists>e. run_connect_flow (logged api) env started cb local (l, s) sb app scp proj tmo ok err =
        Some ((?l2, s2), Inl e)"
      unfolding flow by (auto split: sum.splits option.splits)
    then obtain e where "run_connect_flow (logged api) env started cb local (l, s) sb app scp proj tmo ok err =
        Some ((?l2, s2), Inl e)" ..
    then show ?thesis unfolding c_def
      by (intro exI [of _ 0] exI [of _ u] exI [of _ v] exI [of _ s2] exI [of _ "Inl e"]) simp
  qed
qed

definition ex_env :: flow_env where
  "ex_env = \<lparr>clock = (\<lambda>n. 2000 * int n), redirect = (\<lambda>n. None)\<rparr>"

text \<open>A service that counts its calls and never completes the connection.\<close>

definition ex_api :: "nat api" where
  "ex_api n c = (Suc n, Inr (PDict [(''session_id'', PStr ''cs_1''), (''connect_url'', PStr ''https://connect''),
     (''items'', PList [])]))"

theorem connect_flow_terminates_witness:
  "\<exists>l' s' r. run_connect_flow (logged ex_api) ex_env 0 (\<lambda>u. None) (''s'', ''e'') ([], 0) ''sb'' ''slack'' ''user''
     None 5000 None None = Some ((l', s'), r) \<and> length l' \<le> 5"
proof -
  have "clock ex_env i + 2000 \<le> clock ex_env (Suc i)" for i by (simp add: ex_env_def)
  from connect_flow_terminates [where env = ex_env and api = ex_api and started = 0 and cb = "\<lambda>u. None"
      and local = "(''s'', ''e'')" and l = "[]" and s = "0" and sb = "''sb''" and app = "''slack''" and scp = "''user''"
      and proj = None and tmo = 5000 and ok = None and err = None, OF this]
  obtain k u v s' r where "run_connect_flow (logged ex_api) ex_env 0 (\<lambda>u. None) (''s'', ''e'') ([], 0) ''sb'' ''slack'' ''user''
      None 5000 None None = Some (([] @ [integrations_list ''sb'' (Some ''slack''),
        integrations_connect ''sb'' ''slack'' u v (Some ''user'') None None] @
        replicate k (integrations_reconcile ''sb'' (Some ''user'') None (Some ''slack'')), s'), r)"
    "int k \<le> max 0 ((0 + 5000 - clock ex_env 0 + 1999) div 2000)" by blast
  then show ?thesis by (auto simp: ex_env_def)
qed

end
