(* ===== verification/StreamV1.thy ===== *)
theory StreamV1
  imports StreamV2Facts
begin

text \<open>
  The event loop of \<open>ManagedAgentBackend.stream\<close> (\<open>backends/managed_agent_backend.py\<close>): the buffers of
  pending tool-use events and of their envelopes, recovery from the session's log, execution of
  the pending tools, the soft POST of their replies and the dispatch over the SDK events. Actions
  and control flow are those of \<open>StreamV2\<close>. The server is a parameter: the outcome of each POST given
  all POSTs so far, and what each reading of the session's log yields before it ends or raises.
\<close>

section \<open>Event types\<close>

definition V1_TOOL_USE_EVENT_TYPES :: "string list" where
  "V1_TOOL_USE_EVENT_TYPES = [''agent.custom_tool_use'', ''agent.tool_use'', ''agent.mcp_tool_use'']"

definition V1_IDLE_EVENT_TYPES :: "string list" where
  "V1_IDLE_EVENT_TYPES = [''session.status_idle'', ''session.thread_status_idle'']"

definition V1_TERMINATED_EVENT_TYPES :: "string list" where
  "V1_TERMINATED_EVENT_TYPES = [''session.status_terminated'', ''session.thread_status_terminated'']"

definition V1_KNOWN_NOOP_EVENT_TYPES :: "string list" where
  "V1_KNOWN_NOOP_EVENT_TYPES =
     [''session.status_running'', ''session.status_rescheduled'', ''session.deleted'',
      ''session.thread_status_running'', ''user.message'', ''user.custom_tool_result'',
      ''user.tool_confirmation'', ''user.tool_result'', ''user.interrupt'', ''agent.thinking'',
      ''agent.thread_context_compacted'', ''agent.tool_result'', ''agent.mcp_tool_result'',
      ''span.model_request_start'']"

section \<open>State\<close>

record v1_server =
  v1_send_outcome :: "pydict list list \<Rightarrow> pydict list \<Rightarrow> exn option"
  session_log :: "nat \<Rightarrow> sdk_event list \<times> exn option"

record v1_state =
  pending_tool_events :: "(string, sdk_event) dict"
  pending_tool_envelope :: "(string, string) dict"
  v1_usage :: "(string, int) dict"
  v1_seen_unknown_event_types :: "string list"
  v1_posted :: "pydict list list"
  log_reads :: nat

definition v1_init :: v1_state where
  "v1_init = \<lparr>pending_tool_events = [], pending_tool_envelope = [], v1_usage = [],
     v1_seen_unknown_event_types = [], v1_posted = [], log_reads = 0\<rparr>"

record v1_run =
  v1_server_of :: v1_server
  v1_tools :: tool_registry
  v1_context :: invocation_context
  v1_session :: string

type_synonym v1_handled = "v2_action list \<times> v1_state \<times> flow"

text \<open>One tuple of \<open>_execute_pending_tools\<close>.\<close>

record tool_outcome =
  out_id :: string
  out_name :: string
  out_result :: pydict
  out_error :: "string option"
  out_source :: string

section \<open>POSTs and finishes\<close>

definition v1_try_send :: "v1_run \<Rightarrow> v1_state \<Rightarrow> pydict list \<Rightarrow> exn option" where
  "v1_try_send R st events = v1_send_outcome (v1_server_of R) (v1_posted st) events"

definition v1_note_post :: "pydict list \<Rightarrow> v1_state \<Rightarrow> v1_state" where
  "v1_note_post events st = st\<lparr>v1_posted := v1_posted st @ [events]\<rparr>"

definition v1_finish :: "v1_run \<Rightarrow> v1_state \<Rightarrow> string \<Rightarrow> agent_event" where
  "v1_finish R st reason =
     AgentFinish reason (map (\<lambda>(k, n). (k, PInt n)) (v1_usage st)) (Some (v1_session R))"

definition v1_finish_now :: "v1_run \<Rightarrow> v1_state \<Rightarrow> string \<Rightarrow> v1_handled" where
  "v1_finish_now R st reason = ([Yield (v1_finish R st reason)], st, Break)"

text \<open>\<open>_send_events_soft\<close>: a refused POST is followed by an interrupt and returned.\<close>

definition send_events_soft :: "v1_run \<Rightarrow> pydict list \<Rightarrow> v1_state \<Rightarrow> v2_action list \<times> v1_state \<times> exn option" where
  "send_events_soft R events st =
     (let st1 = v1_note_post events st
      in case v1_try_send R st events of
           None \<Rightarrow> ([Post events], st1, None)
         | Some exc \<Rightarrow> ([Post events, Post interrupt_events], v1_note_post interrupt_events st1, Some exc))"

section \<open>Replies\<close>

definition serialize_tool_result_v1 :: "pydict \<Rightarrow> string option \<Rightarrow> string" where
  "serialize_tool_result_v1 result error =
     (let payload = [(''result'', PDict result)];
          payload = (case error of Some (c # cs) \<Rightarrow> dict_set ''error'' (PStr (c # cs)) payload
                                 | _ \<Rightarrow> payload)
      in dumps (PDict payload))"

definition build_user_event_for_tool_use :: "string \<Rightarrow> string \<Rightarrow> pydict \<Rightarrow> string option \<Rightarrow> pydict" where
  "build_user_event_for_tool_use source_type eid result error =
     (let custom = [(''type'', PStr ''user.custom_tool_result''), (''custom_tool_use_id'', PStr eid),
            (''content'', PList [PDict [(''type'', PStr ''text''),
               (''text'', PStr (serialize_tool_result_v1 result error))]])]
      in if source_type = ''agent.custom_tool_use'' then custom
         else if source_type \<in> set [''agent.tool_use'', ''agent.mcp_tool_use'']
         then [(''type'', PStr ''user.tool_confirmation''), (''tool_use_id'', PStr eid),
               (''result'', PStr ''allow'')]
         else custom)"

definition reply_to :: "tool_outcome \<Rightarrow> pydict" where
  "reply_to r = build_user_event_for_tool_use (out_source r) (out_id r) (out_result r) (out_error r)"

section \<open>Executing pending tools\<close>

definition execute_pending_tool :: "v1_run \<Rightarrow> v1_state \<Rightarrow> string \<Rightarrow> v2_action list \<times> tool_outcome" where
  "execute_pending_tool R st eid =
     (let src_type = (case dict_get (pending_tool_envelope st) eid of
                        None \<Rightarrow> ''agent.custom_tool_use'' | Some s \<Rightarrow> s)
      in case dict_get (pending_tool_events st) eid of
           None \<Rightarrow> ([], \<lparr>out_id = eid, out_name = ''<unknown>'', out_result = [],
                      out_error = Some ''tool event not found'', out_source = src_type\<rparr>)
         | Some tool_event \<Rightarrow>
             (let name = name_or_empty tool_event;
                  outcome = (\<lambda>result error. \<lparr>out_id = eid, out_name = name, out_result = result,
                               out_error = error, out_source = src_type\<rparr>)
              in if src_type \<noteq> ''agent.custom_tool_use''
                 then ([], outcome [(''confirmed'', PBool True)] None)
                 else
                   (let arguments = input_arguments (evt_input tool_event)
                    in case registry_try_get (v1_tools R) name of
                         None \<Rightarrow> ([], outcome [] (Some (''tool '' @ repr_str name @ '' not registered'')))
                       | Some t \<Rightarrow>
                           ([Invoke eid name arguments],
                            case tool_invoke t arguments (Some (v1_context R)) of
                              Inl tool_err \<Rightarrow> outcome [] (Some (''tool raised: '' @ exn_str tool_err))
                            | Inr (PDict d) \<Rightarrow> outcome d None
                            | Inr v \<Rightarrow> outcome [(''value'', v)] None))))"

definition execute_pending_tools :: "v1_run \<Rightarrow> v1_state \<Rightarrow> string list \<Rightarrow> v2_action list \<times> tool_outcome list" where
  "execute_pending_tools R st event_ids =
     (concat (map (fst \<circ> execute_pending_tool R st) event_ids),
      map (snd \<circ> execute_pending_tool R st) event_ids)"

section \<open>Recovery from the log\<close>

text \<open>\<open>needed\<close> shrinks as ids are found; whatever the listing raises is swallowed.\<close>

fun rehydrate_events ::
    "sdk_event list \<Rightarrow> string list \<Rightarrow> (string, sdk_event) dict \<times> (string, string) dict \<Rightarrow>
     (string, sdk_event) dict \<times> (string, string) dict" where
  "rehydrate_events [] needed bufs = bufs"
| "rehydrate_events (ev # evs) needed bufs =
     (if needed = [] then bufs
      else case evt_id ev of
             Some (c # cs) \<Rightarrow>
               (let i = c # cs
                in if i \<notin> set needed \<or> evt_type ev \<notin> Some ` set V1_TOOL_USE_EVENT_TYPES then rehydrate_events evs needed bufs
                   else rehydrate_events evs (removeAll i needed)
                          (dict_set i ev (fst bufs), dict_set i (the (evt_type ev)) (snd bufs)))
           | _ \<Rightarrow> rehydrate_events evs needed bufs)"

definition rehydrate_pending_tool_events :: "v1_run \<Rightarrow> string list \<Rightarrow> v1_state \<Rightarrow> v1_state" where
  "rehydrate_pending_tool_events R missing_ids st =
     (if missing_ids = [] then st
      else (case rehydrate_events (fst (session_log (v1_server_of R) (log_reads st))) missing_ids
                   (pending_tool_events st, pending_tool_envelope st) of
              (pending, envelope) \<Rightarrow>
                st\<lparr>pending_tool_events := pending, pending_tool_envelope := envelope,
                   log_reads := Suc (log_reads st)\<rparr>))"

definition not_buffered :: "v1_state \<Rightarrow> string list \<Rightarrow> string list" where
  "not_buffered st event_ids = filter (\<lambda>i. dict_get (pending_tool_events st) i = None) event_ids"

section \<open>The handlers\<close>

definition v1_on_message :: "sdk_event \<Rightarrow> v1_state \<Rightarrow> v1_handled" where
  "v1_on_message ev st =
     (concat (map (\<lambda>b. if block_type b = Some ''text''
                       then (case block_text b of
                               Some (c # cs) \<Rightarrow> [Yield (AgentTextDelta (c # cs))]
                             | _ \<Rightarrow> [])
                       else []) (evt_content ev)),
      st, Continue)"

definition v1_missing_id_error :: "sdk_event \<Rightarrow> exn" where
  "v1_missing_id_error ev = RuntimeError (''ManagedAgentBackend: tool-use event ('' @
     py_str (opt_str (evt_type ev)) @ '') arrived without an id (name='' @
     repr_str (name_or_empty ev) @ ''); cannot respond - aborting run'')"

definition v1_on_tool_use :: "sdk_event \<Rightarrow> v1_state \<Rightarrow> v1_handled" where
  "v1_on_tool_use ev st =
     (case evt_id ev of
        Some (c # cs) \<Rightarrow>
          ([Yield (AgentToolCall (c # cs) (name_or_empty ev) (input_arguments (evt_input ev)))],
           st\<lparr>pending_tool_events := dict_set (c # cs) ev (pending_tool_events st),
              pending_tool_envelope := dict_set (c # cs) (the (evt_type ev)) (pending_tool_envelope st)\<rparr>,
           Continue)
      | _ \<Rightarrow> ([], st, Raise (v1_missing_id_error ev)))"

definition pop_results :: "tool_outcome list \<Rightarrow> v1_state \<Rightarrow> v1_state" where
  "pop_results results st =
     st\<lparr>pending_tool_events := fold (dict_pop \<circ> out_id) results (pending_tool_events st),
        pending_tool_envelope := fold (dict_pop \<circ> out_id) results (pending_tool_envelope st)\<rparr>"

definition result_event :: "tool_outcome \<Rightarrow> agent_event" where
  "result_event r = AgentToolResult (out_id r) (out_name r) (PDict (out_result r)) (out_error r)"

definition v1_answer :: "v1_run \<Rightarrow> string list \<Rightarrow> v1_state \<Rightarrow> v1_handled" where
  "v1_answer R event_ids st =
     (case execute_pending_tools R st event_ids of
        (acts1, results) \<Rightarrow>
          (let acts2 = acts1 @ map (Yield \<circ> result_event) results
           in if results = [] then (acts2, st, Continue)
              else (case send_events_soft R (map reply_to results) st of
                      (acts3, st1, Some exc) \<Rightarrow>
                        (acts2 @ acts3 @ [Yield (v1_finish R st1 ''error'')], st1, Break)
                    | (acts3, st1, None) \<Rightarrow> (acts2 @ acts3, pop_results results st1, Continue))))"

definition v1_on_requires_action :: "v1_run \<Rightarrow> sdk_stop \<Rightarrow> v1_state \<Rightarrow> v1_handled" where
  "v1_on_requires_action R stop st =
     (let event_ids = stop_event_ids stop;
          missing = not_buffered st event_ids;
          st1 = rehydrate_pending_tool_events R missing st
      in if missing \<noteq> [] \<and> not_buffered st1 event_ids \<noteq> []
         then ([Post interrupt_events, Yield (v1_finish R (v1_note_post interrupt_events st1) ''error'')],
               v1_note_post interrupt_events st1, Break)
         else v1_answer R event_ids st1)"

definition v1_on_idle :: "v1_run \<Rightarrow> sdk_event \<Rightarrow> v1_state \<Rightarrow> v1_handled" where
  "v1_on_idle R ev st =
     (let st_type = (case evt_stop_reason ev of None \<Rightarrow> None | Some stop \<Rightarrow> stop_type stop)
      in if st_type = Some ''requires_action''
         then v1_on_requires_action R (the (evt_stop_reason ev)) st
         else if st_type = Some ''end_turn'' then v1_finish_now R st ''end_turn''
         else v1_finish_now R st (case st_type of Some (c # cs) \<Rightarrow> c # cs | _ \<Rightarrow> ''unknown''))"

definition v1_on_model_request_end :: "sdk_event \<Rightarrow> v1_state \<Rightarrow> v1_handled" where
  "v1_on_model_request_end ev st =
     ([], (case evt_model_usage ev of
             None \<Rightarrow> st
           | Some mu \<Rightarrow> st\<lparr>v1_usage := add_usage mu (v1_usage st)\<rparr>), Continue)"

definition v1_on_unknown :: "sdk_event \<Rightarrow> v1_state \<Rightarrow> v1_handled" where
  "v1_on_unknown ev st =
     ([], (case evt_type ev of
             Some (c # cs) \<Rightarrow>
               st\<lparr>v1_seen_unknown_event_types := List.insert (c # cs) (v1_seen_unknown_event_types st)\<rparr>
           | _ \<Rightarrow> st), Continue)"

section \<open>Dispatch and loop\<close>

definition v1_on_event :: "v1_run \<Rightarrow> sdk_event \<Rightarrow> v1_state \<Rightarrow> v1_handled" where
  "v1_on_event R ev st =
     (let t = evt_type ev
      in if t = Some ''agent.message'' then v1_on_message ev st
         else if t \<in> Some ` set V1_TOOL_USE_EVENT_TYPES then v1_on_tool_use ev st
         else if t \<in> Some ` set V1_IDLE_EVENT_TYPES then v1_on_idle R ev st
         else if t \<in> Some ` set V1_TERMINATED_EVENT_TYPES then v1_finish_now R st ''terminated''
         else if t = Some ''session.error'' then v1_finish_now R st ''error''
         else if t = Some ''span.model_request_end'' then v1_on_model_request_end ev st
         else if t \<in> Some ` set V1_KNOWN_NOOP_EVENT_TYPES then ([], st, Continue)
         else v1_on_unknown ev st)"

text \<open>A stream that ends by itself ends the generator without a finish.\<close>

fun v1_event_loop :: "v1_run \<Rightarrow> exn option \<Rightarrow> sdk_event list \<Rightarrow> v1_state \<Rightarrow> v2_action list \<times> exn option" where
  "v1_event_loop R stream_end [] st = ([], stream_end)"
| "v1_event_loop R stream_end (ev # evs) st =
     (case v1_on_event R ev st of
        (acts, st', Continue) \<Rightarrow>
          (case v1_event_loop R stream_end evs st' of (acts', e) \<Rightarrow> (acts @ acts', e))
      | (acts, st', Break) \<Rightarrow> (acts, None)
      | (acts, st', Raise e) \<Rightarrow> (acts, Some e))"

definition v1_stream_body ::
    "v1_run \<Rightarrow> pydict list \<Rightarrow> exn option \<Rightarrow> sdk_event list \<Rightarrow> v2_action list \<times> exn option" where
  "v1_stream_body R user_events stream_end evs =
     (case v1_try_send R v1_init user_events of
        Some e \<Rightarrow> ([Post user_events], Some e)
      | None \<Rightarrow>
          (case v1_event_loop R stream_end evs (v1_note_post user_events v1_init) of
             (acts, e) \<Rightarrow> (Post user_events # acts, e)))"

definition v1_finally_actions :: "string option \<Rightarrow> bool \<Rightarrow> v2_action list" where
  "v1_finally_actions created delete_on_finish =
     CloseStream # (case created of
        Some (c # cs) \<Rightarrow> if delete_on_finish then [DeleteSession (c # cs)] else []
      | _ \<Rightarrow> [])"

end
