(* ===== verification/StreamV1Facts.thy ===== *)
theory StreamV1Facts
  imports StreamV1
begin

text \<open>
  What the event loop of \<open>StreamV1\<close> does: the invariant of the two buffers, the case analysis of one
  event, and by induction over the stream what is yielded and posted.
\<close>

section \<open>The buffers\<close>

text \<open>\<open>E\<close> is the set of events the backend may have seen: those streamed and those in the log.\<close>

definition v1_inv :: "sdk_event set \<Rightarrow> v1_state \<Rightarrow> bool" where
  "v1_inv E st \<longleftrightarrow> (\<forall>i ev. dict_get (pending_tool_events st) i = Some ev \<longrightarrow>
     ev \<in> E \<and> evt_id ev = Some i \<and> i \<noteq> [] \<and>
     (\<exists>t \<in> set V1_TOOL_USE_EVENT_TYPES. evt_type ev = Some t \<and> dict_get (pending_tool_envelope st) i = Some t))"

lemma v1_inv_init [simp]: "v1_inv E v1_init"
  by (simp add: v1_inv_def v1_init_def)

lemma v1_inv_cong:
  "pending_tool_events st' = pending_tool_events st \<Longrightarrow> pending_tool_envelope st' = pending_tool_envelope st \<Longrightarrow>
   v1_inv E st' = v1_inv E st"
  by (simp add: v1_inv_def)

lemma v1_inv_note [simp]: "v1_inv E (v1_note_post b st) = v1_inv E st"
  by (rule v1_inv_cong) (simp_all add: v1_note_post_def)

lemma v1_inv_call:
  "v1_inv E st \<Longrightarrow> ev \<in> E \<Longrightarrow> evt_id ev = Some i \<Longrightarrow> i \<noteq> [] \<Longrightarrow> evt_type ev = Some t \<Longrightarrow>
   t \<in> set V1_TOOL_USE_EVENT_TYPES \<Longrightarrow>
   v1_inv E (st\<lparr>pending_tool_events := dict_set i ev (pending_tool_events st),
     pending_tool_envelope := dict_set i t (pending_tool_envelope st)\<rparr>)"
  by (auto simp: v1_inv_def)

lemma dict_get_pops: "dict_get (fold (dict_pop \<circ> f) rs d) k = (if k \<in> f ` set rs then None else dict_get d k)"
  by (induction rs arbitrary: d) auto

lemma v1_inv_pop: "v1_inv E st \<Longrightarrow> v1_inv E (pop_results rs st)"
  by (auto simp: v1_inv_def pop_results_def dict_get_pops)

definition logged_events :: "v1_run \<Rightarrow> sdk_event set" where
  "logged_events R = (\<Union>n. set (fst (session_log (v1_server_of R) n)))"

lemma rehydrate_events_get:
  "rehydrate_events evs needed (p, e) = (p', e') \<Longrightarrow>
   dict_get p' i = dict_get p i \<and> dict_get e' i = dict_get e i \<or>
   (\<exists>ev \<in> set evs. \<exists>t \<in> set V1_TOOL_USE_EVENT_TYPES. i \<in> set needed \<and> i \<noteq> [] \<and> evt_id ev = Some i \<and>
      evt_type ev = Some t \<and> dict_get p' i = Some ev \<and> dict_get e' i = Some t)"
proof (induction evs arbitrary: needed p e)
  case (Cons ev evs)
  note IH = Cons.IH
  show ?case
  proof (cases "\<exists>c cs t. evt_id ev = Some (c # cs) \<and> c # cs \<in> set needed \<and> evt_type ev = Some t \<and>
      t \<in> set V1_TOOL_USE_EVENT_TYPES")
    case True
    then obtain c cs t where ev: "evt_id ev = Some (c # cs)" "c # cs \<in> set needed" "evt_type ev = Some t"
      "t \<in> set V1_TOOL_USE_EVENT_TYPES" by blast
    then have "needed \<noteq> []" by auto
    with ev Cons.prems have rest: "rehydrate_events evs (removeAll (c # cs) needed)
        (dict_set (c # cs) ev p, dict_set (c # cs) t e) = (p', e')" by (simp add: Let_def)
    from IH [OF this] ev show ?thesis by (cases "i = c # cs") auto
  next
    case False
    then have "needed = [] \<and> (p', e') = (p, e) \<or> rehydrate_events evs needed (p, e) = (p', e')"
      using Cons.prems by (auto simp: Let_def split: option.splits list.splits if_splits)
    with IH [of needed p e] show ?thesis by auto
  qed
qed simp

lemma rehydrate_get:
  "let st' = rehydrate_pending_tool_events R missing st
   in dict_get (pending_tool_events st') i = dict_get (pending_tool_events st) i \<and>
      dict_get (pending_tool_envelope st') i = dict_get (pending_tool_envelope st) i \<or>
   (\<exists>ev \<in> logged_events R. \<exists>t \<in> set V1_TOOL_USE_EVENT_TYPES. i \<in> set missing \<and> i \<noteq> [] \<and> evt_id ev = Some i \<and>
      evt_type ev = Some t \<and> dict_get (pending_tool_events st') i = Some ev \<and>
      dict_get (pending_tool_envelope st') i = Some t)"
proof -
  obtain p e where r: "rehydrate_events (fst (session_log (v1_server_of R) (log_reads st))) missing
      (pending_tool_events st, pending_tool_envelope st) = (p, e)" by fastforce
  have "set (fst (session_log (v1_server_of R) (log_reads st))) \<subseteq> logged_events R"
    by (auto simp: logged_events_def)
  with rehydrate_events_get [OF r, of i] show ?thesis
    by (auto simp: rehydrate_pending_tool_events_def Let_def r)
qed

lemma v1_inv_rehydrate:
  assumes "v1_inv E st" "logged_events R \<subseteq> E"
  shows "v1_inv E (rehydrate_pending_tool_events R missing st)"
  unfolding v1_inv_def
proof (intro allI impI, goal_cases)
  case (1 i ev)
  from rehydrate_get [of R missing st i] show ?case unfolding Let_def
  proof (elim disjE)
    assume "dict_get (pending_tool_events (rehydrate_pending_tool_events R missing st)) i = dict_get (pending_tool_events st) i \<and>
      dict_get (pending_tool_envelope (rehydrate_pending_tool_events R missing st)) i = dict_get (pending_tool_envelope st) i"
    with 1 assms(1) show ?thesis by (simp add: v1_inv_def)
  qed (use 1 assms(2) in auto)
qed

lemma not_buffered_none: "not_buffered st ids = [] \<longleftrightarrow> (\<forall>i \<in> set ids. \<exists>ev. dict_get (pending_tool_events st) i = Some ev)"
  by (auto simp: not_buffered_def filter_empty_conv)

section \<open>Replies agree with the sealed union\<close>

lemma tool_use_types: "set V1_TOOL_USE_EVENT_TYPES = {ENVELOPE_CUSTOM_TOOL_USE, ENVELOPE_SERVER_TOOL_USE, ENVELOPE_MCP_TOOL_USE}"
  by (simp add: V1_TOOL_USE_EVENT_TYPES_def envelope_defs)

lemma call_of_exists:
  "evt_id ev = Some i \<Longrightarrow> evt_type ev = Some t \<Longrightarrow> t \<in> set V1_TOOL_USE_EVENT_TYPES \<Longrightarrow>
   \<exists>c. call_of ev c \<and> event_id c = i"
proof -
  assume ev: "evt_id ev = Some i" "evt_type ev = Some t" "t \<in> set V1_TOOL_USE_EVENT_TYPES"
  then obtain c where c: "build_pending_tool_call ev (Some t) i (name_or_empty ev) = Inr c"
    by (auto simp: build_pending_tool_call_def tool_use_types envelope_defs)
  with ev build_pending_id [OF c] show ?thesis by (auto simp: call_of_def)
qed

lemma out_id [simp]: "out_id (snd (execute_pending_tool R st i)) = i"
  by (simp add: execute_pending_tool_def Let_def split: option.split sum.split pyval.split)

lemma execute_silent [simp]: "yields_of (fst (execute_pending_tool R st i)) = []"
    "posts_of (fst (execute_pending_tool R st i)) = []"
  by (simp_all add: execute_pending_tool_def Let_def split: option.split)

lemma reply_is_union_reply:
  assumes "dict_get (pending_tool_events st) i = Some ev" "dict_get (pending_tool_envelope st) i = evt_type ev"
    "call_of ev c" "event_id c = i"
  shows "reply_to (snd (execute_pending_tool R st i)) = build_reply (v1_tools R) (v1_context R) c"
proof -
  let ?t = "evt_type ev"
  have c: "build_pending_tool_call ev ?t i (name_or_empty ev) = Inr c" using assms(3,4) by (simp add: call_of_def)
  then consider "?t = Some ENVELOPE_CUSTOM_TOOL_USE" | "?t = Some ENVELOPE_SERVER_TOOL_USE" | "?t = Some ENVELOPE_MCP_TOOL_USE"
    by (auto simp: build_pending_tool_call_def split: if_splits)
  then show ?thesis
  proof cases
    case 1
    with c have "c = CustomToolCall i (name_or_empty ev) (input_arguments (evt_input ev))"
      by (simp add: build_pending_tool_call_def)
    with assms(1,2) 1 show ?thesis
      by (simp add: execute_pending_tool_def Let_def reply_to_def build_user_event_for_tool_use_def envelope_defs
          build_reply_def execute_and_build_reply_def execute_custom_def build_reply_from_result_def
          serialize_tool_result_def serialize_tool_result_v1_def split: option.split sum.split pyval.split)
  qed (use c assms(1,2) in \<open>auto simp: build_pending_tool_call_def execute_pending_tool_def Let_def reply_to_def
        build_user_event_for_tool_use_def envelope_defs build_reply_def server_build_reply_def mcp_build_reply_def\<close>)
qed

lemma answered_by_union:
  assumes "v1_inv E st" "not_buffered st ids = []" "i \<in> set ids"
  shows "\<exists>ev \<in> E. \<exists>c. call_of ev c \<and> event_id c = i \<and>
    reply_to (snd (execute_pending_tool R st i)) = build_reply (v1_tools R) (v1_context R) c"
proof -
  obtain ev where ev: "dict_get (pending_tool_events st) i = Some ev"
    using assms(2,3) by (auto simp: not_buffered_none)
  with assms(1) obtain t where t: "ev \<in> E" "evt_id ev = Some i" "t \<in> set V1_TOOL_USE_EVENT_TYPES"
    "evt_type ev = Some t" "dict_get (pending_tool_envelope st) i = Some t" by (auto simp: v1_inv_def)
  from call_of_exists [OF t(2,4,3)] obtain c where c: "call_of ev c" "event_id c = i" by blast
  with t reply_is_union_reply [OF ev _ c, of R] show ?thesis by auto
qed

section \<open>What one event does\<close>

definition lost_finish :: "v1_run \<Rightarrow> v1_state \<Rightarrow> v1_handled" where
  "lost_finish R st =
     ([Post interrupt_events, Yield (v1_finish R (v1_note_post interrupt_events st) ''error'')],
      v1_note_post interrupt_events st, Break)"

definition outcomes :: "v1_run \<Rightarrow> v1_state \<Rightarrow> string list \<Rightarrow> tool_outcome list" where
  "outcomes R st ids = map (snd \<circ> execute_pending_tool R st) ids"

definition answer_acts :: "v1_run \<Rightarrow> v1_state \<Rightarrow> string list \<Rightarrow> v2_action list" where
  "answer_acts R st ids = concat (map (fst \<circ> execute_pending_tool R st) ids) @
     map (Yield \<circ> result_event) (outcomes R st ids) @
     (if ids = [] then [] else [Post (map reply_to (outcomes R st ids))])"

lemma v1_answer_cases:
  assumes "v1_answer R ids st = (acts, st', fl)"
  obtains (sent) "acts = answer_acts R st ids" "fl = Continue" "ids = [] \<Longrightarrow> st' = st"
      "ids \<noteq> [] \<Longrightarrow> st' = pop_results (outcomes R st ids) (v1_note_post (map reply_to (outcomes R st ids)) st)"
  | (refused) st1 where "acts = answer_acts R st ids @ [Post interrupt_events, Yield (v1_finish R st1 ''error'')]"
      "fl = Break" "ids \<noteq> []" "v1_usage st1 = v1_usage st"
  using assms
  by (auto simp: v1_answer_def execute_pending_tools_def outcomes_def answer_acts_def Let_def send_events_soft_def
      v1_note_post_def split: option.splits if_splits)

lemma v1_on_message_texts:
  "\<exists>ts. v1_on_message ev st = (map (\<lambda>t. Yield (AgentTextDelta t)) ts, st, Continue) \<and> [] \<notin> set ts"
  using on_message_texts [of ev v2_init] by (auto simp: v1_on_message_def on_message_def)

lemma v1_on_event_cases [consumes 4, case_names texts called no_id quiet ended lost sent refused]:
  assumes inv: "v1_inv E st" "logged_events R \<subseteq> E" "ev \<in> E" and on: "v1_on_event R ev st = (acts, st', fl)"
  obtains
    (texts) ts where "acts = map (\<lambda>t. Yield (AgentTextDelta t)) ts" "st' = st" "fl = Continue"
  | (called) i n a where "acts = [Yield (AgentToolCall i n a)]" "fl = Continue" "evt_id ev = Some i"
      "v1_inv E st'" "\<And>j. dict_get (pending_tool_events st') j = (if j = i then Some ev else dict_get (pending_tool_events st) j)"
  | (no_id) e where "acts = []" "fl = Raise e"
  | (quiet) "acts = []" "fl = Continue" "pending_tool_events st' = pending_tool_events st"
      "pending_tool_envelope st' = pending_tool_envelope st"
  | (ended) reason where "v1_finish_now R st reason = (acts, st', fl)"
  | (lost) st1 where "lost_finish R st1 = (acts, st', fl)"
  | (sent) stop st1 where "round_of ev = Some stop" "v1_inv E st1" "not_buffered st1 (stop_event_ids stop) = []"
      "acts = answer_acts R st1 (stop_event_ids stop)" "fl = Continue" "v1_inv E st'"
      "\<And>i. dict_get (pending_tool_events st1) i \<noteq> None \<Longrightarrow> dict_get (pending_tool_events st) i \<noteq> None \<or> (\<exists>ev \<in> logged_events R. evt_id ev = Some i)"
      "\<And>i. dict_get (pending_tool_events st') i \<noteq> None \<Longrightarrow> dict_get (pending_tool_events st1) i \<noteq> None"
  | (refused) stop st1 st2 where "round_of ev = Some stop" "v1_inv E st1" "not_buffered st1 (stop_event_ids stop) = []"
      "acts = answer_acts R st1 (stop_event_ids stop) @ [Post interrupt_events, Yield (v1_finish R st2 ''error'')]"
      "fl = Break" "stop_event_ids stop \<noteq> []"
      "\<And>i. dict_get (pending_tool_events st1) i \<noteq> None \<Longrightarrow> dict_get (pending_tool_events st) i \<noteq> None \<or> (\<exists>ev \<in> logged_events R. evt_id ev = Some i)"
proof -
  let ?t = "evt_type ev"
  consider "?t = Some ''agent.message''" | "?t \<noteq> Some ''agent.message''" "?t \<in> Some ` set V1_TOOL_USE_EVENT_TYPES"
    | "?t \<noteq> Some ''agent.message''" "?t \<notin> Some ` set V1_TOOL_USE_EVENT_TYPES" "?t \<in> Some ` set V1_IDLE_EVENT_TYPES"
    | "?t \<noteq> Some ''agent.message''" "?t \<notin> Some ` set V1_TOOL_USE_EVENT_TYPES" "?t \<notin> Some ` set V1_IDLE_EVENT_TYPES"
    by blast
  then show thesis
  proof cases
    case 1
    with on v1_on_message_texts [of ev st] texts show thesis by (auto simp: v1_on_event_def)
  next
    case 2
    then have on': "v1_on_tool_use ev st = (acts, st', fl)" using on by (simp add: v1_on_event_def)
    show thesis
    proof (cases "\<exists>c cs. evt_id ev = Some (c # cs)")
      case True
      then obtain c cs where i: "evt_id ev = Some (c # cs)" by blast
      obtain t where t: "?t = Some t" "t \<in> set V1_TOOL_USE_EVENT_TYPES" using 2 by auto
      from i on' t have st': "acts = [Yield (AgentToolCall (c # cs) (name_or_empty ev) (input_arguments (evt_input ev)))]"
        "fl = Continue" "st' = st\<lparr>pending_tool_events := dict_set (c # cs) ev (pending_tool_events st),
              pending_tool_envelope := dict_set (c # cs) t (pending_tool_envelope st)\<rparr>"
        by (auto simp: v1_on_tool_use_def)
      show thesis
        by (rule called [OF st'(1,2) i]) (use v1_inv_call [OF inv(1,3) i _ t] in \<open>simp_all add: st'(3)\<close>)
    next
      case False
      with on' no_id show thesis by (auto simp: v1_on_tool_use_def split: option.splits list.splits)
    qed
  next
    case 3
    then have on': "v1_on_idle R ev st = (acts, st', fl)" using on by (simp add: v1_on_event_def)
    show thesis
    proof (cases "\<exists>stop. evt_stop_reason ev = Some stop \<and> stop_type stop = Some ''requires_action''")
      case True
      then obtain stop where stop: "round_of ev = Some stop"
        and on'': "v1_on_requires_action R stop st = (acts, st', fl)"
        using on' 3 by (auto simp: v1_on_idle_def round_of_def V1_IDLE_EVENT_TYPES_def IDLE_EVENT_TYPES_def)
      define ids where "ids = stop_event_ids stop"
      define st1 where "st1 = rehydrate_pending_tool_events R (not_buffered st ids) st"
      have inv1: "v1_inv E st1" unfolding st1_def by (rule v1_inv_rehydrate [OF inv(1,2)])
      have buf: "dict_get (pending_tool_events st1) i \<noteq> None \<Longrightarrow> dict_get (pending_tool_events st) i \<noteq> None \<or>
          (\<exists>ev \<in> logged_events R. evt_id ev = Some i)" for i
        using rehydrate_get [of R "not_buffered st ids" st i] by (auto simp: st1_def Let_def)
      show thesis
      proof (cases "not_buffered st ids \<noteq> [] \<and> not_buffered st1 ids \<noteq> []")
        case True
        with on'' lost [of st1] show thesis
          by (auto simp: v1_on_requires_action_def ids_def [symmetric] st1_def [symmetric] Let_def lost_finish_def)
      next
        case False
        then have nb: "not_buffered st1 ids = []" by (auto simp: st1_def rehydrate_pending_tool_events_def)
        from False have "v1_answer R ids st1 = (acts, st', fl)"
          using on'' unfolding v1_on_requires_action_def ids_def [symmetric] st1_def [symmetric] Let_def by auto
        then show thesis
        proof (cases rule: v1_answer_cases)
          case s: sent
          have inv': "v1_inv E st'" using s(3,4) inv1 by (cases "ids = []") (auto intro: v1_inv_pop)
          have sub: "dict_get (pending_tool_events st') i \<noteq> None \<Longrightarrow> dict_get (pending_tool_events st1) i \<noteq> None" for i
            using s(3,4) by (cases "ids = []") (auto simp: pop_results_def v1_note_post_def dict_get_pops split: if_splits)
          show thesis by (rule sent [OF stop inv1]) (use nb s inv' sub buf in \<open>simp_all add: ids_def\<close>)
        next
          case r: (refused st2)
          show thesis by (rule refused [OF stop inv1]) (use nb r buf in \<open>simp_all add: ids_def\<close>)
        qed
      qed
    next
      case False
      with on' ended show thesis
        by (fastforce simp: v1_on_idle_def Let_def split: option.splits if_splits list.splits)
    qed
  next
    case 4
    with on ended show thesis
      by (auto simp: v1_on_event_def v1_on_model_request_end_def v1_on_unknown_def Let_def
          split: if_splits option.splits list.splits intro: quiet)
  qed
qed

section \<open>The stream\<close>

lemma yields_results [simp]: "yields_of (map (Yield \<circ> f) rs) = map f rs" "posts_of (map (Yield \<circ> f) rs) = []"
  by (induction rs) auto

lemma answer_acts_yields [simp]: "yields_of (answer_acts R st ids) = map result_event (outcomes R st ids)"
  by (simp add: answer_acts_def yields_concat comp_def concat_map_Nil comp_assoc)

lemma answer_acts_posts [simp]:
  "posts_of (answer_acts R st ids) = (if ids = [] then [] else [map reply_to (outcomes R st ids)])"
  by (simp add: answer_acts_def posts_concat comp_def concat_map_Nil)

lemma result_event_no_finish [simp]: "\<not> is_finish (result_event r)"
  by (simp add: result_event_def)

lemma results_no_finish [simp]: "no_finish (map result_event rs)"
  by (simp add: list_all_iff)

lemma texts_no_finish [simp]: "no_finish (map AgentTextDelta ts)"
  by (simp add: list_all_iff)

lemma v1_on_event_inv:
  assumes "v1_inv E st" "logged_events R \<subseteq> E" "ev \<in> E" "v1_on_event R ev st = (acts, st', Continue)"
  shows "v1_inv E st'"
  using assms(1,2,3,4)
proof (cases rule: v1_on_event_cases)
  case quiet
  with assms(1) v1_inv_cong show ?thesis by blast
qed (use assms(1) in \<open>auto simp: v1_finish_now_def lost_finish_def\<close>)

lemma v1_on_event_finish:
  assumes "v1_inv E st" "logged_events R \<subseteq> E" "ev \<in> E" "v1_on_event R ev st = (acts, st', fl)"
  shows "if fl = Break then ends_with_finish (v1_session R) (yields_of acts) else no_finish (yields_of acts)"
  using assms
  by (cases rule: v1_on_event_cases)
    (auto simp: ends_with_finish_def v1_finish_now_def lost_finish_def v1_finish_def)

text \<open>The events that end a session.\<close>

definition terminal :: "sdk_event \<Rightarrow> bool" where
  "terminal ev \<longleftrightarrow> evt_type ev \<in> Some ` set (''session.error'' # V1_TERMINATED_EVENT_TYPES) \<or>
     evt_type ev \<in> Some ` set V1_IDLE_EVENT_TYPES \<and> round_of ev = None"

lemma terminal_breaks: "terminal ev \<Longrightarrow> v1_on_event R ev st = (acts, st', fl) \<Longrightarrow> fl = Break"
  by (auto simp: terminal_def v1_on_event_def v1_on_idle_def round_of_def V1_IDLE_EVENT_TYPES_def IDLE_EVENT_TYPES_def
      V1_TERMINATED_EVENT_TYPES_def V1_TOOL_USE_EVENT_TYPES_def v1_finish_now_def Let_def split: option.splits if_splits)

lemma v1_event_loop_finish:
  assumes "v1_inv E st" "logged_events R \<subseteq> E" "set evs \<subseteq> E" "v1_event_loop R stream_end evs st = (acts, e)"
  shows "case e of Some x \<Rightarrow> no_finish (yields_of acts)
    | None \<Rightarrow> ends_with_finish (v1_session R) (yields_of acts) \<or> no_finish (yields_of acts) \<and> filter terminal evs = []"
  using assms
proof (induction evs arbitrary: st acts)
  case (Cons ev evs)
  obtain a st' fl where on: "v1_on_event R ev st = (a, st', fl)" by (cases "v1_on_event R ev st")
  have E: "ev \<in> E" "set evs \<subseteq> E" using Cons.prems(3) by auto
  note fin = v1_on_event_finish [OF Cons.prems(1,2) E(1) on]
  show ?case
  proof (cases fl)
    case Continue
    obtain acts' where rest: "v1_event_loop R stream_end evs st' = (acts', e)" "acts = a @ acts'"
      using Cons.prems(4) on Continue by (auto split: prod.splits)
    have "v1_inv E st'" using v1_on_event_inv [OF Cons.prems(1,2) E(1)] on Continue by blast
    from Cons.IH [OF this Cons.prems(2) E(2) rest(1)] fin rest(2) Continue terminal_breaks [OF _ on]
    show ?thesis by (auto simp: ends_with_finish_def split: option.splits; metis append.assoc list_all_append)
  qed (use Cons.prems(4) on fin in auto)
qed (auto split: option.splits)

text \<open>The posted batches: each answers, in order, the ids of one round of the stream; nothing follows a
  refused batch or an unanswerable round but an interrupt.\<close>

definition v1_answers :: "pydict list \<Rightarrow> sdk_stop \<Rightarrow> bool" where
  "v1_answers b stop \<longleftrightarrow> b \<noteq> [] \<and> map reply_id b = map PStr (stop_event_ids stop)"

definition v1_batches_ok :: "sdk_event list \<Rightarrow> pydict list list \<Rightarrow> bool" where
  "v1_batches_ok evs posts =
     (\<exists>batches stops. (posts = batches \<or> posts = batches @ [interrupt_events]) \<and>
        list_all2 v1_answers batches stops \<and> subseq stops (rounds_of evs))"

lemma v1_batches_okI:
  "posts = batches \<or> posts = batches @ [interrupt_events] \<Longrightarrow> list_all2 v1_answers batches stops \<Longrightarrow>
   subseq stops (rounds_of evs) \<Longrightarrow> v1_batches_ok evs posts"
  unfolding v1_batches_ok_def by blast

lemma v1_batches_ok_none [simp]: "v1_batches_ok evs []" "v1_batches_ok evs [interrupt_events]"
  by (rule v1_batches_okI [of _ "[]" "[]"]; simp)+

lemma v1_batches_ok_skip: "v1_batches_ok evs posts \<Longrightarrow> v1_batches_ok (ev # evs) posts"
  unfolding v1_batches_ok_def by (force intro: list_emb_append2)

lemma v1_batches_ok_round:
  assumes "v1_batches_ok evs posts" "round_of ev = Some stop" "v1_answers b stop"
  shows "v1_batches_ok (ev # evs) (b # posts)"
proof -
  obtain batches stops where "posts = batches \<or> posts = batches @ [interrupt_events]"
    "list_all2 v1_answers batches stops" "subseq stops (rounds_of evs)"
    using assms(1) unfolding v1_batches_ok_def by blast
  with assms(2,3) show ?thesis by (intro v1_batches_okI [of _ "b # batches" "stop # stops"]) auto
qed

lemma outcomes_answer:
  assumes "v1_inv E st" "not_buffered st (stop_event_ids stop) = []" "stop_event_ids stop \<noteq> []"
  shows "v1_answers (map reply_to (outcomes R st (stop_event_ids stop))) stop"
proof -
  have "reply_id (reply_to (snd (execute_pending_tool R st i))) = PStr i" if "i \<in> set (stop_event_ids stop)" for i
    using answered_by_union [OF assms(1,2) that, of R] by auto
  with assms(3) show ?thesis by (simp add: v1_answers_def outcomes_def)
qed

lemma v1_event_loop_posts:
  assumes "v1_inv E st" "logged_events R \<subseteq> E" "set evs \<subseteq> E" "v1_event_loop R stream_end evs st = (acts, e)"
  shows "v1_batches_ok evs (posts_of acts)"
  using assms
proof (induction evs arbitrary: st acts)
  case (Cons ev evs)
  obtain a st' fl where on: "v1_on_event R ev st = (a, st', fl)" by (cases "v1_on_event R ev st")
  have E: "ev \<in> E" "set evs \<subseteq> E" using Cons.prems(3) by auto
  have rest: "v1_batches_ok evs (posts_of acts')" if "fl = Continue" "v1_event_loop R stream_end evs st' = (acts', e')" for acts' e'
    using Cons.IH [OF _ Cons.prems(2) E(2), of st' acts'] v1_on_event_inv [OF Cons.prems(1,2) E(1)] on that
      Cons.prems(4) by (auto split: prod.splits)
  from Cons.prems(1,2) E(1) on show ?case
  proof (cases rule: v1_on_event_cases)
    case (sent stop st1)
    obtain acts' where "v1_event_loop R stream_end evs st' = (acts', e)" "acts = a @ acts'"
      using Cons.prems(4) on sent(5) by (auto split: prod.splits)
    with rest sent outcomes_answer [OF sent(2,3)] show ?thesis
      by (cases "stop_event_ids stop = []") (auto intro: v1_batches_ok_skip v1_batches_ok_round)
  next
    case (refused stop st1 st2)
    have "v1_batches_ok (ev # evs) (map reply_to (outcomes R st1 (stop_event_ids stop)) # [interrupt_events])"
      by (rule v1_batches_ok_round [OF _ refused(1) outcomes_answer [OF refused(2,3,6)]]) simp
    moreover have "acts = a" using Cons.prems(4) on refused(5) by simp
    ultimately show ?thesis using refused(4,6) by simp
  qed (use Cons.prems(4) on rest in \<open>auto simp: v1_finish_now_def lost_finish_def intro: v1_batches_ok_skip split: prod.splits\<close>)
qed simp

text \<open>A result follows the call it answers, unless its event was recovered from the log.\<close>

definition logged_ids :: "v1_run \<Rightarrow> string set" where
  "logged_ids R = {i. \<exists>ev \<in> logged_events R. evt_id ev = Some i}"

lemma answered_results: "answered_after_call seen (map result_event rs) \<longleftrightarrow> out_id ` set rs \<subseteq> seen"
    "calls_of (map result_event rs) = []"
  by (induction rs) (auto simp: result_event_def calls_of_def)

lemma outcomes_ids: "out_id ` set (outcomes R st ids) = set ids"
  by (force simp: outcomes_def)

lemma v1_event_loop_answered:
  assumes "v1_inv E st" "logged_events R \<subseteq> E" "set evs \<subseteq> E" "v1_event_loop R stream_end evs st = (acts, e)"
    "logged_ids R \<subseteq> seen" "\<And>i. dict_get (pending_tool_events st) i \<noteq> None \<Longrightarrow> i \<in> seen"
  shows "answered_after_call seen (yields_of acts)"
  using assms
proof (induction evs arbitrary: st acts seen)
  case (Cons ev evs)
  obtain a st' fl where on: "v1_on_event R ev st = (a, st', fl)" by (cases "v1_on_event R ev st")
  have E: "ev \<in> E" "set evs \<subseteq> E" using Cons.prems(3) by auto
  have round: "set ids \<subseteq> seen" if "not_buffered st1 ids = []"
    "\<And>i. dict_get (pending_tool_events st1) i \<noteq> None \<Longrightarrow> dict_get (pending_tool_events st) i \<noteq> None \<or>
        (\<exists>ev \<in> logged_events R. evt_id ev = Some i)" for ids st1
  proof
    fix i assume "i \<in> set ids"
    then have "dict_get (pending_tool_events st1) i \<noteq> None" using that(1) by (simp add: not_buffered_none)
    from that(2) [OF this] Cons.prems(5,6) show "i \<in> seen" unfolding logged_ids_def by blast
  qed
  have ok1: "answered_after_call seen (yields_of a)"
    using Cons.prems(1,2) E(1) on
  proof (cases rule: v1_on_event_cases)
    case (sent stop st1)
    then show ?thesis using round [OF sent(3,7)] by (simp add: answered_results outcomes_ids)
  next
    case (refused stop st1 st2)
    then show ?thesis using round [OF refused(3,7)]
      by (simp add: answered_append answered_results outcomes_ids v1_finish_def)
  qed (auto simp: v1_finish_now_def lost_finish_def v1_finish_def)
  have ok2: "i \<in> seen \<union> fst ` set (calls_of (yields_of a))"
    if "fl = Continue" "dict_get (pending_tool_events st') i \<noteq> None" for i
    using Cons.prems(1,2) E(1) on
  proof (cases rule: v1_on_event_cases)
    case (sent stop st1)
    from sent(7) [OF sent(8) [OF that(2)]] Cons.prems(5,6) show ?thesis unfolding logged_ids_def by blast
  qed (use that Cons.prems(6) in \<open>auto simp: v1_finish_now_def lost_finish_def calls_of_def split: if_splits\<close>)
  show ?case
  proof (cases fl)
    case Continue
    obtain acts' where rest: "v1_event_loop R stream_end evs st' = (acts', e)" "acts = a @ acts'"
      using Cons.prems(4) on Continue by (auto split: prod.splits)
    have "v1_inv E st'" using v1_on_event_inv [OF Cons.prems(1,2) E(1)] on Continue by blast
    from Cons.IH [OF this Cons.prems(2) E(2) rest(1), of "seen \<union> fst ` set (calls_of (yields_of a))"] Cons.prems(5) ok1 ok2 Continue
    show ?thesis by (auto simp: rest(2) answered_append)
  qed (use Cons.prems(4) on ok1 in auto)
qed (auto split: option.splits)

text \<open>Each reply is the one the sealed union builds for an event the backend has seen.\<close>

definition v1_reply_ok :: "v1_run \<Rightarrow> sdk_event set \<Rightarrow> pydict \<Rightarrow> bool" where
  "v1_reply_ok R E r \<longleftrightarrow> (\<exists>ev \<in> E. \<exists>c. call_of ev c \<and> r = build_reply (v1_tools R) (v1_context R) c)"

lemma outcomes_ok:
  assumes "v1_inv E st" "not_buffered st ids = []"
  shows "list_all (v1_reply_ok R E) (map reply_to (outcomes R st ids))"
  using answered_by_union [OF assms, of _ R] by (fastforce simp: outcomes_def list_all_iff v1_reply_ok_def)

lemma v1_event_loop_replies:
  assumes "v1_inv E st" "logged_events R \<subseteq> E" "set evs \<subseteq> E" "v1_event_loop R stream_end evs st = (acts, e)"
    "b \<in> set (posts_of acts)" "b \<noteq> interrupt_events"
  shows "list_all (v1_reply_ok R E) b"
  using assms
proof (induction evs arbitrary: st acts)
  case (Cons ev evs)
  obtain a st' fl where on: "v1_on_event R ev st = (a, st', fl)" by (cases "v1_on_event R ev st")
  have E: "ev \<in> E" "set evs \<subseteq> E" using Cons.prems(3) by auto
  have here: "list_all (v1_reply_ok R E) b" if "b \<in> set (posts_of a)"
    using Cons.prems(1,2) E(1) on
  proof (cases rule: v1_on_event_cases)
    case (sent stop st1)
    with outcomes_ok [OF sent(2,3), of R] that show ?thesis by (auto split: if_splits)
  next
    case (refused stop st1 st2)
    with outcomes_ok [OF refused(2,3), of R] that Cons.prems(6) show ?thesis by (auto split: if_splits)
  qed (use that Cons.prems(6) in \<open>auto simp: v1_finish_now_def lost_finish_def\<close>)
  show ?case
  proof (cases fl)
    case Continue
    obtain acts' where rest: "v1_event_loop R stream_end evs st' = (acts', e)" "acts = a @ acts'"
      using Cons.prems(4) on Continue by (auto split: prod.splits)
    have "v1_inv E st'" using v1_on_event_inv [OF Cons.prems(1,2) E(1)] on Continue by blast
    from Cons.IH [OF this Cons.prems(2) E(2) rest(1) _ Cons.prems(6)] here Cons.prems(5) show ?thesis
      by (auto simp: rest(2))
  qed (use Cons.prems(4,5) on here in auto)
qed simp

end
