(* ===== verification/BackendV1.thy ===== *)
theory BackendV1
  imports StreamV1Facts BackendV2
begin

text \<open>
  The rest of \<open>ManagedAgentBackend\<close> (\<open>backends/managed_agent_backend.py\<close>): message normalisation, the
  tools payload and the fingerprint, the two in-process caches (agent ids by fingerprint, one
  environment id), session creation, and \<open>stream\<close> and \<open>run\<close> as wholes. The caches are the state an
  invocation takes and returns. A session id supplied in the handles is a string, as their
  documentation says.
\<close>

section \<open>Configuration, client and caches\<close>

definition DEFAULT_GATEWAY_MCP_URL :: string where
  "DEFAULT_GATEWAY_MCP_URL = ''https://mcp.copass.com/mcp''"

definition DEFAULT_GATEWAY_MCP_NAME :: string where
  "DEFAULT_GATEWAY_MCP_NAME = ''copass''"

record v1_config =
  v1_environment_config :: pydict
  v1_environment_name :: string
  v1_include_builtin_toolset :: bool
  v1_delete_session_on_finish :: bool
  v1_use_gateway_mcp :: bool
  v1_gateway_mcp_url :: string
  v1_gateway_mcp_name :: string

record v1_caches =
  agent_ids :: "(string, string) dict"
  environment_id :: "string option"

definition v1_default_environment_config :: pydict where
  "v1_default_environment_config =
     [(''type'', PStr ''cloud''), (''networking'', PDict [(''type'', PStr ''unrestricted'')])]"

definition make_backend_v1 ::
    "pydict option \<Rightarrow> string \<Rightarrow> bool \<Rightarrow> bool \<Rightarrow> bool \<Rightarrow> string \<Rightarrow> string \<Rightarrow> v1_config \<times> v1_caches" where
  "make_backend_v1 env_config env_name builtin delete_session gateway url name =
     (\<lparr>v1_environment_config =
         (case env_config of Some (x # xs) \<Rightarrow> x # xs | _ \<Rightarrow> v1_default_environment_config),
       v1_environment_name = env_name, v1_include_builtin_toolset = builtin,
       v1_delete_session_on_finish = delete_session, v1_use_gateway_mcp = gateway,
       v1_gateway_mcp_url = url, v1_gateway_mcp_name = name\<rparr>,
      \<lparr>agent_ids = [], environment_id = None\<rparr>)"

record v1_client =
  v1_agents_create :: "pydict \<Rightarrow> exn + string"
  v1_environments_create :: "string \<Rightarrow> pydict \<Rightarrow> exn + string"
  v1_sessions_create :: "pydict \<Rightarrow> exn + string"
  v1_open_stream :: "string \<Rightarrow> exn option"
  v1_client_server :: v1_server
  v1_client_events :: "sdk_event list"
  v1_client_stream_end :: "exn option"

section \<open>Messages and payloads\<close>

definition normalize_messages_v1 :: "pyval \<Rightarrow> pydict list" where
  "normalize_messages_v1 messages =
     (let user = (\<lambda>blocks. [(''type'', PStr ''user.message''), (''content'', PList blocks)]);
          text_of_block = (\<lambda>t. PDict [(''type'', PStr ''text''), (''text'', PStr t)])
      in case messages of
           PStr s \<Rightarrow> [user [text_of_block s]]
         | PList msgs \<Rightarrow>
             concat (map (\<lambda>msg.
               let role = (case msg of PDict d \<Rightarrow> get_or d ''role'' (PStr ''user'') | _ \<Rightarrow> PStr ''user'');
                   content = (case msg of PDict d \<Rightarrow> get_or d ''content'' (PStr []) | _ \<Rightarrow> PStr [])
               in if role \<noteq> PStr ''user'' then []
                  else [user (case content of
                          PStr s \<Rightarrow> [text_of_block s]
                        | PList bs \<Rightarrow> map (\<lambda>b. case b of PDict d \<Rightarrow> b | _ \<Rightarrow> text_of_block (py_str b)) bs
                        | _ \<Rightarrow> [text_of_block (py_str content)])]) msgs)
         | _ \<Rightarrow> [])"

definition specs_to_tools_v1 :: "v1_config \<Rightarrow> tool_spec list \<Rightarrow> bool option \<Rightarrow> pydict list" where
  "specs_to_tools_v1 cfg specs gateway =
     (let gateway_on = (case gateway of None \<Rightarrow> v1_use_gateway_mcp cfg | Some b \<Rightarrow> b)
      in (if v1_include_builtin_toolset cfg then [[(''type'', PStr ''agent_toolset_20260401'')]] else []) @
         (if gateway_on
          then [[(''type'', PStr ''mcp_toolset''), (''mcp_server_name'', PStr (v1_gateway_mcp_name cfg)),
                 (''default_config'', PDict [(''permission_policy'',
                    PDict [(''type'', PStr ''always_allow'')])])]]
          else []) @
         map (\<lambda>spec. [(''type'', PStr ''custom''), (''name'', PStr (spec_name spec)),
                (''description'', PStr (spec_description spec)),
                (''input_schema'', sanitize_anthropic_input_schema (PDict (spec_input_schema spec)))]) specs)"

definition fingerprint_parts_v1 :: "v1_config \<Rightarrow> base_agent \<Rightarrow> tool_registry \<Rightarrow> bool option \<Rightarrow> string list" where
  "fingerprint_parts_v1 cfg agent tools gateway =
     (let gateway_on = (case gateway of None \<Rightarrow> v1_use_gateway_mcp cfg | Some b \<Rightarrow> b)
      in [model agent, system_prompt agent,
          ''builtin='' @ py_str (PBool (v1_include_builtin_toolset cfg)),
          ''gateway_mcp='' @ py_str (PBool gateway_on),
          ''gateway_url='' @ v1_gateway_mcp_url cfg,
          ''gateway_name='' @ v1_gateway_mcp_name cfg] @
         concat (map (\<lambda>spec. [spec_name spec, spec_description spec,
            dumps_sorted (PDict (spec_input_schema spec))]) (registry_list_specs tools)))"

definition fingerprint_agent_v1 ::
    "(string \<Rightarrow> string) \<Rightarrow> v1_config \<Rightarrow> base_agent \<Rightarrow> tool_registry \<Rightarrow> bool option \<Rightarrow> string" where
  "fingerprint_agent_v1 sha cfg agent tools gateway =
     sha (py_join [nul] (fingerprint_parts_v1 cfg agent tools gateway))"

section \<open>The caches\<close>

definition agent_create_kwargs ::
    "v1_config \<Rightarrow> base_agent \<Rightarrow> tool_registry \<Rightarrow> bool \<Rightarrow> pydict" where
  "agent_create_kwargs cfg agent tools gateway_on =
     [(''name'', PStr (''agent-'' @ identity agent)), (''model'', PStr (model agent)),
      (''system'', PStr (system_prompt agent)),
      (''tools'', PList (map PDict (specs_to_tools_v1 cfg (registry_list_specs tools) (Some gateway_on))))] @
     (if gateway_on
      then [(''mcp_servers'', PList [PDict [(''name'', PStr (v1_gateway_mcp_name cfg)),
               (''type'', PStr ''url''), (''url'', PStr (v1_gateway_mcp_url cfg))]])]
      else [])"

definition ensure_agent_id ::
    "(string \<Rightarrow> string) \<Rightarrow> v1_config \<Rightarrow> v1_client \<Rightarrow> base_agent \<Rightarrow> tool_registry \<Rightarrow> bool option \<Rightarrow> v1_caches \<Rightarrow>
     v2_action list \<times> v1_caches \<times> (exn + string)" where
  "ensure_agent_id sha cfg client agent tools gateway cs =
     (let gateway_on = (case gateway of None \<Rightarrow> v1_use_gateway_mcp cfg | Some b \<Rightarrow> b);
          key = fingerprint_agent_v1 sha cfg agent tools (Some gateway_on)
      in case dict_get (agent_ids cs) key of
           Some cached \<Rightarrow> ([], cs, Inr cached)
         | None \<Rightarrow>
             (let kwargs = agent_create_kwargs cfg agent tools gateway_on
              in case v1_agents_create client kwargs of
                   Inl e \<Rightarrow> ([CreateAgent kwargs], cs, Inl e)
                 | Inr i \<Rightarrow> ([CreateAgent kwargs],
                             cs\<lparr>agent_ids := dict_set key i (agent_ids cs)\<rparr>, Inr i)))"

definition ensure_environment_id ::
    "v1_config \<Rightarrow> v1_client \<Rightarrow> v1_caches \<Rightarrow> v2_action list \<times> v1_caches \<times> (exn + string)" where
  "ensure_environment_id cfg client cs =
     (case environment_id cs of
        Some i \<Rightarrow> ([], cs, Inr i)
      | None \<Rightarrow>
          (let acts = [CreateEnvironment (v1_environment_name cfg) (v1_environment_config cfg)]
           in case v1_environments_create client (v1_environment_name cfg) (v1_environment_config cfg) of
                Inl e \<Rightarrow> (acts, cs, Inl e)
              | Inr i \<Rightarrow> (acts, cs\<lparr>environment_id := Some i\<rparr>, Inr i)))"

definition create_session_v1 ::
    "v1_client \<Rightarrow> string \<Rightarrow> string \<Rightarrow> string \<Rightarrow> string list option \<Rightarrow> v2_action list \<times> (exn + string)" where
  "create_session_v1 client agent_id env_id title vault_ids =
     (let kwargs = [(''agent'', PStr agent_id), (''environment_id'', PStr env_id),
            (''title'', PStr (if title = [] then ''copass agent session'' else title))] @
            (case vault_ids of Some (v # vs) \<Rightarrow> [(''vault_ids'', PList (map PStr (v # vs)))] | _ \<Rightarrow> [])
      in ([CreateSession kwargs], v1_sessions_create client kwargs))"

definition session_title_v1 :: "base_agent \<Rightarrow> invocation_context \<Rightarrow> string" where
  "session_title_v1 agent ctx =
     py_join '':'' ([identity agent] @ (case trace_id ctx of Some (c # cs) \<Rightarrow> [c # cs] | _ \<Rightarrow> []))"

section \<open>One invocation\<close>

definition v1_stream_session ::
    "v1_config \<Rightarrow> v1_client \<Rightarrow> tool_registry \<Rightarrow> invocation_context \<Rightarrow> pydict list \<Rightarrow>
     string \<Rightarrow> string option \<Rightarrow> v2_action list \<times> exn option" where
  "v1_stream_session cfg client tools ctx user_events sid created =
     (case v1_open_stream client sid of
        Some e \<Rightarrow> ([OpenStream sid], Some e)
      | None \<Rightarrow>
          (case v1_stream_body \<lparr>v1_server_of = v1_client_server client, v1_tools = tools,
                  v1_context = ctx, v1_session = sid\<rparr>
                  user_events (v1_client_stream_end client) (v1_client_events client) of
             (acts, e) \<Rightarrow>
               (OpenStream sid # acts @ v1_finally_actions created (v1_delete_session_on_finish cfg), e)))"

definition v1_gateway_setting :: "v1_config \<Rightarrow> invocation_context \<Rightarrow> bool" where
  "v1_gateway_setting cfg ctx =
     (case dict_get (handles ctx) USE_GATEWAY_MCP_HANDLE of
        Some (PBool b) \<Rightarrow> b | _ \<Rightarrow> v1_use_gateway_mcp cfg)"

definition v1_start_session ::
    "v1_client \<Rightarrow> base_agent \<Rightarrow> invocation_context \<Rightarrow> string \<Rightarrow> string \<Rightarrow>
     v2_action list \<times> (exn + string \<times> string option)" where
  "v1_start_session client agent ctx agent_id env_id =
     (case supplied_session ctx of
        Some sid \<Rightarrow> ([], Inr (sid, None))
      | None \<Rightarrow>
          (case create_session_v1 client agent_id env_id (session_title_v1 agent ctx) (vault_ids_of ctx) of
             (acts, Inl e) \<Rightarrow> (acts, Inl e)
           | (acts, Inr sid) \<Rightarrow> (acts, Inr (sid, Some sid))))"

definition stream_v1 ::
    "(string \<Rightarrow> string) \<Rightarrow> v1_config \<Rightarrow> v1_client \<Rightarrow> v1_caches \<Rightarrow> base_agent \<Rightarrow> pyval \<Rightarrow> invocation_context \<Rightarrow>
     v2_action list \<times> exn option \<times> v1_caches" where
  "stream_v1 sha cfg client cs agent messages ctx =
     (let user_events = normalize_messages_v1 messages
      in if user_events = []
         then ([], Some (ValueError (''ManagedAgentBackend: messages must contain at least one '' @
                ''user-role message'')), cs)
         else case build_tools agent ctx of
           Inl e \<Rightarrow> ([], Some e, cs)
         | Inr tools \<Rightarrow>
             (case ensure_agent_id sha cfg client agent tools (Some (v1_gateway_setting cfg ctx)) cs of
                (acts1, cs1, Inl e) \<Rightarrow> (acts1, Some e, cs1)
              | (acts1, cs1, Inr agent_id) \<Rightarrow>
                  (case ensure_environment_id cfg client cs1 of
                     (acts2, cs2, Inl e) \<Rightarrow> (acts1 @ acts2, Some e, cs2)
                   | (acts2, cs2, Inr env_id) \<Rightarrow>
                       (case v1_start_session client agent ctx agent_id env_id of
                          (acts3, Inl e) \<Rightarrow> (acts1 @ acts2 @ acts3, Some e, cs2)
                        | (acts3, Inr (sid, created)) \<Rightarrow>
                            (case v1_stream_session cfg client tools ctx user_events sid created of
                               (acts4, e) \<Rightarrow> (acts1 @ acts2 @ acts3 @ acts4, e, cs2))))))"

definition events_v1 ::
    "(string \<Rightarrow> string) \<times> v1_config \<times> v1_client \<times> v1_caches \<times> base_agent \<Rightarrow> pyval \<Rightarrow> invocation_context \<Rightarrow>
     agent_event list \<times> exn option" where
  "events_v1 X messages ctx =
     (case X of (sha, cfg, client, cs, agent) \<Rightarrow>
       (case stream_v1 sha cfg client cs agent messages ctx of (acts, e, cs') \<Rightarrow> (yields_of acts, e)))"

definition run_v1 ::
    "(string \<Rightarrow> string) \<times> v1_config \<times> v1_client \<times> v1_caches \<times> base_agent \<Rightarrow> pyval \<Rightarrow> invocation_context \<Rightarrow>
     exn + agent_run_result" where
  "run_v1 X messages ctx = run_result (events_v1 X messages ctx)"

interpretation v1: agent_backend events_v1 run_v1
  by unfold_locales (simp add: run_v1_def)

section \<open>The shape of an invocation\<close>

definition v1_run_of :: "v1_client \<Rightarrow> tool_registry \<Rightarrow> invocation_context \<Rightarrow> string \<Rightarrow> v1_run" where
  "v1_run_of client tools ctx sid =
     \<lparr>v1_server_of = v1_client_server client, v1_tools = tools, v1_context = ctx, v1_session = sid\<rparr>"

definition seen_events :: "v1_client \<Rightarrow> sdk_event set" where
  "seen_events client =
     set (v1_client_events client) \<union> (\<Union>n. set (fst (session_log (v1_client_server client) n)))"

text \<open>The trace shows the caller and the session nothing.\<close>

definition silent :: "v2_action list \<Rightarrow> bool" where
  "silent acts \<longleftrightarrow> yields_of acts = [] \<and> posts_of acts = [] \<and> deletes_of acts = []"

lemma silent_append [simp]: "silent (xs @ ys) \<longleftrightarrow> silent xs \<and> silent ys"
  by (auto simp: silent_def)

lemma silent_simps [simp]: "silent []" "silent (CreateAgent k # xs) = silent xs"
  "silent (CreateEnvironment n k # xs) = silent xs" "silent (CreateSession k # xs) = silent xs"
  "silent (OpenStream s # xs) = silent xs"
  by (simp_all add: silent_def)

lemma ensure_agent_silent: "ensure_agent_id sha cfg client agent tools gw cs = (acts, cs', r) \<Longrightarrow> silent acts"
  by (auto simp: ensure_agent_id_def Let_def split: option.splits sum.splits)

lemma ensure_environment_silent: "ensure_environment_id cfg client cs = (acts, cs', r) \<Longrightarrow> silent acts"
  by (auto simp: ensure_environment_id_def Let_def split: option.splits sum.splits)

lemma start_session_silent: "v1_start_session client agent ctx aid env = (acts, r) \<Longrightarrow> silent acts \<and>
    (\<forall>sid created. r = Inr (sid, created) \<longrightarrow> created = (if supplied_session ctx = None then Some sid else None))"
  by (auto simp: v1_start_session_def create_session_v1_def Let_def split: option.splits sum.splits)

lemma stream_v1_shape [consumes 1, case_names early streamed]:
  assumes "stream_v1 sha cfg client cs agent messages ctx = (acts, e, cs')"
  obtains
    (early) "e \<noteq> None" "silent acts"
  | (streamed) tools sid created pre body where
      "build_tools agent ctx = Inr tools"
      "v1_stream_body (v1_run_of client tools ctx sid) (normalize_messages_v1 messages)
         (v1_client_stream_end client) (v1_client_events client) = (body, e)"
      "acts = pre @ OpenStream sid # body @ v1_finally_actions created (v1_delete_session_on_finish cfg)"
      "silent pre" "created = (if supplied_session ctx = None then Some sid else None)"
proof (cases "normalize_messages_v1 messages = []")
  case True
  with assms early show thesis by (auto simp: stream_v1_def Let_def)
next
  case ue: False
  show thesis
  proof (cases "build_tools agent ctx")
    case (Inl x)
    with ue assms early show thesis by (auto simp: stream_v1_def Let_def)
  next
    case (Inr tools)
    obtain a1 c1 r1 where 1: "ensure_agent_id sha cfg client agent tools (Some (v1_gateway_setting cfg ctx)) cs = (a1, c1, r1)"
      by (metis prod_cases3)
    obtain a2 c2 r2 where 2: "ensure_environment_id cfg client c1 = (a2, c2, r2)" by (metis prod_cases3)
    note s1 = ensure_agent_silent [OF 1] and s2 = ensure_environment_silent [OF 2]
    note step = assms [unfolded stream_v1_def Let_def, simplified ue Inr 1 if_False sum.case prod.case 2]
    show thesis
    proof (cases r1)
      case (Inl x)
      with step s1 early show thesis by auto
    next
      case r1: (Inr aid)
      show thesis
      proof (cases r2)
        case (Inl x)
        with step r1 s1 s2 early show thesis by auto
      next
        case r2: (Inr env)
        obtain a3 r3 where 3: "v1_start_session client agent ctx aid env = (a3, r3)" by fastforce
        note s3 = start_session_silent [OF 3]
        show thesis
        proof (cases r3)
          case (Inl x)
          with step r1 r2 3 s1 s2 s3 early show thesis by auto
        next
          case r3: (Inr p)
          obtain sid created where p: "p = (sid, created)" by fastforce
          obtain a4 e4 where 4: "v1_stream_session cfg client tools ctx (normalize_messages_v1 messages) sid created = (a4, e4)"
            by fastforce
          have acts: "acts = a1 @ a2 @ a3 @ a4" "e4 = e" using step r1 r2 3 r3 p 4 by simp_all
          have cr: "created = (if supplied_session ctx = None then Some sid else None)" using s3 r3 p by blast
          show thesis
          proof (cases "v1_open_stream client sid")
            case (Some x)
            with 4 acts have "acts = a1 @ a2 @ a3 @ [OpenStream sid]" "e = Some x" by (auto simp: v1_stream_session_def)
            with s1 s2 s3 early show thesis by simp
          next
            case None
            with 4 obtain body where "v1_stream_body (v1_run_of client tools ctx sid) (normalize_messages_v1 messages)
                (v1_client_stream_end client) (v1_client_events client) = (body, e4)"
              "a4 = OpenStream sid # body @ v1_finally_actions created (v1_delete_session_on_finish cfg)"
              by (auto simp: v1_stream_session_def v1_run_of_def split: prod.splits)
            with acts s1 s2 s3 streamed [OF Inr _ _ _ cr, of body "a1 @ a2 @ a3"] show thesis by simp
          qed
        qed
      qed
    qed
  qed
qed

lemma v1_body_shape:
  "v1_stream_body R ue se evs = (body, e) \<Longrightarrow>
   (e \<noteq> None \<and> body = [Post ue]) \<or>
   (\<exists>acts. v1_event_loop R se evs (v1_note_post ue v1_init) = (acts, e) \<and> body = Post ue # acts)"
  by (auto simp: v1_stream_body_def split: option.splits prod.splits)

lemma v1_run_of_simps [simp]: "logged_events (v1_run_of client tools ctx sid) \<subseteq> seen_events client"
  "set (v1_client_events client) \<subseteq> seen_events client"
  "v1_session (v1_run_of client tools ctx sid) = sid" "v1_tools (v1_run_of client tools ctx sid) = tools"
  "v1_context (v1_run_of client tools ctx sid) = ctx"
  by (auto simp: logged_events_def v1_run_of_def seen_events_def)

lemma v1_finally_silent [simp]:
  "yields_of (v1_finally_actions c d) = []" "posts_of (v1_finally_actions c d) = []"
  by (auto simp: v1_finally_actions_def split: option.split list.split)

lemma v1_fresh_buffer [simp]: "dict_get (pending_tool_events (v1_note_post ue v1_init)) i = None"
  by (simp add: v1_note_post_def v1_init_def)

lemma stream_v1_finishes:
  assumes "stream_v1 sha cfg client cs agent messages ctx = (acts, e, cs')"
  shows "case e of Some x \<Rightarrow> no_finish (yields_of acts)
    | None \<Rightarrow> (\<exists>sid. ends_with_finish sid (yields_of acts)) \<or>
        no_finish (yields_of acts) \<and> filter terminal (v1_client_events client) = []"
  using assms
proof (cases rule: stream_v1_shape)
  case early
  then show ?thesis by (auto simp: silent_def)
next
  case (streamed tools sid created pre body)
  from v1_body_shape [OF streamed(2)] show ?thesis
  proof (elim disjE exE conjE)
    fix acts' assume "v1_event_loop (v1_run_of client tools ctx sid) (v1_client_stream_end client) (v1_client_events client)
        (v1_note_post (normalize_messages_v1 messages) v1_init) = (acts', e)" "body = Post (normalize_messages_v1 messages) # acts'"
    with v1_event_loop_finish [OF _ _ _ this(1), of "seen_events client"] streamed(3,4) show ?thesis
      by (auto simp: silent_def split: option.splits)
  qed (use streamed(3,4) in \<open>auto simp: silent_def\<close>)
qed

lemma stream_v1_posts:
  assumes "stream_v1 sha cfg client cs agent messages ctx = (acts, e, cs')"
  shows "posts_of acts = [] \<or>
    (\<exists>ps. posts_of acts = normalize_messages_v1 messages # ps \<and> v1_batches_ok (v1_client_events client) ps)"
  using assms
proof (cases rule: stream_v1_shape)
  case early
  then show ?thesis by (simp add: silent_def)
next
  case (streamed tools sid created pre body)
  from v1_body_shape [OF streamed(2)] show ?thesis
  proof (elim disjE exE conjE)
    fix acts' assume "v1_event_loop (v1_run_of client tools ctx sid) (v1_client_stream_end client) (v1_client_events client)
        (v1_note_post (normalize_messages_v1 messages) v1_init) = (acts', e)" "body = Post (normalize_messages_v1 messages) # acts'"
    with v1_event_loop_posts [OF _ _ _ this(1), of "seen_events client"] streamed(3,4) show ?thesis
      by (auto simp: silent_def)
  qed (use streamed(3,4) in \<open>auto simp: silent_def\<close>)
qed

lemma stream_v1_answered:
  assumes "stream_v1 sha cfg client cs agent messages ctx = (acts, e, cs')"
  shows "answered_after_call {i. \<exists>n. \<exists>ev \<in> set (fst (session_log (v1_client_server client) n)). evt_id ev = Some i} (yields_of acts)"
  using assms
proof (cases rule: stream_v1_shape)
  case early
  then show ?thesis by (simp add: silent_def)
next
  case (streamed tools sid created pre body)
  have L: "logged_ids (v1_run_of client tools ctx sid) =
      {i. \<exists>n. \<exists>ev \<in> set (fst (session_log (v1_client_server client) n)). evt_id ev = Some i}"
    by (auto simp: logged_ids_def logged_events_def v1_run_of_def)
  from v1_body_shape [OF streamed(2)] show ?thesis
  proof (elim disjE exE conjE)
    fix acts' assume "v1_event_loop (v1_run_of client tools ctx sid) (v1_client_stream_end client) (v1_client_events client)
        (v1_note_post (normalize_messages_v1 messages) v1_init) = (acts', e)" "body = Post (normalize_messages_v1 messages) # acts'"
    with v1_event_loop_answered [OF _ _ _ this(1), of "seen_events client"] streamed(3,4) show ?thesis
      by (auto simp: silent_def L)
  qed (use streamed(3,4) in \<open>auto simp: silent_def\<close>)
qed

lemma stream_v1_replies:
  assumes "stream_v1 sha cfg client cs agent messages ctx = (acts, e, cs')"
    "b \<in> set (tl (posts_of acts))" "b \<noteq> interrupt_events" "r \<in> set b"
  shows "\<exists>tools ev c. build_tools agent ctx = Inr tools \<and> ev \<in> seen_events client \<and> call_of ev c \<and>
    r = build_reply tools ctx c"
  using assms(1)
proof (cases rule: stream_v1_shape)
  case early
  then show ?thesis using assms(2) by (simp add: silent_def)
next
  case (streamed tools sid created pre body)
  from v1_body_shape [OF streamed(2)] show ?thesis
  proof (elim disjE exE conjE)
    fix acts' assume loop: "v1_event_loop (v1_run_of client tools ctx sid) (v1_client_stream_end client) (v1_client_events client)
        (v1_note_post (normalize_messages_v1 messages) v1_init) = (acts', e)" "body = Post (normalize_messages_v1 messages) # acts'"
    then have "b \<in> set (posts_of acts')" using assms(2) streamed(3,4) by (simp add: silent_def)
    from v1_event_loop_replies [OF _ _ _ loop(1) this assms(3), of "seen_events client"]
    have "list_all (v1_reply_ok (v1_run_of client tools ctx sid) (seen_events client)) b" by simp
    with assms(4) have "v1_reply_ok (v1_run_of client tools ctx sid) (seen_events client) r" by (simp add: list_all_iff)
    with streamed(1) show ?thesis unfolding v1_reply_ok_def v1_run_of_simps by blast
  qed (use streamed(3,4) assms(2) in \<open>auto simp: silent_def\<close>)
qed

section \<open>The caches over many invocations\<close>

definition after_invocations ::
    "(string \<Rightarrow> string) \<Rightarrow> v1_config \<Rightarrow> (v1_client \<times> base_agent \<times> pyval \<times> invocation_context) list \<Rightarrow> v1_caches" where
  "after_invocations sha cfg reqs =
     fold (\<lambda>(client, agent, messages, ctx) cs. snd (snd (stream_v1 sha cfg client cs agent messages ctx))) reqs
       \<lparr>agent_ids = [], environment_id = None\<rparr>"

text \<open>A cached id is what \<open>agents.create\<close> returned to a request with the key's fingerprint.\<close>

definition id_for ::
    "(string \<Rightarrow> string) \<Rightarrow> v1_config \<Rightarrow> (v1_client \<times> base_agent \<times> pyval \<times> invocation_context) set \<Rightarrow> string \<Rightarrow> string \<Rightarrow> bool" where
  "id_for sha cfg Q key i \<longleftrightarrow> (\<exists>client agent messages ctx tools. (client, agent, messages, ctx) \<in> Q \<and> build_tools agent ctx = Inr tools \<and>
     key = fingerprint_agent_v1 sha cfg agent tools (Some (v1_gateway_setting cfg ctx)) \<and>
     v1_agents_create client (agent_create_kwargs cfg agent tools (v1_gateway_setting cfg ctx)) = Inr i)"

definition caches_ok where
  "caches_ok sha cfg Q cs \<longleftrightarrow> (\<forall>key i. dict_get (agent_ids cs) key = Some i \<longrightarrow> id_for sha cfg Q key i)"

lemma id_for_mono: "id_for sha cfg Q key i \<Longrightarrow> Q \<subseteq> Q' \<Longrightarrow> id_for sha cfg Q' key i"
  unfolding id_for_def by blast

lemma ensure_agent_ok:
  assumes "caches_ok sha cfg Q cs" "(client, agent, messages, ctx) \<in> Q" "build_tools agent ctx = Inr tools"
    "ensure_agent_id sha cfg client agent tools (Some (v1_gateway_setting cfg ctx)) cs = (acts, cs', r)"
  shows "caches_ok sha cfg Q cs'"
    "r = Inr i \<Longrightarrow> id_for sha cfg Q (fingerprint_agent_v1 sha cfg agent tools (Some (v1_gateway_setting cfg ctx))) i"
proof -
  have new: "id_for sha cfg Q (fingerprint_agent_v1 sha cfg agent tools (Some (v1_gateway_setting cfg ctx))) i"
    if "v1_agents_create client (agent_create_kwargs cfg agent tools (v1_gateway_setting cfg ctx)) = Inr i" for i
    using assms(2,3) that unfolding id_for_def by blast
  show "caches_ok sha cfg Q cs'"
    "r = Inr i \<Longrightarrow> id_for sha cfg Q (fingerprint_agent_v1 sha cfg agent tools (Some (v1_gateway_setting cfg ctx))) i"
    using assms(1,4) new
    by (auto simp: ensure_agent_id_def caches_ok_def Let_def split: option.splits sum.splits if_splits)
qed

lemma ensure_environment_agents: "ensure_environment_id cfg client cs = (acts, cs', r) \<Longrightarrow> agent_ids cs' = agent_ids cs"
  by (auto simp: ensure_environment_id_def Let_def split: option.splits sum.splits)

definition no_session :: "v2_action list \<Rightarrow> bool" where
  "no_session acts \<longleftrightarrow> (\<forall>kw. CreateSession kw \<notin> set acts)"

lemma no_session_simps [simp]: "no_session []" "no_session (xs @ ys) \<longleftrightarrow> no_session xs \<and> no_session ys"
  "no_session (a # xs) \<longleftrightarrow> (\<forall>kw. a \<noteq> CreateSession kw) \<and> no_session xs"
  by (auto simp: no_session_def)

lemma no_session_concat: "no_session (concat xss) \<longleftrightarrow> list_all no_session xss"
  by (induction xss) auto

lemma no_session_Yields [simp]: "no_session (map (Yield \<circ> f) xs)" "no_session (map (\<lambda>x. Yield (f x)) xs)"
  by (induction xs) auto

lemma execute_no_session [simp]: "no_session (fst (execute_pending_tool R st i))"
  by (simp add: execute_pending_tool_def Let_def split: option.split)

lemma answer_no_session [simp]: "no_session (answer_acts R st ids)"
  by (simp add: answer_acts_def no_session_concat list_all_iff)

lemma v1_event_loop_no_session:
  assumes "v1_inv E st" "logged_events R \<subseteq> E" "set evs \<subseteq> E" "v1_event_loop R se evs st = (acts, e)"
  shows "no_session acts"
  using assms
proof (induction evs arbitrary: st acts)
  case (Cons ev evs)
  obtain a st' fl where on: "v1_on_event R ev st = (a, st', fl)" by (cases "v1_on_event R ev st")
  have E: "ev \<in> E" "set evs \<subseteq> E" using Cons.prems(3) by auto
  have here: "no_session a"
    using Cons.prems(1,2) E(1) on
    by (cases rule: v1_on_event_cases) (auto simp: v1_finish_now_def lost_finish_def)
  show ?case
  proof (cases fl)
    case Continue
    obtain acts' where rest: "v1_event_loop R se evs st' = (acts', e)" "acts = a @ acts'"
      using Cons.prems(4) on Continue by (auto split: prod.splits)
    have "v1_inv E st'" using v1_on_event_inv [OF Cons.prems(1,2) E(1)] on Continue by blast
    from Cons.IH [OF this Cons.prems(2) E(2) rest(1)] here show ?thesis by (simp add: rest(2))
  qed (use Cons.prems(4) on here in auto)
qed simp

lemma v1_stream_session_no_session:
  "v1_stream_session cfg client tools ctx ue sid created = (acts, e) \<Longrightarrow> no_session acts"
proof (cases "v1_open_stream client sid")
  case None
  assume "v1_stream_session cfg client tools ctx ue sid created = (acts, e)"
  with None obtain body where b: "v1_stream_body (v1_run_of client tools ctx sid) ue (v1_client_stream_end client)
      (v1_client_events client) = (body, e)"
    "acts = OpenStream sid # body @ v1_finally_actions created (v1_delete_session_on_finish cfg)"
    by (auto simp: v1_stream_session_def v1_run_of_def split: prod.splits)
  have "no_session acts'" if "v1_event_loop (v1_run_of client tools ctx sid) (v1_client_stream_end client)
      (v1_client_events client) (v1_note_post ue v1_init) = (acts', e')" for acts' e'
    by (rule v1_event_loop_no_session [OF _ _ _ that, of "seen_events client"]) simp_all
  then have "no_session body" using v1_body_shape [OF b(1)] by auto
  then show ?thesis by (auto simp: b(2) v1_finally_actions_def split: option.split list.split)
qed (auto simp: v1_stream_session_def)

lemma start_session_agent:
  "v1_start_session client agent ctx aid env = (acts, r) \<Longrightarrow> CreateSession kw \<in> set acts \<Longrightarrow>
   dict_get kw ''agent'' = Some (PStr aid)"
  by (auto simp: v1_start_session_def create_session_v1_def Let_def split: option.splits sum.splits)

lemma stream_v1_session:
  assumes "stream_v1 sha cfg client cs agent messages ctx = (acts, e, cs')" "caches_ok sha cfg Q cs"
    "(client, agent, messages, ctx) \<in> Q"
  shows "caches_ok sha cfg Q cs'"
    "CreateSession kw \<in> set acts \<Longrightarrow> \<exists>tools i. build_tools agent ctx = Inr tools \<and>
       dict_get kw ''agent'' = Some (PStr i) \<and>
       id_for sha cfg Q (fingerprint_agent_v1 sha cfg agent tools (Some (v1_gateway_setting cfg ctx))) i"
proof -
  have "caches_ok sha cfg Q cs' \<and> (CreateSession kw \<in> set acts \<longrightarrow> (\<exists>tools i. build_tools agent ctx = Inr tools \<and>
       dict_get kw ''agent'' = Some (PStr i) \<and>
       id_for sha cfg Q (fingerprint_agent_v1 sha cfg agent tools (Some (v1_gateway_setting cfg ctx))) i))"
  proof (cases "normalize_messages_v1 messages = [] \<or> (\<exists>x. build_tools agent ctx = Inl x)")
    case True
    with assms(1,2) show ?thesis by (auto simp: stream_v1_def Let_def split: if_splits sum.splits)
  next
    case False
    then obtain tools where ue: "normalize_messages_v1 messages \<noteq> []" and Inr: "build_tools agent ctx = Inr tools"
      by (cases "build_tools agent ctx") auto
    obtain a1 c1 r1 where 1: "ensure_agent_id sha cfg client agent tools (Some (v1_gateway_setting cfg ctx)) cs = (a1, c1, r1)"
      by (metis prod_cases3)
    obtain a2 c2 r2 where 2: "ensure_environment_id cfg client c1 = (a2, c2, r2)" by (metis prod_cases3)
    note ok = ensure_agent_ok [OF assms(2,3) Inr 1]
    have c2: "caches_ok sha cfg Q c2" using ok(1) ensure_environment_agents [OF 2] by (simp add: caches_ok_def)
    have quiet: "no_session a1" "no_session a2"
      using 1 2 by (auto simp: ensure_agent_id_def ensure_environment_id_def Let_def split: option.splits sum.splits)
    note step = assms(1) [unfolded stream_v1_def Let_def, simplified ue Inr 1 if_False sum.case prod.case 2]
    show ?thesis
    proof (cases "\<exists>aid env. r1 = Inr aid \<and> r2 = Inr env")
      case False
      with step ok(1) c2 quiet show ?thesis by (cases r1; cases r2) (auto simp: no_session_def)
    next
      case True
      then obtain aid env where r: "r1 = Inr aid" "r2 = Inr env" by blast
      obtain a3 r3 where 3: "v1_start_session client agent ctx aid env = (a3, r3)" by fastforce
      obtain a4 where acts: "acts = a1 @ a2 @ a3 @ a4" "no_session a4" "cs' = c2"
        using step r 3 v1_stream_session_no_session [of cfg client tools ctx "normalize_messages_v1 messages"]
        by (cases r3) (force split: prod.splits)+
      with quiet start_session_agent [OF 3, of kw] ok(2) [OF r(1)] c2 Inr show ?thesis by (auto simp: no_session_def)
    qed
  qed
  then show "caches_ok sha cfg Q cs'" and "CreateSession kw \<in> set acts \<Longrightarrow> \<exists>tools i. build_tools agent ctx = Inr tools \<and>
       dict_get kw ''agent'' = Some (PStr i) \<and>
       id_for sha cfg Q (fingerprint_agent_v1 sha cfg agent tools (Some (v1_gateway_setting cfg ctx))) i"
    by blast+
qed

lemma after_invocations_ok: "caches_ok sha cfg (set reqs) (after_invocations sha cfg reqs)"
proof (induction reqs rule: rev_induct)
  case (snoc q reqs)
  obtain client agent messages ctx where q: "q = (client, agent, messages, ctx)" by (cases q)
  obtain acts e cs' where s: "stream_v1 sha cfg client (after_invocations sha cfg reqs) agent messages ctx = (acts, e, cs')"
    by (metis prod_cases3)
  have "caches_ok sha cfg (set (reqs @ [q])) (after_invocations sha cfg reqs)"
    using snoc id_for_mono [where Q = "set reqs" and Q' = "set (reqs @ [q])"] unfolding caches_ok_def by (simp; blast)
  from stream_v1_session(1) [OF s this] show ?case using s by (simp add: after_invocations_def q)
qed (simp add: after_invocations_def caches_ok_def)

end
