(* ===== verification/PropertiesV1.thy ===== *)
theory PropertiesV1
  imports BackendV1 PropertiesV2
begin

text \<open>
  The properties of one invocation of \<open>ManagedAgentBackend\<close>, the first of the two Anthropic backends: what it
  yields and posts, how its replies relate to those of the second backend, and which managed agent
  a session runs on across invocations.
\<close>

section \<open>Properties\<close>

text \<open>A client whose session asks for one custom tool it streamed and one it only logged.\<close>

definition exv1_logged :: sdk_event where
  "exv1_logged = bare_event\<lparr>evt_type := Some ''agent.mcp_tool_use'', evt_id := Some ''e2'', evt_name := Some ''find''\<rparr>"

definition exv1_client :: v1_client where
  "exv1_client = \<lparr>v1_agents_create = (\<lambda>kw. Inr ''agent_1''), v1_environments_create = (\<lambda>n c. Inr ''env_1''),
     v1_sessions_create = (\<lambda>kw. Inr ''s1''), v1_open_stream = (\<lambda>s. None),
     v1_client_server = \<lparr>v1_send_outcome = (\<lambda>h b. None), session_log = (\<lambda>n. ([exv1_logged], None))\<rparr>,
     v1_client_events =
       [bare_event\<lparr>evt_type := Some ''agent.custom_tool_use'', evt_id := Some ''e1'', evt_name := Some ''add''\<rparr>,
        bare_event\<lparr>evt_type := Some ''session.status_idle'',
          evt_stop_reason := Some \<lparr>stop_type = Some ''requires_action'', stop_event_ids = [''e1'', ''e2'']\<rparr>\<rparr>,
        bare_event\<lparr>evt_type := Some ''session.status_idle'',
          evt_stop_reason := Some \<lparr>stop_type = Some ''end_turn'', stop_event_ids = []\<rparr>\<rparr>],
     v1_client_stream_end = None\<rparr>"

definition exv1_cfg :: v1_config where
  "exv1_cfg = fst (make_backend_v1 None ''copass-agents-env'' False True False DEFAULT_GATEWAY_MCP_URL DEFAULT_GATEWAY_MCP_NAME)"

lemma exv1_run: "case stream_v1 id exv1_cfg exv1_client \<lparr>agent_ids = [], environment_id = None\<rparr> ex_agent (PStr ''1+2?'') ex_ctx of
    (acts, e, cs) \<Rightarrow> e = None \<and> list_ex (\<lambda>a. case a of CreateSession kw \<Rightarrow> True | _ \<Rightarrow> False) acts \<and>
      yields_of acts = [AgentToolCall ''e1'' ''add'' [],
        AgentToolResult ''e1'' ''add'' (PDict [(''sum'', PInt 3)]) None,
        AgentToolResult ''e2'' ''find'' (PDict [(''confirmed'', PBool True)]) None,
        AgentFinish ''end_turn'' [] (Some ''s1'')] \<and>
      posts_of acts = [[user_message [text_block ''1+2?'']],
        [execute_and_build_reply ''e1'' ''add'' [] [(''add'', ex_tool)] ex_ctx, mcp_build_reply ''e2'']]"
  by code_simp

text \<open>Claim C11. An invocation of the first backend yields at most one finish, as its last event, and none when it raises;
  it yields one whenever the session's stream holds an event that ends it.\<close>

theorem v1_finishes_at_most_once:
  "case stream_v1 sha cfg client cs agent messages ctx of
     (acts, e, cs') \<Rightarrow>
       (case e of
          Some x \<Rightarrow> no_finish (yields_of acts)
        | None \<Rightarrow> (\<exists>sid. ends_with_finish sid (yields_of acts)) \<or>
            no_finish (yields_of acts) \<and> filter terminal (v1_client_events client) = [])"
  using stream_v1_finishes by (cases "stream_v1 sha cfg client cs agent messages ctx") auto

text \<open>Claim C10. The first backend posts nothing, or first the user's messages and then, for a subsequence of the stream's
  requires_action rounds in their order, one non-empty batch per round that answers the requested ids in
  their order; after them at most one interrupt.\<close>

theorem v1_posts_answer_rounds:
  "case stream_v1 sha cfg client cs agent messages ctx of
     (acts, e, cs') \<Rightarrow>
       (case posts_of acts of
          [] \<Rightarrow> True
        | first # rest \<Rightarrow>
            first = normalize_messages_v1 messages \<and>
            (\<exists>batches stops. (rest = batches \<or> rest = batches @ [interrupt_events]) \<and>
               list_all2 (\<lambda>b s. b \<noteq> [] \<and> map reply_id b = map PStr (stop_event_ids s)) batches stops \<and>
               subseq stops (rounds_of (v1_client_events client))))"
  using stream_v1_posts [of sha cfg client cs agent messages ctx]
  by (cases "stream_v1 sha cfg client cs agent messages ctx")
    (auto simp: v1_batches_ok_def v1_answers_def [abs_def] split: list.split, blast+)

text \<open>Claim C9. Every reply the first backend posts is the one the sealed union of the second builds for a tool-use event
  that the session streamed or logged: its envelope matches the event's and it cites the event's id.\<close>

theorem v1_replies_match_events:
  assumes "stream_v1 sha cfg client cs agent messages ctx = (acts, e, cs')"
    "b \<in> set (tl (posts_of acts))" "b \<noteq> interrupt_events" "r \<in> set b"
  shows "\<exists>tools ev c. build_tools agent ctx = Inr tools \<and> ev \<in> seen_events client \<and>
    evt_id ev = Some (event_id c) \<and>
    build_pending_tool_call ev (evt_type ev) (event_id c) (name_or_empty ev) = Inr c \<and>
    r = build_reply tools ctx c"
  using stream_v1_replies [OF assms] unfolding call_of_def by blast

theorem v1_replies_match_events_witness:
  "\<exists>tools ev c. build_tools ex_agent ex_ctx = Inr tools \<and> ev \<in> seen_events exv1_client \<and>
    evt_id ev = Some (event_id c) \<and>
    build_pending_tool_call ev (evt_type ev) (event_id c) (name_or_empty ev) = Inr c \<and>
    mcp_build_reply ''e2'' = build_reply tools ex_ctx c"
proof -
  obtain acts e cs where run: "stream_v1 id exv1_cfg exv1_client \<lparr>agent_ids = [], environment_id = None\<rparr> ex_agent
      (PStr ''1+2?'') ex_ctx = (acts, e, cs)" by (metis prod_cases3)
  have "posts_of acts = [[user_message [text_block ''1+2?'']],
        [execute_and_build_reply ''e1'' ''add'' [] [(''add'', ex_tool)] ex_ctx, mcp_build_reply ''e2'']]"
    using exv1_run by (simp add: run)
  then show ?thesis
    by (intro v1_replies_match_events [OF run, of "[execute_and_build_reply ''e1'' ''add'' [] [(''add'', ex_tool)] ex_ctx,
        mcp_build_reply ''e2'']"]) (simp_all add: interrupt_events_def)
qed

text \<open>The first backend yields a tool result only after the call it answers, unless the call's event was
  recovered from the session's log.\<close>

theorem v1_results_follow_calls:
  "case stream_v1 sha cfg client cs agent messages ctx of
     (acts, e, cs') \<Rightarrow> answered_after_call
       {i. \<exists>n. \<exists>ev \<in> set (fst (session_log (v1_client_server client) n)). evt_id ev = Some i} (yields_of acts)"
  using stream_v1_answered by (cases "stream_v1 sha cfg client cs agent messages ctx") auto

text \<open>The exception is real: a recovered call is answered without having been announced, so \<open>run\<close> reports
  no call for it.\<close>

lemma v1_recovered_call_not_logged:
  "\<exists>r. run_v1 (id, exv1_cfg, exv1_client, \<lparr>agent_ids = [], environment_id = None\<rparr>, ex_agent) (PStr ''1+2?'') ex_ctx = Inr r \<and>
     map log_call_id (tool_calls r) = [''e1'']"
proof -
  obtain acts e cs where run: "stream_v1 id exv1_cfg exv1_client \<lparr>agent_ids = [], environment_id = None\<rparr> ex_agent
      (PStr ''1+2?'') ex_ctx = (acts, e, cs)" by (metis prod_cases3)
  then have "events_v1 (id, exv1_cfg, exv1_client, \<lparr>agent_ids = [], environment_id = None\<rparr>, ex_agent) (PStr ''1+2?'') ex_ctx =
     ([AgentToolCall ''e1'' ''add'' [], AgentToolResult ''e1'' ''add'' (PDict [(''sum'', PInt 3)]) None,
        AgentToolResult ''e2'' ''find'' (PDict [(''confirmed'', PBool True)]) None,
        AgentFinish ''end_turn'' [] (Some ''s1'')], None)"
    using exv1_run by (simp add: events_v1_def)
  then show ?thesis by (simp add: run_v1_def run_result_def drain_def empty_run_def)
qed

text \<open>Claim C12. The first backend runs a session on a managed agent with the current agent's fingerprint: after any
  sequence of invocations, the agent id a new session is created with is one that \<open>agents.create\<close> returned,
  in this or an earlier invocation, to a request whose fingerprint is that of the current agent, tools and
  gateway setting.\<close>

theorem v1_session_runs_current_agent:
  assumes "stream_v1 sha cfg client (after_invocations sha cfg reqs) agent messages ctx = (acts, e, cs')"
    "CreateSession kw \<in> set acts"
  shows "\<exists>tools i client' agent' messages' ctx' tools'.
    build_tools agent ctx = Inr tools \<and> dict_get kw ''agent'' = Some (PStr i) \<and>
    (client', agent', messages', ctx') \<in> set (reqs @ [(client, agent, messages, ctx)]) \<and>
    build_tools agent' ctx' = Inr tools' \<and>
    v1_agents_create client' (agent_create_kwargs cfg agent' tools' (v1_gateway_setting cfg ctx')) = Inr i \<and>
    fingerprint_agent_v1 sha cfg agent' tools' (Some (v1_gateway_setting cfg ctx')) =
    fingerprint_agent_v1 sha cfg agent tools (Some (v1_gateway_setting cfg ctx))"
proof -
  let ?Q = "set (reqs @ [(client, agent, messages, ctx)])"
  have "caches_ok sha cfg ?Q (after_invocations sha cfg reqs)"
    using after_invocations_ok [of sha cfg reqs] id_for_mono [where Q = "set reqs" and Q' = ?Q]
    unfolding caches_ok_def by (simp; blast)
  from stream_v1_session(2) [OF assms(1) this _ assms(2)] obtain tools i where
    t: "build_tools agent ctx = Inr tools" "dict_get kw ''agent'' = Some (PStr i)"
      "id_for sha cfg ?Q (fingerprint_agent_v1 sha cfg agent tools (Some (v1_gateway_setting cfg ctx))) i" by auto
  then show ?thesis unfolding id_for_def by metis
qed

theorem v1_session_runs_current_agent_witness:
  "\<exists>acts kw tools i client' agent' messages' ctx' tools'. CreateSession kw \<in> set acts \<and>
    build_tools ex_agent ex_ctx = Inr tools \<and> dict_get kw ''agent'' = Some (PStr i) \<and>
    (client', agent', messages', ctx') \<in> set [(exv1_client, ex_agent, PStr ''1+2?'', ex_ctx)] \<and>
    build_tools agent' ctx' = Inr tools' \<and>
    v1_agents_create client' (agent_create_kwargs exv1_cfg agent' tools' (v1_gateway_setting exv1_cfg ctx')) = Inr i"
proof -
  obtain acts e cs where run: "stream_v1 id exv1_cfg exv1_client (after_invocations id exv1_cfg []) ex_agent
      (PStr ''1+2?'') ex_ctx = (acts, e, cs)" by (metis prod_cases3)
  then obtain a where a: "a \<in> set acts" "case a of CreateSession kw \<Rightarrow> True | _ \<Rightarrow> False"
    using exv1_run by (auto simp: after_invocations_def list_ex_iff)
  from a(2) obtain kw where "a = CreateSession kw" by (cases a) simp_all
  with a(1) have "CreateSession kw \<in> set acts" by simp
  with v1_session_runs_current_agent [OF run this] show ?thesis by (simp only: append_Nil) blast
qed

end
