(* ===== verification/PyFormat.thy ===== *)
theory PyFormat
  imports PyConv
begin

text \<open>
  Comprehensions whose elements may raise, and the formatting of numbers with two decimals
  (\<open>f"{x:.2f}"\<close>) on binary64 floats.
\<close>

section \<open>Comprehensions\<close>

text \<open>The first element that raises ends the comprehension.\<close>

fun try_map :: "('a \<Rightarrow> 'e + 'b) \<Rightarrow> 'a list \<Rightarrow> 'e + 'b list" where
  "try_map f [] = Inr []"
| "try_map f (x # xs) = (case f x of Inl e \<Rightarrow> Inl e | Inr y \<Rightarrow> map_sum id (\<lambda>ys. y # ys) (try_map f xs))"

lemma try_map_total: "\<forall>x \<in> set xs. f x = Inr (g x) \<Longrightarrow> try_map f xs = Inr (map g xs)"
  by (induction xs) simp_all

lemma try_map_cong [fundef_cong]:
  "xs = ys \<Longrightarrow> (\<And>x. x \<in> set ys \<Longrightarrow> f x = g x) \<Longrightarrow> try_map f xs = try_map g ys"
  by (induction xs arbitrary: ys) (auto split: sum.split)

lemma try_map_Inr: "try_map f xs = Inr ys \<longleftrightarrow> list_all2 (\<lambda>x y. f x = Inr y) xs ys"
proof (induction xs arbitrary: ys)
  case (Cons x xs)
  show ?case by (cases ys; cases "f x"; cases "try_map f xs") (auto simp: Cons [symmetric])
qed auto

lemma try_map_length: "try_map f xs = Inr ys \<Longrightarrow> length ys = length xs"
  by (auto simp: try_map_Inr dest: list_all2_lengthD)

lemma map_sum_Inr: "map_sum id f r = Inr y \<longleftrightarrow> (\<exists>v. r = Inr v \<and> f v = y)"
  by (cases r) simp_all

lemma try_map_each: "try_map f xs = Inr ys \<Longrightarrow> x \<in> set xs \<Longrightarrow> \<exists>y. f x = Inr y"
  by (induction xs arbitrary: ys) (auto simp: map_sum_Inr split: sum.splits)

text \<open>One computation after another; the first that raises ends both.\<close>

definition and_then :: "exn + 'a \<Rightarrow> ('a \<Rightarrow> exn + 'b) \<Rightarrow> exn + 'b" where
  "and_then r f = (case r of Inl e \<Rightarrow> Inl e | Inr v \<Rightarrow> f v)"

lemma and_then_Inr: "and_then r f = Inr y \<longleftrightarrow> (\<exists>v. r = Inr v \<and> f v = Inr y)"
  by (simp add: and_then_def split: sum.split)

section \<open>Two decimals\<close>

definition two_digits :: "nat \<Rightarrow> string" where
  "two_digits n = (if n < 10 then CHR ''0'' # dec_nat n else dec_nat n)"

text \<open>The binary64 number nearest to \<open>p / q\<close>, rounded half to even to hundredths; nothing when it is
  too large for a float.\<close>

definition fixed2 :: "int \<Rightarrow> int \<Rightarrow> string option" where
  "fixed2 p q =
     (case nearest_double p q of
        (m, s) \<Rightarrow>
          (let num = (if 0 \<le> s then m else m * 2 ^ nat (- s));
               den = (if 0 \<le> s then 2 ^ nat s else 1);
               h = nat (round_div (100 * num) den)
           in if 2 ^ 1024 * den \<le> num then None
              else Some (dec_nat (h div 100) @ ''.'' @ two_digits (h mod 100))))"

definition with_sign :: "bool \<Rightarrow> string \<Rightarrow> string" where
  "with_sign neg s = (if neg then CHR ''-'' # s else s)"

text \<open>A float literal \<open>i.f e x\<close> as a fraction, without its sign.\<close>

definition literal_fraction :: "string \<Rightarrow> int \<times> int" where
  "literal_fraction s =
     (let mant = takeWhile (\<lambda>c. c \<noteq> CHR ''e'' \<and> c \<noteq> CHR ''E'') s;
          ex = drop (Suc (length mant)) s;
          x = (case strip_sign ex of (xneg, xs) \<Rightarrow> signed xneg (digits_value xs));
          i = takeWhile (\<lambda>c. c \<noteq> CHR ''.'') mant;
          f = drop (Suc (length i)) mant;
          e = x - int (length f)
      in (digits_value (i @ f) * 10 ^ nat e, 10 ^ nat (- e)))"

definition format_float :: "string \<Rightarrow> string" where
  "format_float l =
     (case strip_sign l of
        (neg, s) \<Rightarrow>
          if s = ''nan'' then ''nan''
          else with_sign neg
            (if s = ''inf'' then ''inf''
             else case literal_fraction s of (p, q) \<Rightarrow>
               (case fixed2 p q of None \<Rightarrow> ''inf'' | Some t \<Rightarrow> t)))"

definition format_int :: "int \<Rightarrow> exn + string" where
  "format_int i =
     (case fixed2 (abs i) 1 of
        None \<Rightarrow> Inl (OtherError ''OverflowError'' ''int too large to convert to float'')
      | Some t \<Rightarrow> Inr (with_sign (i < 0) t))"

lemma fixed2_small: "fixed2 87 100 = Some ''0.87''" "fixed2 1 8 = Some ''0.12''" "fixed2 3 1 = Some ''3.00''"
    "fixed2 1005 1000 = Some ''1.00''"
  by code_simp+

end
