(* ===== verification/ToolConfig.thy ===== *)
theory ToolConfig
  imports PyVal
begin

text \<open>
  The texts that every adapter shows the model (\<open>copass-config\<close>): descriptions of the tools and of their
  parameters. Em and en dashes are written as hyphens: the model's characters lie below 256.
\<close>

section \<open>Descriptions\<close>

definition DISCOVER_DESCRIPTION :: string where
  "DISCOVER_DESCRIPTION =
     py_join [nl]
      [''Return a ranked menu of context items relevant to a query. Each item is a'',
       ''pointer (canonical_ids + short summary), not prose.'',
       '''',
       ''Window-aware by construction: results automatically exclude items already'',
       ''surfaced earlier in this conversation, so every call returns genuinely NEW'',
       ''signal - never duplicates. Repeated calls progressively map the relevant'',
       ''slice of the knowledge graph, and because results skip what'' @ [sq] @ ''s already been'',
       ''seen, you never waste tokens re-consuming known material.'',
       '''',
       ''To drill into a menu item, call `search` with a focused natural-language'',
       ''question.'']"

definition MCP_DISCOVER_DESCRIPTION :: string where
  "MCP_DISCOVER_DESCRIPTION =
     py_join [nl]
      [''Ranked menu of items from the user'' @ [sq] @ ''s knowledge graph. Window-aware:'',
       ''each call returns only items not already surfaced - no duplicates.'',
       '''',
       ''To drill into a menu item, call `search` with a focused natural-language'',
       ''question.'']"

definition INTERPRET_DESCRIPTION :: string where
  "INTERPRET_DESCRIPTION =
     py_join [nl]
      [''Legacy: prefer `search` with a natural-language question for drill-in.'',
       ''Returns a 1-2 paragraph brief pinned to specific items picked from'',
       ''`discover`. Still exposed by SDK adapters for backward compatibility.'']"

definition SEARCH_DESCRIPTION :: string where
  "SEARCH_DESCRIPTION =
     py_join [nl]
      [''Synthesized natural-language answer grounded in the user'' @ [sq] @ ''s knowledge'',
       ''graph. Phrase the query as a natural-language question, not keywords.'',
       '''',
       ''Hard rule: every user turn must be informed by EITHER the `discover`'',
       ''menu OR at least one `search` call before you answer.'']"

definition GET_ORIGIN_DESCRIPTION :: string where
  "GET_ORIGIN_DESCRIPTION =
     py_join [nl]
      [''Look up source files for one or more canonical entities. Pair with'',
       ''`discover`: pass the `canonical_ids` from the items you picked, and'',
       ''get back the files those entities were extracted from. Cheap (no LLM'',
       ''legs) and meant to be called right before opening a file with your'',
       ''native read tool.'',
       '''',
       ''A single canonical can span multiple files; each file comes with an'',
       ''`extraction_count` so you can prefer the file the entity is most'',
       ''concentrated in.'']"

definition MCP_GET_ORIGIN_DESCRIPTION :: string where
  "MCP_GET_ORIGIN_DESCRIPTION =
     py_join [nl]
      [''Map canonical_ids (from `discover`) to source files. Cheap, no LLM.'',
       ''Returns one entry per canonical with the files it was extracted from,'',
       ''ordered by extraction frequency.'']"

definition DISCOVER_QUERY_PARAM :: string where
  "DISCOVER_QUERY_PARAM =
     ''Natural-language query to surface relevant context for.''"

definition INTERPRET_QUERY_PARAM :: string where
  "INTERPRET_QUERY_PARAM =
     ''The question the brief should answer.''"

definition SEARCH_QUERY_PARAM :: string where
  "SEARCH_QUERY_PARAM =
     ''The question to answer.''"

definition INTERPRET_ITEMS_PARAM :: string where
  "INTERPRET_ITEMS_PARAM =
     py_join '' ''
      [''List of canonical_ids tuples - each tuple is the `canonical_ids` field'',
       ''from one discover item. Pass several to synthesize across items.'']"

definition PROJECT_ID_PARAM :: string where
  "PROJECT_ID_PARAM =
     ''Override the server default project_id.''"

definition PRESET_PARAM :: string where
  "PRESET_PARAM =
     ''Override the server default preset.''"

definition ORIGIN_CANONICAL_IDS_PARAM :: string where
  "ORIGIN_CANONICAL_IDS_PARAM =
     py_join '' ''
      [''Canonical IDs to look up source files for. Typically the'',
       ''`canonical_ids` arrays from items the caller picked out of `discover`.'',
       ''At least one is required; up to 100 per call.'']"

definition ORIGIN_LIMIT_PARAM :: string where
  "ORIGIN_LIMIT_PARAM =
     py_join '' ''
      [''Per-canonical cap on returned files (1-50). Files are ordered by how'',
       ''many extractions of the canonical came from each, descending.'',
       ''Defaults to 10 when omitted.'']"

end
