(* ===== verification/RetrievalTools.thy ===== *)
theory RetrievalTools
  imports ContextWindow CoreAgents PyFormat ToolConfig
begin

text \<open>
  The retrieval and ingestion tools an agent gets (\<open>copass-context-agents\<close>: \<open>retrieval_tools.py\<close>,
  \<open>ingest_tool.py\<close>) and the adapters of the same retrieval calls for LangChain (\<open>copass-langchain/tools.py\<close>)
  and Pydantic AI (\<open>copass-pydantic-ai\<close>: \<open>client.py\<close>, \<open>tools.py\<close>). A tool calls the API, a state-passing
  function, and projects the response. The window is what its \<open>get_turns()\<close> returns when the tool runs.
\<close>

section \<open>What a tool is bound to\<close>

record tool_binding =
  tb_sandbox :: string
  tb_project :: "string option"
  tb_window :: "turn list option"
  tb_preset :: string

definition call_tool :: "'s api \<Rightarrow> 's \<Rightarrow> exn + api_call \<Rightarrow> (pyval \<Rightarrow> exn + pyval) \<Rightarrow> 's \<times> (exn + pyval)" where
  "call_tool api s call project =
     (case call of
        Inl e \<Rightarrow> (s, Inl e)
      | Inr c \<Rightarrow>
          (case api s c of
             (s', Inl e) \<Rightarrow> (s', Inl e)
           | (s', Inr resp) \<Rightarrow> (s', project resp)))"

section \<open>Projections of the responses\<close>

definition menu_item :: "pyval \<Rightarrow> exn + pyval" where
  "menu_item item =
     map_sum id (\<lambda>d. PDict
        [(''score'', get_none d ''score''), (''summary'', get_none d ''summary''),
         (''canonical_ids'', get_or d ''canonical_ids'' (PList [])), (''subgraph'', get_none d ''subgraph''),
         (''matched_query_nodes'', get_none d ''matched_query_nodes''),
         (''file_paths'', py_or (get_none d ''file_paths'') (PList []))])
       (need_dict item)"

text \<open>\<open>response.get(k, dflt)\<close> for the header and the next steps.\<close>

definition project_menu :: "pyval \<Rightarrow> pyval \<Rightarrow> exn + pyval" where
  "project_menu dflt resp =
     (case need_dict resp of
        Inl e \<Rightarrow> Inl e
      | Inr d \<Rightarrow>
          (case py_list (get_or d ''items'' (PList [])) of
             Inl e \<Rightarrow> Inl e
           | Inr vs \<Rightarrow> map_sum id (\<lambda>items. PDict
               [(''header'', get_or d ''header'' dflt), (''items'', PList items),
                (''next_steps'', get_or d ''next_steps'' dflt)]) (try_map menu_item vs)))"

definition project_field :: "string \<Rightarrow> pyval \<Rightarrow> pyval \<Rightarrow> exn + pyval" where
  "project_field k dflt resp = map_sum id (\<lambda>d. PDict [(k, get_or d k dflt)]) (need_dict resp)"

definition origin_file :: "pyval \<Rightarrow> exn + pyval" where
  "origin_file f =
     map_sum id (\<lambda>d. PDict [(''file_path'', get_none d ''file_path''),
        (''extraction_count'', get_none d ''extraction_count'')]) (need_dict f)"

definition origin_entry :: "pyval \<Rightarrow> exn + pyval" where
  "origin_entry entry =
     (case need_dict entry of
        Inl e \<Rightarrow> Inl e
      | Inr d \<Rightarrow>
          (case py_list (get_or d ''files'' (PList [])) of
             Inl e \<Rightarrow> Inl e
           | Inr vs \<Rightarrow> map_sum id (\<lambda>fs. PDict [(''canonical_id'', get_none d ''canonical_id''), (''files'', PList fs)])
               (try_map origin_file vs)))"

definition project_origins :: "pyval \<Rightarrow> exn + pyval" where
  "project_origins resp =
     (case need_dict resp of
        Inl e \<Rightarrow> Inl e
      | Inr d \<Rightarrow>
          (case py_list (get_or d ''origins'' (PList [])) of
             Inl e \<Rightarrow> Inl e
           | Inr vs \<Rightarrow> map_sum id (\<lambda>os. PDict [(''sandbox_id'', get_none d ''sandbox_id''), (''origins'', PList os)])
               (try_map origin_entry vs)))"

section \<open>The agent tools\<close>

definition object_schema :: "(string \<times> pydict) list \<Rightarrow> string list \<Rightarrow> pydict" where
  "object_schema properties required =
     [(''type'', PStr ''object''), (''properties'', PDict (map (\<lambda>(k, d). (k, PDict d)) properties)),
      (''required'', PList (map PStr required)), (''additionalProperties'', PBool False)]"

definition string_param :: "string \<Rightarrow> pydict" where
  "string_param descr = [(''type'', PStr ''string''), (''description'', PStr descr)]"

definition discover_spec :: tool_spec where
  "discover_spec = \<lparr>spec_name = ''discover'', spec_description = DISCOVER_DESCRIPTION,
     spec_input_schema = object_schema [(''query'', string_param DISCOVER_QUERY_PARAM)] [''query'']\<rparr>"

definition interpret_spec :: tool_spec where
  "interpret_spec = \<lparr>spec_name = ''interpret'', spec_description = INTERPRET_DESCRIPTION,
     spec_input_schema = object_schema
       [(''query'', string_param INTERPRET_QUERY_PARAM),
        (''items'', [(''type'', PStr ''array''),
           (''items'', PDict [(''type'', PStr ''array''), (''items'', PDict [(''type'', PStr ''string'')]),
              (''minItems'', PInt 1)]),
           (''minItems'', PInt 1), (''description'', PStr INTERPRET_ITEMS_PARAM)])]
       [''query'', ''items'']\<rparr>"

definition search_spec :: tool_spec where
  "search_spec = \<lparr>spec_name = ''search'', spec_description = SEARCH_DESCRIPTION,
     spec_input_schema = object_schema [(''query'', string_param SEARCH_QUERY_PARAM)] [''query'']\<rparr>"

definition get_origin_spec :: tool_spec where
  "get_origin_spec = \<lparr>spec_name = ''get_origin'', spec_description = GET_ORIGIN_DESCRIPTION,
     spec_input_schema = object_schema
       [(''canonical_ids'', [(''type'', PStr ''array''), (''items'', PDict [(''type'', PStr ''string'')]),
           (''minItems'', PInt 1), (''maxItems'', PInt 100), (''description'', PStr ORIGIN_CANONICAL_IDS_PARAM)]),
        (''limit_per_canonical'', [(''type'', PStr ''integer''), (''minimum'', PInt 1), (''maximum'', PInt 50),
           (''description'', PStr ORIGIN_LIMIT_PARAM)])]
       [''canonical_ids'']\<rparr>"

definition query_arg :: "pydict \<Rightarrow> string" where
  "query_arg args = py_str (get_or args ''query'' (PStr []))"

definition discover_tool :: "'s api \<Rightarrow> 's \<Rightarrow> tool_binding \<Rightarrow> pydict \<Rightarrow> 's \<times> (exn + pyval)" where
  "discover_tool api s tb args =
     call_tool api s
       (discover (tb_sandbox tb) (query_arg args) (tb_window tb) None (tb_project tb) None (Some (tb_preset tb)))
       (project_menu PNone)"

text \<open>\<open>[str(x) for x in tup]\<close> for each non-empty \<open>tup\<close>.\<close>

definition id_tuples :: "pyval \<Rightarrow> exn + string list list" where
  "id_tuples raw =
     (case py_list (py_or raw (PList [])) of
        Inl e \<Rightarrow> Inl e
      | Inr tups \<Rightarrow> try_map (\<lambda>tup. map_sum id (map py_str) (py_list tup)) (filter truthy tups))"

definition interpret_tool :: "'s api \<Rightarrow> 's \<Rightarrow> tool_binding \<Rightarrow> pydict \<Rightarrow> 's \<times> (exn + pyval)" where
  "interpret_tool api s tb args =
     (case id_tuples (get_or args ''items'' (PList [])) of
        Inl e \<Rightarrow> (s, Inl e)
      | Inr items \<Rightarrow>
          call_tool api s
            (interpret_items (tb_sandbox tb) (query_arg args) items (tb_window tb) None (tb_project tb) None
               (Some (tb_preset tb)) None)
            (project_field ''brief'' PNone))"

definition search_tool :: "'s api \<Rightarrow> 's \<Rightarrow> tool_binding \<Rightarrow> pydict \<Rightarrow> 's \<times> (exn + pyval)" where
  "search_tool api s tb args =
     call_tool api s
       (search (tb_sandbox tb) (query_arg args) (tb_window tb) None (tb_project tb) None (Some (tb_preset tb)) None None)
       (project_field ''answer'' PNone)"

definition get_origin_tool :: "'s api \<Rightarrow> 's \<Rightarrow> tool_binding \<Rightarrow> pydict \<Rightarrow> 's \<times> (exn + pyval)" where
  "get_origin_tool api s tb args =
     (case py_list (py_or (get_or args ''canonical_ids'' (PList [])) (PList [])) of
        Inl e \<Rightarrow> (s, Inl e)
      | Inr raw \<Rightarrow>
          (let ids = map py_str (filter truthy raw); limit = get_none args ''limit_per_canonical''
           in case (if limit = PNone then Inr None else map_sum id Some (py_int limit)) of
                Inl e \<Rightarrow> (s, Inl e)
              | Inr n \<Rightarrow> call_tool api s (Inr (get_origin (tb_sandbox tb) ids n)) project_origins))"

datatype retrieval_tool = DiscoverTool | InterpretTool | SearchTool | GetOriginTool

definition copass_retrieval_tools :: "retrieval_tool list" where
  "copass_retrieval_tools = [DiscoverTool, InterpretTool, SearchTool, GetOriginTool]"

fun retrieval_spec :: "retrieval_tool \<Rightarrow> tool_spec" where
  "retrieval_spec DiscoverTool = discover_spec"
| "retrieval_spec InterpretTool = interpret_spec"
| "retrieval_spec SearchTool = search_spec"
| "retrieval_spec GetOriginTool = get_origin_spec"

fun invoke_retrieval :: "retrieval_tool \<Rightarrow> 's api \<Rightarrow> 's \<Rightarrow> tool_binding \<Rightarrow> pydict \<Rightarrow> 's \<times> (exn + pyval)" where
  "invoke_retrieval DiscoverTool = discover_tool"
| "invoke_retrieval InterpretTool = interpret_tool"
| "invoke_retrieval SearchTool = search_tool"
| "invoke_retrieval GetOriginTool = get_origin_tool"

section \<open>The ingest tool\<close>

definition INGEST_DESCRIPTION :: string where
  "INGEST_DESCRIPTION =
     ''Push content into the knowledge graph via a data source. Use for: '' @
     ''architecture decisions (source_type: '' @ dq # ''decision'' @ dq # ''), user-shared context '' @
     ''('' @ dq # ''user_input'' @ dq # ''), corrections ('' @ dq # ''correction'' @ dq # ''), durable notes, any '' @
     ''significant new concept. Do NOT ingest trivial changes or ephemeral '' @
     ''debug context - those belong in the Context Window (every agent turn '' @
     ''is already mirrored there automatically). Call this only when the '' @
     ''content is worth preserving beyond the current conversation.''"

definition CONTENT_PARAM :: string where
  "CONTENT_PARAM = ''The content to ingest. Non-empty.''"

definition SOURCE_TYPE_PARAM :: string where
  "SOURCE_TYPE_PARAM =
     ''Type tag: code, markdown, json, text, conversation, decision, correction, '' @
     ''user_input. Defaults to the tool'' @ sq # ''s configured default_source_type when omitted.''"

definition STORAGE_ONLY_PARAM :: string where
  "STORAGE_ONLY_PARAM = ''If true, chunk and store but skip ontology ingestion.''"

definition OCCURRED_AT_PARAM :: string where
  "OCCURRED_AT_PARAM =
     ''Optional ISO 8601 timestamp anchoring the content to a real-world moment '' @
     ''(e.g. when the user said it, when the decision was made). Used as the '' @
     ''default occurred_at for any composed event whose own LLM-extracted '' @
     ''timestamp is None, so temporal queries can find this content.''"

definition ingest_spec :: tool_spec where
  "ingest_spec = \<lparr>spec_name = ''ingest'', spec_description = INGEST_DESCRIPTION,
     spec_input_schema = object_schema
       [(''content'', [(''type'', PStr ''string''), (''minLength'', PInt 1), (''description'', PStr CONTENT_PARAM)]),
        (''source_type'', string_param SOURCE_TYPE_PARAM),
        (''storage_only'', [(''type'', PStr ''boolean''), (''description'', PStr STORAGE_ONLY_PARAM)]),
        (''occurred_at'', string_param OCCURRED_AT_PARAM)]
       [''content'']\<rparr>"

record ingest_binding =
  ib_sandbox :: string
  ib_source :: string
  ib_project :: "string option"
  ib_default_type :: string
  ib_author :: "string option"

definition not_none :: "pyval \<Rightarrow> pyval option" where
  "not_none v = (if v = PNone then None else Some v)"

text \<open>The call of \<open>sources.ingest\<close> with arguments as the model sent them, whatever their types.\<close>

definition ingest_call :: "ingest_binding \<Rightarrow> string \<Rightarrow> pyval \<Rightarrow> pyval \<Rightarrow> pyval \<Rightarrow> api_call" where
  "ingest_call ib content source_type storage_only occurred_at =
     POST (ingest_base (ib_sandbox ib))
       (PDict (set_fields
         [(''source_type'', not_none source_type), (''storage_only'', not_none storage_only),
          (''project_id'', some_str (ib_project ib)), (''occurred_at'', not_none occurred_at),
          (''speaker'', some_str (ib_author ib)), (''participants'', None)]
         [(''text'', PStr content), (''data_source_id'', PStr (ib_source ib))]))"

definition ingest_tool :: "'s api \<Rightarrow> 's \<Rightarrow> ingest_binding \<Rightarrow> pydict \<Rightarrow> 's \<times> (exn + pyval)" where
  "ingest_tool api s ib args =
     (let content = py_strip (py_str (get_or args ''content'' (PStr [])))
      in if content = []
         then (s, Inr (PDict [(''error'', PStr ''content is required and must be non-empty'')]))
         else call_tool api s
           (Inr (ingest_call ib content (py_or (get_none args ''source_type'') (PStr (ib_default_type ib)))
              (get_none args ''storage_only'') (get_none args ''occurred_at'')))
           (\<lambda>resp. map_sum id (\<lambda>d. PDict [(''job_id'', get_none d ''job_id''), (''status'', get_none d ''status''),
              (''data_source_id'', PStr (ib_source ib))]) (need_dict resp)))"

section \<open>LangChain\<close>

text \<open>The coroutines of \<open>copass_tools\<close>; pydantic has already validated their arguments.\<close>

definition lc_discover :: "'s api \<Rightarrow> 's \<Rightarrow> tool_binding \<Rightarrow> string \<Rightarrow> 's \<times> (exn + pyval)" where
  "lc_discover api s tb query =
     call_tool api s
       (discover (tb_sandbox tb) query (tb_window tb) None (tb_project tb) None (Some (tb_preset tb)))
       (project_menu (PStr []))"

definition lc_interpret :: "'s api \<Rightarrow> 's \<Rightarrow> tool_binding \<Rightarrow> string \<Rightarrow> string list list \<Rightarrow> 's \<times> (exn + pyval)" where
  "lc_interpret api s tb query items =
     call_tool api s
       (interpret_items (tb_sandbox tb) query items (tb_window tb) None (tb_project tb) None (Some (tb_preset tb)) None)
       (project_field ''brief'' (PStr []))"

definition lc_search :: "'s api \<Rightarrow> 's \<Rightarrow> tool_binding \<Rightarrow> string \<Rightarrow> 's \<times> (exn + pyval)" where
  "lc_search api s tb query =
     call_tool api s
       (search (tb_sandbox tb) query (tb_window tb) None (tb_project tb) None (Some (tb_preset tb)) None None)
       (project_field ''answer'' (PStr []))"

definition lc_get_origin :: "'s api \<Rightarrow> 's \<Rightarrow> tool_binding \<Rightarrow> string list \<Rightarrow> int option \<Rightarrow> 's \<times> (exn + pyval)" where
  "lc_get_origin api s tb ids limit = call_tool api s (Inr (get_origin (tb_sandbox tb) ids limit)) project_origins"

section \<open>Pydantic AI\<close>

text \<open>Its client talks to the service by itself: a request is sent, unless its body cannot be encoded.\<close>

record pyd_client =
  pyd_api_url :: string
  pyd_api_key :: string

record pyd_request =
  pq_url :: string
  pq_headers :: "(string, string) dict"
  pq_body :: pyval

definition make_pyd_client :: "string \<Rightarrow> string \<Rightarrow> pyd_client" where
  "make_pyd_client url key = \<lparr>pyd_api_url = rstrip_char (CHR ''/'') url, pyd_api_key = key\<rparr>"

definition pyd_headers :: "pyd_client \<Rightarrow> (string, string) dict" where
  "pyd_headers c = [(''Authorization'', ''Bearer '' @ pyd_api_key c), (''Content-Type'', ''application/json'')]"

text \<open>The turns go into the body as they are: a dict is encoded, an object is not.\<close>

fun encode_turn :: "turn \<Rightarrow> exn + pyval" where
  "encode_turn (DictTurn d) = Inr (PDict d)"
| "encode_turn (ChatTurn m) = Inl (TypeError ''Object of type ChatMessage is not JSON serializable'')"
| "encode_turn (OtherTurn cls) = Inl (TypeError (''Object of type '' @ cls @ '' is not JSON serializable''))"

definition pyd_turns_from :: "turn list option \<Rightarrow> exn + pyval list" where
  "pyd_turns_from window = (case window of None \<Rightarrow> Inr [] | Some ts \<Rightarrow> try_map encode_turn ts)"

definition to_pyd_request :: "pyd_client \<Rightarrow> string \<Rightarrow> pydict \<Rightarrow> pyd_request" where
  "to_pyd_request c path body =
     \<lparr>pq_url = pyd_api_url c @ path, pq_headers = pyd_headers c, pq_body = PDict body\<rparr>"

definition given_project :: "string option \<Rightarrow> pydict" where
  "given_project p = (case p of Some (x # xs) \<Rightarrow> [(''project_id'', PStr (x # xs))] | _ \<Rightarrow> [])"

definition pyd_discover :: "pyd_client \<Rightarrow> string \<Rightarrow> string \<Rightarrow> string option \<Rightarrow> turn list option \<Rightarrow> string option \<Rightarrow>
    exn + pyd_request" where
  "pyd_discover c sb query proj window preset =
     map_sum id (\<lambda>h. to_pyd_request c (''/api/v1/query/sandboxes/'' @ sb @ ''/discover'')
        ([(''query'', PStr query), (''history'', PList h)] @ given_project proj @
         (case preset of None \<Rightarrow> [] | Some p \<Rightarrow> [(''preset'', PStr p)])))
       (pyd_turns_from window)"

definition pyd_interpret :: "pyd_client \<Rightarrow> string \<Rightarrow> string \<Rightarrow> string list list \<Rightarrow> string option \<Rightarrow> turn list option \<Rightarrow>
    string \<Rightarrow> exn + pyd_request" where
  "pyd_interpret c sb query items proj window preset =
     map_sum id (\<lambda>h. to_pyd_request c (''/api/v1/query/sandboxes/'' @ sb @ ''/interpret'')
        ([(''query'', PStr query), (''items'', PList (map (\<lambda>i. PList (map PStr i)) items)), (''history'', PList h),
          (''preset'', PStr preset)] @ given_project proj))
       (pyd_turns_from window)"

definition pyd_search :: "pyd_client \<Rightarrow> string \<Rightarrow> string \<Rightarrow> string option \<Rightarrow> turn list option \<Rightarrow> string \<Rightarrow>
    exn + pyd_request" where
  "pyd_search c sb query proj window preset =
     map_sum id (\<lambda>h. to_pyd_request c (''/api/v1/query/sandboxes/'' @ sb @ ''/search'')
        ([(''query'', PStr query), (''history'', PList h), (''preset'', PStr preset)] @ given_project proj))
       (pyd_turns_from window)"

definition pyd_get_origin :: "pyd_client \<Rightarrow> string \<Rightarrow> string list \<Rightarrow> int option \<Rightarrow> pyd_request" where
  "pyd_get_origin c sb ids limit =
     to_pyd_request c (''/api/v1/query/sandboxes/'' @ sb @ ''/origins'')
       ((''canonical_ids'', PList (map PStr ids)) #
        (case limit of None \<Rightarrow> [] | Some n \<Rightarrow> [(''limit_per_canonical'', PInt n)]))"

text \<open>\<open>_post\<close> over an HTTP transport that answers with a status and the decoded body, or raises; a status
  outside the 2xx range raises.\<close>

type_synonym 's pyd_http = "'s \<Rightarrow> pyd_request \<Rightarrow> 's \<times> (exn + int \<times> (exn + pyval))"

definition pyd_post :: "'s pyd_http \<Rightarrow> 's \<Rightarrow> exn + pyd_request \<Rightarrow> (pyval \<Rightarrow> exn + pyval) \<Rightarrow> 's \<times> (exn + pyval)" where
  "pyd_post http s rq project =
     (case rq of
        Inl e \<Rightarrow> (s, Inl e)
      | Inr q \<Rightarrow>
          (case http s q of
             (s', Inl e) \<Rightarrow> (s', Inl e)
           | (s', Inr (status, body)) \<Rightarrow>
               (s', if status < 200 \<or> 300 \<le> status then Inl (OtherError ''HTTPStatusError'' (dec_int status))
                    else case body of Inl e \<Rightarrow> Inl e | Inr resp \<Rightarrow> project resp)))"

definition pyd_tool_discover :: "'s pyd_http \<Rightarrow> 's \<Rightarrow> pyd_client \<Rightarrow> tool_binding \<Rightarrow> string \<Rightarrow> 's \<times> (exn + pyval)" where
  "pyd_tool_discover http s c tb query =
     pyd_post http s (pyd_discover c (tb_sandbox tb) query (tb_project tb) (tb_window tb) (Some (tb_preset tb)))
       (project_menu PNone)"

definition pyd_tool_interpret ::
    "'s pyd_http \<Rightarrow> 's \<Rightarrow> pyd_client \<Rightarrow> tool_binding \<Rightarrow> string \<Rightarrow> string list list \<Rightarrow> 's \<times> (exn + pyval)" where
  "pyd_tool_interpret http s c tb query items =
     pyd_post http s (pyd_interpret c (tb_sandbox tb) query items (tb_project tb) (tb_window tb) (tb_preset tb))
       (project_field ''brief'' PNone)"

definition pyd_tool_search :: "'s pyd_http \<Rightarrow> 's \<Rightarrow> pyd_client \<Rightarrow> tool_binding \<Rightarrow> string \<Rightarrow> 's \<times> (exn + pyval)" where
  "pyd_tool_search http s c tb query =
     pyd_post http s (pyd_search c (tb_sandbox tb) query (tb_project tb) (tb_window tb) (tb_preset tb))
       (project_field ''answer'' PNone)"

definition pyd_tool_get_origin ::
    "'s pyd_http \<Rightarrow> 's \<Rightarrow> pyd_client \<Rightarrow> tool_binding \<Rightarrow> string list \<Rightarrow> int option \<Rightarrow> 's \<times> (exn + pyval)" where
  "pyd_tool_get_origin http s c tb ids limit =
     pyd_post http s (Inr (pyd_get_origin c (tb_sandbox tb) ids limit)) project_origins"

section \<open>Bodies and windows\<close>

text \<open>A window that hands out role and content dicts, as the Pydantic AI client expects.\<close>

definition plain_turn :: "turn \<Rightarrow> bool" where
  "plain_turn t \<longleftrightarrow> (\<exists>r c. t = DictTurn [(''role'', PStr r), (''content'', PStr c)])"

definition plain_window :: "turn list option \<Rightarrow> bool" where
  "plain_window w \<longleftrightarrow> (case w of None \<Rightarrow> True | Some ts \<Rightarrow> list_all plain_turn ts)"

lemma plain_turns: "list_all plain_turn ts \<Longrightarrow> \<exists>h. turns_to_dicts ts = Inr h \<and> try_map encode_turn ts = Inr h"
proof (induction ts)
  case (Cons t ts)
  then obtain h where "turns_to_dicts ts = Inr h" "try_map encode_turn ts = Inr h" by auto
  moreover obtain r c where "t = DictTurn [(''role'', PStr r), (''content'', PStr c)]"
    using Cons.prems by (auto simp: plain_turn_def)
  ultimately show ?case by (simp add: message_dict_def)
qed simp

lemma plain_history: "plain_window w \<Longrightarrow> \<exists>h. history w None = Inr h \<and> pyd_turns_from w = Inr h"
  using plain_turns by (cases w) (auto simp: plain_window_def history_def turns_from_def pyd_turns_from_def)

lemma given_project_fields: "p \<noteq> Some [] \<Longrightarrow> given_project p = (case p of None \<Rightarrow> [] | Some x \<Rightarrow> [(''project_id'', PStr x)])"
  by (auto simp: given_project_def split: option.split list.split)

text \<open>The Pydantic AI client asks for what the retrieval resource asks for; only the order of the keys may differ.\<close>

definition same_request :: "exn + api_call \<Rightarrow> pyd_client \<Rightarrow> exn + pyd_request \<Rightarrow> bool" where
  "same_request call c rq \<longleftrightarrow> (\<exists>path b b'. call = Inr (POST path (PDict b)) \<and> rq = Inr (to_pyd_request c path b') \<and> map_of b = map_of b')"

lemma same_requestI:
  "map_of b = map_of b' \<Longrightarrow> same_request (Inr (POST path (PDict b))) c (Inr (to_pyd_request c path b'))"
  unfolding same_request_def by blast

lemma same_requests:
  assumes "plain_window w" "p \<noteq> Some []"
  shows "same_request (discover sb q w None p None (Some pre)) c (pyd_discover c sb q p w (Some pre))"
    "same_request (interpret_items sb q its w None p None (Some pre) None) c (pyd_interpret c sb q its p w pre)"
    "same_request (search sb q w None p None (Some pre) None None) c (pyd_search c sb q p w pre)"
    "same_request (Inr (get_origin sb ids lim)) c (Inr (pyd_get_origin c sb ids lim))"
proof -
  obtain h where h: "history w None = Inr h" "pyd_turns_from w = Inr h" using plain_history [OF assms(1)] by blast
  note defs = h query_base_def given_project_fields [OF assms(2)] set_fields_def
  show "same_request (discover sb q w None p None (Some pre)) c (pyd_discover c sb q p w (Some pre))"
    unfolding discover_def pyd_discover_def defs by (cases p; simp; rule same_requestI; simp add: fun_eq_iff)
  show "same_request (interpret_items sb q its w None p None (Some pre) None) c (pyd_interpret c sb q its p w pre)"
    unfolding interpret_items_def pyd_interpret_def defs by (cases p; simp; rule same_requestI; simp add: fun_eq_iff)
  show "same_request (search sb q w None p None (Some pre) None None) c (pyd_search c sb q p w pre)"
    unfolding search_def pyd_search_def defs by (cases p; simp; rule same_requestI; simp add: fun_eq_iff)
  show "same_request (Inr (get_origin sb ids lim)) c (Inr (pyd_get_origin c sb ids lim))"
    by (cases lim; simp add: get_origin_def pyd_get_origin_def defs; rule same_requestI; simp add: fun_eq_iff)
qed

text \<open>The service answers one question alike, with success at the first attempt, over the core client and over the
  client of the Pydantic AI tools; it reads a body as a mapping. Nothing is said of other questions or of failures.\<close>

definition answered_alike :: "'s api \<Rightarrow> 's pyd_http \<Rightarrow> pyd_client \<Rightarrow> 's \<Rightarrow> exn + api_call \<Rightarrow> 's \<Rightarrow> pyval \<Rightarrow> bool" where
  "answered_alike api http c s call s' v \<longleftrightarrow>
     (\<exists>path b. call = Inr (POST path (PDict b)) \<and> api s (POST path (PDict b)) = (s', Inr v) \<and>
        (\<forall>b'. map_of b = map_of b' \<longrightarrow> http s (to_pyd_request c path b') = (s', Inr (200, Inr v))))"

lemma POST_inject: "POST path (PDict b) = POST path' (PDict b') \<Longrightarrow> path = path' \<and> b = b'"
  by (simp add: base_post_def default_options_def)

lemma answered_alike_core: "answered_alike api http c s call s' v \<Longrightarrow> call_tool api s call project = (s', project v)"
  by (auto simp: answered_alike_def call_tool_def)

lemma answered_alike_pyd:
  assumes "answered_alike api http c s call s' v" "same_request call c rq"
  shows "pyd_post http s rq project = (s', project v)"
proof -
  obtain path b b' where r: "call = Inr (POST path (PDict b))" "rq = Inr (to_pyd_request c path b')" "map_of b = map_of b'"
    using assms(2) unfolding same_request_def by blast
  with assms(1) have "http s (to_pyd_request c path b') = (s', Inr (200, Inr v))"
    unfolding answered_alike_def by (auto dest!: POST_inject)
  then show ?thesis by (simp add: r(2) pyd_post_def)
qed

text \<open>Adapters that leave a missing text \<open>None\<close> or empty agree when the response has it.\<close>

definition has_texts :: "string list \<Rightarrow> pyval \<Rightarrow> bool" where
  "has_texts ks v = (case as_dict v of Some d \<Rightarrow> list_all (\<lambda>k. dict_get d k \<noteq> None) ks | None \<Rightarrow> True)"

lemma menu_defaults: "list_all (\<lambda>k. dict_get d k \<noteq> None) [''header'', ''next_steps''] \<Longrightarrow>
    project_menu v (PDict d) = project_menu w (PDict d)"
proof -
  assume "list_all (\<lambda>k. dict_get d k \<noteq> None) [''header'', ''next_steps'']"
  then have "get_or d ''header'' v = get_or d ''header'' w" "get_or d ''next_steps'' v = get_or d ''next_steps'' w"
    by (auto simp: get_or_def)
  then show ?thesis by (simp add: project_menu_def need_dict_def split: sum.split)
qed

lemma field_defaults: "list_all (\<lambda>k. dict_get d k \<noteq> None) [k] \<Longrightarrow>
    project_field k v (PDict d) = project_field k w (PDict d)"
  by (auto simp: project_field_def need_dict_def get_or_def)

lemma not_dict: "as_dict v = None \<Longrightarrow> need_dict v = Inl (no_attribute v ''get'')"
  by (cases v) (simp_all add: need_dict_def)


lemma menu_with_texts: "has_texts [''header'', ''next_steps''] v \<Longrightarrow> project_menu d v = project_menu d' v"
proof (cases "as_dict v")
  case None
  then show ?thesis by (simp add: project_menu_def not_dict)
next
  case (Some x)
  moreover assume "has_texts [''header'', ''next_steps''] v"
  ultimately show ?thesis using menu_defaults [of x d d'] by (cases v) (auto simp: has_texts_def)
qed

lemma field_with_texts: "has_texts [k] v \<Longrightarrow> project_field k d v = project_field k d' v"
proof (cases "as_dict v")
  case None
  then show ?thesis by (simp add: project_field_def not_dict)
next
  case (Some x)
  moreover assume "has_texts [k] v"
  ultimately show ?thesis using field_defaults [of x k d d'] by (cases v) (auto simp: has_texts_def)
qed

lemma id_tuples_texts: "[] \<notin> set its \<Longrightarrow> id_tuples (PList (map (\<lambda>i. PList (map PStr i)) its)) = Inr its"
proof -
  assume "[] \<notin> set its"
  then have "filter truthy (map (\<lambda>i. PList (map PStr i)) its) = map (\<lambda>i. PList (map PStr i)) its"
    by (induction its) auto
  moreover have "try_map (\<lambda>tup. map_sum id (map py_str) (py_list tup)) (map (\<lambda>i. PList (map PStr i)) xs) = Inr xs" for xs
    by (induction xs) (simp_all add: comp_def)
  ultimately show ?thesis by (cases its) (auto simp: id_tuples_def py_or_def comp_def)
qed

lemma get_origin_texts:
  assumes "[] \<notin> set ids"
  shows "get_origin_tool api s tb ((''canonical_ids'', PList (map PStr ids)) #
      (case lim of None \<Rightarrow> [] | Some n \<Rightarrow> [(''limit_per_canonical'', PInt n)])) =
    call_tool api s (Inr (get_origin (tb_sandbox tb) ids lim)) project_origins"
proof -
  have "map py_str (filter truthy (map PStr ids)) = ids" using assms by (induction ids) auto
  then show ?thesis by (cases ids; cases lim) (auto simp: get_origin_tool_def get_or_def py_or_def Let_def)
qed

end
