(* ===== verification/LangChainAgent.thy ===== *)
theory LangChainAgent
  imports RetrievalTools LangChainCallback MirrorFacts ResourceFacts
begin

text \<open>
  The LangChain agent (\<open>copass-langchain\<close>: the bundle of \<open>tools.py\<close>, \<open>agent.py\<close>): what \<open>copass_tools\<close> hands to a
  framework, what \<open>create_copass_agent\<close> builds from it, and a run of such an agent: the framework, in
  any order, starts model calls, which the callback sees, lets a background task run, and calls tools. LangGraph is a
  parameter.
\<close>

section \<open>The bundle\<close>

record arg_field =
  af_name :: string
  af_required :: bool
  af_min_length :: "nat option"
  af_max_length :: "nat option"
  af_range :: "(int \<times> int) option"
  af_description :: string

definition plain_field :: "string \<Rightarrow> string \<Rightarrow> arg_field" where
  "plain_field name description =
     \<lparr>af_name = name, af_required = True, af_min_length = None, af_max_length = None, af_range = None,
      af_description = description\<rparr>"

definition discover_args :: "arg_field list" where
  "discover_args = [plain_field ''query'' DISCOVER_QUERY_PARAM]"

definition interpret_args :: "arg_field list" where
  "interpret_args = [plain_field ''query'' INTERPRET_QUERY_PARAM,
     (plain_field ''items'' INTERPRET_ITEMS_PARAM)\<lparr>af_min_length := Some 1\<rparr>]"

definition search_args :: "arg_field list" where
  "search_args = [plain_field ''query'' SEARCH_QUERY_PARAM]"

definition get_origin_args :: "arg_field list" where
  "get_origin_args =
     [(plain_field ''canonical_ids'' ORIGIN_CANONICAL_IDS_PARAM)\<lparr>af_min_length := Some 1, af_max_length := Some 100\<rparr>,
      (plain_field ''limit_per_canonical'' ORIGIN_LIMIT_PARAM)\<lparr>af_required := False, af_range := Some (1, 50)\<rparr>]"

text \<open>Arguments that were read into an instance of an argument class.\<close>

datatype lc_args =
    DiscoverArgs string
  | InterpretArgs string "string list list"
  | SearchArgs string
  | GetOriginArgs "string list" "int option"

record 's structured_tool =
  st_name :: string
  st_description :: string
  st_args :: "arg_field list"
  st_coroutine :: "'s \<Rightarrow> turn list option \<Rightarrow> lc_args \<Rightarrow> 's \<times> (exn + pyval)"

text \<open>The coroutines close over the client and the window, whose turns are read at the call.\<close>

definition lc_call :: "'s api \<Rightarrow> tool_binding \<Rightarrow> 's \<Rightarrow> turn list option \<Rightarrow> lc_args \<Rightarrow> 's \<times> (exn + pyval)" where
  "lc_call api tb s turns args =
     (let tb' = tb\<lparr>tb_window := turns\<rparr>
      in case args of
           DiscoverArgs query \<Rightarrow> lc_discover api s tb' query
         | InterpretArgs query items \<Rightarrow> lc_interpret api s tb' query items
         | SearchArgs query \<Rightarrow> lc_search api s tb' query
         | GetOriginArgs ids limit \<Rightarrow> lc_get_origin api s tb' ids limit)"

record 's tool_bundle =
  ct_discover :: "'s structured_tool"
  ct_interpret :: "'s structured_tool"
  ct_search :: "'s structured_tool"
  ct_get_origin :: "'s structured_tool"

definition from_function :: "'s api \<Rightarrow> tool_binding \<Rightarrow> string \<Rightarrow> string \<Rightarrow> arg_field list \<Rightarrow> 's structured_tool" where
  "from_function api tb name description args =
     \<lparr>st_name = name, st_description = description, st_args = args, st_coroutine = lc_call api tb\<rparr>"

definition copass_tools :: "'s api \<Rightarrow> tool_binding \<Rightarrow> 's tool_bundle" where
  "copass_tools client tb =
     \<lparr>ct_discover = from_function client tb ''discover'' DISCOVER_DESCRIPTION discover_args,
      ct_interpret = from_function client tb ''interpret'' INTERPRET_DESCRIPTION interpret_args,
      ct_search = from_function client tb ''search'' SEARCH_DESCRIPTION search_args,
      ct_get_origin = from_function client tb ''get_origin'' GET_ORIGIN_DESCRIPTION get_origin_args\<rparr>"

definition tools_all :: "'s tool_bundle \<Rightarrow> 's structured_tool list" where
  "tools_all ct = [ct_discover ct, ct_interpret ct, ct_search ct, ct_get_origin ct]"

section \<open>The agent\<close>

text \<open>\<open>create_react_agent\<close> takes the model, the tools (ours, then the caller's) and its options;
  \<open>with_callbacks\<close> is the config of the built graph. The import of LangGraph may fail.\<close>

definition create_copass_agent ::
    "bool \<Rightarrow> ('llm \<Rightarrow> ('s structured_tool + 'x) list \<Rightarrow> 'opts \<Rightarrow> exn + 'graph) \<Rightarrow> ('graph \<Rightarrow> callback list \<Rightarrow> 'graph) \<Rightarrow>
     's api \<Rightarrow> tool_binding \<Rightarrow> 'llm \<Rightarrow> context_window option \<Rightarrow> 'x list option \<Rightarrow> bool \<Rightarrow> 'opts \<Rightarrow> exn + 'graph" where
  "create_copass_agent langgraph create_react_agent with_callbacks client tb llm window extra include_tool_messages opts =
     (if \<not> langgraph
      then Inl (OtherError ''ImportError'' (''create_copass_agent requires `langgraph`. Install with '' @
             ''`pip install copass-langchain[agent]`.''))
      else let all_tools = map Inl (tools_all (copass_tools client tb)) @ map Inr (case extra of None \<Rightarrow> [] | Some ts \<Rightarrow> ts)
           in map_sum id (\<lambda>agent. case window of
                  None \<Rightarrow> agent
                | Some w \<Rightarrow> with_callbacks agent [make_callback w include_tool_messages])
                (create_react_agent llm all_tools opts))"

section \<open>A run\<close>

datatype lc_event = ModelCall "lc_message list" | RunTask | CallTool lc_args

record 's lc_run =
  lr_window :: context_window
  lr_callback :: callback
  lr_started :: nat
  lr_service :: 's

definition lc_start :: "context_window \<Rightarrow> bool \<Rightarrow> 's \<Rightarrow> 's lc_run" where
  "lc_start w include_tool_messages s =
     \<lparr>lr_window = w, lr_callback = make_callback w include_tool_messages, lr_started = 0, lr_service = s\<rparr>"

text \<open>Tasks run in the order of their creation.\<close>

fun lc_step :: "'s api \<Rightarrow> tool_binding \<Rightarrow> lc_event \<Rightarrow> 's lc_run \<Rightarrow> 's lc_run" where
  "lc_step api tb (ModelCall messages) g = g\<lparr>lr_callback := on_chat_model_start [messages] (lr_callback g)\<rparr>"
| "lc_step api tb RunTask g =
     (case drop (lr_started g) (cb_tasks (lr_callback g)) of
        [] \<Rightarrow> g
      | t # ts \<Rightarrow>
          (case safe_add_turn api (lr_service g) (lr_window g) t of
             (s', w') \<Rightarrow> g\<lparr>lr_window := w', lr_started := Suc (lr_started g), lr_service := s'\<rparr>))"
| "lc_step api tb (CallTool args) g =
     g\<lparr>lr_service := fst (lc_call api tb (lr_service g) (Some (get_turns (lr_window g))) args)\<rparr>"

section \<open>Facts\<close>

text \<open>The turns that the model calls of a run put before the callback.\<close>

fun offered :: "bool \<Rightarrow> lc_event list \<Rightarrow> chat_message list" where
  "offered tools [] = []"
| "offered tools (ModelCall messages # es) = List.map_filter (to_turn tools) messages @ offered tools es"
| "offered tools (e # es) = offered tools es"

lemma fold_mirror_tools [simp]: "cb_include_tools (fold mirror_turn ts cb) = cb_include_tools cb"
  by (induction ts arbitrary: cb) (simp_all add: mirror_turn_def)

lemma mirrored:
  "cb_tasks (fold mirror_turn ts cb) = cb_tasks cb @ new_turns hash_turn (cb_seen cb) ts"
  "cb_seen (fold mirror_turn ts cb) = cb_seen cb \<union> hash_turn ` set ts"
  using cb_mirror.record_all [of ts cb] by simp_all

lemma lc_run_tasks:
  "cb_tasks (lr_callback (fold (lc_step api tb) es g)) =
     cb_tasks (lr_callback g) @ new_turns hash_turn (cb_seen (lr_callback g)) (offered (cb_include_tools (lr_callback g)) es)"
proof (induction es arbitrary: g)
  case (Cons e es)
  show ?case
  proof (cases e)
    case (ModelCall messages)
    then show ?thesis using Cons by (simp add: on_chat_model_start_fold mirrored new_turns_append)
  next
    case RunTask
    have "lr_callback (lc_step api tb e g) = lr_callback g"
      using RunTask by (auto split: list.split prod.split)
    with RunTask Cons show ?thesis by simp
  next
    case (CallTool args)
    then show ?thesis using Cons by simp
  qed
qed simp

lemma lc_run_window:
  assumes "lr_started g \<le> length (cb_tasks (lr_callback g))"
    "cw_turns (lr_window g) = base @ take (lr_started g) (cb_tasks (lr_callback g))"
  shows "lr_started (fold (lc_step api tb) es g) \<le> length (cb_tasks (lr_callback (fold (lc_step api tb) es g))) \<and>
    cw_turns (lr_window (fold (lc_step api tb) es g)) =
      base @ take (lr_started (fold (lc_step api tb) es g)) (cb_tasks (lr_callback (fold (lc_step api tb) es g)))"
  using assms
proof (induction es arbitrary: g)
  case (Cons e es)
  have "lr_started (lc_step api tb e g) \<le> length (cb_tasks (lr_callback (lc_step api tb e g))) \<and>
      cw_turns (lr_window (lc_step api tb e g)) =
        base @ take (lr_started (lc_step api tb e g)) (cb_tasks (lr_callback (lc_step api tb e g)))"
  proof (cases e)
    case (ModelCall messages)
    then show ?thesis using Cons.prems by (simp add: on_chat_model_start_fold mirrored)
  next
    case RunTask
    show ?thesis
    proof (cases "drop (lr_started g) (cb_tasks (lr_callback g))")
      case Nil
      then show ?thesis using RunTask Cons.prems by simp
    next
      case (Cons t ts)
      then have "lr_started g < length (cb_tasks (lr_callback g))" "cb_tasks (lr_callback g) ! lr_started g = t"
        by (metis drop_all leI list.distinct(1)) (metis Cons nth_via_drop)
      with RunTask Cons \<open>cw_turns (lr_window g) = _\<close> show ?thesis
        by (auto simp: safe_add_turn_def add_turn_def take_Suc_conv_app_nth split: prod.splits)
    qed
  next
    case (CallTool args)
    then show ?thesis using Cons.prems by simp
  qed
  then show ?case using Cons.IH by simp
qed simp

end
