(* ===== verification/PropertiesTools.thy ===== *)
theory PropertiesTools
  imports LangChainAgent
begin

text \<open>
  The adapters of the retrieval calls agree, and where they do not.
\<close>

section \<open>Properties\<close>





definition ex_binding :: tool_binding where
  "ex_binding = \<lparr>tb_sandbox = ''sb'', tb_project = Some ''p'',
     tb_window = Some [DictTurn [(''role'', PStr ''user''), (''content'', PStr ''hi'')]], tb_preset = ''copass/copass_1.0''\<rparr>"


text \<open>The Pydantic AI tools cannot be used with a context window of this library that holds a turn: encoding the
  request raises, and nothing is sent.\<close>

theorem pydantic_rejects_context_window:
  assumes "tb_window tb = Some (get_turns w)" "cw_turns w \<noteq> []"
  shows "pyd_tool_discover http s c tb q = (s, Inl (TypeError ''Object of type ChatMessage is not JSON serializable'')) \<and>
    pyd_tool_interpret http s c tb q its = (s, Inl (TypeError ''Object of type ChatMessage is not JSON serializable'')) \<and>
    pyd_tool_search http s c tb q = (s, Inl (TypeError ''Object of type ChatMessage is not JSON serializable''))"
proof -
  have "pyd_turns_from (tb_window tb) = Inl (TypeError ''Object of type ChatMessage is not JSON serializable'')"
    using assms by (cases "cw_turns w") (simp_all add: pyd_turns_from_def get_turns_def)
  then show ?thesis
    by (simp add: pyd_tool_discover_def pyd_tool_interpret_def pyd_tool_search_def pyd_discover_def pyd_interpret_def
        pyd_search_def pyd_post_def)
qed

theorem pydantic_rejects_context_window_witness:
  "\<exists>w. make_context_window ''sb'' ''ds'' None (Some [\<lparr>chat_role = ''user'', chat_content = ''hi'', chat_name = None\<rparr>]) None = Inr w \<and>
     pyd_tool_search (\<lambda>s rq. (Suc s, Inr (200, Inr PNone))) 0 (make_pyd_client ''u'' ''k'') (ex_binding\<lparr>tb_window := Some (get_turns w)\<rparr>) ''q'' =
       (0, Inl (TypeError ''Object of type ChatMessage is not JSON serializable''))"
proof -
  obtain w where w: "make_context_window ''sb'' ''ds'' None (Some [\<lparr>chat_role = ''user'', chat_content = ''hi'', chat_name = None\<rparr>]) None = Inr w"
    "cw_turns w \<noteq> []"
    by (simp add: make_context_window_def make_data_source_def)
  note rejects = pydantic_rejects_context_window [of "ex_binding\<lparr>tb_window := Some (get_turns w)\<rparr>" w, OF _ w(2)]
  show ?thesis by (rule exI [of _ w], rule conjI [OF w(1)], rule rejects [THEN conjunct2, THEN conjunct2]) simp
qed

section \<open>The LangChain agent\<close>

text \<open>Claim C40. However the framework interleaves model calls, background tasks and tool calls in a run of a LangChain agent with
  a window, the window holds its first turns followed by a prefix of the turns the model calls have put
  before the callback, each kept once, in order: all of them when no task is left to run; and a discover call
  made then sends exactly these turns as its history.\<close>

theorem langchain_agent_window:
  "let g = fold (lc_step (logged api) tb) es (lc_start w tools (l, s));
       T = new_turns hash_turn (hash_turn ` set (cw_turns w)) (offered tools es)
   in lr_started g \<le> length T \<and> cw_turns (lr_window g) = cw_turns w @ take (lr_started g) T \<and>
      drop (lr_started g) (cb_tasks (lr_callback g)) = drop (lr_started g) T \<and>
      (\<exists>b. fst (lr_service (lc_step (logged api) tb (CallTool (DiscoverArgs q)) g)) =
             fst (lr_service g) @ [POST (query_base (tb_sandbox tb) ''discover'') (PDict b)] \<and>
           carries_history b q (cw_turns w @ take (lr_started g) T))"
proof -
  let ?start = "lc_start w tools (l, s)"
  let ?g = "fold (lc_step (logged api) tb) es ?start"
  let ?T = "new_turns hash_turn (hash_turn ` set (cw_turns w)) (offered tools es)"
  have T: "cb_tasks (lr_callback ?g) = ?T"
    using lc_run_tasks [where api = "logged api" and tb = tb and es = es and g = ?start] by (simp add: lc_start_def make_callback_def)
  have W: "lr_started ?g \<le> length ?T \<and> cw_turns (lr_window ?g) = cw_turns w @ take (lr_started ?g) ?T"
    using lc_run_window [where g = ?start and base = "cw_turns w" and api = "logged api" and tb = tb and es = es] by (simp add: T) (simp add: lc_start_def make_callback_def)
  have h: "history (Some (get_turns (lr_window ?g))) None =
      Inr (map (\<lambda>m. message_dict (chat_role m) (chat_content m)) (cw_turns (lr_window ?g)))"
    by (simp only: history_def turns_from_def get_turns_def option.simps turns_to_dicts_chat)
  obtain l' s' where g: "lr_service ?g = (l', s')" by (cases "lr_service ?g")
  have "\<exists>b. fst (lr_service (lc_step (logged api) tb (CallTool (DiscoverArgs q)) ?g)) =
      fst (lr_service ?g) @ [POST (query_base (tb_sandbox tb) ''discover'') (PDict b)] \<and> carries_history b q (cw_turns (lr_window ?g))"
    by (auto simp: g lc_call_def lc_discover_def call_tool_def discover_def h logged_simp carries_history_def set_fields_get
        simp del: set_fields_Cons split: sum.split prod.split)
  with T W show ?thesis by (simp add: Let_def)
qed

end
