(* ===== verification/HermesBackend.thy ===== *)
theory HermesBackend
  imports AgentRun JsonRoundtrip SseFacts
begin

text \<open>
  The backend for Hermes sandboxes (\<open>copass-hermes-agents/backends/hermes_agent_backend.py\<close>): the request it
  builds, the reading of the event-stream lines of one response, the retries around it, \<open>stream\<close> and \<open>run\<close>.
  The HTTP client is a parameter: what each attempt meets. Waiting times between attempts are not modelled.
\<close>

section \<open>Construction and request\<close>

definition HERMES_MODEL_PREFIX :: string where
  "HERMES_MODEL_PREFIX = ''hermes/''"

definition HERMES_MAX_RETRIES :: nat where
  "HERMES_MAX_RETRIES = 2"

definition strip_model_prefix :: "string \<Rightarrow> exn + string" where
  "strip_model_prefix m =
     (if prefix HERMES_MODEL_PREFIX m then Inr (drop (length HERMES_MODEL_PREFIX) m)
      else Inl (ValueError (''HermesAgentBackend: model must start with '' @ repr_str HERMES_MODEL_PREFIX @
        ''; got '' @ repr_str m)))"

record hermes_backend =
  hb_endpoint_url :: string
  hb_api_server_key :: string
  hb_preview_token :: "string option"
  hb_default_model :: string

definition or_none :: "string option \<Rightarrow> string option" where
  "or_none t = (case t of Some (c # cs) \<Rightarrow> Some (c # cs) | _ \<Rightarrow> None)"

definition make_hermes_backend :: "string \<Rightarrow> string \<Rightarrow> string option \<Rightarrow> string \<Rightarrow> exn + hermes_backend" where
  "make_hermes_backend endpoint key token default_model =
     (if endpoint = [] then Inl (ValueError ''HermesAgentBackend: endpoint_url is required'')
      else if key = [] then Inl (ValueError ''HermesAgentBackend: api_server_key is required'')
      else Inr \<lparr>hb_endpoint_url = rstrip_char (CHR ''/'') endpoint, hb_api_server_key = key,
                hb_preview_token = or_none token, hb_default_model = default_model\<rparr>)"

definition set_preview_token :: "string option \<Rightarrow> hermes_backend \<Rightarrow> hermes_backend" where
  "set_preview_token token hb = hb\<lparr>hb_preview_token := or_none token\<rparr>"

definition resolve_model_id :: "hermes_backend \<Rightarrow> base_agent \<Rightarrow> exn + string" where
  "resolve_model_id hb agent =
     strip_model_prefix (if model agent = [] then hb_default_model hb else model agent)"

definition chat_entry :: "pyval \<Rightarrow> pyval \<Rightarrow> pydict" where
  "chat_entry role content = [(''role'', role), (''content'', content)]"

text \<open>The text parts of a list of content blocks.\<close>

definition block_texts :: "pyval list \<Rightarrow> string list" where
  "block_texts blocks =
     concat (map (\<lambda>b. case b of
        PDict d \<Rightarrow> if get_none d ''type'' = PStr ''text'' then [py_str (get_or d ''text'' (PStr []))] else []
      | PStr s \<Rightarrow> [s]
      | _ \<Rightarrow> []) blocks)"

definition chat_content_of :: "pyval \<Rightarrow> string" where
  "chat_content_of content =
     (case content of
        PStr s \<Rightarrow> s
      | PList blocks \<Rightarrow> py_join [nl] (filter (\<lambda>p. p \<noteq> []) (block_texts blocks))
      | _ \<Rightarrow> py_str content)"

text \<open>The two shapes the signature allows; any other argument counts as no messages.\<close>

definition build_chat_messages :: "base_agent \<Rightarrow> pyval \<Rightarrow> pydict list" where
  "build_chat_messages agent messages =
     (if py_strip (system_prompt agent) = [] then []
      else [chat_entry (PStr ''system'') (PStr (system_prompt agent))]) @
     (case messages of
        PStr s \<Rightarrow> [chat_entry (PStr ''user'') (PStr s)]
      | PList msgs \<Rightarrow>
          concat (map (\<lambda>msg. case msg of
             PDict d \<Rightarrow> [chat_entry (get_or d ''role'' (PStr ''user''))
                (PStr (chat_content_of (get_or d ''content'' (PStr []))))]
           | _ \<Rightarrow> []) msgs)
      | _ \<Rightarrow> [])"

text \<open>\<open>float(v)\<close> of a number; integers up to \<open>2 ^ 53\<close> are floats as they are.\<close>

definition to_float :: "pyval \<Rightarrow> exn + pyval" where
  "to_float v =
     (case v of
        PFloat l \<Rightarrow> Inr (PFloat l)
      | PBool b \<Rightarrow> Inr (PFloat (if b then ''1.0'' else ''0.0''))
      | PInt i \<Rightarrow> if abs i \<le> 2 ^ 53 then Inr (PFloat (dec_int i @ ''.0''))
                  else Inl (OtherError ''UnmodelledFloat'' (dec_int i))
      | _ \<Rightarrow> Inl (OtherError ''UnmodelledFloat'' (py_repr v)))"

definition is_number :: "pyval \<Rightarrow> bool" where
  "is_number v = (case v of PInt i \<Rightarrow> True | PBool b \<Rightarrow> True | PFloat l \<Rightarrow> True | _ \<Rightarrow> False)"

definition request_overrides :: "invocation_context \<Rightarrow> exn + pydict" where
  "request_overrides ctx =
     (let max_tokens = get_none (handles ctx) ''max_tokens'';
          temperature = get_none (handles ctx) ''temperature'';
          mt = (case as_int max_tokens of
                  Some n \<Rightarrow> if 0 < n then [(''max_tokens'', max_tokens)] else []
                | None \<Rightarrow> [])
      in if is_number temperature
         then map_sum id (\<lambda>f. mt @ [(''temperature'', f)]) (to_float temperature)
         else Inr mt)"

record hermes_request =
  hq_url :: string
  hq_headers :: "(string, string) dict"
  hq_body :: pydict

definition hermes_request_of ::
    "hermes_backend \<Rightarrow> base_agent \<Rightarrow> pyval \<Rightarrow> invocation_context \<Rightarrow> exn + hermes_request" where
  "hermes_request_of hb agent messages ctx =
     (let chat = build_chat_messages agent messages
      in case resolve_model_id hb agent of
           Inl e \<Rightarrow> Inl e
         | Inr m \<Rightarrow>
             (case request_overrides ctx of
                Inl e \<Rightarrow> Inl e
              | Inr extra \<Rightarrow> Inr
                  \<lparr>hq_url = hb_endpoint_url hb @ ''/v1/chat/completions'',
                   hq_headers = [(''Authorization'', ''Bearer '' @ hb_api_server_key hb),
                     (''Content-Type'', ''application/json''), (''Accept'', ''text/event-stream'')] @
                     (case hb_preview_token hb of None \<Rightarrow> [] | Some t \<Rightarrow> [(''x-daytona-preview-token'', t)]),
                   hq_body = [(''model'', PStr m), (''messages'', PList (map PDict chat)),
                     (''stream'', PBool True)] @ extra\<rparr>))"

section \<open>Reading one response\<close>

record line_reader =
  lr_usage :: pydict
  lr_finished :: bool

definition usage_count_keys :: "string list" where
  "usage_count_keys = [''prompt_tokens'', ''completion_tokens'', ''total_tokens'', ''input_tokens'', ''output_tokens'']"

definition take_usage :: "pyval \<Rightarrow> pydict \<Rightarrow> pydict" where
  "take_usage u acc =
     (case u of
        PDict d \<Rightarrow> fold (\<lambda>k acc. let v = get_none d k in if as_int v \<noteq> None then dict_set k v acc else acc)
          usage_count_keys acc
      | _ \<Rightarrow> acc)"

definition read_choice :: "pyval \<Rightarrow> line_reader \<Rightarrow> agent_event list \<times> line_reader" where
  "read_choice choice rd =
     (case choice of
        PDict c \<Rightarrow>
          (case py_or (get_none c ''delta'') (PDict []) of
             PDict delta \<Rightarrow>
               (let texts = (case get_none delta ''content'' of
                               PStr (x # xs) \<Rightarrow> [AgentTextDelta (x # xs)] | _ \<Rightarrow> []);
                    reason = get_none c ''finish_reason''
                in if truthy reason
                   then (texts @ [AgentFinish (py_str reason) (lr_usage rd) None], rd\<lparr>lr_finished := True\<rparr>)
                   else (texts, rd))
           | _ \<Rightarrow> ([], rd))
      | _ \<Rightarrow> ([], rd))"

fun read_choices :: "pyval list \<Rightarrow> line_reader \<Rightarrow> agent_event list \<times> line_reader" where
  "read_choices [] rd = ([], rd)"
| "read_choices (c # cs) rd =
     (case read_choice c rd of
        (evs, rd1) \<Rightarrow> (case read_choices cs rd1 of (evs', rd2) \<Rightarrow> (evs @ evs', rd2)))"

definition read_chunk :: "pyval \<Rightarrow> line_reader \<Rightarrow> agent_event list \<times> line_reader" where
  "read_chunk chunk rd =
     (case chunk of
        PDict d \<Rightarrow>
          (let rd1 = rd\<lparr>lr_usage := take_usage (get_none d ''usage'') (lr_usage rd)\<rparr>
           in case get_none d ''choices'' of PList cs \<Rightarrow> read_choices cs rd1 | _ \<Rightarrow> ([], rd1))
      | _ \<Rightarrow> ([], rd))"

text \<open>What a line carries: nothing to read, the end marker, or a chunk. Lines that do not decode are
  skipped.\<close>

datatype line_content = NoChunk | EndMarker | Chunk pyval

definition line_content_of :: "string \<Rightarrow> line_content" where
  "line_content_of raw =
     (let line = py_strip raw
      in if line = [] \<or> \<not> prefix ''data:'' line then NoChunk
         else let payload = py_strip (drop 5 line)
              in if payload = ''[DONE]'' then EndMarker
                 else case loads payload of Inl e \<Rightarrow> NoChunk | Inr chunk \<Rightarrow> Chunk chunk)"

text \<open>\<open>ended\<close> is the exception that reading the lines ends with, unless the end marker came first.\<close>

fun read_lines :: "string list \<Rightarrow> exn option \<Rightarrow> line_reader \<Rightarrow> agent_event list \<times> line_reader \<times> exn option" where
  "read_lines [] ended rd = ([], rd, ended)"
| "read_lines (l # ls) ended rd =
     (case line_content_of l of
        NoChunk \<Rightarrow> read_lines ls ended rd
      | EndMarker \<Rightarrow> ([], rd\<lparr>lr_finished := True\<rparr>, None)
      | Chunk chunk \<Rightarrow>
          (case read_chunk chunk rd of
             (evs, rd1) \<Rightarrow> (case read_lines ls ended rd1 of (evs', rd2, e) \<Rightarrow> (evs @ evs', rd2, e))))"

record hermes_response =
  hr_status :: int
  hr_lines :: "string list"
  hr_ended :: "exn option"

datatype attempt_end = Completed | BadStatus int | Raised exn

definition stream_once :: "exn + hermes_response \<Rightarrow> agent_event list \<times> attempt_end" where
  "stream_once r =
     (case r of
        Inl e \<Rightarrow> ([], Raised e)
      | Inr resp \<Rightarrow>
          (if hr_status resp < 200 \<or> 300 \<le> hr_status resp then ([], BadStatus (hr_status resp))
           else (case read_lines (hr_lines resp) (hr_ended resp) \<lparr>lr_usage = [], lr_finished = False\<rparr> of
                   (evs, rd, Some e) \<Rightarrow> (evs, Raised e)
                 | (evs, rd, None) \<Rightarrow>
                     (evs @ (if lr_finished rd then [] else [AgentFinish ''end_turn'' (lr_usage rd) None]),
                      Completed))))"

section \<open>Retries\<close>

definition transient_errors :: "string list" where
  "transient_errors = [''ConnectError'', ''ReadTimeout'', ''RemoteProtocolError'']"

definition status_error :: "int \<Rightarrow> exn" where
  "status_error status = OtherError ''HTTPStatusError'' (dec_int status)"

fun attempt_error :: "attempt_end \<Rightarrow> exn option" where
  "attempt_error Completed = None"
| "attempt_error (BadStatus status) = Some (status_error status)"
| "attempt_error (Raised e) = Some e"

fun retryable :: "attempt_end \<Rightarrow> bool" where
  "retryable Completed = False"
| "retryable (BadStatus status) = (500 \<le> status)"
| "retryable (Raised e) = (case e of OtherError cls m \<Rightarrow> cls \<in> set transient_errors | _ \<Rightarrow> False)"

text \<open>From attempt \<open>n\<close> on, with \<open>left\<close> retries left. What an attempt yielded stays yielded.\<close>

fun attempts :: "(nat \<Rightarrow> exn + hermes_response) \<Rightarrow> nat \<Rightarrow> nat \<Rightarrow> agent_event list \<times> exn option" where
  "attempts http n 0 = (case stream_once (http n) of (evs, r) \<Rightarrow> (evs, attempt_error r))"
| "attempts http n (Suc left) =
     (case stream_once (http n) of
        (evs, r) \<Rightarrow>
          if retryable r then (case attempts http (Suc n) left of (evs', e) \<Rightarrow> (evs @ evs', e))
          else (evs, attempt_error r))"

type_synonym hermes_http = "hermes_request \<Rightarrow> nat \<Rightarrow> exn + hermes_response"

definition hermes_stream ::
    "hermes_backend \<times> hermes_http \<times> base_agent \<Rightarrow> pyval \<Rightarrow> invocation_context \<Rightarrow> agent_event list \<times> exn option" where
  "hermes_stream X messages ctx =
     (case X of (hb, http, agent) \<Rightarrow>
       (case hermes_request_of hb agent messages ctx of
          Inl e \<Rightarrow> ([], Some e)
        | Inr rq \<Rightarrow> attempts (http rq) 0 HERMES_MAX_RETRIES))"

section \<open>run\<close>

text \<open>Text, stop reason and usage only.\<close>

fun hermes_run_step :: "agent_event \<Rightarrow> agent_run_result \<Rightarrow> agent_run_result" where
  "hermes_run_step (AgentTextDelta t) r = r\<lparr>final_text := final_text r @ t\<rparr>"
| "hermes_run_step (AgentFinish s u sid) r = r\<lparr>stop_reason := s, usage := u\<rparr>"
| "hermes_run_step ev r = r"

definition hermes_run ::
    "hermes_backend \<times> hermes_http \<times> base_agent \<Rightarrow> pyval \<Rightarrow> invocation_context \<Rightarrow> exn + agent_run_result" where
  "hermes_run X messages ctx =
     (case hermes_stream X messages ctx of
        (evs, None) \<Rightarrow> Inr (fold hermes_run_step evs empty_run)
      | (evs, Some e) \<Rightarrow> Inl e)"

section \<open>It is a backend\<close>

text \<open>Its events are texts and finishes without a session.\<close>

fun plain_event :: "agent_event \<Rightarrow> bool" where
  "plain_event (AgentTextDelta t) = True"
| "plain_event (AgentFinish s u sid) = (sid = None)"
| "plain_event ev = False"

lemma read_choice_plain: "list_all plain_event (fst (read_choice c rd))"
  by (auto simp: read_choice_def Let_def split: pyval.split list.split)

lemma read_choices_plain: "list_all plain_event (fst (read_choices cs rd))"
proof (induction cs arbitrary: rd)
  case (Cons c cs)
  obtain evs rd1 where "read_choice c rd = (evs, rd1)" by fastforce
  with read_choice_plain [of c rd] Cons [of rd1] show ?case by (auto split: prod.split)
qed simp

lemma read_chunk_plain: "list_all plain_event (fst (read_chunk c rd))"
  by (auto simp: read_chunk_def Let_def read_choices_plain split: pyval.split)

lemma read_lines_plain: "list_all plain_event (fst (read_lines ls e rd))"
proof (induction ls arbitrary: rd)
  case (Cons l ls)
  show ?case
  proof (cases "line_content_of l")
    case (Chunk c)
    obtain evs rd1 where c: "read_chunk c rd = (evs, rd1)" by fastforce
    with read_chunk_plain [of c rd] Cons [of rd1] Chunk show ?thesis by (auto split: prod.split)
  qed (use Cons in auto)
qed simp

lemma stream_once_plain: "list_all plain_event (fst (stream_once r))"
proof (cases r)
  case (Inr resp)
  obtain evs rd e where l: "read_lines (hr_lines resp) (hr_ended resp) \<lparr>lr_usage = [], lr_finished = False\<rparr> = (evs, rd, e)"
    by (metis prod_cases3)
  then have "list_all plain_event evs" by (metis read_lines_plain fst_conv)
  with Inr l show ?thesis by (auto simp: stream_once_def split: option.split)
qed (simp add: stream_once_def)

lemma attempts_plain: "list_all plain_event (fst (attempts http n left))"
proof (induction left arbitrary: n)
  case 0
  then show ?case using stream_once_plain [of "http n"] by (auto split: prod.split)
next
  case (Suc left)
  from stream_once_plain [of "http n"] Suc [of "Suc n"] show ?case by (auto split: prod.split)
qed

lemma hermes_run_steps: "list_all plain_event evs \<Longrightarrow> session_id r = None \<Longrightarrow>
    fold hermes_run_step evs r = fold run_step evs r"
proof (induction evs arbitrary: r)
  case (Cons ev evs)
  then have "hermes_run_step ev r = run_step ev r \<and> session_id (run_step ev r) = None" by (cases ev) auto
  with Cons show ?case by simp
qed simp

interpretation hermes: agent_backend hermes_stream hermes_run
proof
  fix X :: "hermes_backend \<times> hermes_http \<times> base_agent" and ms ctx
  obtain hb http agent where X: "X = (hb, http, agent)" by (cases X)
  obtain evs e where s: "hermes_stream X ms ctx = (evs, e)" by fastforce
  have "list_all plain_event evs"
  proof (cases "hermes_request_of hb agent ms ctx")
    case (Inr rq)
    then have "attempts (http rq) 0 HERMES_MAX_RETRIES = (evs, e)" using s by (simp add: hermes_stream_def X)
    then show ?thesis by (metis attempts_plain fst_conv)
  qed (use s in \<open>simp add: hermes_stream_def X\<close>)
  then have "fold hermes_run_step evs empty_run = drain evs"
    by (simp add: hermes_run_steps drain_def empty_run_def)
  then show "hermes_run X ms ctx = run_result (hermes_stream X ms ctx)"
    by (auto simp: hermes_run_def run_result_def s split: option.split)
qed

section \<open>Lines that carry a chunk\<close>

definition data_line :: "pyval \<Rightarrow> string" where
  "data_line v = ''data: '' @ dumps v"

lemma py_strip_dict: "py_strip (CHR ''{'' # s @ ''}'') = CHR ''{'' # s @ ''}''"
  by (simp add: py_strip_def py_lstrip_def py_rstrip_def py_isspace_def code_def)

lemma py_strip_space: "py_strip (CHR '' '' # s) = py_strip s"
  by (simp add: py_strip_def py_lstrip_def py_isspace_def code_def)

lemma dumps_dict: obtains s where "dumps (PDict d) = CHR ''{'' # s @ ''}''"
  by simp

lemma data_line_chunk: "json_value (PDict d) \<Longrightarrow> line_content_of (data_line (PDict d)) = Chunk (PDict d)"
proof -
  assume wf: "json_value (PDict d)"
  obtain s where s: "dumps (PDict d) = CHR ''{'' # s @ ''}''" by (rule dumps_dict)
  have "py_strip (data_line (PDict d)) = data_line (PDict d)"
    unfolding data_line_def s by (simp add: py_strip_def py_lstrip_def py_rstrip_def py_isspace_def code_def)
  moreover have "py_strip (drop 5 (data_line (PDict d))) = dumps (PDict d)"
    unfolding data_line_def s by (simp add: py_strip_space py_strip_dict)
  moreover have "dumps (PDict d) \<noteq> ''[DONE]''" unfolding s by simp
  moreover have "data_line (PDict d) \<noteq> []" "prefix ''data:'' (data_line (PDict d))"
    unfolding data_line_def by simp_all
  ultimately show ?thesis using wf
    by (simp add: line_content_of_def json_value_def loads_dumps Let_def del: dumps.simps)
qed

lemma done_line: "line_content_of ''data: [DONE]'' = EndMarker"
  by code_simp

lemma empty_line: "line_content_of [] = NoChunk"
  by (simp add: line_content_of_def)

definition delta_chunk :: "string \<Rightarrow> pydict" where
  "delta_chunk t = [(''choices'', PList [PDict [(''delta'', PDict [(''content'', PStr t)])]])]"

definition finish_chunk :: "string \<Rightarrow> pydict \<Rightarrow> pydict" where
  "finish_chunk reason u = [(''choices'', PList [PDict [(''delta'', PDict []), (''finish_reason'', PStr reason)]]),
     (''usage'', PDict u)]"

definition usage_counts :: "pydict \<Rightarrow> pydict" where
  "usage_counts u = map (\<lambda>k. (k, get_none u k)) (filter (\<lambda>k. as_int (get_none u k) \<noteq> None) usage_count_keys)"

lemma take_usage_keys: "distinct ks \<Longrightarrow> set ks \<inter> set (dict_keys acc) = {} \<Longrightarrow>
    fold (\<lambda>k acc. let v = get_none d k in if as_int v \<noteq> None then dict_set k v acc else acc) ks acc =
      acc @ map (\<lambda>k. (k, get_none d k)) (filter (\<lambda>k. as_int (get_none d k) \<noteq> None) ks)"
proof (induction ks arbitrary: acc)
  case (Cons k ks)
  have "set ks \<inter> set (dict_keys (acc @ [(k, get_none d k)])) = {}" "k \<notin> set (dict_keys acc)"
    using Cons.prems by auto
  with Cons.IH [of acc] Cons.IH [of "acc @ [(k, get_none d k)]"] Cons.prems show ?case
    by (simp add: Let_def update_new)
qed simp

lemma take_usage_empty: "take_usage (PDict u) [] = usage_counts u"
  unfolding take_usage_def usage_counts_def pyval.case
  by (subst take_usage_keys) (simp_all add: usage_count_keys_def)

lemma read_delta_chunk: "t \<noteq> [] \<Longrightarrow> read_chunk (PDict (delta_chunk t)) rd = ([AgentTextDelta t], rd)"
  by (cases t) (simp_all add: read_chunk_def delta_chunk_def get_or_def read_choice_def py_or_def take_usage_def Let_def)

lemma read_finish_chunk: "reason \<noteq> [] \<Longrightarrow> lr_usage rd = [] \<Longrightarrow>
    read_chunk (PDict (finish_chunk reason u)) rd =
      ([AgentFinish reason (usage_counts u) None], \<lparr>lr_usage = usage_counts u, lr_finished = True\<rparr>)"
  by (simp add: read_chunk_def finish_chunk_def get_or_def read_choice_def py_or_def take_usage_empty Let_def)

text \<open>What a complete response reads like: one line per delta, the finish with the usage, the end marker,
  each followed by an empty line.\<close>

definition response_lines :: "string list \<Rightarrow> string \<Rightarrow> pydict \<Rightarrow> string list" where
  "response_lines ts reason u =
     concat (map (\<lambda>l. [l, []]) (map (\<lambda>t. data_line (PDict (delta_chunk t))) ts @
       [data_line (PDict (finish_chunk reason u)), ''data: [DONE]'']))"

lemma delta_chunk_json: "json_value (PDict (delta_chunk t))"
  by (simp add: json_value_def delta_chunk_def)

lemma finish_chunk_json: "json_value (PDict u) \<Longrightarrow> json_value (PDict (finish_chunk r u))"
  by (simp add: json_value_def finish_chunk_def )

lemma read_deltas: "[] \<notin> set ts \<Longrightarrow>
    read_lines (concat (map (\<lambda>l. [l, []]) (map (\<lambda>t. data_line (PDict (delta_chunk t))) ts)) @ ls) e rd =
      (case read_lines ls e rd of (evs, r) \<Rightarrow> (map AgentTextDelta ts @ evs, r))"
proof (induction ts)
  case Nil
  then show ?case by (cases "read_lines ls e rd") simp
next
  case (Cons t ts)
  then show ?case
    by (cases "read_lines ls e rd") (auto simp: data_line_chunk delta_chunk_json empty_line read_delta_chunk)
qed

lemma read_response: "[] \<notin> set ts \<Longrightarrow> reason \<noteq> [] \<Longrightarrow> json_value (PDict u) \<Longrightarrow>
    read_lines (response_lines ts reason u) e \<lparr>lr_usage = [], lr_finished = False\<rparr> =
      (map AgentTextDelta ts @ [AgentFinish reason (usage_counts u) None],
       \<lparr>lr_usage = usage_counts u, lr_finished = True\<rparr>, None)"
  unfolding response_lines_def map_append concat_append
  by (subst read_deltas)
    (simp_all add: data_line_chunk finish_chunk_json empty_line read_finish_chunk done_line)

section \<open>Attempts\<close>

lemma attempts_outcome:
  "\<exists>k \<le> left. (\<forall>i < k. retryable (snd (stream_once (http (n + i))))) \<and>
     (k < left \<longrightarrow> \<not> retryable (snd (stream_once (http (n + k))))) \<and>
     attempts http n left = (concat (map (\<lambda>i. fst (stream_once (http (n + i)))) [0..<Suc k]),
       attempt_error (snd (stream_once (http (n + k)))))"
proof (induction left arbitrary: n)
  case 0
  then show ?case by (auto split: prod.split)
next
  case (Suc left)
  obtain evs r where o: "stream_once (http n) = (evs, r)" by fastforce
  show ?case
  proof (cases "retryable r")
    case True
    from Suc [of "Suc n"] obtain k where k: "k \<le> left" "\<forall>i < k. retryable (snd (stream_once (http (Suc n + i))))"
      "k < left \<longrightarrow> \<not> retryable (snd (stream_once (http (Suc n + k))))"
      "attempts http (Suc n) left = (concat (map (\<lambda>i. fst (stream_once (http (Suc n + i)))) [0..<Suc k]),
        attempt_error (snd (stream_once (http (Suc n + k)))))" by blast
    have "\<forall>i < Suc k. retryable (snd (stream_once (http (n + i))))"
      using k(2) True o by (metis add_Suc_shift add_0_right less_Suc_eq_0_disj snd_conv)
    moreover have "map (\<lambda>i. fst (stream_once (http (n + i)))) [0..<Suc (Suc k)] =
        evs # map (\<lambda>i. fst (stream_once (http (Suc n + i)))) [0..<Suc k]"
      using o by (subst upt_conv_Cons) (simp_all add: map_Suc_upt [symmetric] comp_def del: upt_Suc)
    ultimately show ?thesis using k(1,3,4) True o
      by (intro exI [of _ "Suc k"]) (simp del: upt_Suc)
  next
    case False
    with o show ?thesis by (intro exI [of _ 0]) simp
  qed
qed

lemma to_float_float: "to_float v = Inr w \<Longrightarrow> \<exists>l. w = PFloat l"
  by (auto simp: to_float_def split: pyval.splits if_splits)

lemma chat_entries: "\<exists>es. build_chat_messages agent ms = map (\<lambda>(role, t). chat_entry role (PStr t)) es"
proof -
  have e: "\<exists>es. concat (map (\<lambda>msg. case msg of PDict d \<Rightarrow> [chat_entry (f d) (PStr (g d))] | _ \<Rightarrow> []) msgs) =
      map (\<lambda>(role, t). chat_entry role (PStr t)) es" for f g msgs
  proof (induction msgs)
    case (Cons m ms)
    then obtain es where es: "concat (map (\<lambda>msg. case msg of PDict d \<Rightarrow> [chat_entry (f d) (PStr (g d))] | _ \<Rightarrow> []) ms) =
      map (\<lambda>(role, t). chat_entry role (PStr t)) es" by blast
    show ?case
    proof (cases m)
      case (PDict d)
      with es show ?thesis by (intro exI [of _ "(f d, g d) # es"]) simp
    qed (use es in auto)
  qed simp
  have s: "\<exists>es. (if py_strip p = [] then [] else [chat_entry (PStr ''system'') (PStr p)]) =
      map (\<lambda>(role, t). chat_entry role (PStr t)) es" for p
    by (cases "py_strip p = []") (auto intro: exI [of _ "[(PStr ''system'', p)]"])
  have u: "\<exists>es. (case ms of PStr s \<Rightarrow> [chat_entry (PStr ''user'') (PStr s)]
      | PList msgs \<Rightarrow> concat (map (\<lambda>msg. case msg of
           PDict d \<Rightarrow> [chat_entry (get_or d ''role'' (PStr ''user'')) (PStr (chat_content_of (get_or d ''content'' (PStr []))))]
         | _ \<Rightarrow> []) msgs)
      | _ \<Rightarrow> []) = map (\<lambda>(role, t). chat_entry role (PStr t)) es"
  proof (cases ms)
    case (PStr s)
    then show ?thesis by (intro exI [of _ "[(PStr ''user'', s)]"]) simp
  next
    case (PList msgs)
    then show ?thesis using e [where msgs = msgs and f = "\<lambda>d. get_or d ''role'' (PStr ''user'')"
        and g = "\<lambda>d. chat_content_of (get_or d ''content'' (PStr []))"] by (simp only: pyval.case)
  qed (auto intro: exI [of _ "[]"])
  obtain es es' where "(if py_strip (system_prompt agent) = [] then [] else [chat_entry (PStr ''system'') (PStr (system_prompt agent))]) =
      map (\<lambda>(role, t). chat_entry role (PStr t)) es" using s by blast
  moreover obtain es' where "(case ms of PStr s \<Rightarrow> [chat_entry (PStr ''user'') (PStr s)]
      | PList msgs \<Rightarrow> concat (map (\<lambda>msg. case msg of
           PDict d \<Rightarrow> [chat_entry (get_or d ''role'' (PStr ''user'')) (PStr (chat_content_of (get_or d ''content'' (PStr []))))]
         | _ \<Rightarrow> []) msgs)
      | _ \<Rightarrow> []) = map (\<lambda>(role, t). chat_entry role (PStr t)) es'" using u by blast
  ultimately have "build_chat_messages agent ms = map (\<lambda>(role, t). chat_entry role (PStr t)) (es @ es')"
    unfolding build_chat_messages_def by (simp only: map_append)
  then show ?thesis by blast
qed

end
