(* ===== verification/PropertiesHermes.thy ===== *)
theory PropertiesHermes
  imports HermesBackend
begin

text \<open>
  What a Hermes stream yields, and the request it makes.
\<close>

section \<open>Properties\<close>

text \<open>A concrete backend, agent and context.\<close>

definition ex_hermes :: hermes_backend where
  "ex_hermes = \<lparr>hb_endpoint_url = ''https://h.app'', hb_api_server_key = ''k'', hb_preview_token = None,
     hb_default_model = ''hermes/m''\<rparr>"

definition ex_hermes_agent :: base_agent where
  "ex_hermes_agent = \<lparr>identity = ''a'', model = [], system_prompt = [], agent_tools = [],
     tool_resolver = None, on_conflict = ''error''\<rparr>"

definition ex_hermes_ctx :: invocation_context where
  "ex_hermes_ctx = \<lparr>scope = \<lparr>user_id = ''u'', sandbox_id = None, project_id = None\<rparr>, trace_id = None, dek = None,
     handles = []\<rparr>"

definition ex_hermes_request :: hermes_request where
  "ex_hermes_request = \<lparr>hq_url = ''https://h.app/v1/chat/completions'',
     hq_headers = [(''Authorization'', ''Bearer k''), (''Content-Type'', ''application/json''), (''Accept'', ''text/event-stream'')],
     hq_body = [(''model'', PStr ''m''), (''messages'', PList [PDict (chat_entry (PStr ''user'') (PStr ''hi''))]),
       (''stream'', PBool True)]\<rparr>"

definition ex_usage :: pydict where
  "ex_usage = [(''prompt_tokens'', PInt 3), (''total_tokens'', PInt 5)]"

lemma ex_hermes_request: "hermes_request_of ex_hermes ex_hermes_agent (PStr ''hi'') ex_hermes_ctx = Inr ex_hermes_request"
  by code_simp

text \<open>Claim C31. A complete response is read back exactly: the deltas in order and one finish with its reason and the token
  counts of its usage.\<close>

theorem hermes_reads_response:
  assumes "[] \<notin> set ts" "reason \<noteq> []" "json_value (PDict u)" "hermes_request_of hb agent ms ctx = Inr rq"
    "http rq 0 = Inr \<lparr>hr_status = 200, hr_lines = response_lines ts reason u, hr_ended = e\<rparr>"
  shows "hermes_stream (hb, http, agent) ms ctx =
      (map AgentTextDelta ts @ [AgentFinish reason (usage_counts u) None], None) \<and>
    hermes_run (hb, http, agent) ms ctx = Inr \<lparr>final_text = concat ts, tool_calls = [], stop_reason = reason,
      usage = usage_counts u, session_id = None\<rparr>"
proof -
  let ?evs = "map AgentTextDelta ts @ [AgentFinish reason (usage_counts u) None]"
  have s: "hermes_stream (hb, http, agent) ms ctx = (?evs, None)"
    using assms by (simp add: hermes_stream_def HERMES_MAX_RETRIES_def numeral_2_eq_2 stream_once_def read_response)
  have d: "fold hermes_run_step (map AgentTextDelta ts) r = r\<lparr>final_text := final_text r @ concat ts\<rparr>" for r
    by (induction ts arbitrary: r) simp_all
  show ?thesis by (simp add: s hermes_run_def d empty_run_def)
qed

theorem hermes_reads_response_witness:
  "hermes_stream (ex_hermes, \<lambda>rq n. Inr \<lparr>hr_status = 200, hr_lines = response_lines [''he'', ''y''] ''stop'' ex_usage, hr_ended = None\<rparr>,
      ex_hermes_agent) (PStr ''hi'') ex_hermes_ctx =
     ([AgentTextDelta ''he'', AgentTextDelta ''y'', AgentFinish ''stop'' ex_usage None], None)"
proof -
  have "usage_counts ex_usage = ex_usage" by code_simp
  then show ?thesis
    using hermes_reads_response [OF _ _ _ ex_hermes_request, of "[''he'', ''y'']" "''stop''" ex_usage
        "\<lambda>rq n. Inr \<lparr>hr_status = 200, hr_lines = response_lines [''he'', ''y''] ''stop'' ex_usage, hr_ended = None\<rparr>" None]
    by (simp add: json_value_def ex_usage_def)
qed

text \<open>Claim C32. A stream is at most three attempts: after a failed connection and after a 5xx status alike two more are made, though the
  comment at the retry loop says that a 5xx status is retried once. It goes on exactly after a retryable
  outcome, and yields the events of all its attempts.\<close>

theorem hermes_attempts:
  assumes "hermes_request_of hb agent ms ctx = Inr rq"
  shows "\<exists>k \<le> 2. (\<forall>i < k. retryable (snd (stream_once (http rq i)))) \<and>
    (k < 2 \<longrightarrow> \<not> retryable (snd (stream_once (http rq k)))) \<and>
    hermes_stream (hb, http, agent) ms ctx =
      (concat (map (\<lambda>i. fst (stream_once (http rq i))) [0..<Suc k]), attempt_error (snd (stream_once (http rq k))))"
  using attempts_outcome [where left = 2 and http = "http rq" and n = 0] assms
  by (simp add: hermes_stream_def HERMES_MAX_RETRIES_def)

theorem hermes_attempts_witness:
  "snd (hermes_stream (ex_hermes, \<lambda>rq n. Inr \<lparr>hr_status = 503, hr_lines = [], hr_ended = None\<rparr>, ex_hermes_agent)
     (PStr ''hi'') ex_hermes_ctx) = Some (status_error 503)"
  using hermes_attempts [OF ex_hermes_request, of "\<lambda>rq n. Inr \<lparr>hr_status = 503, hr_lines = [], hr_ended = None\<rparr>"]
  by (auto simp: stream_once_def)

text \<open>An attempt that broke off after some text is made again from the start, and the caller gets the text of
  both.\<close>

theorem hermes_retry_repeats_text:
  assumes "[] \<notin> set ts" "[] \<notin> set ts'" "reason \<noteq> []" "json_value (PDict u)"
    "hermes_request_of hb agent ms ctx = Inr rq" "cls \<in> set transient_errors"
    "http rq 0 = Inr \<lparr>hr_status = 200, hr_lines = map (\<lambda>t. data_line (PDict (delta_chunk t))) ts',
       hr_ended = Some (OtherError cls m)\<rparr>"
    "http rq 1 = Inr \<lparr>hr_status = 200, hr_lines = response_lines ts reason u, hr_ended = None\<rparr>"
  shows "map_sum id final_text (hermes_run (hb, http, agent) ms ctx) = Inr (concat ts' @ concat ts)"
proof -
  have r: "read_lines (map (\<lambda>t. data_line (PDict (delta_chunk t))) ts') (Some x) rd =
      (map AgentTextDelta ts', rd, Some x)" for x rd
    using assms(2) by (induction ts') (auto simp: data_line_chunk delta_chunk_json read_delta_chunk)
  have d: "fold hermes_run_step (map AgentTextDelta ts) r = r\<lparr>final_text := final_text r @ concat ts\<rparr>" for ts r
    by (induction ts arbitrary: r) simp_all
  show ?thesis using assms
    by (simp add: hermes_run_def hermes_stream_def HERMES_MAX_RETRIES_def numeral_2_eq_2 stream_once_def r
        read_response d empty_run_def)
qed

theorem hermes_retry_repeats_text_witness:
  "map_sum id final_text (hermes_run (ex_hermes,
      \<lambda>rq n. if n = 0 then Inr \<lparr>hr_status = 200, hr_lines = map (\<lambda>t. data_line (PDict (delta_chunk t))) [''Hello''],
                           hr_ended = Some (OtherError ''ReadTimeout'' [])\<rparr>
               else Inr \<lparr>hr_status = 200, hr_lines = response_lines [''Hello'', '' you''] ''stop'' ex_usage, hr_ended = None\<rparr>,
      ex_hermes_agent) (PStr ''hi'') ex_hermes_ctx) = Inr ''HelloHello you''"
  using hermes_retry_repeats_text [OF _ _ _ _ ex_hermes_request, of "[''Hello'', '' you'']" "[''Hello'']" "''stop''" ex_usage "''ReadTimeout''"
      "\<lambda>rq n. if n = 0 then Inr \<lparr>hr_status = 200, hr_lines = map (\<lambda>t. data_line (PDict (delta_chunk t))) [''Hello''],
                           hr_ended = Some (OtherError ''ReadTimeout'' [])\<rparr>
               else Inr \<lparr>hr_status = 200, hr_lines = response_lines [''Hello'', '' you''] ''stop'' ex_usage, hr_ended = None\<rparr>" "[]"]
  by (simp add: json_value_def ex_usage_def transient_errors_def)

text \<open>Token counts that arrive after the chunk with the finish reason are dropped, although the accumulator is kept
  for them.\<close>

theorem hermes_late_usage_dropped:
  assumes "reason \<noteq> []" "json_value (PDict u)" "hermes_request_of hb agent ms ctx = Inr rq"
    "http rq 0 = Inr \<lparr>hr_status = 200,
       hr_lines = [data_line (PDict [(''choices'', PList [PDict [(''delta'', PDict []), (''finish_reason'', PStr reason)]])]),
         data_line (PDict [(''choices'', PList []), (''usage'', PDict u)]), ''data: [DONE]''], hr_ended = None\<rparr>"
  shows "map_sum id usage (hermes_run (hb, http, agent) ms ctx) = Inr []"
proof -
  let ?c = "[(''choices'', PList [PDict [(''delta'', PDict []), (''finish_reason'', PStr reason)]])]"
  have "json_value (PDict ?c)" "json_value (PDict [(''choices'', PList []), (''usage'', PDict u)])"
    using assms(2) by (simp_all add: json_value_def)
  moreover have "read_chunk (PDict ?c) \<lparr>lr_usage = [], lr_finished = False\<rparr> =
      ([AgentFinish reason [] None], \<lparr>lr_usage = [], lr_finished = True\<rparr>)"
    using assms(1) by (simp add: read_chunk_def get_or_def read_choice_def py_or_def take_usage_def Let_def)
  moreover have "read_chunk (PDict [(''choices'', PList []), (''usage'', PDict u)]) rd =
      ([], rd\<lparr>lr_usage := take_usage (PDict u) (lr_usage rd)\<rparr>)" for rd
    by (simp add: read_chunk_def get_or_def Let_def)
  ultimately show ?thesis using assms
    by (simp add: hermes_run_def hermes_stream_def HERMES_MAX_RETRIES_def numeral_2_eq_2 stream_once_def
        data_line_chunk done_line empty_run_def)
qed

theorem hermes_late_usage_dropped_witness:
  "map_sum id usage (hermes_run (ex_hermes,
      \<lambda>rq n. Inr \<lparr>hr_status = 200,
       hr_lines = [data_line (PDict [(''choices'', PList [PDict [(''delta'', PDict []), (''finish_reason'', PStr ''stop'')]])]),
         data_line (PDict [(''choices'', PList []), (''usage'', PDict ex_usage)]), ''data: [DONE]''], hr_ended = None\<rparr>,
      ex_hermes_agent) (PStr ''hi'') ex_hermes_ctx) = Inr []"
  by (rule hermes_late_usage_dropped [OF _ _ ex_hermes_request])
    (simp_all add: json_value_def ex_usage_def)

text \<open>Claim C30. The request has the shape the endpoint expects.\<close>

theorem hermes_request_typed:
  assumes "hermes_request_of hb agent ms ctx = Inr rq"
  shows "(\<exists>m. get_none (hq_body rq) ''model'' = PStr m \<and> ''hermes/'' @ m = (if model agent = [] then hb_default_model hb else model agent)) \<and>
    (\<exists>es. get_none (hq_body rq) ''messages'' = PList (map PDict (map (\<lambda>(role, t). chat_entry role (PStr t)) es))) \<and>
    get_none (hq_body rq) ''stream'' = PBool True \<and>
    (\<forall>v. dict_get (hq_body rq) ''max_tokens'' = Some v \<longrightarrow> (\<exists>n > 0. as_int v = Some n)) \<and>
    (\<forall>v. dict_get (hq_body rq) ''temperature'' = Some v \<longrightarrow> (\<exists>l. v = PFloat l)) \<and>
    dict_get (hq_headers rq) ''Authorization'' = Some (''Bearer '' @ hb_api_server_key hb) \<and>
    dict_get (hq_headers rq) ''x-daytona-preview-token'' = hb_preview_token hb"
proof -
  obtain m extra where m: "resolve_model_id hb agent = Inr m" and x: "request_overrides ctx = Inr extra"
    and rq: "rq = \<lparr>hq_url = hb_endpoint_url hb @ ''/v1/chat/completions'',
       hq_headers = [(''Authorization'', ''Bearer '' @ hb_api_server_key hb),
         (''Content-Type'', ''application/json''), (''Accept'', ''text/event-stream'')] @
         (case hb_preview_token hb of None \<Rightarrow> [] | Some t \<Rightarrow> [(''x-daytona-preview-token'', t)]),
       hq_body = [(''model'', PStr m), (''messages'', PList (map PDict (build_chat_messages agent ms))),
         (''stream'', PBool True)] @ extra\<rparr>"
    using assms by (auto simp: hermes_request_of_def Let_def split: sum.splits)
  have "''hermes/'' @ m = (if model agent = [] then hb_default_model hb else model agent)"
    using m by (auto simp: resolve_model_id_def strip_model_prefix_def HERMES_MODEL_PREFIX_def prefix_def split: if_splits)
  moreover have "(\<forall>v. dict_get extra ''max_tokens'' = Some v \<longrightarrow> (\<exists>n > 0. as_int v = Some n)) \<and>
      (\<forall>v. dict_get extra ''temperature'' = Some v \<longrightarrow> (\<exists>l. v = PFloat l))"
    using x to_float_float
    by (cases "to_float (get_none (handles ctx) ''temperature'')")
      (auto simp: request_overrides_def Let_def split: option.splits if_splits)
  ultimately show ?thesis using chat_entries [of agent ms]
    by (auto simp: rq get_or_def simp del: map_map split: option.split)
qed

theorem hermes_request_typed_witness:
  "\<exists>m. get_none (hq_body ex_hermes_request) ''model'' = PStr m \<and> ''hermes/'' @ m = ''hermes/m''"
  using hermes_request_typed [OF ex_hermes_request] by (simp add: ex_hermes_agent_def ex_hermes_def)


end
