(* ===== verification/GoogleBackend.thy ===== *)
theory GoogleBackend
  imports AgentRun PyConv
begin

text \<open>
  The backend for Vertex AI Agent Engine: the translation of its events (\<open>copass-google-agents/events.py\<close>) and the
  backend itself (\<open>backends/google_agent_backend.py\<close>). The Google SDK is a parameter: what each of its calls
  returns or raises. An SDK object is represented by the dict of its attributes, as the code reads both alike.
\<close>

section \<open>Events\<close>

definition adk_get :: "pyval \<Rightarrow> string \<Rightarrow> pyval" where
  "adk_get v k = (case v of PDict d \<Rightarrow> get_none d k | _ \<Rightarrow> PNone)"

text \<open>A dict whose keys are not strings is outside the model and stays an error.\<close>

definition adk_dict :: "pyval \<Rightarrow> exn + pydict" where
  "adk_dict v =
     (case v of
        PNone \<Rightarrow> Inr []
      | PDict d \<Rightarrow> Inr d
      | _ \<Rightarrow> (case py_dict v of
                Inr d \<Rightarrow> Inr d
              | Inl (OtherError cls m) \<Rightarrow> if cls = ''UnmodelledKey'' then Inl (OtherError cls m) else Inr [(''value'', v)]
              | Inl e \<Rightarrow> Inr [(''value'', v)]))"

definition adk_upstream_error :: "pyval \<Rightarrow> string \<Rightarrow> exn" where
  "adk_upstream_error c m = OtherError ''AdkUpstreamError'' (''ADK upstream error '' @ py_str c @ '': '' @ m)"

definition adk_call_id :: "pyval \<Rightarrow> pyval \<Rightarrow> nat \<Rightarrow> string" where
  "adk_call_id block event_id idx =
     py_str (py_or (py_or (adk_get block ''id'') event_id) (PStr (''call-'' @ dec_nat idx)))"

definition adk_name :: "pyval \<Rightarrow> string" where
  "adk_name block = py_str (py_or (adk_get block ''name'') (PStr []))"

definition adk_result_error :: "pydict \<Rightarrow> string option" where
  "adk_result_error response =
     (let e = get_none response ''error'' in if truthy e then Some (py_str e) else None)"

definition adk_part_events :: "pyval \<Rightarrow> nat \<Rightarrow> pyval \<Rightarrow> exn + agent_event list" where
  "adk_part_events event_id idx part =
     (let t = adk_get part ''text''; fc = adk_get part ''function_call''; fr = adk_get part ''function_response''
      in if truthy t then Inr [AgentTextDelta (py_str t)]
         else if fc \<noteq> PNone then
           map_sum id (\<lambda>args. [AgentToolCall (adk_call_id fc event_id idx) (adk_name fc) args])
             (adk_dict (adk_get fc ''args''))
         else if fr \<noteq> PNone then
           map_sum id (\<lambda>res. [AgentToolResult (adk_call_id fr event_id idx) (adk_name fr) (PDict res)
               (adk_result_error res)])
             (adk_dict (adk_get fr ''response''))
         else Inr [])"

fun adk_parts_events :: "pyval \<Rightarrow> nat \<Rightarrow> pyval list \<Rightarrow> exn + agent_event list" where
  "adk_parts_events event_id idx [] = Inr []"
| "adk_parts_events event_id idx (p # ps) =
     (case adk_part_events event_id idx p of
        Inl e \<Rightarrow> Inl e
      | Inr evs \<Rightarrow> map_sum id (\<lambda>evs'. evs @ evs') (adk_parts_events event_id (Suc idx) ps))"

definition adk_event_to_agent_events :: "pyval \<Rightarrow> exn + agent_event list" where
  "adk_event_to_agent_events ev =
     (let err_code = adk_get ev ''code''; err_message = adk_get ev ''message''
      in if err_code \<noteq> PNone \<and> truthy err_message \<and> adk_get ev ''content'' = PNone
         then Inl (adk_upstream_error err_code (py_str err_message))
         else
           (let event_id = py_or (adk_get ev ''id'') (PStr []);
                parts = py_or (adk_get (adk_get ev ''content'') ''parts'') (PList [])
            in case py_list parts of Inl e \<Rightarrow> Inl e | Inr ps \<Rightarrow> adk_parts_events event_id 0 ps))"

definition adk_usage_keys :: "(string \<times> string) list" where
  "adk_usage_keys = [(''prompt_token_count'', ''input_tokens''), (''candidates_token_count'', ''output_tokens''),
     (''thoughts_token_count'', ''thinking_tokens''), (''total_token_count'', ''total_tokens'')]"

definition extract_usage_metadata :: "pyval \<Rightarrow> pydict" where
  "extract_usage_metadata ev =
     (let meta = adk_get ev ''usage_metadata''
      in concat (map (\<lambda>(native, key). let v = adk_get meta native in if as_int v \<noteq> None then [(key, v)] else [])
           adk_usage_keys))"

section \<open>Scopes and messages\<close>

definition DEFAULT_LOCATION :: string where
  "DEFAULT_LOCATION = ''us-central1''"

definition DISPATCH_TOOL_NAME :: string where
  "DISPATCH_TOOL_NAME = ''copass_dispatch''"

definition GOOGLE_SESSION_ID_HANDLE :: string where
  "GOOGLE_SESSION_ID_HANDLE = ''agent_engine_session_id''"

definition scope_to_user_id :: "agent_scope \<Rightarrow> string" where
  "scope_to_user_id s =
     (case project_id s of
        Some (c # cs) \<Rightarrow> ''p_'' @ c # cs
      | _ \<Rightarrow> (case sandbox_id s of Some (c # cs) \<Rightarrow> ''s_'' @ c # cs | _ \<Rightarrow> ''u_'' @ user_id s))"

definition google_content_parts :: "pyval \<Rightarrow> string list" where
  "google_content_parts content =
     (case content of
        PStr s \<Rightarrow> [s]
      | PList blocks \<Rightarrow> map (\<lambda>b. case b of
            PDict d \<Rightarrow> if get_none d ''type'' = PStr ''text'' then py_str (get_or d ''text'' (PStr [])) else py_str b
          | _ \<Rightarrow> py_str b) blocks
      | _ \<Rightarrow> [py_str content])"

definition google_message_parts :: "pyval \<Rightarrow> string list" where
  "google_message_parts msg =
     (case msg of
        PDict d \<Rightarrow> if get_or d ''role'' (PStr ''user'') \<noteq> PStr ''user'' then []
                   else google_content_parts (get_or d ''content'' (PStr []))
      | _ \<Rightarrow> [[]])"

definition normalize_messages_google :: "pyval \<Rightarrow> string" where
  "normalize_messages_google messages =
     (case messages of
        PStr s \<Rightarrow> py_strip s
      | PList msgs \<Rightarrow> py_join [nl, nl] (filter (\<lambda>p. p \<noteq> []) (concat (map google_message_parts msgs)))
      | _ \<Rightarrow> [])"

definition extract_session_id :: "pyval \<Rightarrow> exn + string" where
  "extract_session_id payload =
     (if payload = PNone then Inl (RuntimeError ''GoogleAgentBackend: async_create_session returned None'')
      else case filter truthy (map (adk_get payload) [''id'', ''name'', ''session_id'']) of
             v # vs \<Rightarrow> Inr (py_str v)
           | [] \<Rightarrow> Inl (RuntimeError (''GoogleAgentBackend: could not extract session id from '' @ py_type_name payload)))"

section \<open>The backend\<close>

text \<open>The two handles the backend caches, either given to it or made by it.\<close>

datatype vertex_handle = GivenClient | VertexClient pydict

datatype adk_handle = GivenApp | EngineApp string

record google_backend =
  gb_project :: string
  gb_location :: string
  gb_reasoning_engine_id :: string
  gb_credentials :: pyval
  gb_delete_session_on_finish :: bool
  gb_vertex_client :: "vertex_handle option"
  gb_adk_app :: "adk_handle option"
  gb_scope_to_user_id :: "agent_scope \<Rightarrow> string"

definition make_google_backend ::
    "string \<Rightarrow> string \<Rightarrow> string \<Rightarrow> pyval \<Rightarrow> bool \<Rightarrow> vertex_handle option \<Rightarrow> adk_handle option \<Rightarrow>
     (agent_scope \<Rightarrow> string) option \<Rightarrow> exn + google_backend" where
  "make_google_backend project engine location credentials del client app fn =
     (if project = [] then Inl (ValueError ''GoogleAgentBackend: `project` is required'')
      else if engine = [] then Inl (ValueError (''GoogleAgentBackend: `reasoning_engine_id` is required - '' @
        ''Agent Engine agents are pre-deployed resources''))
      else if location = [] then Inl (ValueError ''GoogleAgentBackend: `location` is required'')
      else Inr \<lparr>gb_project = project, gb_location = location, gb_reasoning_engine_id = engine,
        gb_credentials = credentials, gb_delete_session_on_finish = del, gb_vertex_client = client,
        gb_adk_app = app, gb_scope_to_user_id = (case fn of None \<Rightarrow> scope_to_user_id | Some f \<Rightarrow> f)\<rparr>)"

definition resource_name :: "google_backend \<Rightarrow> string" where
  "resource_name gb = ''projects/'' @ gb_project gb @ ''/locations/'' @ gb_location gb @
     ''/reasoningEngines/'' @ gb_reasoning_engine_id gb"

text \<open>What the SDK does: the exception of a constructor or lookup, what creating a session returns, the events
  of a query with the exception that ends it.\<close>

record google_service =
  new_client :: "pydict \<Rightarrow> exn option"
  get_engine :: "vertex_handle \<Rightarrow> string \<Rightarrow> exn option"
  create_session :: "adk_handle \<Rightarrow> string \<Rightarrow> pyval option \<Rightarrow> exn + pyval"
  stream_query :: "adk_handle \<Rightarrow> string \<Rightarrow> string \<Rightarrow> string \<Rightarrow> pyval list \<times> exn option"

definition client_kwargs :: "google_backend \<Rightarrow> pydict" where
  "client_kwargs gb = [(''project'', PStr (gb_project gb)), (''location'', PStr (gb_location gb))] @
     (if gb_credentials gb = PNone then [] else [(''credentials'', gb_credentials gb)])"

definition ensure_vertex_client :: "google_service \<Rightarrow> google_backend \<Rightarrow> (exn + vertex_handle) \<times> google_backend" where
  "ensure_vertex_client svc gb =
     (case gb_vertex_client gb of
        Some c \<Rightarrow> (Inr c, gb)
      | None \<Rightarrow>
          (case new_client svc (client_kwargs gb) of
             Some e \<Rightarrow> (Inl e, gb)
           | None \<Rightarrow> (let c = VertexClient (client_kwargs gb) in (Inr c, gb\<lparr>gb_vertex_client := Some c\<rparr>))))"

definition ensure_adk_app :: "google_service \<Rightarrow> google_backend \<Rightarrow> (exn + adk_handle) \<times> google_backend" where
  "ensure_adk_app svc gb =
     (case gb_adk_app gb of
        Some a \<Rightarrow> (Inr a, gb)
      | None \<Rightarrow>
          (case ensure_vertex_client svc gb of
             (Inl e, gb1) \<Rightarrow> (Inl e, gb1)
           | (Inr c, gb1) \<Rightarrow>
               (case get_engine svc c (resource_name gb) of
                  Some e \<Rightarrow> (Inl e, gb1)
                | None \<Rightarrow> (let a = EngineApp (resource_name gb) in (Inr a, gb1\<lparr>gb_adk_app := Some a\<rparr>)))))"

section \<open>stream\<close>

datatype google_action =
    CreateSession string "pyval option"
  | StreamQuery string string string
  | YieldEvent agent_event
  | DeleteSession string string

definition add_adk_usage :: "pydict \<Rightarrow> pydict \<Rightarrow> pydict" where
  "add_adk_usage event_usage acc =
     fold (\<lambda>(k, v) acc.
        case as_int v of
          None \<Rightarrow> acc
        | Some n \<Rightarrow> dict_set k (PInt ((case as_int (get_or acc k (PInt 0)) of Some m \<Rightarrow> m | None \<Rightarrow> 0) + n)) acc)
       event_usage acc"

fun read_adk_events :: "pyval list \<Rightarrow> exn option \<Rightarrow> pydict \<Rightarrow> agent_event list \<times> pydict \<times> exn option" where
  "read_adk_events [] ended acc = ([], acc, ended)"
| "read_adk_events (ev # evs) ended acc =
     (let acc1 = add_adk_usage (extract_usage_metadata ev) acc
      in case adk_event_to_agent_events ev of
           Inl e \<Rightarrow> ([], acc1, Some e)
         | Inr out \<Rightarrow> (case read_adk_events evs ended acc1 of (out', acc2, e) \<Rightarrow> (out @ out', acc2, e)))"

text \<open>A session's id, and whether this invocation created it.\<close>

definition session_for ::
    "google_service \<Rightarrow> adk_handle \<Rightarrow> string \<Rightarrow> invocation_context \<Rightarrow> google_action list \<times> (exn + string \<times> bool)" where
  "session_for svc app uid ctx =
     (let supplied = get_none (handles ctx) GOOGLE_SESSION_ID_HANDLE
      in if truthy supplied then ([], Inr (py_str supplied, False))
         else
           (let s = get_none (handles ctx) ''adk_session_state'';
                state = (if truthy s then Some s else None)
            in ([CreateSession uid state],
                case create_session svc app uid state of
                  Inl e \<Rightarrow> Inl e
                | Inr payload \<Rightarrow> map_sum id (\<lambda>sid. (sid, True)) (extract_session_id payload))))"

text \<open>The query and the cleanup after it; an exception of the cleanup is only logged.\<close>

definition query_session ::
    "google_service \<Rightarrow> google_backend \<Rightarrow> adk_handle \<Rightarrow> string \<Rightarrow> string \<Rightarrow> bool \<Rightarrow> string \<Rightarrow> google_action list \<times> exn option" where
  "query_session svc gb app uid sid created message =
     (case stream_query svc app uid sid message of
        (evs, ended) \<Rightarrow>
          (case read_adk_events evs ended [] of
             (out, acc, e) \<Rightarrow>
               (StreamQuery uid sid message # map YieldEvent out @
                  (if e = None then [YieldEvent (AgentFinish ''end_turn'' acc (Some sid))] else []) @
                  (if created \<and> sid \<noteq> [] \<and> gb_delete_session_on_finish gb then [DeleteSession uid sid] else []),
                e)))"

definition google_stream_impl ::
    "google_service \<Rightarrow> google_backend \<Rightarrow> pyval \<Rightarrow> invocation_context \<Rightarrow> google_action list \<times> exn option \<times> google_backend" where
  "google_stream_impl svc gb messages ctx =
     (let message = normalize_messages_google messages
      in if message = [] then
           ([], Some (ValueError (''GoogleAgentBackend: messages must contain at least one '' @
              ''user-role message with non-empty content'')), gb)
         else
           (case ensure_adk_app svc gb of
              (Inl e, gb1) \<Rightarrow> ([], Some e, gb1)
            | (Inr app, gb1) \<Rightarrow>
                (let uid = gb_scope_to_user_id gb (scope ctx)
                 in case session_for svc app uid ctx of
                      (acts, Inl e) \<Rightarrow> (acts, Some e, gb1)
                    | (acts, Inr (sid, created)) \<Rightarrow>
                        (case query_session svc gb app uid sid created message of
                           (acts', e) \<Rightarrow> (acts @ acts', e, gb1)))))"

fun yielded :: "google_action \<Rightarrow> agent_event list" where
  "yielded (YieldEvent ev) = [ev]"
| "yielded a = []"

definition google_stream ::
    "google_service \<times> google_backend \<Rightarrow> pyval \<Rightarrow> invocation_context \<Rightarrow> agent_event list \<times> exn option" where
  "google_stream X messages ctx =
     (case google_stream_impl (fst X) (snd X) messages ctx of (acts, e, gb) \<Rightarrow> (concat (map yielded acts), e))"

section \<open>run\<close>

definition google_run ::
    "google_service \<times> google_backend \<Rightarrow> pyval \<Rightarrow> invocation_context \<Rightarrow> exn + agent_run_result" where
  "google_run X messages ctx =
     (case google_stream X messages ctx of
        (evs, None) \<Rightarrow> Inr (fold run_step evs empty_run)
      | (evs, Some e) \<Rightarrow> Inl e)"

interpretation google: agent_backend google_stream google_run
  by standard (simp add: google_run_def run_result_def drain_def split: prod.split option.split)

section \<open>Counters\<close>

definition counter :: "string \<Rightarrow> pydict \<Rightarrow> int" where
  "counter k d = (case as_int (get_or d k (PInt 0)) of Some n \<Rightarrow> n | None \<Rightarrow> 0)"

lemma counter_set: "counter k (dict_set k' (PInt n) d) = (if k = k' then n else counter k d)"
  by (simp add: counter_def get_or_def)

lemma add_adk_usage_counter:
  "dict_ok u \<Longrightarrow> counter k (add_adk_usage u acc) = counter k acc + counter k u"
proof (induction u arbitrary: acc)
  case (Cons p u)
  obtain k' v where p: "p = (k', v)" by (cases p)
  have u: "dict_ok u" "k' \<notin> dom (map_of u)" using Cons.prems p by (auto simp: dom_map_of_conv_image_fst)
  have c: "counter k ((k', v) # u) = (if k = k' then (case as_int v of Some n \<Rightarrow> n | None \<Rightarrow> 0) else counter k u)"
    by (simp add: counter_def get_or_def)
  have z: "k = k' \<Longrightarrow> counter k u = 0" using u(2) by (simp add: counter_def get_or_def domIff)
  show ?case
  proof (cases "as_int v")
    case None
    with Cons.IH [of acc] u(1) c z p show ?thesis by (simp add: add_adk_usage_def)
  next
    case (Some n)
    have "add_adk_usage (p # u) acc = add_adk_usage u (dict_set k' (PInt (counter k' acc + n)) acc)"
      using Some p by (simp add: add_adk_usage_def counter_def)
    with Cons.IH u(1) c z Some show ?thesis by (simp add: counter_set p)
  qed
qed (simp add: add_adk_usage_def counter_def get_or_def)

lemma extract_usage_ok: "dict_ok (extract_usage_metadata ev)"
  by (simp add: extract_usage_metadata_def adk_usage_keys_def Let_def)

lemma read_adk_outcome:
  assumes "read_adk_events evs ended acc = (out, acc', None)"
  shows "ended = None \<and> (\<exists>outs. map adk_event_to_agent_events evs = map Inr outs \<and> out = concat outs) \<and>
    (\<forall>k. counter k acc' = counter k acc + sum_list (map (\<lambda>ev. counter k (extract_usage_metadata ev)) evs))"
  using assms
proof (induction evs arbitrary: acc out acc')
  case (Cons ev evs)
  obtain o1 where o1: "adk_event_to_agent_events ev = Inr o1"
    using Cons.prems by (auto simp: Let_def split: sum.splits)
  obtain o2 a2 e2 where r: "read_adk_events evs ended (add_adk_usage (extract_usage_metadata ev) acc) = (o2, a2, e2)"
    by (metis prod_cases3)
  have e: "e2 = None" "out = o1 @ o2" "acc' = a2" using Cons.prems o1 r by (simp_all add: Let_def)
  from Cons.IH [OF r [unfolded e]] obtain outs where "ended = None" "map adk_event_to_agent_events evs = map Inr outs"
    "o2 = concat outs"
    "\<forall>k. counter k a2 = counter k (add_adk_usage (extract_usage_metadata ev) acc) +
       sum_list (map (\<lambda>ev. counter k (extract_usage_metadata ev)) evs)" by blast
  then show ?case using o1 e add_adk_usage_counter [OF extract_usage_ok]
    by (auto intro!: exI [of _ "o1 # outs"])
qed simp

section \<open>The shape of an invocation\<close>

lemma google_stream_cases:
  assumes "google_stream_impl svc gb ms ctx = (acts, e, gb')"
  obtains (early) "acts = []" "e \<noteq> None"
  | (session) app x where "snd (ensure_adk_app svc gb) = gb'" "fst (ensure_adk_app svc gb) = Inr app"
      "session_for svc app (gb_scope_to_user_id gb (scope ctx)) ctx = (acts, Inl x)" "e = Some x"
  | (query) app acts1 sid created acts2 where "snd (ensure_adk_app svc gb) = gb'" "fst (ensure_adk_app svc gb) = Inr app"
      "session_for svc app (gb_scope_to_user_id gb (scope ctx)) ctx = (acts1, Inr (sid, created))"
      "query_session svc gb app (gb_scope_to_user_id gb (scope ctx)) sid created (normalize_messages_google ms) = (acts2, e)"
      "acts = acts1 @ acts2"
  using assms
  by (cases "ensure_adk_app svc gb"; cases "fst (ensure_adk_app svc gb)")
    (auto simp: google_stream_impl_def Let_def split: if_splits prod.splits sum.splits)

lemma ensured_app: "ensure_adk_app svc gb = (Inr app, gb') \<Longrightarrow> gb_adk_app gb' = Some app"
  by (auto simp: ensure_adk_app_def Let_def split: option.splits prod.splits sum.splits)

lemma session_for_yields: "session_for svc app uid ctx = (acts, r) \<Longrightarrow> concat (map yielded acts) = []"
  by (auto simp: session_for_def Let_def split: if_splits)

lemma query_session_shape:
  assumes "query_session svc gb app uid sid created message = (acts, e)"
  shows "\<exists>out. acts = StreamQuery uid sid message # map YieldEvent out @
    (if created \<and> sid \<noteq> [] \<and> gb_delete_session_on_finish gb then [DeleteSession uid sid] else [])"
proof -
  obtain evs ended where q: "stream_query svc app uid sid message = (evs, ended)" by fastforce
  obtain out acc e' where "read_adk_events evs ended [] = (out, acc, e')" by (metis prod_cases3)
  with q assms show ?thesis
    by (intro exI [of _ "out @ (if e' = None then [AgentFinish ''end_turn'' acc (Some sid)] else [])"])
      (auto simp: query_session_def)
qed

lemma yielded_events: "concat (map yielded (map YieldEvent evs)) = evs"
  by (induction evs) simp_all

lemma google_stream_ends:
  assumes "google_stream_impl svc gb ms ctx = (acts, None, gb')"
  shows "\<exists>app sid evs outs u.
    gb_adk_app gb' = Some app \<and>
    stream_query svc app (gb_scope_to_user_id gb (scope ctx)) sid (normalize_messages_google ms) = (evs, None) \<and>
    map adk_event_to_agent_events evs = map Inr outs \<and>
    concat (map yielded acts) = concat outs @ [AgentFinish ''end_turn'' u (Some sid)] \<and>
    (\<forall>k. counter k u = sum_list (map (\<lambda>ev. counter k (extract_usage_metadata ev)) evs))"
  using assms
proof (cases rule: google_stream_cases)
  case (query app acts1 sid created acts2)
  let ?uid = "gb_scope_to_user_id gb (scope ctx)"
  obtain evs ended where q: "stream_query svc app ?uid sid (normalize_messages_google ms) = (evs, ended)" by fastforce
  obtain out u e where r: "read_adk_events evs ended [] = (out, u, e)" by (metis prod_cases3)
  have e: "e = None" and a: "concat (map yielded acts2) = out @ [AgentFinish ''end_turn'' u (Some sid)]"
    using query(4) q r by (auto simp: query_session_def yielded_events simp del: map_map)
  from read_adk_outcome [OF r [unfolded e]] obtain outs where "ended = None"
    "map adk_event_to_agent_events evs = map Inr outs" "out = concat outs"
    "\<forall>k. counter k u = sum_list (map (\<lambda>ev. counter k (extract_usage_metadata ev)) evs)"
    by (auto simp: counter_def get_or_def)
  moreover have "gb_adk_app gb' = Some app" using query(1,2) ensured_app by (metis prod.collapse)
  moreover have "concat (map yielded acts) = concat (map yielded acts2)"
    using query(3,5) session_for_yields by simp
  ultimately show ?thesis using q a by auto
qed simp_all

end
