(* ===== verification/GoogleDeploy.thy ===== *)
theory GoogleDeploy
  imports GoogleBackend Json
begin

text \<open>
  Deploying an ADK agent (\<open>deploy.py\<close>) and the tool that the deployed agent carries (\<open>_proxy_tool.py\<close>) in
  copass-google-agents: the checks, what is handed to the SDK, the headers given to the MCP server, and the
  dispatch of a tool call back to the Copass service.
\<close>

section \<open>The dispatch tool\<close>

text \<open>An optional text where only a non-empty one counts.\<close>

fun or_empty :: "string option \<Rightarrow> string" where
  "or_empty None = []"
| "or_empty (Some s) = s"

definition DEFAULT_DISPATCH_PATH :: string where
  "DEFAULT_DISPATCH_PATH = ''/api/v1/agents/dispatch''"

text \<open>The context the runtime passes to a tool; a state without \<open>get\<close> counts as none.\<close>

record tool_context =
  tc_state :: pyval
  tc_user_id :: pyval
  tc_session_id :: pyval

definition state_text :: "pyval \<Rightarrow> string \<Rightarrow> string option" where
  "state_text state k =
     (case state of
        PDict d \<Rightarrow> (let v = get_none d k in if truthy v then Some (py_str v) else None)
      | _ \<Rightarrow> None)"

record dispatch_request =
  dq_url :: string
  dq_headers :: "(string, string) dict"
  dq_json :: pydict

text \<open>A response, with the text of the error its status raises.\<close>

record dispatch_response =
  ds_status :: int
  ds_text :: string
  ds_status_error :: string

definition no_url_error :: string where
  "no_url_error = ''copass_dispatch misconfigured: COPASS_API_URL env var not set on the deployed agent.''"

definition no_key_error :: string where
  "no_key_error = ''copass_dispatch misconfigured: tool_context.state is missing '' @ sq # ''copass_api_key'' @
     sq # ''. The calling Copass server must populate it on the ADK session via async_create_session(state={'' @
     sq # ''copass_api_key'' @ sq # '': ...}).''"

definition dispatch_payload :: "string \<Rightarrow> pyval \<Rightarrow> tool_context option \<Rightarrow> pydict" where
  "dispatch_payload tname arguments tctx =
     [(''tool_name'', PStr tname), (''arguments'', py_or arguments (PDict [])),
      (''user_id'', case tctx of None \<Rightarrow> PNone | Some c \<Rightarrow> tc_user_id c),
      (''session_id'', case tctx of None \<Rightarrow> PNone | Some c \<Rightarrow> tc_session_id c)]"

text \<open>The request, or the error returned instead of one.\<close>

definition dispatch_request_of ::
    "(string, string) dict \<Rightarrow> string \<Rightarrow> pyval \<Rightarrow> tool_context option \<Rightarrow> string + dispatch_request" where
  "dispatch_request_of env tname arguments tctx =
     (case or_empty (dict_get env ''COPASS_API_URL'') of
        [] \<Rightarrow> Inl no_url_error
      | c # cs \<Rightarrow>
          (case or_empty (case tctx of None \<Rightarrow> None | Some tc \<Rightarrow> state_text (tc_state tc) ''copass_api_key'') of
             [] \<Rightarrow> Inl no_key_error
           | k # ks \<Rightarrow> Inr
               \<lparr>dq_url = rstrip_char (CHR ''/'') (c # cs) @
                  (case dict_get env ''COPASS_DISPATCH_PATH'' of None \<Rightarrow> DEFAULT_DISPATCH_PATH | Some p \<Rightarrow> p),
                dq_headers = [(''Authorization'', ''Bearer '' @ k # ks), (''Content-Type'', ''application/json'')],
                dq_json = dispatch_payload tname arguments tctx\<rparr>))"

definition dispatch_result :: "dispatch_response \<Rightarrow> exn + pydict" where
  "dispatch_result resp =
     (if ds_status resp < 200 \<or> 300 \<le> ds_status resp then
        Inr [(''error'', PStr (''copass_dispatch HTTP '' @ dec_int (ds_status resp) @ '': '' @ ds_status_error resp)),
             (''response_text'', PStr (take 1000 (ds_text resp)))]
      else case loads (ds_text resp) of
             Inl e \<Rightarrow> Inr [(''text'', PStr (ds_text resp))]
           | Inr v \<Rightarrow> (case py_dict v of
                         Inl (ValueError m) \<Rightarrow> Inr [(''text'', PStr (ds_text resp))]
                       | r \<Rightarrow> r))"

definition copass_dispatch ::
    "(string, string) dict \<Rightarrow> (dispatch_request \<Rightarrow> exn + dispatch_response) \<Rightarrow> string \<Rightarrow> pyval \<Rightarrow> tool_context option \<Rightarrow>
     dispatch_request option \<times> (exn + pydict)" where
  "copass_dispatch env http tname arguments tctx =
     (case dispatch_request_of env tname arguments tctx of
        Inl m \<Rightarrow> (None, Inr [(''error'', PStr m)])
      | Inr rq \<Rightarrow> (Some rq, case http rq of Inl e \<Rightarrow> Inl e | Inr resp \<Rightarrow> dispatch_result resp))"

section \<open>Deployment\<close>

definition DEFAULT_REQUIREMENTS :: "string list" where
  "DEFAULT_REQUIREMENTS = [''google-cloud-aiplatform[agent_engines,adk]==1.149.0'', ''google-adk==1.32.0'',
     ''cloudpickle>=3.1.2'', ''pydantic>=2.0.0'', ''httpx>=0.27'']"

definition DEFAULT_MCP_PROXY_REQUIREMENTS :: "string list" where
  "DEFAULT_MCP_PROXY_REQUIREMENTS = [''google-cloud-aiplatform[agent_engines,adk]==1.149.0'', ''google-adk==1.32.0'',
     ''cloudpickle>=3.1.2'', ''pydantic>=2.0.0'', ''httpx>=0.27'', ''mcp>=1.0.0'']"

text \<open>The tools baked into an agent: the dispatch function, the MCP toolset with its static headers and
  timeout, or one of the caller's.\<close>

datatype adk_tool = DispatchTool | McpToolset string pyval string | ExtraTool pyval

record deploy_options =
  do_display_name :: string
  do_project :: string
  do_system_prompt :: string
  do_url :: string
  do_location :: string
  do_model :: string
  do_staging_bucket :: "string option"
  do_credentials :: pyval
  do_extra_tools :: "pyval list option"
  do_requirements :: "string list option"
  do_dispatch_path :: "string option"
  do_vertex_client :: "vertex_handle option"

text \<open>What the SDK is called with: the global initialisation, the agent, the client, the configuration.\<close>

record deployment =
  dp_init :: pydict
  dp_agent_name :: string
  dp_model :: string
  dp_instruction :: string
  dp_tools :: "adk_tool list"
  dp_client :: vertex_handle
  dp_config :: pydict

definition required_arg :: "string \<Rightarrow> string \<Rightarrow> exn" where
  "required_arg fn arg = ValueError (fn @ '': `'' @ arg @ ''` is required'')"

definition deploy_check :: "string \<Rightarrow> string \<Rightarrow> deploy_options \<Rightarrow> exn option" where
  "deploy_check fn url_arg opts =
     (if do_display_name opts = [] then Some (required_arg fn ''display_name'')
      else if do_project opts = [] then Some (required_arg fn ''project'')
      else if do_system_prompt opts = [] then Some (required_arg fn ''system_prompt'')
      else if do_url opts = [] then Some (required_arg fn url_arg)
      else if \<not> prefix ''gs://'' (or_empty (do_staging_bucket opts)) then
        Some (ValueError (fn @ '': `staging_bucket` is required and must start with '' @ sq # ''gs://'' @ sq #
          '' (Agent Engine API constraint)''))
      else None)"

definition deploy_kwargs :: "deploy_options \<Rightarrow> pydict" where
  "deploy_kwargs opts = [(''project'', PStr (do_project opts)), (''location'', PStr (do_location opts))] @
     (if do_credentials opts = PNone then [] else [(''credentials'', do_credentials opts)])"

definition deploy_config :: "deploy_options \<Rightarrow> string list \<Rightarrow> pydict \<Rightarrow> pydict" where
  "deploy_config opts default_requirements env_vars =
     [(''display_name'', PStr (do_display_name opts)),
      (''staging_bucket'', PStr (or_empty (do_staging_bucket opts))),
      (''requirements'', PList (map PStr (case do_requirements opts of Some (r # rs) \<Rightarrow> r # rs | _ \<Rightarrow> default_requirements))),
      (''env_vars'', PDict env_vars),
      (''agent_framework'', PStr ''google-adk'')]"

definition deployment_of :: "deploy_options \<Rightarrow> adk_tool \<Rightarrow> pydict \<Rightarrow> deployment" where
  "deployment_of opts tool config =
     \<lparr>dp_init = deploy_kwargs opts, dp_agent_name = ''copass_agent'', dp_model = do_model opts,
      dp_instruction = do_system_prompt opts,
      dp_tools = tool # map ExtraTool (case do_extra_tools opts of None \<Rightarrow> [] | Some ts \<Rightarrow> ts),
      dp_client = (case do_vertex_client opts of Some c \<Rightarrow> c | None \<Rightarrow> VertexClient (deploy_kwargs opts)),
      dp_config = config\<rparr>"

definition deploy_adk_agent :: "deploy_options \<Rightarrow> exn + deployment" where
  "deploy_adk_agent opts =
     (case deploy_check ''deploy_adk_agent'' ''copass_api_url'' opts of
        Some e \<Rightarrow> Inl e
      | None \<Rightarrow> Inr (deployment_of opts DispatchTool
          (deploy_config opts DEFAULT_REQUIREMENTS
             ([(''COPASS_API_URL'', PStr (do_url opts))] @
              (case do_dispatch_path opts of
                 Some (c # cs) \<Rightarrow> [(''COPASS_DISPATCH_PATH'', PStr (c # cs))] | _ \<Rightarrow> [])))))"

definition deploy_adk_agent_with_mcp_proxy :: "deploy_options \<Rightarrow> exn + deployment" where
  "deploy_adk_agent_with_mcp_proxy opts =
     (case deploy_check ''deploy_adk_agent_with_mcp_proxy'' ''copass_mcp_url'' opts of
        Some e \<Rightarrow> Inl e
      | None \<Rightarrow> Inr (deployment_of opts (McpToolset (do_url opts) PNone ''30.0'')
          (deploy_config opts DEFAULT_MCP_PROXY_REQUIREMENTS [])))"

text \<open>The headers of a call to the MCP server, from the session's context.\<close>

definition header_provider :: "tool_context \<Rightarrow> (string, string) dict" where
  "header_provider ctx =
     (case or_empty (state_text (tc_state ctx) ''copass_api_key'') of
        [] \<Rightarrow> [] | k # ks \<Rightarrow> [(''Authorization'', ''Bearer '' @ k # ks)]) @
     (if truthy (tc_user_id ctx) then [(''x-copass-user-scope'', py_str (tc_user_id ctx))] else []) @
     (case or_empty (state_text (tc_state ctx) ''scope_sig'') of
        [] \<Rightarrow> [] | s # ss \<Rightarrow> [(''x-copass-scope-sig'', s # ss)])"

end
