(* ===== verification/PropertiesGoogle.thy ===== *)
theory PropertiesGoogle
  imports GoogleDeploy
begin

text \<open>
  What a Google turn yields and for whom it acts, and how a deployed agent calls back.
\<close>

section \<open>Properties\<close>

text \<open>One turn: a text, a call and its result in three events.\<close>

definition adk_event :: "string \<Rightarrow> string \<Rightarrow> pydict \<Rightarrow> pyval" where
  "adk_event i kind block = PDict [(''id'', PStr i), (''content'', PDict [(''parts'', PList [PDict [(kind, PDict block)]])])]"

definition ex_adk_events :: "pyval list" where
  "ex_adk_events =
     [adk_event ''e1'' ''function_call'' [(''name'', PStr ''f''), (''args'', PDict [(''x'', PInt 1)])],
      adk_event ''e2'' ''function_response'' [(''name'', PStr ''f''), (''response'', PDict [(''y'', PInt 2)])]]"

definition ex_google_service :: google_service where
  "ex_google_service = \<lparr>new_client = \<lambda>k. None, get_engine = \<lambda>c n. None,
     create_session = \<lambda>a u st. Inr (PDict [(''id'', PStr ''s1'')]),
     stream_query = \<lambda>a u s m. (ex_adk_events, None)\<rparr>"

definition ex_google :: google_backend where
  "ex_google = \<lparr>gb_project = ''p'', gb_location = DEFAULT_LOCATION, gb_reasoning_engine_id = ''9'', gb_credentials = PNone,
     gb_delete_session_on_finish = True, gb_vertex_client = None, gb_adk_app = None,
     gb_scope_to_user_id = scope_to_user_id\<rparr>"

definition ex_google_ctx :: invocation_context where
  "ex_google_ctx = \<lparr>scope = \<lparr>user_id = ''u'', sandbox_id = Some ''b'', project_id = None\<rparr>, trace_id = None, dek = None,
     handles = []\<rparr>"

definition ex_google_turn :: "google_action list \<times> exn option \<times> google_backend" where
  "ex_google_turn = google_stream_impl ex_google_service ex_google (PStr ''hi'') ex_google_ctx"

lemma ex_google_turn: "google_stream_impl ex_google_service ex_google (PStr ''hi'') ex_google_ctx =
    (fst ex_google_turn, None, snd (snd ex_google_turn))"
proof -
  have "fst (snd ex_google_turn) = None" by code_simp
  then show ?thesis unfolding ex_google_turn_def by (metis prod.collapse)
qed

text \<open>A stream that ends well.\<close>

theorem google_stream_outcome:
  assumes "google_stream_impl svc gb ms ctx = (acts, None, gb')"
  shows "\<exists>app sid evs outs u.
    gb_adk_app gb' = Some app \<and>
    stream_query svc app (gb_scope_to_user_id gb (scope ctx)) sid (normalize_messages_google ms) = (evs, None) \<and>
    map adk_event_to_agent_events evs = map Inr outs \<and>
    concat (map yielded acts) = concat outs @ [AgentFinish ''end_turn'' u (Some sid)] \<and>
    (\<forall>k. counter k u = sum_list (map (\<lambda>ev. counter k (extract_usage_metadata ev)) evs))"
  using assms by (rule google_stream_ends)

theorem google_stream_outcome_witness:
  "\<exists>sid u. concat (map yielded (fst ex_google_turn)) =
     [AgentToolCall ''e1'' ''f'' [(''x'', PInt 1)], AgentToolResult ''e2'' ''f'' (PDict [(''y'', PInt 2)]) None] @
     [AgentFinish ''end_turn'' u (Some sid)] \<and> counter ''input_tokens'' u = 0"
proof -
  have e: "map adk_event_to_agent_events ex_adk_events =
    map Inr [[AgentToolCall ''e1'' ''f'' [(''x'', PInt 1)]], [AgentToolResult ''e2'' ''f'' (PDict [(''y'', PInt 2)]) None]]"
    by code_simp
  have u: "sum_list (map (\<lambda>ev. counter ''input_tokens'' (extract_usage_metadata ev)) ex_adk_events) = 0"
    by code_simp
  have q: "stream_query ex_google_service app uid sid m = (ex_adk_events, None)" for app uid sid m
    by (simp add: ex_google_service_def)
  from google_stream_outcome [OF ex_google_turn] obtain sid evs outs w where
    "(ex_adk_events, None) = (evs, None :: exn option)" "map adk_event_to_agent_events evs = map Inr outs"
    "concat (map yielded (fst ex_google_turn)) = concat outs @ [AgentFinish ''end_turn'' w (Some sid)]"
    "\<forall>k. counter k w = sum_list (map (\<lambda>ev. counter k (extract_usage_metadata ev)) evs)"
    unfolding q by blast
  moreover from this e have "outs = [[AgentToolCall ''e1'' ''f'' [(''x'', PInt 1)]], [AgentToolResult ''e2'' ''f'' (PDict [(''y'', PInt 2)]) None]]"
    by auto
  ultimately show ?thesis using u by auto
qed

text \<open>Claim C33. Whom the calls are made for, and which session is deleted.\<close>

fun made_for :: "string \<Rightarrow> google_action \<Rightarrow> bool" where
  "made_for u (CreateSession v st) = (u = v)"
| "made_for u (StreamQuery v s m) = (u = v)"
| "made_for u (YieldEvent ev) = True"
| "made_for u (DeleteSession v s) = (u = v)"

fun is_delete :: "google_action \<Rightarrow> bool" where
  "is_delete (DeleteSession u s) = True"
| "is_delete a = False"

theorem google_only_own_session_deleted:
  assumes "google_stream_impl svc gb ms ctx = (acts, e, gb')"
  shows "list_all (made_for (gb_scope_to_user_id gb (scope ctx))) acts \<and>
    length (filter is_delete acts) \<le> 1 \<and>
    (list_ex is_delete acts \<longrightarrow> gb_delete_session_on_finish gb \<and> \<not> truthy (get_none (handles ctx) GOOGLE_SESSION_ID_HANDLE) \<and>
       (\<exists>app st payload sid. create_session svc app (gb_scope_to_user_id gb (scope ctx)) st = Inr payload \<and>
          extract_session_id payload = Inr sid \<and> last acts = DeleteSession (gb_scope_to_user_id gb (scope ctx)) sid))"
  using assms
proof (cases rule: google_stream_cases)
  case (session app x)
  then show ?thesis by (auto simp: session_for_def Let_def split: if_splits sum.splits)
next
  case (query app acts1 sid created acts2)
  let ?uid = "gb_scope_to_user_id gb (scope ctx)"
  obtain out d where q: "acts2 = StreamQuery ?uid sid (normalize_messages_google ms) # map YieldEvent out @ d"
    "d = (if created \<and> sid \<noteq> [] \<and> gb_delete_session_on_finish gb then [DeleteSession ?uid sid] else [])"
    using query_session_shape [OF query(4)] by blast
  have y: "list_all (made_for ?uid) (map YieldEvent out)" "filter is_delete (map YieldEvent out) = []"
    "\<not> list_ex is_delete (map YieldEvent out)" for out
    by (induction out) simp_all
  have m: "map_sum id f x = Inr y \<Longrightarrow> \<exists>z. x = Inr z \<and> f z = y" for f :: "string \<Rightarrow> string \<times> bool" and x :: "exn + string" and y
    by (cases x) auto
  have c: "list_all (made_for ?uid) acts1" "filter is_delete acts1 = []" "\<not> list_ex is_delete acts1"
    "created \<longrightarrow> \<not> truthy (get_none (handles ctx) GOOGLE_SESSION_ID_HANDLE) \<and>
       (\<exists>app st payload. create_session svc app ?uid st = Inr payload \<and> extract_session_id payload = Inr sid)"
    using query(3) by (fastforce simp: session_for_def Let_def dest: m split: if_splits sum.splits)+
  show ?thesis
  proof (cases "d = []")
    case True
    with q y c query(5) show ?thesis by simp
  next
    case False
    then have "d = [DeleteSession ?uid sid]" "created" "gb_delete_session_on_finish gb" using q(2) by (auto split: if_splits)
    with q(1) y c query(5) show ?thesis by auto
  qed
qed simp_all

theorem google_only_own_session_deleted_witness:
  "list_all (made_for ''s_b'') (fst ex_google_turn) \<and> list_ex is_delete (fst ex_google_turn) \<and>
   last (fst ex_google_turn) = DeleteSession ''s_b'' ''s1''"
proof -
  have "list_ex is_delete (fst ex_google_turn)" "gb_scope_to_user_id ex_google (scope ex_google_ctx) = ''s_b''"
    by code_simp+
  moreover have "extract_session_id (PDict [(''id'', PStr ''s1'')]) = Inr ''s1''" by code_simp
  ultimately show ?thesis using google_only_own_session_deleted [OF ex_google_turn]
    by (auto simp: ex_google_service_def)
qed

text \<open>Tenants of the provider.\<close>

definition tenant :: "agent_scope \<Rightarrow> string \<times> string" where
  "tenant s = (if or_empty (project_id s) \<noteq> [] then (''project'', or_empty (project_id s))
     else if or_empty (sandbox_id s) \<noteq> [] then (''sandbox'', or_empty (sandbox_id s))
     else (''user'', user_id s))"

theorem google_user_ids_separate_tenants:
  "scope_to_user_id s = scope_to_user_id t \<longleftrightarrow> tenant s = tenant t"
  by (auto simp: scope_to_user_id_def tenant_def split: option.splits list.splits)

text \<open>A call and its response without ids of their own get the ids of the two events that carry them, so
  the result of the call is never attached to it.\<close>

theorem google_unnamed_result_unmatched:
  assumes "i \<noteq> j" "i \<noteq> []" "j \<noteq> []" "google_stream_impl svc gb ms ctx = (acts, None, gb')"
    "\<And>app uid sid m. stream_query svc app uid sid m =
       ([adk_event i ''function_call'' [(''name'', PStr n), (''args'', PDict args)],
         adk_event j ''function_response'' [(''name'', PStr n), (''response'', PDict res)]], None)"
  shows "map_sum id (\<lambda>r. map log_result (tool_calls r)) (google_run (svc, gb) ms ctx) = Inr [None]"
proof -
  obtain app sid evs outs u where o: "stream_query svc app (gb_scope_to_user_id gb (scope ctx)) sid (normalize_messages_google ms) = (evs, None)"
    "map adk_event_to_agent_events evs = map Inr outs"
    "concat (map yielded acts) = concat outs @ [AgentFinish ''end_turn'' u (Some sid)]"
    using google_stream_ends [OF assms(4)] by blast
  have "outs = [[AgentToolCall i n args], [AgentToolResult j n (PDict res) (adk_result_error res)]]"
    using o(1,2) assms(1-3,5) by (auto simp: adk_event_def adk_event_to_agent_events_def adk_part_events_def adk_get_def get_or_def
        py_or_def adk_call_id_def adk_name_def adk_dict_def)
  then show ?thesis using o(3) assms(1)
    by (simp add: google_run_def google_stream_def assms(4) empty_run_def)
qed

theorem google_unnamed_result_unmatched_witness:
  "map_sum id (\<lambda>r. map log_result (tool_calls r)) (google_run (ex_google_service, ex_google) (PStr ''hi'') ex_google_ctx) = Inr [None]"
  by (rule google_unnamed_result_unmatched [OF _ _ _ ex_google_turn, of "''e1''" "''e2''" "''f''" "[(''x'', PInt 1)]" "[(''y'', PInt 2)]"])
    (simp_all add: ex_google_service_def ex_adk_events_def)

text \<open>Claim C34. Deployed agents call back with the session's key.\<close>

definition deployed_env :: "deployment \<Rightarrow> (string, string) dict" where
  "deployed_env dp = (case get_none (dp_config dp) ''env_vars'' of PDict d \<Rightarrow> map (\<lambda>(k, v). (k, py_str v)) d | _ \<Rightarrow> [])"

theorem deployed_dispatch:
  assumes "deploy_adk_agent opts = Inr dp"
  shows "fst (copass_dispatch (deployed_env dp) http n args tctx) =
    (case tctx of
       None \<Rightarrow> None
     | Some tc \<Rightarrow>
         if dict_get (header_provider tc) ''Authorization'' = None then None
         else Some \<lparr>dq_url = rstrip_char (CHR ''/'') (do_url opts) @
             (if or_empty (do_dispatch_path opts) = [] then DEFAULT_DISPATCH_PATH else or_empty (do_dispatch_path opts)),
           dq_headers = [(''Authorization'', the (dict_get (header_provider tc) ''Authorization'')), (''Content-Type'', ''application/json'')],
           dq_json = dispatch_payload n args tctx\<rparr>)"
proof -
  have c: "deploy_check ''deploy_adk_agent'' ''copass_api_url'' opts = None" and dp: "dp_config dp =
      deploy_config opts DEFAULT_REQUIREMENTS ([(''COPASS_API_URL'', PStr (do_url opts))] @
        (case do_dispatch_path opts of Some (c # cs) \<Rightarrow> [(''COPASS_DISPATCH_PATH'', PStr (c # cs))] | _ \<Rightarrow> []))"
    using assms by (auto simp: deploy_adk_agent_def deployment_of_def split: option.splits)
  have url: "do_url opts \<noteq> []" using c by (auto simp: deploy_check_def split: if_splits)
  have env: "dict_get (deployed_env dp) ''COPASS_API_URL'' = Some (do_url opts)"
    "dict_get (deployed_env dp) ''COPASS_DISPATCH_PATH'' =
       (if or_empty (do_dispatch_path opts) = [] then None else do_dispatch_path opts)"
    by (cases "do_dispatch_path opts"; cases "or_empty (do_dispatch_path opts)";
        simp add: deployed_env_def dp deploy_config_def get_or_def)+
  have auth: "dict_get (header_provider tc) ''Authorization'' =
      (if or_empty (state_text (tc_state tc) ''copass_api_key'') = [] then None
       else Some (''Bearer '' @ or_empty (state_text (tc_state tc) ''copass_api_key'')))" for tc
    by (auto simp: header_provider_def split: list.split)
  show ?thesis
    using url env
    by (auto simp: copass_dispatch_def dispatch_request_of_def auth split: option.split list.split)
qed

definition ex_deploy :: deploy_options where
  "ex_deploy = \<lparr>do_display_name = ''a'', do_project = ''p'', do_system_prompt = ''s'', do_url = ''https://c/'',
     do_location = DEFAULT_LOCATION, do_model = ''m'', do_staging_bucket = Some ''gs://b'', do_credentials = PNone,
     do_extra_tools = None, do_requirements = None, do_dispatch_path = None, do_vertex_client = None\<rparr>"

definition ex_deployment :: deployment where
  "ex_deployment = deployment_of ex_deploy DispatchTool
     (deploy_config ex_deploy DEFAULT_REQUIREMENTS [(''COPASS_API_URL'', PStr ''https://c/'')])"

theorem deployed_dispatch_witness:
  "fst (copass_dispatch (deployed_env ex_deployment) (\<lambda>rq. Inl (RuntimeError ''down'')) ''f'' (PDict [])
     (Some \<lparr>tc_state = PDict [(''copass_api_key'', PStr ''k'')], tc_user_id = PStr ''u_1'', tc_session_id = PStr ''s''\<rparr>)) =
   Some \<lparr>dq_url = ''https://c/api/v1/agents/dispatch'',
     dq_headers = [(''Authorization'', ''Bearer k''), (''Content-Type'', ''application/json'')],
     dq_json = [(''tool_name'', PStr ''f''), (''arguments'', PDict []), (''user_id'', PStr ''u_1''), (''session_id'', PStr ''s'')]\<rparr>"
proof -
  have "deploy_adk_agent ex_deploy = Inr ex_deployment" by code_simp
  note deployed_dispatch [OF this]
  moreover have "dict_get (header_provider \<lparr>tc_state = PDict [(''copass_api_key'', PStr ''k'')], tc_user_id = PStr ''u_1'',
      tc_session_id = PStr ''s''\<rparr>) ''Authorization'' = Some ''Bearer k''" by code_simp
  moreover have "rstrip_char (CHR ''/'') (do_url ex_deploy) = ''https://c''" by code_simp
  ultimately show ?thesis
    by (simp add: dispatch_payload_def py_or_def ex_deploy_def DEFAULT_DISPATCH_PATH_def)
qed

end
