(* ===== verification/CopassAgent.thy ===== *)
theory CopassAgent
  imports TurnRecorder PyFormat HermesBackend GoogleBackend
begin

text \<open>
  The agents with Copass context engineering: \<open>CopassManagedAgent\<close> (copass-anthropic-agents,
  \<open>managed_agent.py\<close>), \<open>CopassGoogleAgent\<close> (\<open>google_agent.py\<close>) and \<open>CopassHermesAgent\<close>
  (\<open>hermes_agent.py\<close>). The three classes are written alike; what they do differently is a
  \<open>flavour\<close>, and each class is the common definitions at its flavour. The client, its window and the recorder
  are the state of an agent; the backend is a parameter, what it streams for given messages.
\<close>

section \<open>Flavours\<close>

text \<open>The class name, the handle that marks a session that goes on, the last words of the conflict message, the text
  of a list of content blocks, the default next steps, and whether \<open>run\<close> keeps the session id.\<close>

record flavour =
  fl_class :: string
  fl_session_handle :: "string option"
  fl_conflict_advice :: string
  fl_blocks_text :: "pyval list \<Rightarrow> string"
  fl_next_steps :: string
  fl_keeps_session :: bool

definition extract_text :: "pyval \<Rightarrow> string" where
  "extract_text part =
     (case part of
        PDict d \<Rightarrow> if get_none d ''type'' = PStr ''text'' then py_str (get_or d ''text'' (PStr [])) else []
      | PStr s \<Rightarrow> s
      | _ \<Rightarrow> [])"

definition joined_parts :: "pyval list \<Rightarrow> string" where
  "joined_parts content = py_strip (py_join [nl] (map extract_text (filter (\<lambda>part. part \<noteq> PNone) content)))"

definition joined_texts :: "pyval list \<Rightarrow> string" where
  "joined_texts content =
     py_strip (py_join [nl] (concat (map (\<lambda>block. case block of
        PDict d \<Rightarrow> if get_none d ''type'' = PStr ''text'' then [py_str (get_or d ''text'' (PStr []))] else []
      | PStr s \<Rightarrow> [s]
      | _ \<Rightarrow> []) content)))"

definition scope_advice :: string where
  "scope_advice = '' The agent'' @ sq # ''s discover scope and the window'' @ sq #
     ''s ingest scope must target the same project. Pass matching values, or drop one and let the other drive.''"

definition managed_flavour :: flavour where
  "managed_flavour = \<lparr>fl_class = ''CopassManagedAgent'', fl_session_handle = Some ''managed_agent_session_id'',
     fl_conflict_advice = scope_advice, fl_blocks_text = joined_parts,
     fl_next_steps = ''Call `interpret` with any canonical_ids tuple above for a deeper brief, or `discover` again for more items.'',
     fl_keeps_session = True\<rparr>"

definition google_flavour :: flavour where
  "google_flavour = \<lparr>fl_class = ''CopassGoogleAgent'', fl_session_handle = Some GOOGLE_SESSION_ID_HANDLE,
     fl_conflict_advice = scope_advice, fl_blocks_text = joined_parts,
     fl_next_steps = ''Call `interpret` via `copass_dispatch` with any canonical_ids tuple above for a deeper brief, or `discover` again for more items.'',
     fl_keeps_session = True\<rparr>"

definition hermes_flavour :: flavour where
  "hermes_flavour = \<lparr>fl_class = ''CopassHermesAgent'', fl_session_handle = None,
     fl_conflict_advice = '' Pass matching values, or drop one.'', fl_blocks_text = joined_texts,
     fl_next_steps = ''Call `interpret` with any canonical_ids tuple above for a deeper brief, or `discover` again for more items.'',
     fl_keeps_session = False\<rparr>"

section \<open>Construction\<close>

text \<open>What the constructors take for the Copass layer; of the client, only whether there is one.\<close>

record agent_wiring =
  aw_has_client :: bool
  aw_sandbox_id :: "string option"
  aw_window :: "context_window option"
  aw_prefetch_discover :: bool
  aw_auto_record :: bool
  aw_author :: "string option"
  aw_project_id :: "string option"

record copass_agent =
  ca_base :: base_agent
  ca_sandbox_id :: "string option"
  ca_project_id :: "string option"
  ca_author :: "string option"
  ca_prefetch_discover :: bool
  ca_auto_record :: bool

record 's copass_state =
  st_window :: "context_window option"
  st_recorder :: "recorder option"
  st_service :: 's

definition conflict_error :: "flavour \<Rightarrow> string \<Rightarrow> string \<Rightarrow> exn" where
  "conflict_error fl p wp =
     ValueError (fl_class fl @ '': project_id='' @ repr_str p @ '' conflicts with window.project_id='' @
       repr_str wp @ ''.'' @ fl_conflict_advice fl)"

text \<open>One project for the discover calls of the agent and the pushes of its window.\<close>

definition unify_project ::
    "flavour \<Rightarrow> context_window option \<Rightarrow> string option \<Rightarrow> exn + context_window option \<times> string option" where
  "unify_project fl window project =
     (case window of
        None \<Rightarrow> Inr (None, project)
      | Some w \<Rightarrow>
          (case (or_none (ds_project_id (cw_source w)), or_none project) of
             (Some wp, Some p) \<Rightarrow>
               if wp \<noteq> p then Inl (conflict_error fl p wp) else Inr (Some w, project)
           | (Some wp, None) \<Rightarrow> Inr (Some w, Some wp)
           | (None, Some p) \<Rightarrow> Inr (Some (w\<lparr>cw_source := (cw_source w)\<lparr>ds_project_id := Some p\<rparr>\<rparr>), Some p)
           | (None, None) \<Rightarrow> Inr (Some w, project)))"

definition wire_agent ::
    "flavour \<Rightarrow> (string \<Rightarrow> string) \<Rightarrow> base_agent \<Rightarrow> agent_wiring \<Rightarrow> 's \<Rightarrow> exn + copass_agent \<times> 's copass_state" where
  "wire_agent fl digest base aw s =
     map_sum id (\<lambda>(window, project).
       (\<lparr>ca_base = base, ca_sandbox_id = aw_sandbox_id aw, ca_project_id = project, ca_author = aw_author aw,
         ca_prefetch_discover = (aw_prefetch_discover aw \<and> aw_has_client aw \<and> or_none (aw_sandbox_id aw) \<noteq> None),
         ca_auto_record = (aw_auto_record aw \<and> window \<noteq> None)\<rparr>,
        \<lparr>st_window = window,
         st_recorder = (if aw_auto_record aw
                        then map_option (\<lambda>w. make_recorder digest w False (aw_author aw) False None ''User'') window
                        else None),
         st_service = s\<rparr>))
       (unify_project fl (aw_window aw) (aw_project_id aw))"

definition make_managed_agent ::
    "(string \<Rightarrow> string) \<Rightarrow> bool \<Rightarrow> string option \<Rightarrow> bool \<Rightarrow> exn + base_agent \<Rightarrow> agent_wiring \<Rightarrow> 's \<Rightarrow>
     exn + copass_agent \<times> 's copass_state" where
  "make_managed_agent digest backend_given api_key client_given base aw s =
     (if backend_given \<and> (or_none api_key \<noteq> None \<or> client_given) then
        Inl (ValueError (''CopassManagedAgent: pass EITHER `backend` OR `anthropic_api_key` / `anthropic_client` - not both. '' @
          ''When supplying your own backend, configure its client there.''))
      else case base of Inl e \<Rightarrow> Inl e | Inr b \<Rightarrow> wire_agent managed_flavour digest b aw s)"

definition make_google_agent ::
    "(string \<Rightarrow> string) \<Rightarrow> string \<Rightarrow> string \<Rightarrow> string \<Rightarrow> pyval \<Rightarrow> string \<Rightarrow> string \<Rightarrow> string \<Rightarrow> tool_registry option \<Rightarrow>
     (invocation_context \<Rightarrow> exn + tool list) option \<Rightarrow> string \<Rightarrow> agent_wiring \<Rightarrow> 's \<Rightarrow>
     exn + google_backend \<times> copass_agent \<times> 's copass_state" where
  "make_google_agent digest project engine location credentials ident mdl prompt tls resolver policy aw s =
     (case make_google_backend project engine location credentials False None None None of
        Inl e \<Rightarrow> Inl e
      | Inr gb \<Rightarrow>
          (case make_agent ident mdl prompt (if tls = None \<and> resolver = None then Some [] else tls) resolver policy of
             Inl e \<Rightarrow> Inl e
           | Inr b \<Rightarrow> map_sum id (\<lambda>r. (gb, r)) (wire_agent google_flavour digest b aw s)))"

definition make_hermes_agent ::
    "(string \<Rightarrow> string) \<Rightarrow> exn + base_agent \<Rightarrow> agent_wiring \<Rightarrow> 's \<Rightarrow> exn + copass_agent \<times> 's copass_state" where
  "make_hermes_agent digest base aw s =
     (case base of Inl e \<Rightarrow> Inl e | Inr b \<Rightarrow> wire_agent hermes_flavour digest b aw s)"

section \<open>Messages\<close>

text \<open>A text, or something whose elements \<open>dict()\<close> copies.\<close>

definition normalize_agent_messages :: "pyval \<Rightarrow> exn + pydict list" where
  "normalize_agent_messages messages =
     (case messages of
        PStr s \<Rightarrow> Inr [[(''role'', PStr ''user''), (''content'', PStr s)]]
      | _ \<Rightarrow> and_then (py_list (py_or messages (PList []))) (try_map py_dict))"

definition user_text :: "flavour \<Rightarrow> pydict \<Rightarrow> string list" where
  "user_text fl msg =
     (if get_or msg ''role'' (PStr ''user'') \<noteq> PStr ''user'' then []
      else let content = get_or msg ''content'' (PStr []);
               t = (case content of PStr s \<Rightarrow> s | PList blocks \<Rightarrow> fl_blocks_text fl blocks | _ \<Rightarrow> py_str content)
           in if py_strip t = [] then [] else [t])"

definition user_contents :: "flavour \<Rightarrow> pydict list \<Rightarrow> string list" where
  "user_contents fl msgs = concat (map (user_text fl) msgs)"

section \<open>The context block\<close>

definition PREFETCH_TOP_K :: nat where
  "PREFETCH_TOP_K = 5"

definition score_text :: "pyval \<Rightarrow> exn + string" where
  "score_text score =
     (case score of
        PFloat l \<Rightarrow> Inr (format_float l)
      | _ \<Rightarrow> (case as_int score of
                Some i \<Rightarrow> format_int i
              | None \<Rightarrow> Inr (py_str (py_or score (PStr ''-'')))))"

text \<open>\<open>(v or "").strip() or "(no summary)"\<close>\<close>

definition summary_text :: "pyval \<Rightarrow> exn + string" where
  "summary_text v =
     (case py_or v (PStr []) of
        PStr s \<Rightarrow> Inr (if py_strip s = [] then ''(no summary)'' else py_strip s)
      | w \<Rightarrow> Inl (no_attribute w ''strip''))"

definition item_lines :: "nat \<Rightarrow> pyval \<Rightarrow> exn + string list" where
  "item_lines idx item =
     (case need_dict item of
        Inl e \<Rightarrow> Inl e
      | Inr d \<Rightarrow>
          (case summary_text (get_none d ''summary'') of
             Inl e \<Rightarrow> Inl e
           | Inr summary \<Rightarrow>
               (let canonical_ids = py_or (get_none d ''canonical_ids'') (PList [])
                in case score_text (get_none d ''score'') of
                     Inl e \<Rightarrow> Inl e
                   | Inr score \<Rightarrow>
                       (let line = dec_nat idx @ ''. (score: '' @ score @ '') '' @ summary
                        in if truthy canonical_ids
                           then map_sum id (\<lambda>ids. [line, ''   canonical_ids: '' @ py_repr (PList ids)]) (py_list canonical_ids)
                           else Inr [line]))))"

fun items_lines :: "nat \<Rightarrow> pyval list \<Rightarrow> exn + string list" where
  "items_lines idx [] = Inr []"
| "items_lines idx (item # items) =
     (case item_lines idx item of
        Inl e \<Rightarrow> Inl e
      | Inr ls \<Rightarrow> map_sum id (\<lambda>ls'. ls @ ls') (items_lines (Suc idx) items))"

text \<open>\<open>len(items)\<close> and \<open>items[:5]\<close>\<close>

definition top_items :: "pyval \<Rightarrow> exn + pyval list" where
  "top_items items =
     (case items of
        PList vs \<Rightarrow> Inr (take PREFETCH_TOP_K vs)
      | PStr s \<Rightarrow> Inr (map (\<lambda>c. PStr [c]) (take PREFETCH_TOP_K s))
      | PDict d \<Rightarrow> Inl (TypeError (''unhashable type: '' @ sq # ''slice'' @ [sq]))
      | v \<Rightarrow> Inl (TypeError (''object of type '' @ sq # py_type_name v @ sq # '' has no len()'')))"

definition format_context_block :: "flavour \<Rightarrow> string \<Rightarrow> pydict \<Rightarrow> exn + string option" where
  "format_context_block fl query response =
     (case top_items (py_or (get_none response ''items'') (PList [])) of
        Inl e \<Rightarrow> Inl e
      | Inr [] \<Rightarrow> Inr None
      | Inr items \<Rightarrow>
          (case items_lines 1 items of
             Inl e \<Rightarrow> Inl e
           | Inr ls \<Rightarrow>
               (let next_steps = get_none response ''next_steps''
                in Inr (Some (py_join [nl]
                     ([''<copass_context>'',
                       ''Pre-fetched from the sandbox knowledge graph based on the user'' @ sq # ''s question.'',
                       ''Query: '' @ query, []] @ ls @
                      [[], if truthy next_steps then py_str next_steps else fl_next_steps fl, ''</copass_context>'']))))))"

section \<open>Prefetch\<close>

definition should_prefetch :: "flavour \<Rightarrow> copass_agent \<Rightarrow> invocation_context \<Rightarrow> string list \<Rightarrow> bool" where
  "should_prefetch fl ca ctx contents =
     (ca_prefetch_discover ca \<and> contents \<noteq> [] \<and> last contents \<noteq> [] \<and>
      (case fl_session_handle fl of None \<Rightarrow> True | Some h \<Rightarrow> \<not> truthy (get_none (handles ctx) h)))"

text \<open>An exception of the call means no context; what comes after it is outside the \<open>try\<close>.\<close>

definition fetch_context_block ::
    "flavour \<Rightarrow> 's api \<Rightarrow> copass_agent \<Rightarrow> 's copass_state \<Rightarrow> string \<Rightarrow> 's copass_state \<times> (exn + string option)" where
  "fetch_context_block fl api ca st query =
     (case discover (case ca_sandbox_id ca of Some sb \<Rightarrow> sb | None \<Rightarrow> []) query (map_option get_turns (st_window st)) None
             (ca_project_id ca) None None of
        Inl e \<Rightarrow> (st, Inr None)
      | Inr call \<Rightarrow>
          (case api (st_service st) call of
             (s', Inl e) \<Rightarrow> (st\<lparr>st_service := s'\<rparr>, Inr None)
           | (s', Inr response) \<Rightarrow>
               (st\<lparr>st_service := s'\<rparr>,
                case need_dict response of Inl e \<Rightarrow> Inl e | Inr d \<Rightarrow> format_context_block fl query d)))"

definition context_message :: "string \<Rightarrow> pydict" where
  "context_message block = [(''role'', PStr ''user''), (''content'', PStr block)]"

definition prepare_messages ::
    "flavour \<Rightarrow> 's api \<Rightarrow> copass_agent \<Rightarrow> 's copass_state \<Rightarrow> pyval \<Rightarrow> invocation_context \<Rightarrow>
     's copass_state \<times> (exn + pydict list \<times> string list)" where
  "prepare_messages fl api ca st messages ctx =
     (case normalize_agent_messages messages of
        Inl e \<Rightarrow> (st, Inl e)
      | Inr normalized \<Rightarrow>
          (let contents = user_contents fl normalized
           in if \<not> should_prefetch fl ca ctx contents then (st, Inr (normalized, contents))
              else case fetch_context_block fl api ca st (last contents) of
                     (st', Inl e) \<Rightarrow> (st', Inl e)
                   | (st', Inr None) \<Rightarrow> (st', Inr (normalized, contents))
                   | (st', Inr (Some block)) \<Rightarrow> (st', Inr (context_message block # normalized, contents))))"

section \<open>stream and run\<close>

type_synonym agent_stream = "pyval \<Rightarrow> invocation_context \<Rightarrow> agent_event list \<times> exn option"

text \<open>Recording happens around the backend's stream, whose exception passes through; \<open>pushes\<close> says when the
  event loop runs the pushes.\<close>

definition copass_stream ::
    "flavour \<Rightarrow> 's api \<Rightarrow> (string \<Rightarrow> string) \<Rightarrow> (nat \<Rightarrow> nat) \<Rightarrow> agent_stream \<Rightarrow> copass_agent \<Rightarrow> 's copass_state \<Rightarrow> pyval \<Rightarrow>
     invocation_context \<Rightarrow> (agent_event list \<times> exn option) \<times> 's copass_state" where
  "copass_stream fl api digest pushes backend ca st messages ctx =
     (case prepare_messages fl api ca st messages ctx of
        (st1, Inl e) \<Rightarrow> (([], Some e), st1)
      | (st1, Inr (prepared, contents)) \<Rightarrow>
          (case backend (PList (map PDict prepared)) ctx of
             (evs, e) \<Rightarrow>
               (case (st_recorder st1, st_window st1) of
                  (Some rc, Some w) \<Rightarrow>
                    (case record_stream api digest pushes evs
                            (fold (record_step api digest) (map RecordUser contents)
                              \<lparr>rg_recorder = rc, rg_window = w, rg_state = st_service st1\<rparr>) of
                       (evs', g) \<Rightarrow>
                         ((evs', e), \<lparr>st_window = Some (rg_window g), st_recorder = Some (rg_recorder g),
                            st_service = rg_state g\<rparr>))
                | _ \<Rightarrow> ((evs, e), st1))))"

definition copass_run ::
    "flavour \<Rightarrow> 's api \<Rightarrow> (string \<Rightarrow> string) \<Rightarrow> (nat \<Rightarrow> nat) \<Rightarrow> agent_stream \<Rightarrow> copass_agent \<Rightarrow> 's copass_state \<Rightarrow> pyval \<Rightarrow>
     invocation_context \<Rightarrow> (exn + agent_run_result) \<times> 's copass_state" where
  "copass_run fl api digest pushes backend ca st messages ctx =
     (case copass_stream fl api digest pushes backend ca st messages ctx of
        ((evs, Some e), st') \<Rightarrow> (Inl e, st')
      | ((evs, None), st') \<Rightarrow>
          (let r = fold run_step evs empty_run
           in (Inr (if fl_keeps_session fl then r else r\<lparr>session_id := None\<rparr>), st')))"

section \<open>The three classes\<close>

definition managed_agent_stream where
  "managed_agent_stream = copass_stream managed_flavour"

definition managed_agent_run where
  "managed_agent_run = copass_run managed_flavour"

definition google_user_contents where
  "google_user_contents = user_contents google_flavour"

definition google_format_context_block where
  "google_format_context_block = format_context_block google_flavour"

definition google_fetch_context_block where
  "google_fetch_context_block = fetch_context_block google_flavour"

definition google_should_prefetch where
  "google_should_prefetch = should_prefetch google_flavour"

definition google_prepare_messages where
  "google_prepare_messages = prepare_messages google_flavour"

definition google_agent_stream where
  "google_agent_stream = copass_stream google_flavour"

definition google_agent_run where
  "google_agent_run = copass_run google_flavour"

definition hermes_user_contents where
  "hermes_user_contents = user_contents hermes_flavour"

definition hermes_format_context_block where
  "hermes_format_context_block = format_context_block hermes_flavour"

definition hermes_fetch_context_block where
  "hermes_fetch_context_block = fetch_context_block hermes_flavour"

definition hermes_should_prefetch where
  "hermes_should_prefetch = should_prefetch hermes_flavour"

definition hermes_prepare_messages where
  "hermes_prepare_messages = prepare_messages hermes_flavour"

definition hermes_agent_stream where
  "hermes_agent_stream = copass_stream hermes_flavour"

definition hermes_agent_run where
  "hermes_agent_run = copass_run hermes_flavour"

text \<open>An agent on its backend is a backend again: its \<open>run\<close> is the reduction of its stream.\<close>

record 's wired_agent =
  wa_api :: "'s api"
  wa_digest :: "string \<Rightarrow> string"
  wa_pushes :: "nat \<Rightarrow> nat"
  wa_backend :: agent_stream
  wa_agent :: copass_agent
  wa_state :: "'s copass_state"

definition wired_stream :: "flavour \<Rightarrow> 's wired_agent \<Rightarrow> agent_stream" where
  "wired_stream fl x ms ctx =
     fst (copass_stream fl (wa_api x) (wa_digest x) (wa_pushes x) (wa_backend x) (wa_agent x) (wa_state x) ms ctx)"

definition wired_run :: "flavour \<Rightarrow> 's wired_agent \<Rightarrow> pyval \<Rightarrow> invocation_context \<Rightarrow> exn + agent_run_result" where
  "wired_run fl x ms ctx =
     fst (copass_run fl (wa_api x) (wa_digest x) (wa_pushes x) (wa_backend x) (wa_agent x) (wa_state x) ms ctx)"

lemma wired_run_result: "fl_keeps_session fl \<Longrightarrow> wired_run fl x ms ctx = run_result (wired_stream fl x ms ctx)"
  by (auto simp: wired_run_def wired_stream_def copass_run_def run_result_def drain_def Let_def
      split: prod.split option.split)

interpretation managed_agent: agent_backend "wired_stream managed_flavour" "wired_run managed_flavour"
  by standard (simp add: wired_run_result managed_flavour_def)

interpretation google_agent: agent_backend "wired_stream google_flavour" "wired_run google_flavour"
  by standard (simp add: wired_run_result google_flavour_def)

end
