(* ===== verification/CopassAgentFacts.thy ===== *)
theory CopassAgentFacts
  imports CopassAgent MirrorFacts
begin

text \<open>
  Lemmas on the agents with Copass context engineering: the calls that recording makes whatever the schedule of
  the pushes, one turn of an agent, and the project that reads and writes share.
\<close>

section \<open>The calls that recording makes\<close>

definition calls_made :: "(api_call list \<times> 's) recording \<Rightarrow> api_call list" where
  "calls_made g = fst (rg_state g) @
     map (\<lambda>t. turn_call (rg_window g) t (rc_participants (rg_recorder g))) (rc_tasks (rg_recorder g))"

lemma turn_call_source: "cw_source w = cw_source w' \<Longrightarrow> cw_participants w = cw_participants w' \<Longrightarrow>
    turn_call w t ps = turn_call w' t ps"
  by (cases ps) (simp_all add: turn_call_def)

definition frame_of :: "'s recording \<Rightarrow> data_source \<times> string list option \<times> string list option" where
  "frame_of g = (cw_source (rg_window g), cw_participants (rg_window g), rc_participants (rg_recorder g))"

lemma run_push_calls:
  "calls_made (run_push (logged api) g) = calls_made g" "frame_of (run_push (logged api) g) = frame_of g"
proof -
  obtain l s where r: "rg_state g = (l, s)" by (cases "rg_state g")
  show "calls_made (run_push (logged api) g) = calls_made g"
    by (auto simp: run_push_def calls_made_def add_turn_def r logged_simp split: list.split)
  show "frame_of (run_push (logged api) g) = frame_of g"
    by (auto simp: run_push_def frame_of_def add_turn_def r logged_simp split: list.split)
qed

lemma record_step_calls:
  "calls_made (record_step (logged api) digest a g) = calls_made g @
     map (\<lambda>t. turn_call (rg_window g) t (rc_participants (rg_recorder g)))
       (new_turns (dedupe_key digest) (rc_seen (rg_recorder g))
         (filter visible (offers (rg_recorder g) (pending_text (rg_recorder g)) a)))"
  "frame_of (record_step (logged api) digest a g) = frame_of g"
proof -
  have p: "rc_participants (record_item digest a rc) = rc_participants rc" for rc
    using record_item_effect(4) [of digest a rc] by (simp add: settings_def)
  show "calls_made (record_step (logged api) digest a g) = calls_made g @
     map (\<lambda>t. turn_call (rg_window g) t (rc_participants (rg_recorder g)))
       (new_turns (dedupe_key digest) (rc_seen (rg_recorder g))
         (filter visible (offers (rg_recorder g) (pending_text (rg_recorder g)) a)))"
  proof (cases "a = RunPush")
    case True
    then show ?thesis using run_push_calls(1) by simp
  qed (simp add: record_step_item calls_made_def p record_item_effect)
  show "frame_of (record_step (logged api) digest a g) = frame_of g"
  proof (cases "a = RunPush")
    case True
    then show ?thesis using run_push_calls(2) by simp
  qed (simp add: record_step_item frame_of_def p)
qed

lemma frame_turn_call: "frame_of g = frame_of h \<Longrightarrow>
    turn_call (rg_window g) t (rc_participants (rg_recorder g)) = turn_call (rg_window h) t (rc_participants (rg_recorder h))"
  using turn_call_source [of "rg_window g" "rg_window h"] by (simp add: frame_of_def)

lemma recording_calls:
  "calls_made (fold (record_step (logged api) digest) as g) = calls_made g @
     map (\<lambda>t. turn_call (rg_window g) t (rc_participants (rg_recorder g)))
       (new_turns (dedupe_key digest) (rc_seen (rg_recorder g))
         (filter visible (all_offers (rg_recorder g) (pending_text (rg_recorder g)) as))) \<and>
   frame_of (fold (record_step (logged api) digest) as g) = frame_of g"
proof (induction as arbitrary: g)
  case (Cons a as)
  let ?g = "record_step (logged api) digest a g"
  have "all_offers (rg_recorder ?g) p as = all_offers (rg_recorder g) p as" for p
    by (rule all_offers_settings) (rule record_step_log(4))
  moreover have "turn_call (rg_window ?g) t (rc_participants (rg_recorder ?g)) =
      turn_call (rg_window g) t (rc_participants (rg_recorder g))" for t
    by (rule frame_turn_call) (rule record_step_calls(2))
  ultimately show ?case using Cons [of ?g]
    by (simp add: record_step_calls record_step_log new_turns_append)
qed simp

lemma flush_calls: "fst (rg_state (flush (logged api) g)) = calls_made g \<and> frame_of (flush (logged api) g) = frame_of g"
proof -
  have "calls_made ((run_push (logged api) ^^ n) g) = calls_made g \<and> frame_of ((run_push (logged api) ^^ n) g) = frame_of g" for n
    by (induction n) (simp_all add: run_push_calls)
  then have "calls_made (flush (logged api) g) = calls_made g" "frame_of (flush (logged api) g) = frame_of g"
    by (simp_all add: flush_def)
  with flush_log [of "logged api" g] show ?thesis by (simp add: calls_made_def [of "flush (logged api) g"])
qed

section \<open>One turn\<close>

definition user_turn :: "recorder \<Rightarrow> string \<Rightarrow> chat_message" where
  "user_turn rc c = \<lparr>chat_role = ''user'', chat_content = c, chat_name = Some (rc_user_speaker rc)\<rparr>"

lemma all_offers_users:
  "all_offers rc [] (map RecordUser cs @ as) = map (user_turn rc) cs @ all_offers rc [] as"
  by (induction cs) (simp_all add: flushed_def user_turn_def)

lemma user_contents_visible: "c \<in> set (user_contents fl msgs) \<Longrightarrow> py_strip c \<noteq> []"
proof -
  assume "c \<in> set (user_contents fl msgs)"
  then obtain m where "c \<in> set (user_text fl m)" by (auto simp: user_contents_def)
  then show ?thesis unfolding user_text_def Let_def by (simp split: if_splits)
qed

text \<open>What a turn leaves for the recorder.\<close>

definition turn_log :: "(string \<Rightarrow> string) \<Rightarrow> recorder \<Rightarrow> string list \<Rightarrow> agent_event list \<Rightarrow> chat_message list" where
  "turn_log digest rc contents evs =
     new_turns (dedupe_key digest) (rc_seen rc)
       (map (user_turn rc) contents @ map (assistant_turn rc) (responses [] evs))"

lemma visible_turns:
  "\<forall>c \<in> set contents. py_strip c \<noteq> [] \<Longrightarrow>
   filter visible (map (user_turn rc) contents @ map (assistant_turn rc) (responses [] evs)) =
     map (user_turn rc) contents @ map (assistant_turn rc) (responses [] evs)"
  using assistant_turn_visible responses_visible by (auto simp: filter_id_conv user_turn_def)

lemma record_turn:
  assumes "\<not> rc_include_tools rc" "rc_tasks rc = []" "pending_text rc = []"
    "\<forall>c \<in> set contents. py_strip c \<noteq> []"
    "record_stream (logged api) digest pushes evs (fold (record_step (logged api) digest) (map RecordUser contents)
       \<lparr>rg_recorder = rc, rg_window = w, rg_state = (l, s)\<rparr>) = (evs', g)"
  shows "evs' = evs \<and> cw_turns (rg_window g) = cw_turns w @ turn_log digest rc contents evs \<and>
    fst (rg_state g) = l @ map (\<lambda>t. turn_call w t (rc_participants rc)) (turn_log digest rc contents evs) \<and>
    cw_source (rg_window g) = cw_source w"
proof -
  let ?g0 = "\<lparr>rg_recorder = rc, rg_window = w, rg_state = (l, s)\<rparr>"
  let ?as = "map RecordUser contents @ stream_actions pushes 0 evs"
  have g: "g = flush (logged api) (fold (record_step (logged api) digest) ?as ?g0)" "evs' = evs"
    using assms(5) by (auto simp: record_stream_def)
  have o: "filter visible (all_offers rc [] ?as) = map (user_turn rc) contents @ map (assistant_turn rc) (responses [] evs)"
    using visible_turns [OF assms(4)] by (simp add: all_offers_users all_offers_stream [OF assms(1)])
  let ?h = "fold (record_step (logged api) digest) ?as ?g0"
  have "log_of ?h = cw_turns w @ turn_log digest rc contents evs"
    unfolding recording_log turn_log_def using assms(2,3) o by (simp add: log_of_def)
  moreover have "calls_made ?h = l @ map (\<lambda>t. turn_call w t (rc_participants rc)) (turn_log digest rc contents evs)"
    "frame_of ?h = frame_of ?g0"
    using recording_calls [of api digest ?as ?g0] assms(2,3) o unfolding turn_log_def by (simp_all add: calls_made_def)
  ultimately show ?thesis
    using g flush_log [of "logged api" ?h] flush_calls [of api ?h] by (simp add: frame_of_def)
qed

lemma discover_chat:
  "\<exists>b. discover sb q (map_option get_turns (Some w)) None p None None = Inr (POST (query_base sb ''discover'') (PDict b)) \<and>
     carries_history b q (cw_turns w) \<and> dict_get b ''project_id'' = map_option PStr p"
  by (auto simp: discover_def history_def turns_from_def get_turns_def turns_to_dicts_chat carries_history_def
      set_fields_get split: option.split simp del: set_fields_Cons)

definition prefetch_call :: "copass_agent \<Rightarrow> context_window \<Rightarrow> string \<Rightarrow> api_call" where
  "prefetch_call ca w q =
     projr (discover (case ca_sandbox_id ca of Some sb \<Rightarrow> sb | None \<Rightarrow> []) q (Some (get_turns w)) None (ca_project_id ca) None None)"

lemma fetch_logged:
  "fetch_context_block fl (logged api) ca \<lparr>st_window = Some w, st_recorder = r, st_service = (l, s)\<rparr> q =
     (st', res) \<Longrightarrow>
   \<exists>s'. st' = \<lparr>st_window = Some w, st_recorder = r, st_service = (l @ [prefetch_call ca w q], s')\<rparr>"
proof -
  assume f: "fetch_context_block fl (logged api) ca \<lparr>st_window = Some w, st_recorder = r, st_service = (l, s)\<rparr> q = (st', res)"
  obtain c where c: "discover (case ca_sandbox_id ca of Some sb \<Rightarrow> sb | None \<Rightarrow> []) q (Some (get_turns w)) None (ca_project_id ca) None None = Inr c"
    using discover_chat by fastforce
  then have "prefetch_call ca w q = c" by (simp add: prefetch_call_def)
  with f c show ?thesis
    by (cases "snd (api s c)") (auto simp: fetch_context_block_def logged_simp)
qed

lemma prepare_cases:
  assumes "prepare_messages fl (logged api) ca \<lparr>st_window = Some w, st_recorder = r, st_service = (l, s)\<rparr> ms ctx =
      (st1, Inr (prepared, contents))" "normalize_agent_messages ms = Inr normalized"
  shows "contents = user_contents fl normalized \<and>
    (prepared = normalized \<or> (\<exists>block. prepared = context_message block # normalized \<and> should_prefetch fl ca ctx contents)) \<and>
    (\<exists>s'. st1 = \<lparr>st_window = Some w, st_recorder = r, st_service =
       (l @ (if should_prefetch fl ca ctx contents then [prefetch_call ca w (last contents)] else []), s')\<rparr>)"
proof (cases "should_prefetch fl ca ctx (user_contents fl normalized)")
  case True
  obtain st' res where f: "fetch_context_block fl (logged api) ca \<lparr>st_window = Some w, st_recorder = r, st_service = (l, s)\<rparr>
      (last (user_contents fl normalized)) = (st', res)" by fastforce
  from fetch_logged [OF this] obtain s' where st': "st' = \<lparr>st_window = Some w, st_recorder = r,
      st_service = (l @ [prefetch_call ca w (last (user_contents fl normalized))], s')\<rparr>" by blast
  obtain b where "res = Inr b" using assms True f by (cases res) (simp_all add: prepare_messages_def Let_def)
  with assms True f st' show ?thesis by (cases b) (auto simp: prepare_messages_def Let_def)
next
  case False
  with assms show ?thesis by (auto simp: prepare_messages_def Let_def)
qed

section \<open>One project\<close>

definition project_agrees :: "copass_agent \<Rightarrow> 's copass_state \<Rightarrow> bool" where
  "project_agrees ca st =
     (case st_window st of None \<Rightarrow> True | Some w \<Rightarrow> or_none (ca_project_id ca) = or_none (ds_project_id (cw_source w)))"

lemma or_none_Some [simp]: "or_none x = Some y \<Longrightarrow> or_none (Some y) = Some y"
  by (auto simp: or_none_def split: option.splits list.splits)

lemma or_none_idem [simp]: "or_none (or_none x) = or_none x"
  by (simp add: or_none_def split: option.split list.split)

lemma unify_agrees: "unify_project fl win p = Inr (Some w, p') \<Longrightarrow> or_none p' = or_none (ds_project_id (cw_source w))"
  by (auto simp: unify_project_def split: option.splits if_splits dest: or_none_Some)

lemma wire_agrees: "wire_agent fl digest base aw s = Inr (ca, st) \<Longrightarrow> project_agrees ca st"
proof -
  assume w: "wire_agent fl digest base aw s = Inr (ca, st)"
  then obtain win p where u: "unify_project fl (aw_window aw) (aw_project_id aw) = Inr (win, p)"
    by (cases "unify_project fl (aw_window aw) (aw_project_id aw)") (auto simp: wire_agent_def)
  with w have "ca_project_id ca = p" "st_window st = win" by (auto simp: wire_agent_def)
  with u unify_agrees show ?thesis by (cases win) (auto simp: project_agrees_def)
qed

lemma run_push_source [simp]: "cw_source (rg_window (run_push api g)) = cw_source (rg_window g)"
  by (auto simp: run_push_def add_turn_def split: list.split prod.split)

lemma recording_source [simp]: "cw_source (rg_window (fold (record_step api digest) as g)) = cw_source (rg_window g)"
proof (induction as arbitrary: g)
  case (Cons a as)
  then show ?case by (cases a) simp_all
qed simp

lemma flush_source [simp]: "cw_source (rg_window (flush api g)) = cw_source (rg_window g)"
proof -
  have "cw_source (rg_window ((run_push api ^^ n) g)) = cw_source (rg_window g)" for n by (induction n) simp_all
  then show ?thesis by (simp add: flush_def)
qed

lemma fetch_window: "st_window (fst (fetch_context_block fl api ca st q)) = st_window st"
  by (simp add: fetch_context_block_def split: sum.split prod.split)

lemma prepare_window: "st_window (fst (prepare_messages fl api ca st ms ctx)) = st_window st"
proof (cases "normalize_agent_messages ms")
  case (Inr normalized)
  then show ?thesis using fetch_window [of fl api ca st "last (user_contents fl normalized)"]
    by (auto simp: prepare_messages_def Let_def split: prod.splits sum.splits option.splits)
qed (simp add: prepare_messages_def)

lemma stream_source:
  "map_option cw_source (st_window (snd (copass_stream fl api digest pushes backend ca st ms ctx))) =
     map_option cw_source (st_window st)"
proof -
  obtain st1 r where p: "prepare_messages fl api ca st ms ctx = (st1, r)" by fastforce
  with prepare_window [of fl api ca st ms ctx] have w: "st_window st1 = st_window st" by simp
  show ?thesis
    using p w by (cases r) (auto simp: copass_stream_def record_stream_def split: prod.split option.split)
qed

lemma stream_agrees: "project_agrees ca (snd (copass_stream fl api digest pushes backend ca st ms ctx)) = project_agrees ca st"
  using stream_source [of fl api digest pushes backend ca st ms ctx]
  by (auto simp: project_agrees_def split: option.splits)

lemma stream_events:
  "fst (copass_stream fl api digest pushes backend ca st ms ctx) =
     (case snd (prepare_messages fl api ca st ms ctx) of
        Inl e \<Rightarrow> ([], Some e)
      | Inr (prepared, contents) \<Rightarrow> backend (PList (map PDict prepared)) ctx)"
  by (auto simp: copass_stream_def record_stream_def split: prod.split sum.split option.split)

lemma turn_call_project:
  "\<exists>b. turn_call w t ps = POST (ingest_base (ds_sandbox_id (cw_source w))) (PDict b) \<and>
     dict_get b ''project_id'' = map_option PStr (ds_project_id (cw_source w))"
  by (auto simp: turn_call_def push_call_def sources_ingest_def set_fields_get simp del: set_fields_Cons split: option.split)

text \<open>A turn that ends well: what the backend is asked and streams, and what window and service hold then.\<close>

lemma one_turn:
  assumes "normalize_agent_messages ms = Inr normalized" "\<not> rc_include_tools rc" "rc_tasks rc = []" "pending_text rc = []"
    "copass_stream fl (logged api) digest pushes backend ca \<lparr>st_window = Some w, st_recorder = Some rc, st_service = (l, s)\<rparr>
       ms ctx = ((evs, None), st')"
  shows "\<exists>pre w'.
    (pre = [] \<or> should_prefetch fl ca ctx (user_contents fl normalized) \<and> (\<exists>block. pre = [context_message block])) \<and>
    backend (PList (map PDict (pre @ normalized))) ctx = (evs, None) \<and>
    st_window st' = Some w' \<and>
    cw_turns w' = cw_turns w @ turn_log digest rc (user_contents fl normalized) evs \<and>
    fst (st_service st') = l @
      (if should_prefetch fl ca ctx (user_contents fl normalized)
       then [prefetch_call ca w (last (user_contents fl normalized))] else []) @
      map (\<lambda>t. turn_call w t (rc_participants rc)) (turn_log digest rc (user_contents fl normalized) evs)"
proof -
  let ?st = "\<lparr>st_window = Some w, st_recorder = Some rc, st_service = (l, s)\<rparr>"
  obtain st1 prepared contents where p: "prepare_messages fl (logged api) ca ?st ms ctx = (st1, Inr (prepared, contents))"
    using assms(5) by (cases "prepare_messages fl (logged api) ca ?st ms ctx"; cases "snd (prepare_messages fl (logged api) ca ?st ms ctx)")
      (auto simp: copass_stream_def)
  from prepare_cases [OF p assms(1)] obtain s' where c: "contents = user_contents fl normalized"
    and pre: "prepared = normalized \<or> (\<exists>block. prepared = context_message block # normalized \<and> should_prefetch fl ca ctx contents)"
    and st1: "st1 = \<lparr>st_window = Some w, st_recorder = Some rc, st_service =
       (l @ (if should_prefetch fl ca ctx contents then [prefetch_call ca w (last contents)] else []), s')\<rparr>" by blast
  obtain evs0 e0 where b: "backend (PList (map PDict prepared)) ctx = (evs0, e0)" by fastforce
  obtain evs' g where r: "record_stream (logged api) digest pushes evs0 (fold (record_step (logged api) digest) (map RecordUser contents)
      \<lparr>rg_recorder = rc, rg_window = w, rg_state =
         (l @ (if should_prefetch fl ca ctx contents then [prefetch_call ca w (last contents)] else []), s')\<rparr>) = (evs', g)"
    by fastforce
  have "evs' = evs" "e0 = None" "st_window st' = Some (rg_window g)" "st_service st' = rg_state g"
    using assms(5) p b r st1 by (auto simp: copass_stream_def)
  moreover have "\<forall>c \<in> set contents. py_strip c \<noteq> []" using c user_contents_visible by blast
  note record_turn [OF assms(2-4) this r]
  ultimately show ?thesis using pre b c
    by (intro exI [of _ "if prepared = normalized then [] else [hd prepared]"] exI [of _ "rg_window g"]) auto
qed

end
