(* ===== verification/PropertiesAgents.thy ===== *)
theory PropertiesAgents
  imports CopassAgentFacts
begin

text \<open>
  What a turn of an agent with Copass context engineering asks its backend, calls and records.
\<close>

section \<open>Properties\<close>

text \<open>An agent over a window of project p, a service that answers with a menu, and a backend that says hi.\<close>

definition ex_source_window :: context_window where
  "ex_source_window = \<lparr>cw_source = \<lparr>ds_sandbox_id = ''sb'', ds_source_id = ''src'', ds_project_id = Some ''p''\<rparr>,
     cw_turns = [], cw_participants = None\<rparr>"

definition ex_wiring :: agent_wiring where
  "ex_wiring = \<lparr>aw_has_client = True, aw_sandbox_id = Some ''sb'', aw_window = Some ex_source_window,
     aw_prefetch_discover = True, aw_auto_record = True, aw_author = None, aw_project_id = None\<rparr>"

definition ex_base :: base_agent where
  "ex_base = \<lparr>identity = ''a'', model = ''m'', system_prompt = ''s'', agent_tools = [], tool_resolver = None,
     on_conflict = ''error''\<rparr>"

definition ex_copass_agent :: copass_agent where
  "ex_copass_agent = \<lparr>ca_base = ex_base, ca_sandbox_id = Some ''sb'', ca_project_id = Some ''p'', ca_author = None,
     ca_prefetch_discover = True, ca_auto_record = True\<rparr>"

definition ex_recorder :: recorder where
  "ex_recorder = make_recorder id ex_source_window False None False None ''User''"

lemma ex_wired: "wire_agent managed_flavour id ex_base ex_wiring s =
    Inr (ex_copass_agent, \<lparr>st_window = Some ex_source_window, st_recorder = Some ex_recorder, st_service = s\<rparr>)"
  by (simp add: wire_agent_def ex_wiring_def unify_project_def ex_source_window_def or_none_def ex_copass_agent_def
      ex_recorder_def)

definition ex_menu :: pyval where
  "ex_menu = PDict [(''items'', PList [PDict [(''score'', PFloat ''0.87''), (''summary'', PStr ''checkout''),
     (''canonical_ids'', PList [PStr ''c1''])]]), (''next_steps'', PStr ''ask'')]"

definition ex_menu_api :: "nat api" where
  "ex_menu_api s c = (Suc s, Inr ex_menu)"

definition ex_stream :: agent_stream where
  "ex_stream ms ctx = ([AgentTextDelta ''Hi'', AgentFinish ''end_turn'' [] None], None)"

definition ex_context :: invocation_context where
  "ex_context = \<lparr>scope = \<lparr>user_id = ''u'', sandbox_id = None, project_id = None\<rparr>, trace_id = None, dek = None,
     handles = []\<rparr>"

text \<open>Claim C35. Reads and writes of one agent.\<close>

theorem agent_keeps_one_project:
  assumes "wire_agent fl digest base aw s = Inr (ca, st)"
    "st_window (fold (\<lambda>(ms, ctx) st. snd (copass_stream fl api digest pushes backend ca st ms ctx)) turns st) = Some w"
  shows "\<exists>u b u' b'. prefetch_call ca w q = POST u (PDict b) \<and> turn_call w t ps = POST u' (PDict b') \<and>
    py_or (get_none b ''project_id'') PNone = py_or (get_none b' ''project_id'') PNone"
proof -
  have "project_agrees ca (fold (\<lambda>(ms, ctx) st. snd (copass_stream fl api digest pushes backend ca st ms ctx)) turns st)"
    using wire_agrees [OF assms(1)]
  proof (induction turns arbitrary: st)
    case (Cons t ts)
    then show ?case by (cases t) (simp add: stream_agrees)
  qed simp
  then have "or_none (ca_project_id ca) = or_none (ds_project_id (cw_source w))"
    using assms(2) by (simp add: project_agrees_def)
  moreover have "py_or (get_none b ''project_id'') PNone = opt_str (or_none p)" if "dict_get b ''project_id'' = map_option PStr p" for b p
    using that by (auto simp: get_or_def py_or_def opt_str_def or_none_def split: option.split list.split)
  ultimately show ?thesis
    using discover_chat [of "case ca_sandbox_id ca of Some sb \<Rightarrow> sb | None \<Rightarrow> []" q w "ca_project_id ca"]
      turn_call_project [of w t ps]
    by (fastforce simp: prefetch_call_def)
qed

theorem agent_keeps_one_project_witness:
  "\<exists>w u b u' b'. st_window (snd (copass_stream managed_flavour ex_menu_api id (\<lambda>n. n) ex_stream ex_copass_agent
      \<lparr>st_window = Some ex_source_window, st_recorder = Some ex_recorder, st_service = 0\<rparr> (PStr ''why?'') ex_context)) = Some w \<and>
    prefetch_call ex_copass_agent w ''q'' = POST u (PDict b) \<and> turn_call w (user_turn ex_recorder ''hi'') None = POST u' (PDict b') \<and>
    py_or (get_none b ''project_id'') PNone = py_or (get_none b' ''project_id'') PNone"
proof -
  let ?st = "\<lparr>st_window = Some ex_source_window, st_recorder = Some ex_recorder, st_service = 0\<rparr>"
  obtain w where w: "st_window (snd (copass_stream managed_flavour ex_menu_api id (\<lambda>n. n) ex_stream ex_copass_agent ?st
      (PStr ''why?'') ex_context)) = Some w"
    using stream_source [of managed_flavour ex_menu_api id "\<lambda>n. n" ex_stream ex_copass_agent ?st "PStr ''why?''" ex_context]
    by auto
  show ?thesis
    using agent_keeps_one_project [OF ex_wired, where turns = "[(PStr ''why?'', ex_context)]" and w = w and q = "''q''"
        and t = "user_turn ex_recorder ''hi''" and ps = None and api = ex_menu_api and backend = ex_stream and pushes = "\<lambda>n. n"] w
    by auto
qed

text \<open>One turn.\<close>

theorem agent_turn:
  assumes "normalize_agent_messages ms = Inr normalized" "\<not> rc_include_tools rc" "rc_tasks rc = []" "pending_text rc = []"
    "copass_stream fl (logged api) digest pushes backend ca \<lparr>st_window = Some w, st_recorder = Some rc, st_service = (l, s)\<rparr>
       ms ctx = ((evs, None), st')"
  shows "\<exists>pre w'.
    (pre = [] \<or> should_prefetch fl ca ctx (user_contents fl normalized) \<and> (\<exists>block. pre = [context_message block])) \<and>
    backend (PList (map PDict (pre @ normalized))) ctx = (evs, None) \<and>
    st_window st' = Some w' \<and>
    cw_turns w' = cw_turns w @ turn_log digest rc (user_contents fl normalized) evs \<and>
    fst (st_service st') = l @
      (if should_prefetch fl ca ctx (user_contents fl normalized)
       then [prefetch_call ca w (last (user_contents fl normalized))] else []) @
      map (\<lambda>t. turn_call w t (rc_participants rc)) (turn_log digest rc (user_contents fl normalized) evs)"
  using assms by (rule one_turn)

definition ex_turn where
  "ex_turn = copass_stream managed_flavour (logged ex_menu_api) id (\<lambda>n. n) ex_stream ex_copass_agent
     \<lparr>st_window = Some ex_source_window, st_recorder = Some ex_recorder, st_service = ([], 0)\<rparr> (PStr ''why?'') ex_context"

theorem agent_turn_witness:
  "\<exists>w. st_window (snd ex_turn) = Some w \<and> map chat_content (cw_turns w) = [''why?'', ''Hi''] \<and>
     length (fst (st_service (snd ex_turn))) = 3"
proof -
  let ?st = "\<lparr>st_window = Some ex_source_window, st_recorder = Some ex_recorder, st_service = ([], 0)\<rparr>"
  have "\<not> isl (snd (prepare_messages managed_flavour (logged ex_menu_api) ex_copass_agent ?st (PStr ''why?'') ex_context))"
    by code_simp
  then have "snd (fst ex_turn) = None"
    by (auto simp: ex_turn_def stream_events ex_stream_def split: sum.split)
  then obtain evs st' where t: "ex_turn = ((evs, None), st')" by (metis prod.collapse)
  have n: "normalize_agent_messages (PStr ''why?'') = Inr [[(''role'', PStr ''user''), (''content'', PStr ''why?'')]]"
    by (simp add: normalize_agent_messages_def)
  have c: "user_contents managed_flavour [[(''role'', PStr ''user''), (''content'', PStr ''why?'')]] = [''why?'']"
    "should_prefetch managed_flavour ex_copass_agent ex_context [''why?'']" by code_simp+
  have l: "map chat_content (turn_log id ex_recorder [''why?''] [AgentTextDelta ''Hi'', AgentFinish ''end_turn'' [] None]) = [''why?'', ''Hi'']"
    by code_simp
  then have len: "length (turn_log id ex_recorder [''why?''] [AgentTextDelta ''Hi'', AgentFinish ''end_turn'' [] None]) = 2"
    by (metis length_map list.size(3,4) One_nat_def Suc_1 add.commute plus_1_eq_Suc)
  have r: "\<not> rc_include_tools ex_recorder" "rc_tasks ex_recorder = []" "pending_text ex_recorder = []" by code_simp+
  from agent_turn [OF n r t [unfolded ex_turn_def]] obtain w' where
    "(evs, None) = ([AgentTextDelta ''Hi'', AgentFinish ''end_turn'' [] None], None :: exn option)" "st_window st' = Some w'"
    "cw_turns w' = cw_turns ex_source_window @ turn_log id ex_recorder [''why?''] evs"
    "length (fst (st_service st')) = Suc (length (turn_log id ex_recorder [''why?''] evs))"
    unfolding c(1) ex_stream_def using c(2) by auto
  with l len show ?thesis by (simp add: t ex_source_window_def)
qed

text \<open>Claim C36. What the backend is asked, for every answer to the prefetch.\<close>

theorem prefetch_outcome:
  assumes "normalize_agent_messages ms = Inr normalized" "st_window st = Some w"
    "should_prefetch fl ca ctx (user_contents fl normalized)"
    "api (st_service st) (prefetch_call ca w (last (user_contents fl normalized))) = (s', r)"
  shows "fst (copass_stream fl api digest pushes backend ca st ms ctx) =
    (case r of
       Inl x \<Rightarrow> backend (PList (map PDict normalized)) ctx
     | Inr response \<Rightarrow>
         (case response of
            PDict d \<Rightarrow>
              (case format_context_block fl (last (user_contents fl normalized)) d of
                 Inl e \<Rightarrow> ([], Some e)
               | Inr None \<Rightarrow> backend (PList (map PDict normalized)) ctx
               | Inr (Some block) \<Rightarrow> backend (PList (map PDict (context_message block # normalized))) ctx)
          | _ \<Rightarrow> ([], Some (no_attribute response ''get''))))"
proof -
  let ?q = "last (user_contents fl normalized)"
  have "discover (case ca_sandbox_id ca of Some sb \<Rightarrow> sb | None \<Rightarrow> []) ?q (Some (get_turns w)) None (ca_project_id ca) None None =
      Inr (prefetch_call ca w ?q)"
    using discover_chat [of "case ca_sandbox_id ca of Some sb \<Rightarrow> sb | None \<Rightarrow> []" ?q w "ca_project_id ca"]
    by (auto simp: prefetch_call_def)
  then have f: "fetch_context_block fl api ca st ?q =
      (case r of Inl e \<Rightarrow> (st\<lparr>st_service := s'\<rparr>, Inr None)
       | Inr response \<Rightarrow> (st\<lparr>st_service := s'\<rparr>,
           case need_dict response of Inl e \<Rightarrow> Inl e | Inr d \<Rightarrow> format_context_block fl ?q d))"
    using assms(2,4) by (simp add: fetch_context_block_def)
  show ?thesis
    unfolding stream_events prepare_messages_def assms(1) sum.case Let_def f
    using assms(3) by (auto simp: need_dict_def split: sum.split pyval.split option.split prod.split)
qed

theorem prefetch_outcome_witness:
  "fst (copass_stream managed_flavour (\<lambda>s c. (Suc s, Inr (PDict [(''items'', PList [PDict [(''summary'', PInt 3)]])]))) id (\<lambda>n. n)
      ex_stream ex_copass_agent \<lparr>st_window = Some ex_source_window, st_recorder = Some ex_recorder, st_service = 0\<rparr> (PStr ''why?'') ex_context) =
   ([], Some (no_attribute (PInt 3) ''strip''))"
proof -
  have n: "normalize_agent_messages (PStr ''why?'') = Inr [[(''role'', PStr ''user''), (''content'', PStr ''why?'')]]"
    by (simp add: normalize_agent_messages_def)
  have c: "user_contents managed_flavour [[(''role'', PStr ''user''), (''content'', PStr ''why?'')]] = [''why?'']"
    "should_prefetch managed_flavour ex_copass_agent ex_context [''why?'']"
    "format_context_block managed_flavour ''why?'' [(''items'', PList [PDict [(''summary'', PInt 3)]])] =
       Inl (no_attribute (PInt 3) ''strip'')" by code_simp+
  show ?thesis
    by (subst prefetch_outcome [OF n, where w = ex_source_window and s' = "Suc 0"
          and r = "Inr (PDict [(''items'', PList [PDict [(''summary'', PInt 3)]])])"]) (simp_all add: c)
qed

lemma google_forwards_unrecorded:
  assumes "get_none d ''type'' \<noteq> PStr ''text''"
  shows "user_contents google_flavour [[(''role'', PStr ''user''), (''content'', PList [PDict d])]] = [] \<and>
    google_message_parts (PDict [(''role'', PStr ''user''), (''content'', PList [PDict d])]) = [py_str (PDict d)]"
  using assms by (simp add: user_contents_def user_text_def google_flavour_def joined_parts_def extract_text_def
      google_message_parts_def google_content_parts_def get_or_def)

end
