(* ===== verification/CostInfo.thy ===== *)
theory CostInfo
  imports HermesBackend PyFormat
begin

text \<open>
  The cost telemetry of a retrieval response (\<open>copass_core/types.py\<close>: \<open>CostInfo\<close>), read from its \<open>cost\<close> object
  and written back. The gate mode is kept as it came.
\<close>

text \<open>\<open>float(v)\<close>, as the literal; texts are outside the model.\<close>

definition float_literal :: "pyval \<Rightarrow> exn + string" where
  "float_literal v =
     (if v = PNone \<or> as_list v \<noteq> None \<or> as_dict v \<noteq> None then
        Inl (TypeError (''float() argument must be a string or a real number, not '' @ sq # py_type_name v @ [sq]))
      else case to_float v of Inr (PFloat l) \<Rightarrow> Inr l | Inr w \<Rightarrow> Inl (OtherError ''UnmodelledFloat'' (py_repr w)) | Inl e \<Rightarrow> Inl e)"

record cost_info =
  ci_microcents :: int
  ci_gate_mode :: pyval
  ci_usd :: "string option"
  ci_deduction_id :: "string option"

definition cost_from_dict :: "pydict \<Rightarrow> exn + cost_info" where
  "cost_from_dict payload =
     and_then (and_then (need_key payload ''microcents'') py_int) (\<lambda>microcents.
     and_then (need_key payload ''gate_mode'') (\<lambda>gate_mode.
     map_sum id (\<lambda>usd. \<lparr>ci_microcents = microcents, ci_gate_mode = gate_mode, ci_usd = usd,
         ci_deduction_id = (case get_none payload ''deduction_id'' of PNone \<Rightarrow> None | v \<Rightarrow> Some (py_str v))\<rparr>)
       (case get_none payload ''usd'' of PNone \<Rightarrow> Inr None | v \<Rightarrow> map_sum id Some (float_literal v))))"

definition cost_to_dict :: "cost_info \<Rightarrow> pydict" where
  "cost_to_dict c =
     [(''microcents'', PInt (ci_microcents c)),
      (''usd'', case ci_usd c of None \<Rightarrow> PNone | Some l \<Rightarrow> PFloat l),
      (''deduction_id'', opt_str (ci_deduction_id c)),
      (''gate_mode'', ci_gate_mode c)]"

lemma float_literal_float: "float_literal (PFloat l) = Inr l"
  by (simp add: float_literal_def to_float_def)

text \<open>Reading back what was written gives the same record.\<close>

lemma cost_roundtrip: "cost_from_dict (cost_to_dict c) = Inr c"
  by (cases c) (auto simp: cost_from_dict_def cost_to_dict_def and_then_def need_key_def get_or_def opt_str_def
      float_literal_float split: option.split)

end
