(* ===== verification/Management.thy ===== *)
theory Management
  imports ContextWindow ResourceAgents CostInfo
begin

text \<open>
  The handlers of the management tools (\<open>copass-management/tools/\<close>): the request a tool builds from its
  input, with the conversions that may raise before anything is sent, and what it returns of the response.
  The two result classes that a handler returns as they are, are kept apart from JSON values.
\<close>

section \<open>Reading the input\<close>

text \<open>\<open>str(input[k])\<close>, and the optional \<open>str\<close>, \<open>int\<close> and \<open>float\<close> of an input that is not null.\<close>

definition text_arg :: "pydict \<Rightarrow> string \<Rightarrow> exn + string" where
  "text_arg d k = map_sum id py_str (need_key d k)"

definition opt_text :: "pydict \<Rightarrow> string \<Rightarrow> string option" where
  "opt_text d k = (case get_none d k of PNone \<Rightarrow> None | v \<Rightarrow> Some (py_str v))"

definition opt_number :: "pydict \<Rightarrow> string \<Rightarrow> exn + int option" where
  "opt_number d k = (case get_none d k of PNone \<Rightarrow> Inr None | v \<Rightarrow> map_sum id Some (py_int v))"

definition opt_float :: "pydict \<Rightarrow> string \<Rightarrow> exn + string option" where
  "opt_float d k = (case get_none d k of PNone \<Rightarrow> Inr None | v \<Rightarrow> map_sum id Some (float_literal v))"

text \<open>Items of a list that the resource takes as texts or dicts; others are outside the model.\<close>

definition text_item :: "pyval \<Rightarrow> exn + string" where
  "text_item v = (case as_str v of Some s \<Rightarrow> Inr s | None \<Rightarrow> Inl (OtherError ''UnmodelledItem'' (py_repr v)))"

definition dict_item :: "pyval \<Rightarrow> exn + pydict" where
  "dict_item v = (case as_dict v of Some d \<Rightarrow> Inr d | None \<Rightarrow> Inl (OtherError ''UnmodelledItem'' (py_repr v)))"

section \<open>Handlers\<close>

datatype tool_value =
    Plain pyval
  | UserMcp user_mcp_result
  | Wired wire_integration_result

record handler =
  h_request :: "string \<Rightarrow> pydict \<Rightarrow> exn + api_call"
  h_result :: "pydict \<Rightarrow> pyval \<Rightarrow> exn + tool_value"

definition call_handler :: "handler \<Rightarrow> 's api \<Rightarrow> 's \<Rightarrow> string \<Rightarrow> pydict \<Rightarrow> 's \<times> (exn + tool_value)" where
  "call_handler h api s sb d =
     (case h_request h sb d of
        Inl e \<Rightarrow> (s, Inl e)
      | Inr c \<Rightarrow> (case api s c of (s', Inl e) \<Rightarrow> (s', Inl e) | (s', Inr resp) \<Rightarrow> (s', h_result h d resp)))"

abbreviation as_it_is :: "pydict \<Rightarrow> pyval \<Rightarrow> exn + tool_value" where
  "as_it_is d v \<equiv> Inr (Plain v)"

abbreviation under :: "string \<Rightarrow> pydict \<Rightarrow> pyval \<Rightarrow> exn + tool_value" where
  "under k d v \<equiv> Inr (Plain (PDict [(k, v)]))"

definition user_mcp_response :: "pydict \<Rightarrow> pyval \<Rightarrow> exn + tool_value" where
  "user_mcp_response d v = map_sum id (\<lambda>r. UserMcp (user_mcp_from_dict r)) (need_dict v)"

section \<open>Sandboxes, sources, connections\<close>

definition list_sandboxes_tool :: handler where
  "list_sandboxes_tool = \<lparr>h_request = \<lambda>sb d. Inr (sandboxes_list None None), h_result = as_it_is\<rparr>"

definition list_sources_tool :: handler where
  "list_sources_tool = \<lparr>h_request = \<lambda>sb d. Inr (sources_list sb (as_str (get_none d ''provider'')) None), h_result = as_it_is\<rparr>"

definition get_source_tool :: handler where
  "get_source_tool = \<lparr>h_request = \<lambda>sb d. map_sum id (sources_retrieve sb) (text_arg d ''data_source_id''), h_result = as_it_is\<rparr>"

text \<open>\<open>adapter_config\<close> of an input, with the flag when it is literally \<open>True\<close>.\<close>

definition input_adapter_config :: "pydict \<Rightarrow> pydict" where
  "input_adapter_config d = (case get_none d ''adapter_config'' of PDict c \<Rightarrow> c | _ \<Rightarrow> [])"

definition non_empty :: "pydict \<Rightarrow> pydict option" where
  "non_empty c = (if c = [] then None else Some c)"

definition provision_source_tool :: handler where
  "provision_source_tool =
     \<lparr>h_request = \<lambda>sb d.
        let config = (if get_none d ''ingest_to_graph'' = PBool True
                      then dict_set ''ingest_to_graph'' (PBool True) (input_adapter_config d) else input_adapter_config d)
        in and_then (text_arg d ''name'') (\<lambda>name.
             map_sum id (\<lambda>poll. sources_register sb (py_str (py_or (get_none d ''provider'') (PStr ''pipedream''))) name
                 (opt_text d ''ingestion_mode'') (opt_text d ''kind'') (opt_text d ''external_account_id'')
                 (non_empty config) poll)
               (opt_number d ''poll_interval_seconds'')),
      h_result = under ''source''\<rparr>"

definition update_source_tool :: handler where
  "update_source_tool =
     \<lparr>h_request = \<lambda>sb d.
        let graph = get_none d ''ingest_to_graph'';
            config = (if graph = PNone then input_adapter_config d
                      else dict_set ''ingest_to_graph'' (PBool (truthy graph)) (input_adapter_config d))
        in and_then (text_arg d ''data_source_id'') (\<lambda>source.
             map_sum id (\<lambda>poll. sources_update sb source (opt_text d ''name'') (opt_text d ''ingestion_mode'')
                 (opt_text d ''external_account_id'') (non_empty config) poll (graph \<noteq> PNone))
               (opt_number d ''poll_interval_seconds'')),
      h_result = under ''source''\<rparr>"

definition purge_source_context_tool :: handler where
  "purge_source_context_tool =
     \<lparr>h_request = \<lambda>sb d. map_sum id
        (\<lambda>source. sources_purge sb source (case get_none d ''delete_source'' of PBool b \<Rightarrow> Some b | _ \<Rightarrow> None))
        (text_arg d ''data_source_id''),
      h_result = as_it_is\<rparr>"

definition connect_linear_tool :: handler where
  "connect_linear_tool =
     \<lparr>h_request = \<lambda>sb d.
        and_then (text_arg d ''api_key'') (\<lambda>key.
        and_then (opt_number d ''rate_cap_per_minute'') (\<lambda>cap.
        map_sum id (\<lambda>poll. connect_linear sb key (opt_text d ''name'')
            (map_option (map py_str) (as_list (get_none d ''include''))) cap poll)
          (opt_number d ''poll_interval_seconds''))),
      h_result = as_it_is\<rparr>"

definition add_user_mcp_source_tool :: handler where
  "add_user_mcp_source_tool =
     \<lparr>h_request = \<lambda>sb d.
        and_then (text_arg d ''name'') (\<lambda>name.
        and_then (text_arg d ''base_url'') (\<lambda>url.
        and_then (text_arg d ''auth_kind'') (\<lambda>kind.
        and_then (case as_list (get_none d ''ingest_tool_calls'') of
                    None \<Rightarrow> Inr None | Some vs \<Rightarrow> map_sum id Some (try_map dict_item vs)) (\<lambda>calls.
        and_then (opt_number d ''rate_cap_per_minute'') (\<lambda>cap.
        map_sum id (\<lambda>hook_cap. register_user_mcp sb name url kind
            \<lparr>ma_token = opt_text d ''token'', ma_auth_header = opt_text d ''auth_header'',
             ma_app_namespace = opt_text d ''app_namespace'',
             ma_allowed_tools = map_option (map py_str) (as_list (get_none d ''allowed_tools'')),
             ma_ingest_tool_calls = calls, ma_rate_cap_per_minute = cap, ma_webhook_rate_cap_per_minute = hook_cap\<rparr>)
          (opt_number d ''webhook_rate_cap_per_minute'')))))),
      h_result = user_mcp_response\<rparr>"

definition test_user_mcp_source_tool :: handler where
  "test_user_mcp_source_tool =
     \<lparr>h_request = \<lambda>sb d. map_sum id (test_user_mcp sb) (text_arg d ''data_source_id''), h_result = user_mcp_response\<rparr>"

definition revoke_user_mcp_source_tool :: handler where
  "revoke_user_mcp_source_tool =
     \<lparr>h_request = \<lambda>sb d. map_sum id (revoke_user_mcp sb) (text_arg d ''data_source_id''), h_result = user_mcp_response\<rparr>"

definition grant_sandbox_connection_tool :: handler where
  "grant_sandbox_connection_tool =
     \<lparr>h_request = \<lambda>sb d. map_sum id
        (\<lambda>role. connections_create sb role
           \<lparr>ca_copass_id = opt_text d ''copass_id'', ca_user_id = opt_text d ''user_id'', ca_email = None,
            ca_project_id = opt_text d ''project_id'', ca_label = opt_text d ''label'',
            ca_expires_at = opt_text d ''expires_at''\<rparr>)
        (text_arg d ''role''),
      h_result = as_it_is\<rparr>"

definition connections_rows :: "pydict \<Rightarrow> pyval \<Rightarrow> exn + tool_value" where
  "connections_rows d v = map_sum id (\<lambda>rows. Plain (PDict
     [(''connections'', PList rows), (''count'', PInt (int (length rows)))])) (py_list v)"

definition list_sandbox_connections_tool :: handler where
  "list_sandbox_connections_tool =
     \<lparr>h_request = \<lambda>sb d. Inr (connections_list sb (truthy (get_none d ''include_revoked''))), h_result = connections_rows\<rparr>"

definition revoke_sandbox_connection_tool :: handler where
  "revoke_sandbox_connection_tool =
     \<lparr>h_request = \<lambda>sb d. map_sum id (connections_revoke sb) (text_arg d ''connection_id''), h_result = as_it_is\<rparr>"

section \<open>Integrations and keys\<close>

definition list_apps_tool :: handler where
  "list_apps_tool =
     \<lparr>h_request = \<lambda>sb d. Inr (integrations_catalog sb (as_str (get_none d ''q'')) (as_int (get_none d ''limit''))
        (as_str (get_none d ''cursor''))),
      h_result = as_it_is\<rparr>"

definition list_connected_accounts_tool :: handler where
  "list_connected_accounts_tool =
     \<lparr>h_request = \<lambda>sb d. Inr (integrations_list_accounts sb (as_str (get_none d ''app_slug''))), h_result = as_it_is\<rparr>"

definition start_integration_connect_tool :: handler where
  "start_integration_connect_tool =
     \<lparr>h_request = \<lambda>sb d. map_sum id
        (\<lambda>app. integrations_connect sb app (py_str (py_or (get_none d ''success_redirect_uri'') (PStr [])))
           (py_str (py_or (get_none d ''error_redirect_uri'') (PStr []))) None None (opt_text d ''webhook_uri''))
        (text_arg d ''app_slug''),
      h_result = as_it_is\<rparr>"

definition keys_listing :: "pydict \<Rightarrow> pyval \<Rightarrow> exn + tool_value" where
  "keys_listing d v =
     (let keys = (case as_list (api_keys_result v) of Some ks \<Rightarrow> ks | None \<Rightarrow> [])
      in Inr (Plain (PDict [(''keys'', PList keys), (''count'', PInt (int (length keys)))])))"

definition list_api_keys_tool :: handler where
  "list_api_keys_tool = \<lparr>h_request = \<lambda>sb d. Inr api_keys_list, h_result = keys_listing\<rparr>"

section \<open>Agents\<close>

definition list_agents_tool :: handler where
  "list_agents_tool =
     \<lparr>h_request = \<lambda>sb d. Inr (agents_list sb
        (case get_none d ''status'' of PStr t \<Rightarrow> if t = ''active'' \<or> t = ''archived'' then Some t else None | _ \<Rightarrow> None)),
      h_result = as_it_is\<rparr>"

definition get_agent_management_tool :: handler where
  "get_agent_management_tool = \<lparr>h_request = \<lambda>sb d. map_sum id (agents_retrieve sb) (text_arg d ''slug''), h_result = as_it_is\<rparr>"

definition DEFAULT_MODEL_BY_BACKEND :: "(string, string) dict" where
  "DEFAULT_MODEL_BY_BACKEND = [(''anthropic'', ''claude-sonnet-4-6''), (''google'', ''gemini-2.5-flash''),
     (''hermes'', ''hermes/anthropic/claude-sonnet-4-5'')]"

text \<open>\<open>if k in input: settings[k] = int(input[k])\<close>\<close>

definition int_setting :: "pydict \<Rightarrow> string \<Rightarrow> exn + pydict" where
  "int_setting d k = (case dict_get d k of None \<Rightarrow> Inr [] | Some v \<Rightarrow> map_sum id (\<lambda>n. [(k, PInt n)]) (py_int v))"

definition model_settings_of :: "pydict \<Rightarrow> exn + pydict" where
  "model_settings_of d =
     (let backend = py_str (py_or (get_none d ''backend'') (PStr ''anthropic''));
          default_model = (case dict_get DEFAULT_MODEL_BY_BACKEND backend of Some m \<Rightarrow> m | None \<Rightarrow> ''claude-sonnet-4-6'')
      in and_then (case dict_get d ''temperature'' of
                     None \<Rightarrow> Inr [] | Some v \<Rightarrow> map_sum id (\<lambda>l. [(''temperature'', PFloat l)]) (float_literal v)) (\<lambda>t.
         and_then (int_setting d ''max_tokens'') (\<lambda>tokens.
         and_then (int_setting d ''max_turns'') (\<lambda>turns.
         map_sum id (\<lambda>timeout. [(''backend'', PStr backend),
             (''model'', PStr (py_str (py_or (get_none d ''model'') (PStr default_model))))] @ t @ tokens @ turns @ timeout)
           (int_setting d ''timeout_s'')))))"

definition create_agent_tool :: handler where
  "create_agent_tool =
     \<lparr>h_request = \<lambda>sb d.
        and_then (model_settings_of d) (\<lambda>settings.
        and_then (text_arg d ''slug'') (\<lambda>slug.
        and_then (text_arg d ''name'') (\<lambda>name.
        and_then (text_arg d ''system_prompt'') (\<lambda>prompt.
        and_then (py_list (py_or (get_none d ''tool_allowlist'') (PList []))) (\<lambda>allowed.
        map_sum id (\<lambda>allowlist. agents_create sb slug name prompt allowlist settings (opt_text d ''description''))
          (try_map text_item allowed)))))),
      h_result = under ''agent''\<rparr>"

definition update_agent_prompt_tool :: handler where
  "update_agent_prompt_tool =
     \<lparr>h_request = \<lambda>sb d.
        and_then (text_arg d ''slug'') (\<lambda>slug.
        map_sum id (\<lambda>prompt. agents_update sb slug None None (Some prompt) None None None) (text_arg d ''system_prompt'')),
      h_result = under ''agent''\<rparr>"

definition update_agent_tools_tool :: handler where
  "update_agent_tools_tool =
     \<lparr>h_request = \<lambda>sb d.
        and_then (text_arg d ''slug'') (\<lambda>slug.
        map_sum id (\<lambda>allowed. agents_update sb slug None None None (Some (map py_str allowed)) None None)
          (py_list (py_or (get_none d ''tool_allowlist'') (PList [])))),
      h_result = under ''agent''\<rparr>"

definition update_agent_tool_sources_tool :: handler where
  "update_agent_tool_sources_tool =
     \<lparr>h_request = \<lambda>sb d. map_sum id
        (\<lambda>slug. update_tool_sources sb slug (map_option (map py_str) (as_list (get_none d ''tool_sources''))))
        (text_arg d ''slug''),
      h_result = under ''agent''\<rparr>"

definition update_agent_model_settings_tool :: handler where
  "update_agent_model_settings_tool =
     \<lparr>h_request = \<lambda>sb d.
        and_then (text_arg d ''slug'') (\<lambda>slug.
        and_then (opt_float d ''temperature'') (\<lambda>t.
        and_then (opt_number d ''max_tokens'') (\<lambda>tokens.
        and_then (opt_number d ''max_turns'') (\<lambda>turns.
        map_sum id (\<lambda>timeout. update_model_settings sb slug (opt_text d ''backend'') (opt_text d ''model'') t tokens turns timeout)
          (opt_number d ''timeout_s''))))),
      h_result = under ''agent''\<rparr>"

definition wire_integration_to_agent_tool :: handler where
  "wire_integration_to_agent_tool =
     \<lparr>h_request = \<lambda>sb d.
        and_then (text_arg d ''agent_slug'') (\<lambda>slug. map_sum id (wire_integration sb slug) (text_arg d ''app_slug'')),
      h_result = \<lambda>d v. map_sum id Wired (wire_integration_from_dict v)\<rparr>"

section \<open>Triggers, runs, the tool catalogue\<close>

definition list_triggers_tool :: handler where
  "list_triggers_tool =
     \<lparr>h_request = \<lambda>sb d. map_sum id (\<lambda>slug. triggers_list sb slug None) (text_arg d ''agent_slug''), h_result = as_it_is\<rparr>"

definition create_trigger_tool :: handler where
  "create_trigger_tool =
     \<lparr>h_request = \<lambda>sb d.
        and_then (text_arg d ''agent_slug'') (\<lambda>slug.
        and_then (text_arg d ''data_source_id'') (\<lambda>source.
        map_sum id (\<lambda>rate. triggers_create sb slug source (py_str (py_or (get_none d ''event_type_filter'') (PStr ''*'')))
            (as_dict (get_none d ''filter_config'')) rate)
          (opt_number d ''rate_limit_per_hour''))),
      h_result = under ''trigger''\<rparr>"

definition no_patch :: trigger_patch where
  "no_patch = \<lparr>tp_event_type_filter = None, tp_filter_config = None, tp_clear_filter_config = False,
     tp_rate_limit_per_hour = None, tp_clear_rate_limit = False, tp_status = None\<rparr>"

definition status_trigger :: "string \<Rightarrow> handler" where
  "status_trigger status =
     \<lparr>h_request = \<lambda>sb d. map_sum id (\<lambda>t. triggers_update_by_id sb t (no_patch\<lparr>tp_status := Some status\<rparr>))
        (text_arg d ''trigger_id''),
      h_result = under ''trigger''\<rparr>"

definition pause_trigger_tool :: handler where
  "pause_trigger_tool = status_trigger ''paused''"

definition resume_trigger_tool :: handler where
  "resume_trigger_tool = status_trigger ''active''"

text \<open>A null clears a limit or a filter; an absent key leaves it.\<close>

definition update_trigger_tool :: handler where
  "update_trigger_tool =
     \<lparr>h_request = \<lambda>sb d.
        and_then (text_arg d ''trigger_id'') (\<lambda>t.
        map_sum id (\<lambda>rate. triggers_update_by_id sb t
            \<lparr>tp_event_type_filter = opt_text d ''event_type_filter'',
             tp_filter_config = as_dict (get_none d ''filter_config''),
             tp_clear_filter_config = (dict_get d ''filter_config'' = Some PNone),
             tp_rate_limit_per_hour = rate,
             tp_clear_rate_limit = (dict_get d ''rate_limit_per_hour'' = Some PNone), tp_status = None\<rparr>)
          (opt_number d ''rate_limit_per_hour'')),
      h_result = under ''trigger''\<rparr>"

definition list_runs_tool :: handler where
  "list_runs_tool =
     \<lparr>h_request = \<lambda>sb d. map_sum id (\<lambda>slug. list_runs sb slug (as_int (get_none d ''limit'')) None) (text_arg d ''agent_slug''),
      h_result = as_it_is\<rparr>"

definition get_run_trace_tool :: handler where
  "get_run_trace_tool = \<lparr>h_request = \<lambda>sb d. map_sum id (get_run sb) (text_arg d ''run_id''), h_result = as_it_is\<rparr>"

definition list_trigger_components_tool :: handler where
  "list_trigger_components_tool =
     \<lparr>h_request = \<lambda>sb d. Inr (list_trigger_components sb (as_str (get_none d ''app'')) (as_str (get_none d ''q''))
        (as_int (get_none d ''limit''))),
      h_result = as_it_is\<rparr>"

text \<open>The catalogue, narrowed to one app when the input names one, and grouped by app in order of first
  appearance. A slug that is not a text is outside the model.\<close>

definition catalog_tools :: "pyval \<Rightarrow> exn + pyval list" where
  "catalog_tools v = (case v of PDict d \<Rightarrow> py_list (get_or d ''tools'' (PList [])) | _ \<Rightarrow> Inr [])"

fun keep_app :: "string \<Rightarrow> pyval list \<Rightarrow> exn + pyval list" where
  "keep_app slug [] = Inr []"
| "keep_app slug (t # ts) =
     (case need_dict t of
        Inl e \<Rightarrow> Inl e
      | Inr d \<Rightarrow> map_sum id (\<lambda>us. if get_none d ''app_slug'' = PStr slug then t # us else us) (keep_app slug ts))"

fun group_apps :: "pyval list \<Rightarrow> (string, pyval list) dict \<Rightarrow> exn + (string, pyval list) dict" where
  "group_apps [] acc = Inr acc"
| "group_apps (t # ts) acc =
     (case need_dict t of
        Inl e \<Rightarrow> Inl e
      | Inr d \<Rightarrow>
          (case py_or (get_none d ''app_slug'') (PStr ''unknown'') of
             PStr slug \<Rightarrow>
               group_apps ts (dict_set slug ((case dict_get acc slug of None \<Rightarrow> [] | Some us \<Rightarrow> us) @
                 [PDict [(''name'', get_none d ''name''), (''description'', get_none d ''description'')]]) acc)
           | w \<Rightarrow> Inl (OtherError ''UnmodelledKey'' (py_repr w))))"

definition tools_listing :: "pydict \<Rightarrow> pyval \<Rightarrow> exn + tool_value" where
  "tools_listing d v =
     (let filter_slug = (case get_none d ''app_slug'' of PStr t \<Rightarrow> t | _ \<Rightarrow> [])
      in and_then (catalog_tools v) (\<lambda>raw.
         and_then (if filter_slug = [] then Inr raw else keep_app filter_slug raw) (\<lambda>tools.
         map_sum id (\<lambda>by_app. Plain (PDict [(''tools'', PList tools),
             (''by_app'', PDict (map (\<lambda>(k, us). (k, PList us)) by_app)), (''count'', PInt (int (length tools)))]))
           (group_apps tools []))))"

definition list_agent_tools_tool :: handler where
  "list_agent_tools_tool = \<lparr>h_request = \<lambda>sb d. Inr (list_tools sb), h_result = tools_listing\<rparr>"

section \<open>The table\<close>

definition TOOL_HANDLERS :: "(string, handler) dict" where
  "TOOL_HANDLERS =
     [(''list_sandboxes'', list_sandboxes_tool), (''list_sources'', list_sources_tool), (''get_source'', get_source_tool),
      (''list_agents'', list_agents_tool), (''get_agent'', get_agent_management_tool), (''list_triggers'', list_triggers_tool),
      (''list_runs'', list_runs_tool), (''get_run_trace'', get_run_trace_tool),
      (''list_trigger_components'', list_trigger_components_tool), (''list_apps'', list_apps_tool),
      (''list_connected_accounts'', list_connected_accounts_tool), (''list_api_keys'', list_api_keys_tool),
      (''list_agent_tools'', list_agent_tools_tool), (''list_sandbox_connections'', list_sandbox_connections_tool),
      (''create_agent'', create_agent_tool), (''update_agent_prompt'', update_agent_prompt_tool),
      (''update_agent_tools'', update_agent_tools_tool), (''update_agent_tool_sources'', update_agent_tool_sources_tool),
      (''update_agent_model_settings'', update_agent_model_settings_tool),
      (''add_user_mcp_source'', add_user_mcp_source_tool), (''wire_integration_to_agent'', wire_integration_to_agent_tool),
      (''provision_source'', provision_source_tool), (''purge_source_context'', purge_source_context_tool),
      (''update_source'', update_source_tool), (''start_integration_connect'', start_integration_connect_tool),
      (''connect_linear'', connect_linear_tool), (''test_user_mcp_source'', test_user_mcp_source_tool),
      (''revoke_user_mcp_source'', revoke_user_mcp_source_tool), (''create_trigger'', create_trigger_tool),
      (''pause_trigger'', pause_trigger_tool), (''resume_trigger'', resume_trigger_tool),
      (''update_trigger'', update_trigger_tool), (''grant_sandbox_connection'', grant_sandbox_connection_tool),
      (''revoke_sandbox_connection'', revoke_sandbox_connection_tool)]"

end
