(* ===== verification/ManagementSpecs.thy ===== *)
theory ManagementSpecs
  imports Management JsonRoundtrip MirrorFacts
begin

text \<open>
  The rest of \<open>copass-management\<close>: the spec corpus (\<open>specs.py\<close>), the registrar that ties every spec to
  its handler behind a validator (\<open>registrar.py\<close>), and the text an MCP server gets of a result
  (\<open>adapters/mcp.py\<close>). The JSON Schema validator is a parameter; so is what the file system holds: the
  regular files of a folder with their texts, in any order. A corpus is a list of specs by name.
\<close>

section \<open>Specs\<close>

record management_spec =
  ms_name :: string
  ms_description :: string
  ms_input_schema :: pyval
  ms_output_schema :: pyval
  ms_since :: string

definition JSON_SCHEMA_META_KEYS :: "string list" where
  "JSON_SCHEMA_META_KEYS = [''$schema'', ''$id'', ''$defs'', ''$ref'', ''$comment'']"

fun strip_json_schema_meta :: "pyval \<Rightarrow> pyval" where
  "strip_json_schema_meta (PDict d) =
     PDict (filter (\<lambda>(k, v). k \<notin> set JSON_SCHEMA_META_KEYS) (map (\<lambda>(k, v). (k, strip_json_schema_meta v)) d))"
| "strip_json_schema_meta (PList vs) = PList (map strip_json_schema_meta vs)"
| "strip_json_schema_meta v = v"

definition spec_required :: "string list" where
  "spec_required = [''name'', ''description'', ''inputSchema'', ''outputSchema'', ''since'']"

text \<open>\<open>k in data\<close>, \<open>data.get\<close> and \<open>data[k]\<close> mean something else, or raise, when the text of a spec is not an
  object.\<close>

definition spec_from_json :: "pyval \<Rightarrow> exn + management_spec" where
  "spec_from_json data =
     (case data of
        PDict d \<Rightarrow>
          (case find (\<lambda>k. dict_get d k = None) spec_required of
             Some k \<Rightarrow> Inl (ValueError (''spec '' @ py_repr (get_or d ''name'' (PStr ''?'')) @
                        '' missing required field '' @ repr_str k))
           | None \<Rightarrow>
               (case (get_none d ''name'', get_none d ''description'') of
                  (PStr name, PStr description) \<Rightarrow>
                    (case get_none d ''since'' of
                       PStr since \<Rightarrow>
                         (case (get_none d ''inputSchema'', get_none d ''outputSchema'') of
                            (PDict i, PDict out) \<Rightarrow> Inr
                              \<lparr>ms_name = name, ms_description = description,
                               ms_input_schema = strip_json_schema_meta (PDict i),
                               ms_output_schema = strip_json_schema_meta (PDict out), ms_since = since\<rparr>
                          | _ \<Rightarrow> Inl (ValueError ''inputSchema/outputSchema must be objects''))
                     | _ \<Rightarrow> Inl (ValueError ''spec since must be a string''))
                | _ \<Rightarrow> Inl (ValueError ''spec name/description must be strings'')))
      | PList vs \<Rightarrow>
          (if list_all (\<lambda>k. PStr k \<in> set vs) spec_required
           then Inl (TypeError ''list indices must be integers or slices, not str'') else Inl (no_attribute data ''get''))
      | PStr s \<Rightarrow>
          (if list_all (\<lambda>k. contains_sub k s) spec_required
           then Inl (TypeError (''string indices must be integers, not '' @ sq # ''str'' @ [sq])) else Inl (no_attribute data ''get''))
      | _ \<Rightarrow> Inl (TypeError (''argument of type '' @ sq # py_type_name data @ sq # '' is not iterable'')))"

section \<open>The corpus\<close>

record spec_folder =
  sf_files :: "(string \<times> string) list"
  sf_examples :: "(string \<times> string) list option"

record management_fixture =
  mf_input :: pyval
  mf_output :: pyval

record spec_corpus =
  sc_spec_dir :: string
  sc_specs :: "(string, management_spec) dict"
  sc_fixtures :: "(string, management_fixture) dict"

text \<open>\<open>Path.suffix\<close>: from the last dot on, unless it opens or closes the name.\<close>

definition path_suffix :: "string \<Rightarrow> string" where
  "path_suffix name =
     (let ext = takeWhile (\<lambda>c. c \<noteq> CHR ''.'') (rev name)
      in if ext \<noteq> [] \<and> Suc (length ext) < length name then CHR ''.'' # rev ext else [])"

definition iter_specs :: "spec_folder \<Rightarrow> (string \<times> string) list" where
  "iter_specs root = filter (\<lambda>(name, t). path_suffix name = ''.json'') (sort_key fst (sf_files root))"

text \<open>\<open>json.loads\<close>; the message of its error is left out.\<close>

definition decode_json :: "string \<Rightarrow> exn + pyval" where
  "decode_json t = (case loads t of Inr v \<Rightarrow> Inr v | Inl e \<Rightarrow> Inl (OtherError ''JSONDecodeError'' []))"

fun load_specs :: "(string \<times> string) list \<Rightarrow> (string, management_spec) dict \<Rightarrow> exn + (string, management_spec) dict" where
  "load_specs [] specs = Inr specs"
| "load_specs ((name, t) # files) specs =
     (case and_then (decode_json t) spec_from_json of
        Inl e \<Rightarrow> Inl e
      | Inr sp \<Rightarrow> load_specs files (dict_set (ms_name sp) sp specs))"

definition fixture_suffix :: string where
  "fixture_suffix = ''.example.json''"

text \<open>Whether \<open>raw\<close> is an object is asked first, so the two membership tests are of its keys.\<close>

definition fixture_of :: "string \<Rightarrow> pyval \<Rightarrow> exn + management_fixture" where
  "fixture_of name raw =
     (let bad = Inl (ValueError (''fixture '' @ repr_str name @ '' must have '' @ sq # ''input'' @ sq # '' and '' @ sq # ''output'' @ sq # '' keys''))
      in case raw of
           PDict d \<Rightarrow> (case (dict_get d ''input'', dict_get d ''output'') of
                          (Some i, Some out) \<Rightarrow> Inr \<lparr>mf_input = i, mf_output = out\<rparr>
                        | _ \<Rightarrow> bad)
         | _ \<Rightarrow> bad)"

fun load_fixtures :: "(string \<times> string) list \<Rightarrow> (string, management_fixture) dict \<Rightarrow> exn + (string, management_fixture) dict" where
  "load_fixtures [] fixtures = Inr fixtures"
| "load_fixtures ((name, t) # files) fixtures =
     (if suffix fixture_suffix name
      then (case and_then (decode_json t) (fixture_of name) of
              Inl e \<Rightarrow> Inl e
            | Inr f \<Rightarrow> load_fixtures files (dict_set (take (length name - length fixture_suffix) name) f fixtures))
      else load_fixtures files fixtures)"

text \<open>The places a corpus may be: the override of the environment, the bundled copy and the source tree,
  each of the last two when it exists.\<close>

record spec_places =
  sp_env :: "string option"
  sp_bundled :: "string option"
  sp_source :: "string option"

definition resolve_default_spec_dir :: "(string \<Rightarrow> string) \<Rightarrow> spec_places \<Rightarrow> exn + string" where
  "resolve_default_spec_dir resolve places =
     (let env = py_strip (case sp_env places of None \<Rightarrow> [] | Some t \<Rightarrow> t)
      in if env \<noteq> [] then Inr (resolve env)
         else case sp_bundled places of
                Some p \<Rightarrow> Inr p
              | None \<Rightarrow>
                  (case sp_source places of
                     Some p \<Rightarrow> Inr p
                   | None \<Rightarrow> Inl (OtherError ''FileNotFoundError''
                       (''load_management_specs: could not locate spec directory. Set '' @
                        ''COPASS_MANAGEMENT_SPEC_DIR to override.''))))"

definition load_management_specs ::
    "(string \<Rightarrow> string) \<Rightarrow> (string \<Rightarrow> spec_folder option) \<Rightarrow> spec_places \<Rightarrow> string option \<Rightarrow> exn + spec_corpus" where
  "load_management_specs resolve folder_at places spec_dir =
     and_then (case spec_dir of Some p \<Rightarrow> Inr (resolve p) | None \<Rightarrow> resolve_default_spec_dir resolve places) (\<lambda>root.
       case folder_at root of
         None \<Rightarrow> Inl (OtherError ''NotADirectoryError'' (''load_management_specs: '' @ root @ '' is not a directory''))
       | Some folder \<Rightarrow>
           and_then (load_specs (iter_specs folder) []) (\<lambda>specs.
             map_sum id (\<lambda>fixtures. \<lparr>sc_spec_dir = root, sc_specs = specs, sc_fixtures = fixtures\<rparr>)
               (case sf_examples folder of
                  None \<Rightarrow> Inr []
                | Some files \<Rightarrow> load_fixtures (sort_key fst files) [])))"

section \<open>The registrar\<close>

record registrar_options =
  ro_sandbox_id :: string
  ro_spec_dir :: "string option"
  ro_validate_output :: bool
  ro_allow_missing_handlers :: bool

text \<open>A validator says which exception, if any, it raises for a value under a schema.\<close>

type_synonym validator = "pyval \<Rightarrow> tool_value \<Rightarrow> exn option"

record 's tool_registration =
  tr_name :: string
  tr_description :: string
  tr_input_schema :: pyval
  tr_output_schema :: pyval
  tr_handler :: "'s \<Rightarrow> pydict option \<Rightarrow> 's \<times> (exn + tool_value)"
  tr_spec :: management_spec

definition payload_of :: "pydict option \<Rightarrow> pydict" where
  "payload_of raw_input = (case raw_input of None \<Rightarrow> [] | Some d \<Rightarrow> d)"

definition wrapped ::
    "validator \<Rightarrow> bool \<Rightarrow> management_spec \<Rightarrow> handler \<Rightarrow> 's api \<Rightarrow> string \<Rightarrow> 's \<Rightarrow> pydict option \<Rightarrow> 's \<times> (exn + tool_value)" where
  "wrapped validate check_output sp h api sb s raw_input =
     (case validate (ms_input_schema sp) (Plain (PDict (payload_of raw_input))) of
        Some e \<Rightarrow> (s, Inl e)
      | None \<Rightarrow>
          (case call_handler h api s sb (payload_of raw_input) of
             (s', Inl e) \<Rightarrow> (s', Inl e)
           | (s', Inr r) \<Rightarrow>
               (case (if check_output then validate (ms_output_schema sp) r else None) of
                  Some e \<Rightarrow> (s', Inl e)
                | None \<Rightarrow> (s', Inr r))))"

definition registration_of ::
    "validator \<Rightarrow> registrar_options \<Rightarrow> 's api \<Rightarrow> management_spec \<Rightarrow> handler \<Rightarrow> 's tool_registration" where
  "registration_of validate opts client sp h =
     \<lparr>tr_name = ms_name sp, tr_description = ms_description sp, tr_input_schema = ms_input_schema sp,
      tr_output_schema = ms_output_schema sp,
      tr_handler = wrapped validate (ro_validate_output opts) sp h client (ro_sandbox_id opts), tr_spec = sp\<rparr>"

definition no_handler :: "string \<Rightarrow> exn" where
  "no_handler name = RuntimeError (''register_management_tools: no handler implementation for tool '' @
     repr_str name @ ''. Add one in copass_management/tools/.'')"

text \<open>The loop over the names; \<open>register\<close> is the caller's, and may raise.\<close>

fun register_all ::
    "('r \<Rightarrow> 's tool_registration \<Rightarrow> exn + 'r) \<Rightarrow> validator \<Rightarrow> registrar_options \<Rightarrow> 's api \<Rightarrow>
     (string, management_spec) dict \<Rightarrow> string list \<Rightarrow> 'r \<Rightarrow> 's tool_registration list \<Rightarrow>
     'r \<times> (exn + 's tool_registration list)" where
  "register_all register validate opts client specs [] r acc = (r, Inr acc)"
| "register_all register validate opts client specs (name # names) r acc =
     (case (dict_get specs name, dict_get TOOL_HANDLERS name) of
        (Some sp, Some h) \<Rightarrow>
          (let t = registration_of validate opts client sp h
           in case register r t of
                Inl e \<Rightarrow> (r, Inl e)
              | Inr r' \<Rightarrow> register_all register validate opts client specs names r' (acc @ [t]))
      | (Some sp, None) \<Rightarrow>
          (if ro_allow_missing_handlers opts
           then register_all register validate opts client specs names r acc else (r, Inl (no_handler name)))
      | (None, h) \<Rightarrow> (r, Inl (KeyError name)))"

definition register_management_tools ::
    "('r \<Rightarrow> 's tool_registration \<Rightarrow> exn + 'r) \<Rightarrow> validator \<Rightarrow> registrar_options \<Rightarrow> 's api \<Rightarrow>
     (string option \<Rightarrow> exn + spec_corpus) \<Rightarrow> 'r \<Rightarrow> 'r \<times> (exn + 's tool_registration list)" where
  "register_management_tools register validate opts client load r =
     (case load (ro_spec_dir opts) of
        Inl e \<Rightarrow> (r, Inl e)
      | Inr corpus \<Rightarrow>
          register_all register validate opts client (sc_specs corpus) (sort (map fst (sc_specs corpus))) r [])"

section \<open>The MCP adapter\<close>

text \<open>The \<open>repr\<close> of the two result classes, which is also their \<open>str\<close>.\<close>

definition repr_fields :: "string \<Rightarrow> (string \<times> pyval) list \<Rightarrow> string" where
  "repr_fields cls fs = cls @ ''('' @ py_join '', '' (map (\<lambda>(k, v). k @ ''='' @ py_repr v) fs) @ '')''"

definition user_mcp_repr :: "user_mcp_result \<Rightarrow> string" where
  "user_mcp_repr r = repr_fields ''UserMcpSourceResult''
     [(''data_source_id'', um_data_source_id r), (''status'', um_status r), (''name'', um_name r),
      (''ingestion_mode'', um_ingestion_mode r), (''health_error'', um_health_error r), (''error'', um_error r),
      (''detail'', um_detail r)]"

definition wire_repr :: "wire_integration_result \<Rightarrow> string" where
  "wire_repr r = repr_fields ''WireIntegrationResult''
     [(''wired'', PBool (wi_wired r)), (''agent_slug'', PStr (wi_agent_slug r)), (''app_slug'', PStr (wi_app_slug r)),
      (''sources_added'', PList (wi_sources_added r)), (''tool_count'', PInt (wi_tool_count r)), (''mode'', wi_mode r),
      (''message'', PStr (wi_message r))]"

text \<open>A text is passed as it is; anything else is \<open>json.dumps(result, default=str)\<close>.\<close>

fun mcp_text :: "tool_value \<Rightarrow> string" where
  "mcp_text (Plain v) = (case as_str v of Some s \<Rightarrow> s | None \<Rightarrow> dumps v)"
| "mcp_text (UserMcp r) = dumps_str (user_mcp_repr r)"
| "mcp_text (Wired r) = dumps_str (wire_repr r)"

definition mcp_handler :: "'s tool_registration \<Rightarrow> 's \<Rightarrow> pydict \<Rightarrow> 's \<times> (exn + string)" where
  "mcp_handler t s kwargs =
     (case tr_handler t s (Some kwargs) of (s', r) \<Rightarrow> (s', map_sum id mcp_text r))"

text \<open>The adapter registers the wrapped handler under the name and description; \<open>add_tool\<close> is the server's.\<close>

definition register_to_mcp_server ::
    "('r \<Rightarrow> string \<Rightarrow> string \<Rightarrow> ('s \<Rightarrow> pydict \<Rightarrow> 's \<times> (exn + string)) \<Rightarrow> exn + 'r) \<Rightarrow> validator \<Rightarrow> registrar_options \<Rightarrow>
     's api \<Rightarrow> (string option \<Rightarrow> exn + spec_corpus) \<Rightarrow> 'r \<Rightarrow> 'r \<times> (exn + 's tool_registration list)" where
  "register_to_mcp_server add_tool validate opts client load r =
     register_management_tools (\<lambda>r t. add_tool r (tr_name t) (tr_description t) (mcp_handler t))
       validate opts client load r"

section \<open>Facts\<close>

declare and_then_Inr [simp] map_sum_Inr [simp]

text \<open>The segments of a path once its dot segments are resolved, as an HTTP client or server may do, and the paths
  below a sandbox in that sense.\<close>

definition resolved :: "string \<Rightarrow> string list" where
  "resolved path = rev (fold (\<lambda>seg acc. if seg = ''.'' then acc else if seg = ''..'' then tl acc else seg # acc)
     (py_split (CHR ''/'') path) [])"

definition in_sandbox :: "string \<Rightarrow> string \<Rightarrow> bool" where
  "in_sandbox sb path = prefix (py_split (CHR ''/'') STORAGE_BASE @ [sb]) (resolved path)"

text \<open>An id that is one segment of a path, whatever resolves it; the resources put ids into paths as they are. The
  inputs of the tools that end up in a path.\<close>

definition plain_id :: "string \<Rightarrow> bool" where
  "plain_id s = (s \<notin> set [[], ''.'', ''..''] \<and> list_all (\<lambda>c. c \<notin> set ''/?#%'') s)"

definition path_inputs :: "string list" where
  "path_inputs = [''slug'', ''agent_slug'', ''app_slug'', ''data_source_id'', ''trigger_id'', ''run_id'', ''connection_id'']"

definition plain_ids :: "pydict \<Rightarrow> bool" where
  "plain_ids d = list_all (\<lambda>k. case dict_get d k of None \<Rightarrow> True | Some v \<Rightarrow> plain_id (py_str v)) path_inputs"

text \<open>The tools that only read, and the two whose route belongs to the user and not to a sandbox.\<close>

definition read_tool :: "string \<Rightarrow> bool" where
  "read_tool name = (prefix ''list_'' name \<or> prefix ''get_'' name)"

definition user_routes :: "(string, string) dict" where
  "user_routes = [(''list_sandboxes'', ''/api/v1/storage/sandboxes''), (''list_api_keys'', ''/api/v1/api-keys'')]"

definition good_request :: "string \<Rightarrow> string \<Rightarrow> pydict \<Rightarrow> api_call \<Rightarrow> bool" where
  "good_request name sb d c =
     ((read_tool name \<longrightarrow> opt_method (call_options c) = ''GET'') \<and>
      (case dict_get user_routes name of
         Some route \<Rightarrow> call_path c = route
       | None \<Rightarrow> plain_id sb \<and> plain_ids d \<longrightarrow> in_sandbox sb (call_path c)))"

lemma plain_id_split [simp]: "plain_id s \<Longrightarrow> py_split (CHR ''/'') s = [s]"
  "plain_id s \<Longrightarrow> py_split (CHR ''/'') (s @ CHR ''/'' # t) = s # py_split (CHR ''/'') t"
  by (intro py_split_no_sep py_split_append; auto simp: plain_id_def list_all_iff)+

lemma plain_id_kept [simp]: "plain_id s \<Longrightarrow> s \<noteq> []" "plain_id s \<Longrightarrow> s \<noteq> ''.''" "plain_id s \<Longrightarrow> s \<noteq> ''..''"
  by (auto simp: plain_id_def)

lemma text_arg_Inr: "text_arg d k = Inr t \<longleftrightarrow> (\<exists>v. dict_get d k = Some v \<and> t = py_str v)"
  by (auto simp: text_arg_def need_key_def split: option.splits)

lemma plain_ids_get [simp]: "plain_ids d \<Longrightarrow> dict_get d k = Some v \<Longrightarrow> k \<in> set path_inputs \<Longrightarrow> plain_id (py_str v)"
  unfolding plain_ids_def list_all_iff by fastforce

lemmas request_methods = base_get_def base_post_def base_patch_def base_delete_def

lemmas request_paths = sources_base_def source_path_def agents_base_def agent_path_def trigger_path_def
  connections_path_def sandbox_path_def integrations_base_def STORAGE_BASE_def sandboxes_list_def

lemmas source_requests = sources_list_def sources_retrieve_def sources_register_def sources_update_def sources_purge_def
  connect_linear_def register_user_mcp_def test_user_mcp_def revoke_user_mcp_def connections_create_def
  connections_list_def connections_revoke_def integrations_catalog_def integrations_list_accounts_def
  integrations_connect_def api_keys_list_def

lemmas agent_requests = agents_list_def agents_retrieve_def agents_create_def agents_update_def
  update_tool_sources_def update_model_settings_def wire_integration_def triggers_list_def triggers_create_def
  triggers_update_by_id_def list_runs_def get_run_def list_trigger_components_def list_tools_def

lemmas source_tools = list_sandboxes_tool_def list_sources_tool_def get_source_tool_def provision_source_tool_def
  update_source_tool_def purge_source_context_tool_def connect_linear_tool_def add_user_mcp_source_tool_def
  test_user_mcp_source_tool_def revoke_user_mcp_source_tool_def grant_sandbox_connection_tool_def
  list_sandbox_connections_tool_def revoke_sandbox_connection_tool_def list_apps_tool_def
  list_connected_accounts_tool_def start_integration_connect_tool_def list_api_keys_tool_def

lemmas agent_tools = list_agents_tool_def get_agent_management_tool_def create_agent_tool_def update_agent_prompt_tool_def
  update_agent_tools_tool_def update_agent_tool_sources_tool_def update_agent_model_settings_tool_def
  wire_integration_to_agent_tool_def list_triggers_tool_def create_trigger_tool_def pause_trigger_tool_def
  resume_trigger_tool_def status_trigger_def update_trigger_tool_def list_runs_tool_def get_run_trace_tool_def
  list_trigger_components_tool_def list_agent_tools_tool_def

definition good_handler :: "string \<times> handler \<Rightarrow> bool" where
  "good_handler nh = (\<forall>sb d c. h_request (snd nh) sb d = Inr c \<longrightarrow> good_request (fst nh) sb d c)"

lemma all_handlers_good: "list_all good_handler TOOL_HANDLERS"
  unfolding TOOL_HANDLERS_def
  by (auto simp: good_handler_def good_request_def user_routes_def in_sandbox_def resolved_def path_inputs_def text_arg_Inr
      read_tool_def source_tools agent_tools source_requests agent_requests request_paths request_methods Let_def)

lemma good_handler: "dict_get TOOL_HANDLERS name = Some h \<Longrightarrow> h_request h sb d = Inr c \<Longrightarrow> good_request name sb d c"
  using list_all_dict_get [OF all_handlers_good] by (auto simp: good_handler_def)

text \<open>The tools that return an object of a result class.\<close>

definition object_tools :: "string list" where
  "object_tools = [''add_user_mcp_source'', ''test_user_mcp_source'', ''revoke_user_mcp_source'', ''wire_integration_to_agent'']"

fun kind_of_tool :: "string \<Rightarrow> tool_value \<Rightarrow> bool" where
  "kind_of_tool name (Plain v) = (name \<notin> set object_tools)"
| "kind_of_tool name (Wired w) = (name = ''wire_integration_to_agent'')"
| "kind_of_tool name (UserMcp r) = (name \<in> set object_tools \<and> name \<noteq> ''wire_integration_to_agent'')"

definition result_kind :: "string \<times> handler \<Rightarrow> bool" where
  "result_kind nh = (\<forall>d v r. h_result (snd nh) d v = Inr r \<longrightarrow> kind_of_tool (fst nh) r)"

lemma all_result_kinds: "list_all result_kind TOOL_HANDLERS"
  unfolding TOOL_HANDLERS_def
  by (auto simp: result_kind_def object_tools_def source_tools agent_tools user_mcp_response_def connections_rows_def
      keys_listing_def tools_listing_def Let_def)

lemma result_kind:
  "dict_get TOOL_HANDLERS name = Some h \<Longrightarrow> h_result h d v = Inr r \<Longrightarrow> kind_of_tool name r"
  using list_all_dict_get [OF all_result_kinds] by (auto simp: result_kind_def)

lemma mcp_text_decodes:
  "loads (mcp_text (UserMcp r)) = Inr (PStr (user_mcp_repr r))" "loads (mcp_text (Wired w)) = Inr (PStr (wire_repr w))"
  using loads_dumps [of "PStr (user_mcp_repr r)"] loads_dumps [of "PStr (wire_repr w)"] by simp_all

section \<open>The corpus\<close>

text \<open>Specs are kept under their own names, and their schemas are free of metadata at every depth.\<close>

fun meta_free :: "pyval \<Rightarrow> bool" where
  "meta_free (PDict d) = list_all (\<lambda>(k, v). k \<notin> set JSON_SCHEMA_META_KEYS \<and> meta_free v) d"
| "meta_free (PList vs) = list_all meta_free vs"
| "meta_free v = True"

lemma meta_free_strip: "meta_free (strip_json_schema_meta v)"
  by (induction v rule: strip_json_schema_meta.induct) (auto simp: list_all_iff)

definition corpus_ok :: "(string, management_spec) dict \<Rightarrow> bool" where
  "corpus_ok specs = (dict_ok specs \<and> list_all (\<lambda>(k, sp). ms_name sp = k \<and> meta_free (ms_input_schema sp) \<and>
     meta_free (ms_output_schema sp)) specs)"

lemma spec_from_json_meta_free:
  "spec_from_json v = Inr sp \<Longrightarrow> meta_free (ms_input_schema sp) \<and> meta_free (ms_output_schema sp)"
  by (auto simp: spec_from_json_def meta_free_strip simp del: strip_json_schema_meta.simps
      split: pyval.splits option.splits if_splits)

lemma corpus_ok_set:
  "corpus_ok specs \<Longrightarrow> meta_free (ms_input_schema sp) \<Longrightarrow> meta_free (ms_output_schema sp) \<Longrightarrow>
    corpus_ok (dict_set (ms_name sp) sp specs)"
  by (auto simp: corpus_ok_def list_all_iff dest!: set_dict_set)

lemma load_specs_ok: "load_specs files specs = Inr specs' \<Longrightarrow> corpus_ok specs \<Longrightarrow> corpus_ok specs'"
  by (induction files specs rule: load_specs.induct)
    (auto intro: corpus_ok_set dest: spec_from_json_meta_free split: sum.splits)

lemma load_management_specs_ok:
  assumes "load_management_specs resolve folder_at places dir = Inr corpus"
  shows "corpus_ok (sc_specs corpus)"
proof -
  obtain root where r: "(case folder_at root of
         None \<Rightarrow> Inl (OtherError ''NotADirectoryError'' (''load_management_specs: '' @ root @ '' is not a directory''))
       | Some folder \<Rightarrow>
           and_then (load_specs (iter_specs folder) []) (\<lambda>specs.
             map_sum id (\<lambda>fixtures. \<lparr>sc_spec_dir = root, sc_specs = specs, sc_fixtures = fixtures\<rparr>)
               (case sf_examples folder of
                  None \<Rightarrow> Inr []
                | Some files \<Rightarrow> load_fixtures (sort_key fst files) []))) = Inr corpus"
    using assms unfolding load_management_specs_def and_then_Inr by blast
  then obtain folder where "load_specs (iter_specs folder) [] = Inr (sc_specs corpus)"
    by (cases "folder_at root") auto
  then show ?thesis by (rule load_specs_ok) (simp add: corpus_ok_def)
qed

lemma corpus_name: "corpus_ok specs \<Longrightarrow> dict_get specs name = Some sp \<Longrightarrow> ms_name sp = name"
  using list_all_dict_get [of _ specs] unfolding corpus_ok_def by fastforce

section \<open>Registrations\<close>

definition handled :: "string \<Rightarrow> bool" where
  "handled name = (dict_get TOOL_HANDLERS name \<noteq> None)"

text \<open>The names that get a registration: all that have a handler, or those before the first that has none.\<close>

definition registered_names :: "registrar_options \<Rightarrow> string list \<Rightarrow> string list" where
  "registered_names opts names = (if ro_allow_missing_handlers opts then filter handled names else takeWhile handled names)"

lemma registered_names_simps [simp]:
  "registered_names opts [] = []"
  "registered_names opts (n # ns) =
     (if handled n then n # registered_names opts ns
      else if ro_allow_missing_handlers opts then registered_names opts ns else [])"
  by (simp_all add: registered_names_def)

lemma register_all_outcome:
  assumes "set names \<subseteq> set (map fst specs)"
  shows "\<exists>ts. register_all (\<lambda>r t. Inr (r @ [t])) validate opts client specs names r acc =
      (r @ ts, case find (\<lambda>n. \<not> handled n) names of
                 None \<Rightarrow> Inr (acc @ ts)
               | Some n \<Rightarrow> if ro_allow_missing_handlers opts then Inr (acc @ ts) else Inl (no_handler n)) \<and>
    ts = map (\<lambda>n. registration_of validate opts client (the (dict_get specs n)) (the (dict_get TOOL_HANDLERS n)))
           (registered_names opts names)"
  using assms
proof (induction names arbitrary: r acc)
  case (Cons n names)
  then obtain sp where sp: "dict_get specs n = Some sp" by (cases "dict_get specs n") (auto simp: map_of_eq_None_iff)
  show ?case
  proof (cases "dict_get TOOL_HANDLERS n")
    case None
    then show ?thesis using sp Cons.IH [of r acc] Cons.prems by (auto simp: handled_def split: option.split)
  next
    case (Some h)
    let ?t = "registration_of validate opts client sp h"
    show ?thesis using sp Some Cons.IH [of "r @ [?t]" "acc @ [?t]"] Cons.prems
      by (auto simp: handled_def Let_def split: option.split)
  qed
qed simp

lemma register_all_members:
  "register_all reg validate opts client specs names r acc = (r', Inr ts) \<Longrightarrow> t \<in> set ts \<Longrightarrow>
    t \<in> set acc \<or> (\<exists>name sp h. dict_get specs name = Some sp \<and> dict_get TOOL_HANDLERS name = Some h \<and>
      t = registration_of validate opts client sp h)"
proof (induction reg validate opts client specs names r acc rule: register_all.induct)
  case (2 reg validate opts client specs name names r acc)
  show ?case
  proof (cases "dict_get specs name")
    case None
    then show ?thesis using 2 by simp
  next
    case sp: (Some sp)
    show ?thesis
    proof (cases "dict_get TOOL_HANDLERS name")
      case None
      then show ?thesis using 2 sp by (simp split: if_splits)
    next
      case (Some h)
      then show ?thesis using 2 sp by (auto simp: Let_def split: sum.splits)
    qed
  qed
qed simp

lemma registered_is:
  assumes "register_management_tools reg validate opts client (load_management_specs resolve folder_at places) r = (r', Inr ts)"
    "t \<in> set ts"
  obtains sp h where "dict_get TOOL_HANDLERS (ms_name sp) = Some h" "t = registration_of validate opts client sp h"
proof -
  obtain corpus where c: "load_management_specs resolve folder_at places (ro_spec_dir opts) = Inr corpus"
    "register_all reg validate opts client (sc_specs corpus) (sort (map fst (sc_specs corpus))) r [] = (r', Inr ts)"
    using assms(1) by (auto simp: register_management_tools_def split: sum.splits)
  show thesis
    using register_all_members [OF c(2) assms(2)] corpus_name [OF load_management_specs_ok [OF c(1)]] that by auto
qed

lemma wrapped_calls:
  assumes "dict_get TOOL_HANDLERS (ms_name sp) = Some h" "wrapped validate co sp h (logged api) sb (l, s) raw = ((l', s'), out)"
    "validate (ms_input_schema sp) (Plain (PDict (payload_of raw))) = None"
  shows "(l', s') = (l, s) \<and> (\<exists>e. out = Inl e) \<or>
    (\<exists>c. good_request (ms_name sp) sb (payload_of raw) c \<and> l' = l @ [c] \<and> s' = fst (api s c))"
proof (cases "h_request h sb (payload_of raw)")
  case (Inl e)
  then show ?thesis using assms by (auto simp: wrapped_def call_handler_def)
next
  case (Inr c)
  then have "good_request (ms_name sp) sb (payload_of raw) c" by (rule good_handler [OF assms(1)])
  with Inr assms(2,3) show ?thesis
    by (auto simp: wrapped_def call_handler_def logged_simp split: sum.splits option.splits prod.splits)
qed

lemma call_handler_result:
  "call_handler h api s sb d = (s', Inr r) \<Longrightarrow> \<exists>resp. h_result h d resp = Inr r"
  by (auto simp: call_handler_def split: sum.splits prod.splits)

lemma wrapped_result:
  "wrapped validate co sp h api sb s raw = (s', Inr r) \<Longrightarrow> \<exists>resp. h_result h (payload_of raw) resp = Inr r"
  by (auto simp: wrapped_def split: option.splits sum.splits prod.splits dest: call_handler_result)

end
