(* ===== verification/PropertiesManagement.thy ===== *)
theory PropertiesManagement
  imports ManagementSpecs
begin

text \<open>
  The properties of the management tools: what a registered tool may send, which tools a corpus registers, and
  what an MCP client reads of a result. A corpus of two specs serves the witnesses.
\<close>

section \<open>Properties\<close>

text \<open>Claim C37. A registered tool sends nothing unless its input passes the validator of its schema, and then at
  most one request; without a request the tool raises. The tools that list or get only read. The request of
  \<open>list_sandboxes\<close> and of \<open>list_api_keys\<close> goes to the user's own route; every other goes below the registrar's
  sandbox, dot segments resolved, provided the ids in the input are plain: the resources put them into
  the path as they are, and \<open>dots_leave_sandbox\<close> shows what another id does.\<close>

theorem management_tools_stay_in_sandbox:
  assumes "register_management_tools reg validate opts (logged api) (load_management_specs resolve folder_at places) r = (r', Inr ts)"
    and "t \<in> set ts" and "tr_handler t (l, s) raw = ((l', s'), out)"
  shows "case validate (tr_input_schema t) (Plain (PDict (payload_of raw))) of
           Some e \<Rightarrow> l' = l \<and> s' = s \<and> out = Inl e
         | None \<Rightarrow> l' = l \<and> s' = s \<and> (\<exists>e. out = Inl e) \<or>
             (\<exists>c. l' = l @ [c] \<and> s' = fst (api s c) \<and>
                (read_tool (tr_name t) \<longrightarrow> opt_method (call_options c) = ''GET'') \<and>
                (case dict_get user_routes (tr_name t) of
                   Some route \<Rightarrow> call_path c = route
                 | None \<Rightarrow> plain_id (ro_sandbox_id opts) \<and> plain_ids (payload_of raw) \<longrightarrow>
                     in_sandbox (ro_sandbox_id opts) (call_path c)))"
proof -
  obtain sp h where h: "dict_get TOOL_HANDLERS (ms_name sp) = Some h" "t = registration_of validate opts (logged api) sp h"
    using registered_is [OF assms(1,2)] .
  then have w: "wrapped validate (ro_validate_output opts) sp h (logged api) (ro_sandbox_id opts) (l, s) raw = ((l', s'), out)"
    using assms(3) by (simp add: registration_of_def)
  show ?thesis
  proof (cases "validate (ms_input_schema sp) (Plain (PDict (payload_of raw)))")
    case None
    with wrapped_calls [OF h(1) w] h(2) show ?thesis by (auto simp: registration_of_def good_request_def)
  next
    case (Some e)
    with w h(2) show ?thesis by (auto simp: wrapped_def registration_of_def)
  qed
qed

text \<open>Claim C39. What a loaded corpus registers: in the order of their names, each once, the tools that have a
  handler when missing handlers are allowed, and otherwise those before the first that has none, for which the
  registrar then raises. Each carries the name and the schemas of its spec, free of metadata at
  every depth.\<close>

theorem registrations_in_order:
  assumes "load_management_specs resolve folder_at places (ro_spec_dir opts) = Inr corpus"
  shows "let names = sort (map fst (sc_specs corpus)); missing = find (\<lambda>n. \<not> handled n) names
         in sorted_wrt (<) names \<and>
            (\<exists>ts. register_management_tools (\<lambda>r t. Inr (r @ [t])) validate opts client
                (load_management_specs resolve folder_at places) r =
                (r @ ts, if missing = None \<or> ro_allow_missing_handlers opts then Inr ts else Inl (no_handler (the missing))) \<and>
              map tr_name ts = registered_names opts names \<and>
              list_all (\<lambda>t. tr_spec t = the (dict_get (sc_specs corpus) (tr_name t)) \<and>
                meta_free (tr_input_schema t) \<and> meta_free (tr_output_schema t)) ts)"
proof -
  let ?specs = "sc_specs corpus"
  let ?names = "sort (map fst ?specs)"
  let ?reg = "\<lambda>n. registration_of validate opts client (the (dict_get ?specs n)) (the (dict_get TOOL_HANDLERS n))"
  have ok: "corpus_ok ?specs" using assms by (rule load_management_specs_ok)
  then have s: "sorted_wrt (<) ?names" by (simp add: corpus_ok_def strict_sorted_iff)
  have "set (registered_names opts ?names) \<subseteq> set ?names"
    by (auto simp: registered_names_def dest: set_takeWhileD)
  then have known: "\<exists>sp. dict_get ?specs n = Some sp" if "n \<in> set (registered_names opts ?names)" for n
    using that by (cases "dict_get ?specs n") (auto simp: map_of_eq_None_iff)
  have good: "ms_name (the (dict_get ?specs n)) = n \<and> meta_free (ms_input_schema (the (dict_get ?specs n))) \<and>
      meta_free (ms_output_schema (the (dict_get ?specs n)))" if "n \<in> set (registered_names opts ?names)" for n
    using list_all_dict_get [of _ ?specs n] known [OF that] ok by (fastforce simp: corpus_ok_def)
  have n: "map tr_name (map ?reg (registered_names opts ?names)) = registered_names opts ?names"
    using good by (auto simp: registration_of_def intro!: map_idI)
  have a: "list_all (\<lambda>t. tr_spec t = the (dict_get ?specs (tr_name t)) \<and>
      meta_free (tr_input_schema t) \<and> meta_free (tr_output_schema t)) (map ?reg (registered_names opts ?names))"
    using good by (auto simp: list_all_iff registration_of_def)
  show ?thesis
    using register_all_outcome [of ?names ?specs validate opts client r "[]"] s n a assms
    by (auto simp: Let_def register_management_tools_def split: option.split)
qed

text \<open>Claim C38. What an MCP client reads of a tool's result: a text as it is, any other JSON value as its
  encoding, which decodes to it; but for the four tools that return an instance of a result class a JSON string
  that decodes to that instance's \<open>repr\<close>, never to an object.\<close>

theorem mcp_results:
  assumes "register_management_tools reg validate opts client (load_management_specs resolve folder_at places) r = (r', Inr ts)"
    and "t \<in> set ts" and "mcp_handler t s kwargs = (s', Inr u)"
  shows "\<exists>x. tr_handler t s (Some kwargs) = (s', Inr x) \<and>
    (if tr_name t = ''wire_integration_to_agent'' then \<exists>w. x = Wired w \<and> loads u = Inr (PStr (wire_repr w))
     else if tr_name t \<in> set object_tools then \<exists>m. x = UserMcp m \<and> loads u = Inr (PStr (user_mcp_repr m))
     else \<exists>v. x = Plain v \<and>
       (case as_str v of Some text \<Rightarrow> u = text | None \<Rightarrow> u = dumps v \<and> (json_wf v \<longrightarrow> loads u = Inr (plain v))))"
proof -
  obtain sp h where h: "dict_get TOOL_HANDLERS (ms_name sp) = Some h" "t = registration_of validate opts client sp h"
    using registered_is [OF assms(1,2)] .
  obtain x where x: "tr_handler t s (Some kwargs) = (s', Inr x)" "u = mcp_text x"
    using assms(3) by (auto simp: mcp_handler_def split: prod.splits)
  obtain resp where "h_result h (payload_of (Some kwargs)) resp = Inr x"
    using x(1) h(2) wrapped_result by (fastforce simp: registration_of_def)
  then have k: "kind_of_tool (tr_name t) x"
    using result_kind [OF h(1)] h(2) by (simp add: registration_of_def)
  show ?thesis
  proof (cases x)
    case (Plain v)
    then show ?thesis using k x loads_dumps [of v] by (auto simp: object_tools_def split: option.split)
  qed (use k x mcp_text_decodes in \<open>auto simp: object_tools_def\<close>)
qed

definition ex_spec_json :: "string \<Rightarrow> string \<Rightarrow> pyval" where
  "ex_spec_json name key = PDict [(''name'', PStr name), (''description'', PStr ''d''),
     (''inputSchema'', PDict [(''$schema'', PStr ''s''), (''required'', PList [PStr key])]),
     (''outputSchema'', PDict []), (''since'', PStr ''v1'')]"

definition ex_folder :: spec_folder where
  "ex_folder = \<lparr>sf_files = [(''test_user_mcp_source.json'', dumps (ex_spec_json ''test_user_mcp_source'' ''data_source_id'')),
     (''get_agent.json'', dumps (ex_spec_json ''get_agent'' ''slug'')), (''README.md'', [])], sf_examples = None\<rparr>"

definition ex_load :: "string option \<Rightarrow> exn + spec_corpus" where
  "ex_load = load_management_specs id (\<lambda>p. Some ex_folder) \<lparr>sp_env = None, sp_bundled = Some ''v1'', sp_source = None\<rparr>"

definition ex_spec :: "string \<Rightarrow> string \<Rightarrow> management_spec" where
  "ex_spec name key = \<lparr>ms_name = name, ms_description = ''d'', ms_input_schema = PDict [(''required'', PList [PStr key])],
     ms_output_schema = PDict [], ms_since = ''v1''\<rparr>"

lemma ex_load: "ex_load None = Inr \<lparr>sc_spec_dir = ''v1'', sc_specs = [(''get_agent'', ex_spec ''get_agent'' ''slug''),
    (''test_user_mcp_source'', ex_spec ''test_user_mcp_source'' ''data_source_id'')], sc_fixtures = []\<rparr>"
  by code_simp

text \<open>A validator that knows one keyword, and a service that counts its calls.\<close>

definition ex_validate :: validator where
  "ex_validate schema v =
     (case (schema, v) of
        (PDict sc, Plain (PDict d)) \<Rightarrow>
          (case get_or sc ''required'' (PList []) of
             PList [PStr k] \<Rightarrow> if dict_get d k = None then Some (OtherError ''ValidationError'' (repr_str k)) else None
           | _ \<Rightarrow> None)
      | _ \<Rightarrow> Some (OtherError ''ValidationError'' []))"

definition ex_service :: "nat api" where
  "ex_service n c = (Suc n, Inr (PDict [(''status'', PStr ''active'')]))"

definition ex_opts :: registrar_options where
  "ex_opts = \<lparr>ro_sandbox_id = ''s1'', ro_spec_dir = None, ro_validate_output = False, ro_allow_missing_handlers = False\<rparr>"

definition ex_get_agent :: "'s api \<Rightarrow> 's tool_registration" where
  "ex_get_agent client = registration_of ex_validate ex_opts client (ex_spec ''get_agent'' ''slug'') get_agent_management_tool"

definition ex_test_source :: "'s api \<Rightarrow> 's tool_registration" where
  "ex_test_source client =
     registration_of ex_validate ex_opts client (ex_spec ''test_user_mcp_source'' ''data_source_id'') test_user_mcp_source_tool"

lemma ex_registered:
  "register_management_tools (\<lambda>r t. Inr (r @ [t])) ex_validate ex_opts client
     (load_management_specs id (\<lambda>p. Some ex_folder) \<lparr>sp_env = None, sp_bundled = Some ''v1'', sp_source = None\<rparr>) [] =
   ([ex_get_agent client, ex_test_source client], Inr [ex_get_agent client, ex_test_source client])"
proof -
  have s: "sort [''get_agent'', ''test_user_mcp_source''] = [''get_agent'', ''test_user_mcp_source'']" by code_simp
  show ?thesis using ex_load
    by (simp add: register_management_tools_def ex_load_def ex_opts_def s ex_get_agent_def ex_test_source_def
        TOOL_HANDLERS_def Let_def)
qed

definition ex_trace_call :: api_call where
  "ex_trace_call = agents_retrieve ''s1'' ''a''"

theorem management_tools_stay_in_sandbox_witness:
  "in_sandbox ''s1'' (call_path ex_trace_call) \<and> opt_method (call_options ex_trace_call) = ''GET'' \<and>
   fst (tr_handler (ex_get_agent (logged ex_service)) ([], 0) (Some [(''slug'', PStr ''a'')])) = ([ex_trace_call], 1) \<and>
   tr_handler (ex_get_agent (logged ex_service)) ([], 0) None =
     (([], 0), Inl (OtherError ''ValidationError'' (repr_str ''slug'')))"
proof -
  have t: "ex_get_agent (logged ex_service) \<in> set [ex_get_agent (logged ex_service), ex_test_source (logged ex_service)]"
    by simp
  have one: "tr_handler (ex_get_agent (logged ex_service)) ([], 0) (Some [(''slug'', PStr ''a'')]) =
      (([ex_trace_call], 1), Inr (Plain (PDict [(''status'', PStr ''active'')])))"
    by code_simp
  have none: "tr_handler (ex_get_agent (logged ex_service)) ([], 0) None =
      (([], 0), Inl (OtherError ''ValidationError'' (repr_str ''slug'')))"
    by code_simp
  have v: "ex_validate (tr_input_schema (ex_get_agent (logged ex_service))) (Plain (PDict (payload_of (Some [(''slug'', PStr ''a'')])))) = None"
    by code_simp
  have ids: "plain_id ''s1'' \<and> plain_ids (payload_of (Some [(''slug'', PStr ''a'')]))" by code_simp
  show ?thesis
    using management_tools_stay_in_sandbox [OF ex_registered t one] one none v ids
    by (simp add: ex_get_agent_def registration_of_def ex_spec_def ex_opts_def user_routes_def read_tool_def)
qed

text \<open>An id with dot segments passes the schema of \<open>get_agent\<close>, which asks for a text only, and reads another sandbox once
  the path is resolved.\<close>

lemma dots_leave_sandbox:
  "let raw = [(''slug'', PStr ''../../s2/agents/a'')];
       sent = fst (fst (tr_handler (ex_get_agent (logged ex_service)) ([], 0) (Some raw)))
   in map (\<lambda>c. resolved (call_path c)) sent = [resolved (call_path (agents_retrieve ''s2'' ''a''))] \<and>
      list_all (\<lambda>c. \<not> in_sandbox ''s1'' (call_path c)) sent"
  by code_simp

theorem registrations_in_order_witness:
  "\<exists>ts. register_management_tools (\<lambda>r t. Inr (r @ [t])) ex_validate ex_opts ex_service
       (load_management_specs id (\<lambda>p. Some ex_folder) \<lparr>sp_env = None, sp_bundled = Some ''v1'', sp_source = None\<rparr>) [] =
     (ts, Inr ts) \<and> map tr_name ts = [''get_agent'', ''test_user_mcp_source'']"
proof -
  have s: "sort [''get_agent'', ''test_user_mcp_source''] = [''get_agent'', ''test_user_mcp_source'']" by code_simp
  have h: "handled ''get_agent''" "handled ''test_user_mcp_source''" by (simp_all add: handled_def TOOL_HANDLERS_def)
  have c: "load_management_specs id (\<lambda>p. Some ex_folder) \<lparr>sp_env = None, sp_bundled = Some ''v1'', sp_source = None\<rparr> (ro_spec_dir ex_opts) =
      Inr \<lparr>sc_spec_dir = ''v1'', sc_specs = [(''get_agent'', ex_spec ''get_agent'' ''slug''),
        (''test_user_mcp_source'', ex_spec ''test_user_mcp_source'' ''data_source_id'')], sc_fixtures = []\<rparr>"
    using ex_load by (simp add: ex_load_def ex_opts_def)
  show ?thesis using registrations_in_order [OF c, of ex_validate ex_service "[]"] s h by (auto simp: Let_def)
qed

theorem mcp_results_witness:
  "\<exists>u m. mcp_handler (ex_test_source ex_service) 0 [(''data_source_id'', PStr ''d'')] = (1, Inr u) \<and>
     tr_handler (ex_test_source ex_service) 0 (Some [(''data_source_id'', PStr ''d'')]) = (1, Inr (UserMcp m)) \<and>
     loads u = Inr (PStr (user_mcp_repr m))"
proof -
  have t: "ex_test_source ex_service \<in> set [ex_get_agent ex_service, ex_test_source ex_service]" by simp
  obtain u where u: "mcp_handler (ex_test_source ex_service) 0 [(''data_source_id'', PStr ''d'')] = (1, Inr u)"
    by (simp add: mcp_handler_def ex_test_source_def registration_of_def wrapped_def ex_validate_def ex_spec_def
        ex_opts_def payload_of_def call_handler_def test_user_mcp_source_tool_def text_arg_def need_key_def
        ex_service_def user_mcp_response_def need_dict_def get_or_def)
  show ?thesis
    using mcp_results [OF ex_registered t u] u
    by (auto simp: ex_test_source_def registration_of_def ex_spec_def object_tools_def)
qed

end
