(* ===== verification/RedactionLint.thy ===== *)
theory RedactionLint
  imports Json PyFormat
begin

text \<open>
  The redaction lint (\<open>scripts/lint_redaction.py\<close>): every string of every spec is searched for vendor names.
  A root is missing, a file, or a folder; a folder is the list of the paths below it that end in \<open>.json\<close>, as
  their parts, each with its text or what reading it raises. An uncaught exception ends the
  process with status 1, and so does a \<open>SystemExit\<close> that carries a text.
\<close>

section \<open>Strings of a document\<close>

definition REDACTION_WORDLIST :: "string list" where
  "REDACTION_WORDLIST = [''Pipedream'', ''Scalekit'', ''Highway'', ''Olane internal'', ''vault'', ''MotherDuck'']"

record violation =
  vi_file :: "string list"
  vi_json_path :: string
  vi_term :: string
  vi_snippet :: string

definition path_text :: "string list \<Rightarrow> string" where
  "path_text parts = concat (map (\<lambda>p. CHR ''/'' # p) parts)"

definition render :: "violation \<Rightarrow> string" where
  "render v = path_text (vi_file v) @ '': '' @ vi_json_path v @ '': contains forbidden term '' @ repr_str (vi_term v) @
     nl # ''    '' @ vi_snippet v"

lemma enumerate_size [termination_simp]:
  assumes "(i, v) \<in> set (enumerate n vs)"
  shows "size v < Suc (size_list size vs)"
proof -
  have "v \<in> set vs" using assms by (auto simp: in_set_enumerate_eq)
  then show ?thesis using size_list_estimation' [of v vs "size v" size] by simp
qed

fun iter_strings :: "pyval \<Rightarrow> string \<Rightarrow> (string \<times> string) list" where
  "iter_strings (PStr s) path = [(path, s)]"
| "iter_strings (PDict d) path =
     concat (map (\<lambda>(k, v). iter_strings v (if path = [] then k else path @ CHR ''.'' # k)) d)"
| "iter_strings (PList vs) path =
     concat (map (\<lambda>(i, v). iter_strings v (path @ CHR ''['' # dec_nat i @ '']'')) (enumerate 0 vs))"
| "iter_strings _ path = []"

text \<open>\<open>str.lower\<close> on the model's characters.\<close>

definition lower_char :: "char \<Rightarrow> char" where
  "lower_char c = (if 192 \<le> code c \<and> code c \<le> 222 \<and> code c \<noteq> 215 then char_of (code c + 32) else ascii_lower c)"

definition py_lower :: "string \<Rightarrow> string" where
  "py_lower s = map lower_char s"

definition snippet_of :: "string \<Rightarrow> string" where
  "snippet_of value = (if length value \<le> 160 then value else take 157 value @ ''...'')"

definition forbidden_in :: "string \<Rightarrow> string list" where
  "forbidden_in value = filter (\<lambda>term. contains_sub (py_lower term) (py_lower value)) REDACTION_WORDLIST"

definition document_violations :: "string list \<Rightarrow> pyval \<Rightarrow> violation list" where
  "document_violations file document =
     concat (map (\<lambda>(json_path, value).
         map (\<lambda>term. \<lparr>vi_file = file, vi_json_path = (if json_path = [] then ''<root>'' else json_path),
             vi_term = term, vi_snippet = snippet_of value\<rparr>) (forbidden_in value))
       (iter_strings document []))"

section \<open>The walk\<close>

text \<open>\<open>json.loads\<close>; what its error says is left out of the message.\<close>

definition system_exit :: "string \<Rightarrow> exn" where
  "system_exit m = OtherError ''SystemExit'' m"

definition scan_file :: "string list \<Rightarrow> exn + string \<Rightarrow> exn + violation list" where
  "scan_file file content =
     (case content of
        Inl e \<Rightarrow> Inl e
      | Inr t \<Rightarrow>
          (case loads t of
             Inl e \<Rightarrow> Inl (system_exit (''lint_redaction: failed to parse '' @ path_text file @ '': ''))
           | Inr document \<Rightarrow> Inr (document_violations file document)))"

datatype lint_root = NoRoot | FileRoot | FolderRoot "(string list \<times> (exn + string)) list"

definition walk_specs :: "string \<Rightarrow> lint_root \<Rightarrow> exn + (string list \<times> (exn + string)) list" where
  "walk_specs name root =
     (case root of
        NoRoot \<Rightarrow> Inl (system_exit (''lint_redaction: spec root does not exist: '' @ name))
      | FileRoot \<Rightarrow> Inl (system_exit (''lint_redaction: spec root is not a directory: '' @ name))
      | FolderRoot files \<Rightarrow> Inr (sort_key fst files))"

definition lint :: "string \<Rightarrow> lint_root \<Rightarrow> exn + violation list" where
  "lint name root =
     (case walk_specs name root of
        Inl e \<Rightarrow> Inl e
      | Inr files \<Rightarrow> map_sum id concat (try_map (\<lambda>(file, content). scan_file file content) files))"

definition lint_target :: "(string \<Rightarrow> string) \<Rightarrow> string \<Rightarrow> string list \<Rightarrow> string" where
  "lint_target resolve default_root argv = (case argv of [prog, r] \<Rightarrow> resolve r | _ \<Rightarrow> default_root)"

text \<open>\<open>main\<close>: the exit code and what was printed. The root at a resolved path is a parameter.\<close>

definition lint_main :: "(string \<Rightarrow> string) \<Rightarrow> string \<Rightarrow> (string \<Rightarrow> lint_root) \<Rightarrow> string list \<Rightarrow> exn + int \<times> string list" where
  "lint_main resolve default_root root_at argv =
     (if length argv > 2 then Inr (2, [''usage: lint_redaction.py [SPEC_ROOT]''])
      else let root = lint_target resolve default_root argv
           in case lint root (root_at root) of
                Inl e \<Rightarrow> Inl e
              | Inr violations \<Rightarrow>
                  (if violations = [] then Inr (0, [''lint_redaction: clean ('' @ root @ '')''])
                   else Inr (1, (''lint_redaction: '' @ dec_nat (length violations) @ '' violation(s) in '' @ root) #
                          map render violations)))"

definition exit_status :: "exn + int \<times> string list \<Rightarrow> int" where
  "exit_status r = (case r of Inl e \<Rightarrow> 1 | Inr (n, out) \<Rightarrow> n)"

section \<open>Facts\<close>

text \<open>The strings of a document, without their paths.\<close>

fun texts_of :: "pyval \<Rightarrow> string set" where
  "texts_of (PStr s) = {s}"
| "texts_of (PDict d) = (\<Union>(k, v) \<in> set d. texts_of v)"
| "texts_of (PList vs) = (\<Union>v \<in> set vs. texts_of v)"
| "texts_of _ = {}"

lemma set_enumerate: "snd ` set (enumerate n vs) = set vs"
  using map_snd_enumerate [of n vs] by (metis list.set_map)

lemma strings_texts: "snd ` set (iter_strings v path) = texts_of v"
proof (induction v path rule: iter_strings.induct)
  case (2 d path)
  have "snd ` set (iter_strings (PDict d) path) =
      (\<Union>(k, v) \<in> set d. snd ` set (iter_strings v (if path = [] then k else path @ CHR ''.'' # k)))"
    by (simp add: image_UN case_prod_beta)
  also have "\<dots> = (\<Union>(k, v) \<in> set d. texts_of v)"
    by (intro SUP_cong refl) (clarsimp simp only: case_prod_conv split: prod.split, rule 2, auto)
  finally show ?case by simp
next
  case (3 vs path)
  have "snd ` set (iter_strings (PList vs) path) =
      (\<Union>(i, v) \<in> set (enumerate 0 vs). snd ` set (iter_strings v (path @ CHR ''['' # dec_nat i @ '']'')))"
    by (simp add: image_UN case_prod_beta del: enumerate_simps)
  also have "\<dots> = (\<Union>iv \<in> set (enumerate 0 vs). texts_of (snd iv))"
    by (intro SUP_cong refl) (clarsimp simp only: case_prod_conv snd_conv split: prod.split, rule 3, auto)
  also have "\<dots> = (\<Union>v \<in> snd ` set (enumerate 0 vs). texts_of v)" by blast
  finally show ?case by (simp add: set_enumerate)
qed simp_all

lemma document_clean: "document_violations file v = [] \<longleftrightarrow> (\<forall>s \<in> texts_of v. forbidden_in s = [])"
  using strings_texts [of v "[]"] by (force simp: document_violations_def)

section \<open>What the exit status says\<close>

definition lint_clean :: "(string list \<times> (exn + string)) list \<Rightarrow> bool" where
  "lint_clean files = (\<forall>(file, content) \<in> set files. \<forall>t document. content = Inr t \<longrightarrow> loads t = Inr document \<longrightarrow>
     (\<forall>s \<in> texts_of document. \<forall>term \<in> set REDACTION_WORDLIST. \<not> contains_sub (py_lower term) (py_lower s)))"

definition readable :: "(string list \<times> (exn + string)) list \<Rightarrow> bool" where
  "readable files = list_all (\<lambda>(file, content). \<exists>t document. content = Inr t \<and> loads t = Inr document) files"

lemma lint_readable:
  assumes "readable files"
  shows "\<exists>vs. lint name (FolderRoot files) = Inr vs \<and> (vs = [] \<longleftrightarrow> lint_clean files)"
proof -
  let ?doc = "\<lambda>content. projr (loads (projr content))"
  let ?scan = "\<lambda>(file, content). document_violations file (?doc content)"
  have "try_map (\<lambda>(file, content). scan_file file content) (sort_key fst files) = Inr (map ?scan (sort_key fst files))"
    using assms by (intro try_map_total) (auto simp: readable_def list_all_iff scan_file_def)
  then have "lint name (FolderRoot files) = Inr (concat (map ?scan (sort_key fst files)))"
    by (simp add: lint_def walk_specs_def)
  moreover have "concat (map ?scan (sort_key fst files)) = [] \<longleftrightarrow> lint_clean files"
    using assms by (fastforce simp: readable_def list_all_iff document_clean lint_clean_def forbidden_in_def filter_empty_conv)
  ultimately show ?thesis by simp
qed

lemma scan_file_reads: "scan_file file content = Inr vs \<Longrightarrow> \<exists>t document. content = Inr t \<and> loads t = Inr document"
  by (auto simp: scan_file_def split: sum.splits)

lemma lint_reads:
  assumes "lint name (FolderRoot files) = Inr vs"
  shows "readable files"
proof -
  obtain ys where "try_map (\<lambda>(file, content). scan_file file content) (sort_key fst files) = Inr ys"
    using assms by (auto simp: lint_def walk_specs_def map_sum_Inr)
  then show ?thesis
    by (fastforce simp: readable_def list_all_iff dest: try_map_each scan_file_reads)
qed

lemma lint_main_status:
  "length argv \<le> 2 \<Longrightarrow> exit_status (lint_main resolve root root_at argv) =
     (case lint (lint_target resolve root argv) (root_at (lint_target resolve root argv)) of
        Inr [] \<Rightarrow> 0 | _ \<Rightarrow> 1)"
  by (auto simp: lint_main_def exit_status_def Let_def split: sum.split list.split)

theorem lint_exit_status:
  "exit_status (lint_main resolve root root_at argv) =
     (if length argv > 2 then 2
      else case root_at (lint_target resolve root argv) of
             FolderRoot files \<Rightarrow> if readable files \<and> lint_clean files then 0 else 1
           | _ \<Rightarrow> 1)"
proof (cases "length argv > 2")
  case False
  let ?root = "lint_target resolve root argv"
  show ?thesis
  proof (cases "root_at ?root")
    case (FolderRoot files)
    show ?thesis
    proof (cases "lint ?root (FolderRoot files)")
      case (Inl e)
      then have "\<not> readable files" using lint_readable [of files ?root] by auto
      with Inl False FolderRoot show ?thesis by (simp add: lint_main_status)
    next
      case (Inr vs)
      with lint_readable [OF lint_reads [OF Inr], of ?root] lint_reads [OF Inr] False FolderRoot show ?thesis
        by (auto simp: lint_main_status split: list.split)
    qed
  qed (use False in \<open>simp_all add: lint_main_status lint_def walk_specs_def\<close>)
qed (simp add: lint_main_def exit_status_def)

end
