(* ===== verification/SpecSync.thy ===== *)
theory SpecSync
  imports PyVal
begin

text \<open>
  The copy of the spec corpus into the package (\<open>copass-management/scripts/sync_spec.py\<close>), over file trees: a file has
  its modification time and its content, a folder its entries by name. What \<open>filecmp.dircmp\<close> compares, and what
  it leaves out, is written out as the standard library does it.
\<close>

datatype fs_node =
    FileNode int string
  | DirNode "(string \<times> fs_node) list"

type_synonym fs_entries = "(string, fs_node) dict"

section \<open>Comparing folders\<close>

text \<open>\<open>filecmp.DEFAULT_IGNORES\<close> and the hidden names: entries of these names are not looked at.\<close>

definition ignored_names :: "string list" where
  "ignored_names = [''RCS'', ''CVS'', ''tags'', ''.git'', ''.hg'', ''.bzr'', ''_darcs'', ''__pycache__'', ''.'', ''..'']"

definition listing :: "fs_entries \<Rightarrow> fs_entries" where
  "listing d = filter (\<lambda>(n, x). n \<notin> set ignored_names) d"

text \<open>\<open>filecmp.cmp\<close>, shallow: equal size and time count as equal.\<close>

definition file_eq :: "int \<Rightarrow> string \<Rightarrow> int \<Rightarrow> string \<Rightarrow> bool" where
  "file_eq m c m' c' =
     (if length c = length c' \<and> m = m' then True else if length c \<noteq> length c' then False else c = c')"

definition left_only :: "fs_entries \<Rightarrow> fs_entries \<Rightarrow> string list" where
  "left_only l r = filter (\<lambda>n. n \<notin> set (dict_keys (listing r))) (dict_keys (listing l))"

text \<open>Names of files on both sides that differ. A name that is a file on one side only is neither here nor
  among the common folders.\<close>

definition diff_files :: "fs_entries \<Rightarrow> fs_entries \<Rightarrow> string list" where
  "diff_files l r = map fst (filter (\<lambda>(n, x).
     case (x, dict_get r n) of (FileNode m c, Some (FileNode m' c')) \<Rightarrow> \<not> file_eq m c m' c' | _ \<Rightarrow> False) (listing l))"

text \<open>One recursive call per common folder.\<close>

fun nodes_match :: "fs_node \<Rightarrow> fs_node \<Rightarrow> bool" where
  "nodes_match (DirNode l) (DirNode r) =
     (if left_only l r \<noteq> [] \<or> left_only r l \<noteq> [] \<or> diff_files l r \<noteq> [] then False
      else list_all (\<lambda>(n, x). n \<in> set ignored_names \<or> (case dict_get r n of None \<Rightarrow> True | Some y \<Rightarrow> nodes_match x y)) l)"
| "nodes_match _ _ = True"

definition files_match :: "fs_entries \<Rightarrow> fs_node option \<Rightarrow> exn + bool" where
  "files_match src dst =
     (case dst of
        None \<Rightarrow> Inr False
      | Some (FileNode m c) \<Rightarrow> Inl (OtherError ''NotADirectoryError'' [])
      | Some (DirNode r) \<Rightarrow> Inr (nodes_match (DirNode src) (DirNode r)))"

section \<open>The script\<close>

record spec_repo =
  sr_source :: "fs_node option"
  sr_dest :: "fs_node option"

text \<open>The entries that \<open>glob("*.json")\<close> finds are counted, folders included.\<close>

definition count_json :: "fs_entries \<Rightarrow> nat" where
  "count_json d = length (filter (\<lambda>(n, x). suffix ''.json'' n) d)"

text \<open>\<open>main\<close>: the tree after it, and the exit code with the number it reports.\<close>

definition sync_main :: "string list \<Rightarrow> spec_repo \<Rightarrow> spec_repo \<times> (exn + int \<times> nat)" where
  "sync_main argv repo =
     (case sr_source repo of
        Some (DirNode src) \<Rightarrow>
          (if ''--check'' \<in> set argv
           then (repo, case files_match src (sr_dest repo) of
                         Inl e \<Rightarrow> Inl e
                       | Inr ok \<Rightarrow> Inr (if ok then 0 else 1, 0))
           else (case sr_dest repo of
                   Some (FileNode m c) \<Rightarrow> (repo, Inl (OtherError ''NotADirectoryError'' []))
                 | _ \<Rightarrow> (repo\<lparr>sr_dest := Some (DirNode src)\<rparr>, Inr (0, count_json src))))
      | _ \<Rightarrow> (repo, Inr (2, 0)))"


section \<open>Facts\<close>

text \<open>A tree whose folders have no name twice.\<close>

fun tree_ok :: "fs_node \<Rightarrow> bool" where
  "tree_ok (FileNode m c) = True"
| "tree_ok (DirNode d) = (dict_ok d \<and> list_all (\<lambda>(n, x). tree_ok x) d)"

lemma diff_files_refl: "dict_ok d \<Longrightarrow> diff_files d d = []"
  by (auto simp: diff_files_def listing_def filter_empty_conv file_eq_def map_of_is_SomeI split: fs_node.splits)

lemma left_only_refl: "left_only d d = []"
  by (simp add: left_only_def filter_empty_conv)

lemma nodes_match_refl: "tree_ok x \<Longrightarrow> nodes_match x x"
proof (induction x rule: tree_ok.induct)
  case (2 d)
  then show ?case
    by (auto simp: diff_files_refl left_only_refl list_all_iff map_of_is_SomeI)
qed simp

text \<open>What is at a path, when it is a file, and the paths that a comparison looks at.\<close>

fun file_at :: "fs_node \<Rightarrow> string list \<Rightarrow> string option" where
  "file_at (FileNode m c) [] = Some c"
| "file_at (DirNode d) (n # p) = (case dict_get d n of None \<Rightarrow> None | Some x \<Rightarrow> file_at x p)"
| "file_at _ _ = None"

definition looked_at :: "string list \<Rightarrow> bool" where
  "looked_at p = list_all (\<lambda>n. n \<notin> set ignored_names) p"

text \<open>Where a comparison can be trusted: names stand for the same kind of entry on both sides, and files of equal
  size and time have equal content.\<close>

fun comparable :: "fs_node \<Rightarrow> fs_node \<Rightarrow> bool" where
  "comparable (FileNode m c) (FileNode m' c') = (m = m' \<and> length c = length c' \<longrightarrow> c = c')"
| "comparable (DirNode l) (DirNode r) =
     list_all (\<lambda>(n, x). n \<in> set ignored_names \<or> (case dict_get r n of None \<Rightarrow> True | Some y \<Rightarrow> comparable x y)) l"
| "comparable _ _ = False"

lemma listing_keys: "set (dict_keys (listing d)) = set (dict_keys d) - set ignored_names"
  by (force simp: listing_def)

lemma left_only_Nil:
  assumes "left_only l r = []" "n \<notin> set ignored_names" "dict_get r n = None"
  shows "dict_get l n = None"
proof -
  have "set (dict_keys l) - set ignored_names \<subseteq> set (dict_keys r) - set ignored_names"
    using assms(1) unfolding left_only_def filter_empty_conv listing_keys [symmetric] by blast
  with assms(2,3) show ?thesis by (auto simp: map_of_eq_None_iff)
qed

lemma same_file:
  assumes "dict_get l n = Some (FileNode m c)" "dict_get r n = Some (FileNode m' c')" "n \<notin> set ignored_names"
    "diff_files l r = []" "comparable (FileNode m c) (FileNode m' c')"
  shows "c = c'"
  using assms map_of_SomeD [OF assms(1)]
  by (fastforce simp: diff_files_def filter_empty_conv listing_def file_eq_def split: if_splits)

lemma match_means_equal:
  "nodes_match (DirNode l) (DirNode r) \<Longrightarrow> comparable (DirNode l) (DirNode r) \<Longrightarrow> looked_at p \<Longrightarrow>
    file_at (DirNode l) p = file_at (DirNode r) p"
proof (induction p arbitrary: l r)
  case (Cons n p)
  note m = Cons.prems
  have n: "n \<notin> set ignored_names" "looked_at p" using m(3) by (simp_all add: looked_at_def)
  have only: "left_only l r = []" "left_only r l = []" "diff_files l r = []"
    and sub: "list_all (\<lambda>(n, x). n \<in> set ignored_names \<or> (case dict_get r n of None \<Rightarrow> True | Some y \<Rightarrow> nodes_match x y)) l"
    using m(1) by (simp_all split: if_splits)
  show ?case
  proof (cases "dict_get l n")
    case None
    with left_only_Nil [OF only(2) n(1)] show ?thesis by simp
  next
    case (Some x)
    then obtain y where y: "dict_get r n = Some y" using left_only_Nil [OF only(1) n(1)] by (cases "dict_get r n") auto
    have c: "comparable x y" using list_all_dict_get [OF m(2) [unfolded comparable.simps] Some] n y by simp
    have s: "nodes_match x y" using list_all_dict_get [OF sub Some] n y by simp
    show ?thesis
    proof (cases x)
      case (FileNode a b)
      with c obtain a' b' where "y = FileNode a' b'" by (cases y) auto
      with FileNode Some y same_file [OF _ _ n(1) only(3)] c show ?thesis by (cases p) auto
    next
      case (DirNode l')
      with c obtain r' where "y = DirNode r'" by (cases y) auto
      with DirNode s c n Some y Cons.IH [of l' r'] show ?thesis by simp
    qed
  qed
qed simp

text \<open>A copy is followed by a check that finds nothing, and a check that finds nothing says the files agree where the
  comparison can be trusted.\<close>

lemma sync_then_check:
  assumes "sr_source repo = Some (DirNode src)" "tree_ok (DirNode src)"
    and "\<forall>m c. sr_dest repo \<noteq> Some (FileNode m c)"
  shows "sync_main [prog] repo = (repo\<lparr>sr_dest := sr_source repo\<rparr>, Inr (0, count_json src)) \<or> prog = ''--check''"
    "sync_main [prog, ''--check''] (repo\<lparr>sr_dest := sr_source repo\<rparr>) = (repo\<lparr>sr_dest := sr_source repo\<rparr>, Inr (0, 0))"
  using assms nodes_match_refl [OF assms(2)]
  by (auto simp: sync_main_def files_match_def split: option.split fs_node.split)

lemma check_guarantees:
  assumes "snd (sync_main [prog, ''--check''] repo) = Inr (0, n)"
    "sr_source repo = Some (DirNode src)" "sr_dest repo = Some (DirNode dst)" "comparable (DirNode src) (DirNode dst)" "looked_at p"
  shows "file_at (DirNode src) p = file_at (DirNode dst) p"
  using assms by (intro match_means_equal) (auto simp: sync_main_def files_match_def split: if_splits)

text \<open>A name that is a file on one side and a folder on the other goes unnoticed.\<close>

lemma kind_change_unnoticed:
  "snd (sync_main [prog, ''--check''] \<lparr>sr_source = Some (DirNode [(''a.json'', FileNode 0 ''x'')]),
     sr_dest = Some (DirNode [(''a.json'', DirNode [])])\<rparr>) = Inr (0, 0)"
  by (simp add: sync_main_def files_match_def left_only_def diff_files_def listing_def ignored_names_def)

end
