(* ===== verification/RedirectListener.thy ===== *)
theory RedirectListener
  imports Router
begin

text \<open>
  The local HTTP listener of the connect flow (\<open>connect_flow.py\<close>: \<open>_RedirectListener\<close>): its state, its answer to
  each request, and what a wait on it returns. Sockets and the server's thread are left out: \<open>start\<close> is given the port
  the system chose, and requests arrive one at a time.
\<close>

record redirect_listener =
  rl_outcome :: "string option"
  rl_event :: bool
  rl_port :: "nat option"

definition new_listener :: redirect_listener where
  "new_listener = \<lparr>rl_outcome = None, rl_event = False, rl_port = None\<rparr>"

text \<open>The pages are UTF-8: the check mark and the cross are three bytes each.\<close>

definition success_page :: string where
  "success_page =
     ''<html><body style='' @ sq # ''font-family:sans-serif;padding:3rem'' @ sq # ''><h2>'' @
     [CHR 0xE2, CHR 0x9C, CHR 0x93] @ '' Connection complete</h2><p>You can close this tab.</p></body></html>''"

definition error_page :: string where
  "error_page =
     ''<html><body style='' @ sq # ''font-family:sans-serif;padding:3rem'' @ sq # ''><h2>'' @
     [CHR 0xE2, CHR 0x9C, CHR 0x97] @ '' Connection failed</h2><p>You can close this tab and retry.</p></body></html>''"

record page =
  page_status :: int
  page_headers :: "(string, string) dict"
  page_body :: string

definition do_GET :: "string \<Rightarrow> redirect_listener \<Rightarrow> page \<times> redirect_listener" where
  "do_GET path l =
     (case redirect_outcome path of
        None \<Rightarrow> (\<lparr>page_status = 404, page_headers = [], page_body = []\<rparr>, l)
      | Some r \<Rightarrow>
          (\<lparr>page_status = 200, page_headers = [(''Content-Type'', ''text/html; charset=utf-8'')],
             page_body = (if r = ''success'' then success_page else error_page)\<rparr>,
           l\<lparr>rl_outcome := Some r, rl_event := True\<rparr>))"

definition listener_start :: "nat \<Rightarrow> redirect_listener \<Rightarrow> (string \<times> string) \<times> redirect_listener" where
  "listener_start port l =
     (let base = ''http://127.0.0.1:'' @ dec_nat port
      in ((base @ ''/oauth/success'', base @ ''/oauth/error''), l\<lparr>rl_port := Some port\<rparr>))"

text \<open>\<open>wait\<close> returns when the event is set, or at the timeout; then the outcome is read.\<close>

definition listener_wait :: "bool \<Rightarrow> redirect_listener \<Rightarrow> string option option" where
  "listener_wait timed_out l = (if rl_event l \<or> timed_out then Some (rl_outcome l) else None)"

definition listener_close :: "redirect_listener \<Rightarrow> redirect_listener" where
  "listener_close l = (case rl_port l of None \<Rightarrow> l | Some p \<Rightarrow> l\<lparr>rl_port := None\<rparr>)"

definition listener_after :: "string list \<Rightarrow> redirect_listener" where
  "listener_after paths = fold (\<lambda>p l. snd (do_GET p l)) paths new_listener"

section \<open>What the flow may rely on\<close>

lemma redirect_outcome_values: "redirect_outcome p = Some r \<Longrightarrow> r = ''success'' \<or> r = ''error''"
  by (auto simp: redirect_outcome_def Let_def split: if_splits)

lemma listener_after_snoc [simp]: "listener_after (ps @ [p]) = snd (do_GET p (listener_after ps))"
  by (simp add: listener_after_def)

text \<open>The outcome is that of the last redirect among the requests, and the event is set as soon as there was one: any
  other request changes nothing.\<close>

lemma listener_outcome:
  "rl_outcome (listener_after paths) = (case rev (List.map_filter redirect_outcome paths) of [] \<Rightarrow> None | r # rs \<Rightarrow> Some r) \<and>
   (rl_event (listener_after paths) \<longleftrightarrow> List.map_filter redirect_outcome paths \<noteq> [])"
proof (induction paths rule: rev_induct)
  case (snoc p ps)
  have "List.map_filter redirect_outcome (ps @ [p]) = List.map_filter redirect_outcome ps @
      (case redirect_outcome p of None \<Rightarrow> [] | Some r \<Rightarrow> [r])"
    by (simp add: List.map_filter_def split: option.split)
  with snoc show ?case by (auto simp: do_GET_def split: option.split)
qed (simp add: listener_after_def new_listener_def map_filter_simps)

text \<open>So before the timeout a wait returns success or error, and never nothing.\<close>

lemma wait_reports:
  assumes "listener_wait False (listener_after paths) = Some r"
  shows "r = Some ''success'' \<or> r = Some ''error''"
proof -
  from assms have e: "rl_event (listener_after paths)" "r = rl_outcome (listener_after paths)"
    by (auto simp: listener_wait_def split: if_splits)
  with listener_outcome [of paths] obtain x xs where x: "rev (List.map_filter redirect_outcome paths) = x # xs" "r = Some x"
    by (cases "rev (List.map_filter redirect_outcome paths)") auto
  then have "x \<in> set (List.map_filter redirect_outcome paths)" by (metis list.set_intros(1) set_rev)
  then obtain p where "redirect_outcome p = Some x" by (auto simp: List.map_filter_def)
  with x(2) redirect_outcome_values show ?thesis by blast
qed

text \<open>The service redirects to the URIs that \<open>start\<close> returned, with or without a query: their paths are the ones that
  are recognised, whatever the port.\<close>

lemma own_uris_recognised:
  "redirect_outcome (''/oauth/success'' @ (if q = [] then [] else CHR ''?'' # q)) = Some ''success'' \<and>
   redirect_outcome (''/oauth/error'' @ (if q = [] then [] else CHR ''?'' # q)) = Some ''error''"
proof -
  have s: "hd (py_split (CHR ''?'') (p @ (if q = [] then [] else CHR ''?'' # q))) = p" if "CHR ''?'' \<notin> set p" for p
    using that py_split_append [of "CHR ''?''" p q] py_split_no_sep [of "CHR ''?''" p] by simp
  show ?thesis
    using s [of "''/oauth/success''"] s [of "''/oauth/error''"] by (simp add: redirect_outcome_def Let_def)
qed

end
