(* ===== verification/ManagedTurn.thy ===== *)
theory ManagedTurn
  imports PropertiesAgents PropertiesV2
begin

text \<open>
  A whole turn of \<open>CopassManagedAgent\<close> over \<open>ManagedAgentBackendV2\<close>: prefetch, backend, deadline, reduction and recording
  put together.
\<close>

section \<open>Reading one turn of the v2 backend\<close>

lemma responses_once:
  "list_all (\<lambda>e. \<not> is_finish e) xs \<Longrightarrow>
    responses p (xs @ [AgentFinish s u i]) = (let t = py_strip (p @ text_of xs) in if t = [] then [] else [t])"
proof (induction xs arbitrary: p)
  case (Cons e xs)
  have "text_of (e # xs) = (case e of AgentTextDelta t \<Rightarrow> t | _ \<Rightarrow> []) @ text_of xs"
    by (simp add: text_of_def)
  with Cons show ?case by (cases e) simp_all
qed (simp add: text_of_def Let_def)

text \<open>A stream that the deadline did not cut is the inner stream, which ended without an exception.\<close>

lemma stream_v2_uncut:
  assumes "stream_v2 (cfg, client, store, tm, agent) ms ctx = (evs, None)" "timeout_finish \<notin> set evs"
  obtains acts store' where "stream_impl cfg client store agent ms ctx = (acts, None, store')" "evs = yields_of acts"
proof -
  obtain acts e store' where a: "stream_impl cfg client store agent ms ctx = (acts, e, store')"
    by (cases "stream_impl cfg client store agent ms ctx")
  let ?items = "timed_items tm (yields_of acts)"
  obtain evs' t e' where d: "deadline_loop (total_timeout_s (v2_policy cfg)) 0 ?items (end_wait tm) e = (evs', t, e')"
    by (cases "deadline_loop (total_timeout_s (v2_policy cfg)) 0 ?items (end_wait tm) e")
  have "evs = evs' @ (if t then [timeout_finish] else [])" "e' = None"
    using assms(1) a d by (auto simp: stream_v2_def stream_with_deadline_def)
  with assms(2) have "\<not> t" "evs = evs'" by (auto split: if_splits)
  with deadline_prefix [OF d] have "evs = map (fst \<circ> snd) ?items" "e = None"
    using \<open>e' = None\<close> by auto
  with a show thesis by (intro that) (simp_all add: timed_items_events)
qed

lemma stream_impl_first_post:
  assumes "stream_impl cfg client store agent ms ctx = (acts, None, store')"
  shows "\<exists>batches. posts_of acts = normalize_messages ms # batches"
  using assms
proof (cases rule: stream_impl_shape)
  case (streamed tools sid created pre body)
  with stream_body_shape [OF streamed(3)] show ?thesis by auto
qed simp

lemma stream_impl_turn:
  assumes "stream_impl cfg client store agent ms ctx = (acts, None, store')"
  shows "\<exists>seen. prefix seen (client_events client) \<and> text_of (yields_of acts) = concat (map message_texts seen) \<and>
    responses [] (yields_of acts) =
      (let t = py_strip (concat (map message_texts seen)) in if t = [] then [] else [t])"
proof -
  from stream_impl_text [OF assms] obtain seen where
    seen: "prefix seen (client_events client)" "text_of (yields_of acts) = concat (map message_texts seen)"
    unfolding Let_def by blast
  from stream_impl_finishes [OF assms] obtain sid where "ends_with_finish sid (yields_of acts)" by auto
  then obtain xs s u where x: "yields_of acts = xs @ [AgentFinish s u (Some sid)]" "list_all (\<lambda>e. \<not> is_finish e) xs"
    unfolding ends_with_finish_def by blast
  from x(1) seen(2) have "text_of xs = concat (map message_texts seen)"
    by (simp add: text_of_def [of "[AgentFinish s u (Some sid)]"])
  with responses_once [OF x(2), of "[]"] x(1) seen show ?thesis by (intro exI [of _ seen]) simp
qed

section \<open>A concrete turn\<close>

text \<open>The agent of the concrete invocation, with a window, over a service that answers with a menu.\<close>

definition ex_managed :: copass_agent where
  "ex_managed = ex_copass_agent\<lparr>ca_base := ex_agent\<rparr>"

definition ex_managed_backend :: agent_stream where
  "ex_managed_backend = stream_v2 (ex_cfg, ex_client, [], ex_timing, ca_base ex_managed)"

lemma ex_managed_run:
  "case prepare_messages managed_flavour (logged ex_menu_api) ex_managed
      \<lparr>st_window = Some ex_source_window, st_recorder = Some ex_recorder, st_service = ([], 0)\<rparr> (PStr ''why?'') ex_context of
     (st, Inr (prepared, contents)) \<Rightarrow> length prepared = 2 \<and> contents = [''why?''] \<and>
       ex_managed_backend (PList (map PDict prepared)) ex_context =
         ([AgentToolCall ''e1'' ''add'' [], AgentToolResult ''e1'' ''add'' (PDict [(''sum'', PInt 3)]) None, AgentTextDelta ''3'',
           AgentFinish ''end_turn'' [] (Some ''s1'')], None)
   | _ \<Rightarrow> False"
  by code_simp

section \<open>Properties\<close>

text \<open>Claim C4. A whole turn of a managed agent over the v2 backend, not cut by the deadline: the first batch posted to the session
  is the user's messages, behind the prefetched context if there was any; the result's text is the
  text of the model's messages; and the window has grown by the user's messages as they came, without
  the context, and by the model's text as one turn, each kept once, and each pushed to the service.\<close>

theorem managed_turn:
  assumes "normalize_agent_messages ms = Inr normalized" "\<not> rc_include_tools rc" "rc_tasks rc = []" "pending_text rc = []"
    and "copass_stream managed_flavour (logged api) digest pushes (stream_v2 (cfg, client, store, tm, ca_base ca)) ca
      \<lparr>st_window = Some w, st_recorder = Some rc, st_service = (l, s)\<rparr> ms ctx = ((evs, None), st')"
    and "timeout_finish \<notin> set evs"
  shows "\<exists>pre acts store' seen w' calls.
    (pre = [] \<or> (\<exists>block. pre = [context_message block])) \<and>
    stream_impl cfg client store (ca_base ca) (PList (map PDict (pre @ normalized))) ctx = (acts, None, store') \<and>
    hd (posts_of acts) = normalize_messages (PList (map PDict (pre @ normalized))) \<and>
    prefix seen (client_events client) \<and> final_text (drain evs) = concat (map message_texts seen) \<and>
    (let said = py_strip (concat (map message_texts seen));
         turns = new_turns (dedupe_key digest) (rc_seen rc)
           (map (user_turn rc) (user_contents managed_flavour normalized) @
            (if said = [] then [] else [assistant_turn rc said]))
     in st_window st' = Some w' \<and> cw_turns w' = cw_turns w @ turns \<and> length calls \<le> 1 \<and>
        fst (st_service st') = l @ calls @ map (\<lambda>t. turn_call w t (rc_participants rc)) turns)"
proof -
  let ?contents = "user_contents managed_flavour normalized"
  from one_turn [OF assms(1-5)] obtain pre w' where
    pre: "pre = [] \<or> (\<exists>block. pre = [context_message block])"
    and b: "stream_v2 (cfg, client, store, tm, ca_base ca) (PList (map PDict (pre @ normalized))) ctx = (evs, None)"
    and w': "st_window st' = Some w'" "cw_turns w' = cw_turns w @ turn_log digest rc ?contents evs"
    and calls: "fst (st_service st') = l @
      (if should_prefetch managed_flavour ca ctx ?contents then [prefetch_call ca w (last ?contents)] else []) @
      map (\<lambda>t. turn_call w t (rc_participants rc)) (turn_log digest rc ?contents evs)" by blast
  from stream_v2_uncut [OF b assms(6)] obtain acts store' where
    a: "stream_impl cfg client store (ca_base ca) (PList (map PDict (pre @ normalized))) ctx = (acts, None, store')"
      "evs = yields_of acts" .
  from stream_impl_turn [OF a(1)] obtain seen where
    seen: "prefix seen (client_events client)" "text_of evs = concat (map message_texts seen)"
      "responses [] evs = (let t = py_strip (concat (map message_texts seen)) in if t = [] then [] else [t])"
    unfolding a(2) by blast
  let ?said = "py_strip (concat (map message_texts seen))"
  have log: "turn_log digest rc ?contents evs = new_turns (dedupe_key digest) (rc_seen rc)
      (map (user_turn rc) ?contents @ (if ?said = [] then [] else [assistant_turn rc ?said]))"
    by (simp add: turn_log_def seen(3) Let_def)
  from stream_impl_first_post [OF a(1)] have p: "hd (posts_of acts) = normalize_messages (PList (map PDict (pre @ normalized)))"
    by auto
  show ?thesis
    by (rule exI [of _ pre], rule exI [of _ acts], rule exI [of _ store'], rule exI [of _ seen], rule exI [of _ w'],
        rule exI [of _ "if should_prefetch managed_flavour ca ctx ?contents then [prefetch_call ca w (last ?contents)] else []"])
      (use pre a(1) p seen(1,2) w' calls in \<open>simp add: drain_text log Let_def\<close>)
qed

definition ex_managed_turn :: "(agent_event list \<times> exn option) \<times> (api_call list \<times> nat) copass_state" where
  "ex_managed_turn = copass_stream managed_flavour (logged ex_menu_api) id (\<lambda>n. n) ex_managed_backend ex_managed
     \<lparr>st_window = Some ex_source_window, st_recorder = Some ex_recorder, st_service = ([], 0)\<rparr> (PStr ''why?'') ex_context"

theorem managed_turn_witness:
  "\<exists>w. st_window (snd ex_managed_turn) = Some w \<and> map chat_content (cw_turns w) = [''why?'', ''3'']"
proof -
  let ?evs = "[AgentToolCall ''e1'' ''add'' [], AgentToolResult ''e1'' ''add'' (PDict [(''sum'', PInt 3)]) None, AgentTextDelta ''3'',
    AgentFinish ''end_turn'' [] (Some ''s1'')]"
  have "fst ex_managed_turn = (?evs, None)"
    using ex_managed_run by (auto simp: ex_managed_turn_def stream_events split: prod.splits sum.splits)
  then obtain st' where t: "ex_managed_turn = ((?evs, None), st')" by (metis prod.collapse)
  have n: "normalize_agent_messages (PStr ''why?'') = Inr [[(''role'', PStr ''user''), (''content'', PStr ''why?'')]]"
    by (simp add: normalize_agent_messages_def)
  have c: "user_contents managed_flavour [[(''role'', PStr ''user''), (''content'', PStr ''why?'')]] = [''why?'']" by code_simp
  have r: "\<not> rc_include_tools ex_recorder" "rc_tasks ex_recorder = []" "pending_text ex_recorder = []" by code_simp+
  have cut: "timeout_finish \<notin> set ?evs" by code_simp
  have l: "map chat_content (new_turns (dedupe_key id) (rc_seen ex_recorder)
      (map (user_turn ex_recorder) [''why?''] @ [assistant_turn ex_recorder ''3''])) = [''why?'', ''3'']" by code_simp
  have d: "final_text (drain ?evs) = ''3''" "py_strip ''3'' = ''3''" by code_simp+
  from managed_turn [OF n r t [unfolded ex_managed_turn_def ex_managed_backend_def] cut] obtain seen w' where
    seen: "final_text (drain ?evs) = concat (map message_texts seen)" and "st_window st' = Some w'"
    and "cw_turns w' = cw_turns ex_source_window @ new_turns (dedupe_key id) (rc_seen ex_recorder)
      (map (user_turn ex_recorder) [''why?''] @ (if py_strip (concat (map message_texts seen)) = [] then []
         else [assistant_turn ex_recorder (py_strip (concat (map message_texts seen)))]))"
    unfolding c Let_def by blast
  with l d show ?thesis unfolding seen [unfolded d(1), symmetric] by (simp add: t ex_source_window_def del: new_turns.simps)
qed

end
