(* ===== verification/Conversation.thy ===== *)
theory Conversation
  imports PropertiesAgents
begin

text \<open>
  A conversation: any number of turns of one agent with Copass context engineering, over any backend, and the window after it.
\<close>

section \<open>The state that recording leaves\<close>

lemma recording_state:
  "rc_seen (rg_recorder (fold (record_step api digest) as g)) = rc_seen (rg_recorder g) \<union>
     dedupe_key digest ` set (filter visible (all_offers (rg_recorder g) (pending_text (rg_recorder g)) as)) \<and>
   pending_text (rg_recorder (fold (record_step api digest) as g)) =
     fold (\<lambda>a p. pending_after p a) as (pending_text (rg_recorder g)) \<and>
   settings (rg_recorder (fold (record_step api digest) as g)) = settings (rg_recorder g)"
proof (induction as arbitrary: g)
  case (Cons a as)
  let ?g = "record_step api digest a g"
  have "all_offers (rg_recorder ?g) p as = all_offers (rg_recorder g) p as" for p
    by (rule all_offers_settings) (rule record_step_log(4))
  with Cons [of ?g] show ?case by (simp add: record_step_log image_Un Un_assoc)
qed simp

lemma flush_state [simp]:
  "rc_seen (rg_recorder (flush api g)) = rc_seen (rg_recorder g)"
  "pending_text (rg_recorder (flush api g)) = pending_text (rg_recorder g)"
  "settings (rg_recorder (flush api g)) = settings (rg_recorder g)"
proof -
  have "rc_seen (rg_recorder ((run_push api ^^ n) g)) = rc_seen (rg_recorder g) \<and>
      pending_text (rg_recorder ((run_push api ^^ n) g)) = pending_text (rg_recorder g) \<and>
      settings (rg_recorder ((run_push api ^^ n) g)) = settings (rg_recorder g)" for n
    by (induction n) simp_all
  then show "rc_seen (rg_recorder (flush api g)) = rc_seen (rg_recorder g)"
    "pending_text (rg_recorder (flush api g)) = pending_text (rg_recorder g)"
    "settings (rg_recorder (flush api g)) = settings (rg_recorder g)" by (simp_all add: flush_def)
qed

text \<open>A stream that stops at a finish leaves no text pending.\<close>

definition closed :: "agent_event list \<Rightarrow> bool" where
  "closed evs = (evs = [] \<or> is_finish (last evs))"

lemma pending_pushes: "((\<lambda>p. p) ^^ n) (p :: string) = p"
  by (induction n) simp_all

lemma pending_users: "fold (\<lambda>a p. pending_after p a) (map RecordUser cs) [] = []"
  by (induction cs) simp_all

lemma pending_stream:
  "evs \<noteq> [] \<Longrightarrow> is_finish (last evs) \<Longrightarrow> fold (\<lambda>a p. pending_after p a) (stream_actions pushes n evs) p = []"
proof (induction evs arbitrary: n p)
  case (Cons e evs)
  show ?case
  proof (cases "evs = []")
    case True
    then show ?thesis using Cons.prems by (cases e) (simp_all add: pending_pushes)
  qed (use Cons in \<open>simp add: pending_pushes\<close>)
qed simp

lemma pending_turn:
  "closed evs \<Longrightarrow> fold (\<lambda>a p. pending_after p a) (map RecordUser cs @ stream_actions pushes n evs) [] = []"
  by (cases "evs = []") (simp_all add: closed_def pending_users pending_stream)

lemma prepare_frame:
  assumes "prepare_messages fl api ca st ms ctx = (st1, r)"
  shows "st_window st1 = st_window st" "st_recorder st1 = st_recorder st"
    "r = Inr (prepared, contents) \<Longrightarrow> \<exists>normalized. normalize_agent_messages ms = Inr normalized \<and> contents = user_contents fl normalized"
proof -
  have f: "st_window (fst (fetch_context_block fl api ca st q)) = st_window st"
    "st_recorder (fst (fetch_context_block fl api ca st q)) = st_recorder st" for q
    by (simp_all add: fetch_context_block_def split: sum.split prod.split)
  show "st_window st1 = st_window st" "st_recorder st1 = st_recorder st"
    "r = Inr (prepared, contents) \<Longrightarrow> \<exists>normalized. normalize_agent_messages ms = Inr normalized \<and> contents = user_contents fl normalized"
    using assms f [of "last (user_contents fl (projr (normalize_agent_messages ms)))"]
    by (auto simp: prepare_messages_def Let_def split: sum.splits if_splits prod.splits option.splits)
qed

section \<open>A conversation\<close>

text \<open>What is said in a turn: the user's messages and the completed responses.\<close>

definition said :: "flavour \<Rightarrow> string option \<Rightarrow> pyval \<Rightarrow> agent_event list \<Rightarrow> chat_message list" where
  "said fl author ms evs =
     map (\<lambda>c. \<lparr>chat_role = ''user'', chat_content = c, chat_name = Some ''User''\<rparr>)
       (user_contents fl (projr (normalize_agent_messages ms))) @
     map (\<lambda>r. \<lparr>chat_role = ''assistant'', chat_content = r, chat_name = author\<rparr>) (responses [] evs)"

text \<open>A turn comes with what the backend does in it and with when its pushes run, so a backend may
  keep state of its own between turns.\<close>

type_synonym agent_turn_input = "pyval \<times> invocation_context \<times> agent_stream \<times> (nat \<Rightarrow> nat)"

fun converse ::
    "flavour \<Rightarrow> 's api \<Rightarrow> (string \<Rightarrow> string) \<Rightarrow> copass_agent \<Rightarrow> agent_turn_input list \<Rightarrow> 's copass_state \<Rightarrow>
     (agent_event list \<times> exn option) list \<times> 's copass_state" where
  "converse fl api digest ca [] st = ([], st)"
| "converse fl api digest ca ((ms, ctx, backend, pushes) # ts) st =
     (case copass_stream fl api digest pushes backend ca st ms ctx of
        (out, st1) \<Rightarrow> (case converse fl api digest ca ts st1 of (outs, st2) \<Rightarrow> (out # outs, st2)))"

text \<open>The recorder of an agent between two turns.\<close>

definition at_rest :: "string option \<Rightarrow> recorder \<Rightarrow> bool" where
  "at_rest author rc \<longleftrightarrow> \<not> rc_include_tools rc \<and> rc_tasks rc = [] \<and> pending_text rc = [] \<and>
     rc_author rc = author \<and> \<not> rc_author_prefix rc \<and> rc_user_speaker rc = ''User''"

lemma said_turns:
  assumes "at_rest author rc" "normalize_agent_messages ms = Inr normalized"
  shows "said fl author ms evs =
    map (user_turn rc) (user_contents fl normalized) @ map (assistant_turn rc) (responses [] evs)"
proof -
  have "user_turn rc = (\<lambda>c. \<lparr>chat_role = ''user'', chat_content = c, chat_name = Some ''User''\<rparr>)"
    "assistant_turn rc = (\<lambda>r. \<lparr>chat_role = ''assistant'', chat_content = r, chat_name = author\<rparr>)"
    using assms(1) by (auto simp: at_rest_def user_turn_def assistant_turn_def fun_eq_iff split: option.split list.split)
  with assms(2) show ?thesis by (simp add: said_def)
qed

lemma at_rest_settings:
  "at_rest author rc \<Longrightarrow> settings rc' = settings rc \<Longrightarrow> rc_tasks rc' = [] \<Longrightarrow> pending_text rc' = [] \<Longrightarrow> at_rest author rc'"
  by (simp add: at_rest_def settings_def)

lemma recorded_turn:
  assumes "st_window st = Some w" "st_recorder st = Some rc" "at_rest author rc" "closed evs"
    "copass_stream fl api digest pushes backend ca st ms ctx = ((evs, None), st')"
  shows "\<exists>w' rc'. st_window st' = Some w' \<and> st_recorder st' = Some rc' \<and> at_rest author rc' \<and>
    cw_turns w' = cw_turns w @ new_turns (dedupe_key digest) (rc_seen rc) (said fl author ms evs) \<and>
    rc_seen rc' = rc_seen rc \<union> dedupe_key digest ` set (said fl author ms evs)"
proof -
  obtain st1 prepared contents where p: "prepare_messages fl api ca st ms ctx = (st1, Inr (prepared, contents))"
    using assms(5) by (cases "prepare_messages fl api ca st ms ctx"; cases "snd (prepare_messages fl api ca st ms ctx)")
      (auto simp: copass_stream_def)
  from prepare_frame [OF p] obtain normalized where st1: "st_window st1 = Some w" "st_recorder st1 = Some rc"
    and n: "normalize_agent_messages ms = Inr normalized" "contents = user_contents fl normalized"
    using assms(1,2) by auto
  let ?start = "\<lparr>rg_recorder = rc, rg_window = w, rg_state = st_service st1\<rparr>"
  let ?as = "map RecordUser contents @ stream_actions pushes 0 evs"
  let ?h = "fold (record_step api digest) ?as ?start"
  have b: "backend (PList (map PDict prepared)) ctx = (evs, None)"
    and st': "st' = \<lparr>st_window = Some (rg_window (flush api ?h)), st_recorder = Some (rg_recorder (flush api ?h)),
       st_service = rg_state (flush api ?h)\<rparr>"
    using assms(5) p st1 by (auto simp: copass_stream_def record_stream_def split: prod.splits)
  have r: "rc_tasks rc = []" "pending_text rc = []" "\<not> rc_include_tools rc" using assms(3) by (simp_all add: at_rest_def)
  have "\<forall>c \<in> set contents. py_strip c \<noteq> []" using n(2) user_contents_visible by blast
  then have o: "filter visible (all_offers rc [] ?as) = said fl author ms evs"
    using visible_turns by (simp add: all_offers_users all_offers_stream [OF r(3)] said_turns [OF assms(3) n(1)] n(2))
  have "settings (rg_recorder ?h) = settings rc" "pending_text (rg_recorder ?h) = []"
    "rc_seen (rg_recorder ?h) = rc_seen rc \<union> dedupe_key digest ` set (said fl author ms evs)"
    using recording_state [of api digest ?as ?start] r(2) o pending_turn [OF assms(4), of contents pushes 0]
    by (simp_all del: fold_append)
  moreover have "log_of ?h = cw_turns w @ new_turns (dedupe_key digest) (rc_seen rc) (said fl author ms evs)"
    using recording_log [of api digest ?as ?start] o r(1,2) by (simp add: log_of_def del: fold_append)
  moreover from calculation have "at_rest author (rg_recorder (flush api ?h))"
    using flush_log [of api ?h] by (intro at_rest_settings [OF assms(3)]) simp_all
  ultimately show ?thesis
    using st' flush_log [of api ?h] by (simp del: fold_append)
qed

lemma conversation_log:
  assumes "converse fl api digest ca turns st = (outs, st')" "\<forall>(evs, e) \<in> set outs. e = None \<and> closed evs"
    "st_window st = Some w" "st_recorder st = Some rc" "at_rest author rc"
  shows "\<exists>w'. st_window st' = Some w' \<and> cw_turns w' = cw_turns w @
    new_turns (dedupe_key digest) (rc_seen rc) (concat (map2 (\<lambda>t out. said fl author (fst t) (fst out)) turns outs))"
  using assms
proof (induction turns arbitrary: st outs w rc)
  case (Cons t turns)
  obtain ms ctx backend pushes where t: "t = (ms, ctx, backend, pushes)" by (cases t)
  obtain evs e st1 where s: "copass_stream fl api digest pushes backend ca st ms ctx = ((evs, e), st1)" by (metis prod.collapse)
  obtain outs1 st2 where c: "converse fl api digest ca turns st1 = (outs1, st2)" by fastforce
  have o: "outs = (evs, e) # outs1" "st2 = st'" using Cons.prems(1) t s c by auto
  with Cons.prems(2) have e: "e = None" "closed evs" by auto
  from recorded_turn [OF Cons.prems(3-5) e(2) s [unfolded e(1)]] obtain w1 rc1 where
    one: "st_window st1 = Some w1" "st_recorder st1 = Some rc1" "at_rest author rc1"
      "cw_turns w1 = cw_turns w @ new_turns (dedupe_key digest) (rc_seen rc) (said fl author ms evs)"
      "rc_seen rc1 = rc_seen rc \<union> dedupe_key digest ` set (said fl author ms evs)" by blast
  have "\<forall>(evs, e) \<in> set outs1. e = None \<and> closed evs" using Cons.prems(2) o by auto
  from Cons.IH [OF c [unfolded o(2)] this one(1-3)] show ?case
    by (auto simp: o t one(4,5) new_turns_append)
qed simp

section \<open>Properties\<close>

text \<open>Claim C5. What an agent's window holds after any conversation whose turns ended well, whatever the backend, the
  service and the schedule of the pushes: the turns it held when the agent was built, and then everything
  said in the conversation, in order, each key once, a key being the role and the digest of the first 500 characters. So
  the window of an agent that resends its history in every turn does not repeat it, and no two turns of the window share a key unless they
  did at the start. Of what was said every key is there; a message that shares its key with another is not, so
  that nothing is missing only where the keys tell the messages apart.\<close>

theorem conversation_mirrored:
  assumes "wire_agent fl digest base aw s = Inr (ca, st)" "aw_auto_record aw" "aw_window aw = Some w"
    and "converse fl api digest ca turns st = (outs, st')" "\<forall>(evs, e) \<in> set outs. e = None \<and> closed evs"
  shows "\<exists>w'. st_window st' = Some w' \<and>
    (let key = dedupe_key digest; all = concat (map2 (\<lambda>t out. said fl (aw_author aw) (fst t) (fst out)) turns outs)
     in cw_turns w' = cw_turns w @ new_turns key (key ` set (cw_turns w)) all \<and>
        key ` set (cw_turns w') = key ` set (cw_turns w) \<union> key ` set all \<and>
        (distinct (map key (cw_turns w)) \<longrightarrow> distinct (map key (cw_turns w'))) \<and>
        (inj_on key (set (cw_turns w) \<union> set all) \<longrightarrow> set (cw_turns w') = set (cw_turns w) \<union> set all))"
proof -
  let ?key = "dedupe_key digest" and ?all = "concat (map2 (\<lambda>t out. said fl (aw_author aw) (fst t) (fst out)) turns outs)"
  obtain w1 p where u: "unify_project fl (Some w) (aw_project_id aw) = Inr (Some w1, p)" and w1: "cw_turns w1 = cw_turns w"
    using assms(1,3) by (auto simp: wire_agent_def unify_project_def split: option.splits if_splits)
  let ?rc = "make_recorder digest w1 False (aw_author aw) False None ''User''"
  from assms(1-3) u have st: "st_window st = Some w1" "st_recorder st = Some ?rc" by (auto simp: wire_agent_def)
  have r: "at_rest (aw_author aw) ?rc" "rc_seen ?rc = ?key ` set (cw_turns w)"
    by (simp_all add: at_rest_def make_recorder_def pending_text_def w1)
  from conversation_log [OF assms(4,5) st r(1)] obtain w' where
    w': "st_window st' = Some w'" "cw_turns w' = cw_turns w @ new_turns ?key (?key ` set (cw_turns w)) ?all"
    unfolding r(2) w1 by blast
  have keys: "?key ` set (cw_turns w') = ?key ` set (cw_turns w) \<union> ?key ` set ?all"
    unfolding w'(2) by (auto simp: image_Un new_turns_keys)
  have "set (cw_turns w') \<subseteq> set (cw_turns w) \<union> set ?all"
    unfolding w'(2) using new_turns_subset [of ?key "?key ` set (cw_turns w)" ?all] by auto
  with keys have "set (cw_turns w') = set (cw_turns w) \<union> set ?all" if "inj_on ?key (set (cw_turns w) \<union> set ?all)"
    using inj_on_image_eq_iff [OF that, of "set (cw_turns w')" "set (cw_turns w) \<union> set ?all"] by (simp add: image_Un)
  then show ?thesis
    using w' keys new_turns_keys [of ?key "?key ` set (cw_turns w)" ?all] new_turns_distinct [of ?key "?key ` set (cw_turns w)" ?all]
    unfolding Let_def by (intro exI [of _ w'] conjI impI) auto
qed

text \<open>Two turns, the second with the whole conversation as its messages.\<close>

definition ex_reply :: "agent_event list \<times> exn option" where
  "ex_reply = ([AgentTextDelta ''Because.'', AgentFinish ''end_turn'' [] None], None)"

definition ex_history :: pyval where
  "ex_history = PList [PDict [(''role'', PStr ''user''), (''content'', PStr ''why?'')],
     PDict [(''role'', PStr ''assistant''), (''content'', PStr ''Hi'')],
     PDict [(''role'', PStr ''user''), (''content'', PStr ''why so?'')]]"

definition ex_turns :: "agent_turn_input list" where
  "ex_turns = [(PStr ''why?'', ex_context, ex_stream, \<lambda>n. n), (ex_history, ex_context, \<lambda>ms ctx. ex_reply, \<lambda>n. 0)]"

definition ex_conversation where
  "ex_conversation = converse managed_flavour ex_menu_api id ex_copass_agent ex_turns
     \<lparr>st_window = Some ex_source_window, st_recorder = Some ex_recorder, st_service = 0\<rparr>"

lemma ex_answered:
  assumes "normalize_agent_messages ms = Inr msgs" "st_window st = Some w"
    "\<not> isl (format_context_block managed_flavour (last (user_contents managed_flavour msgs)) (case ex_menu of PDict d \<Rightarrow> d | _ \<Rightarrow> []))"
  shows "fst (copass_stream managed_flavour ex_menu_api id pushes (\<lambda>ms ctx. out) ex_copass_agent st ms ctx) = out"
proof -
  have "\<not> isl (snd (prepare_messages managed_flavour ex_menu_api ex_copass_agent st ms ctx))"
    using assms discover_chat [of "''sb''" "last (user_contents managed_flavour msgs)" w "Some ''p''"]
    by (auto simp: prepare_messages_def Let_def fetch_context_block_def ex_menu_api_def ex_copass_agent_def ex_menu_def
        need_dict_def split: sum.split option.split)
  then show ?thesis by (auto simp: stream_events split: sum.split)
qed

lemma ex_conversation_outs: "fst ex_conversation = [ex_stream PNone ex_context, ex_reply]"
proof -
  let ?st = "\<lparr>st_window = Some ex_source_window, st_recorder = Some ex_recorder, st_service = 0\<rparr>"
  have c: "ex_stream = (\<lambda>ms ctx. ex_stream PNone ex_context)" by (simp add: ex_stream_def fun_eq_iff)
  obtain out1 st1 where t1: "copass_stream managed_flavour ex_menu_api id (\<lambda>n. n) ex_stream ex_copass_agent ?st
      (PStr ''why?'') ex_context = (out1, st1)" by fastforce
  obtain out2 st2 where t2: "copass_stream managed_flavour ex_menu_api id (\<lambda>n. 0) (\<lambda>ms ctx. ex_reply) ex_copass_agent st1
      ex_history ex_context = (out2, st2)" by fastforce
  have q: "normalize_agent_messages (PStr ''why?'') = Inr (projr (normalize_agent_messages (PStr ''why?'')))"
    "\<not> isl (format_context_block managed_flavour
      (last (user_contents managed_flavour (projr (normalize_agent_messages (PStr ''why?''))))) (case ex_menu of PDict d \<Rightarrow> d | _ \<Rightarrow> []))"
    by code_simp+
  have "out1 = ex_stream PNone ex_context"
    using ex_answered [OF q(1) _ q(2), of ?st ex_source_window "\<lambda>n. n" "ex_stream PNone ex_context" ex_context, folded c] t1 by simp
  moreover have "map_option cw_source (st_window st1) = Some (cw_source ex_source_window)"
    using stream_source [of managed_flavour ex_menu_api id "\<lambda>n. n" ex_stream ex_copass_agent ?st "PStr ''why?''" ex_context] t1 by simp
  then obtain w1 where "st_window st1 = Some w1" by auto
  note w1 = this
  have n: "normalize_agent_messages ex_history = Inr (projr (normalize_agent_messages ex_history))"
    "\<not> isl (format_context_block managed_flavour (last (user_contents managed_flavour (projr (normalize_agent_messages ex_history))))
      (case ex_menu of PDict d \<Rightarrow> d | _ \<Rightarrow> []))" by code_simp+
  have "out2 = ex_reply"
    using ex_answered [OF n(1) w1 n(2), of "\<lambda>n. 0" ex_reply ex_context] t2 by simp
  ultimately show ?thesis by (simp add: ex_conversation_def ex_turns_def t1 t2)
qed

theorem conversation_mirrored_witness:
  "\<exists>w. st_window (snd ex_conversation) = Some w \<and> map chat_content (cw_turns w) = [''why?'', ''Hi'', ''why so?'', ''Because.'']"
proof -
  let ?all = "concat (map2 (\<lambda>t out. said managed_flavour None (fst t) (fst out)) ex_turns (fst ex_conversation))"
  have a: "aw_auto_record ex_wiring" "aw_window ex_wiring = Some ex_source_window" "aw_author ex_wiring = None"
    by (simp_all add: ex_wiring_def)
  have e: "map chat_content (new_turns (dedupe_key id) {} ?all) = [''why?'', ''Hi'', ''why so?'', ''Because.'']"
    unfolding ex_conversation_outs by code_simp
  have "\<forall>(evs, e) \<in> set (fst ex_conversation). e = None \<and> closed evs"
    by (simp add: ex_conversation_outs closed_def ex_stream_def ex_reply_def)
  from conversation_mirrored [OF ex_wired a(1,2) surjective_pairing [of ex_conversation, unfolded ex_conversation_def],
      folded ex_conversation_def, OF this] obtain w' where
    "st_window (snd ex_conversation) = Some w'" "cw_turns w' = cw_turns ex_source_window @
       new_turns (dedupe_key id) (dedupe_key id ` set (cw_turns ex_source_window)) ?all"
    unfolding Let_def a(3) by blast
  with e show ?thesis by (simp add: ex_source_window_def)
qed

end
