(* ===== verification/RemoteTurns.thy ===== *)
theory RemoteTurns
  imports ManagedTurn Conversation PropertiesHermes PropertiesGoogle
begin

text \<open>
  Whole turns of \<open>CopassHermesAgent\<close> over \<open>HermesBackend\<close> and of \<open>CopassGoogleAgent\<close> over \<open>GoogleBackend\<close>: what the
  runtime is sent, what the caller gets and what the window keeps.
\<close>

section \<open>One turn, with the context as at most one block\<close>

lemma turn_with_blocks:
  assumes "normalize_agent_messages ms = Inr normalized" "at_rest author rc"
    "copass_stream fl (logged api) digest pushes backend ca \<lparr>st_window = Some w, st_recorder = Some rc, st_service = (l, s)\<rparr>
       ms ctx = ((evs, None), st')"
  shows "\<exists>blocks w'. length blocks \<le> 1 \<and>
    backend (PList (map PDict (map context_message blocks @ normalized))) ctx = (evs, None) \<and>
    st_window st' = Some w' \<and> cw_turns w' = cw_turns w @ turn_log digest rc (user_contents fl normalized) evs"
proof -
  have r: "\<not> rc_include_tools rc" "rc_tasks rc = []" "pending_text rc = []" using assms(2) by (simp_all add: at_rest_def)
  from one_turn [OF assms(1) r assms(3)] obtain pre w' where
    "pre = [] \<or> (\<exists>block. pre = [context_message block])" and t: "backend (PList (map PDict (pre @ normalized))) ctx = (evs, None)"
    "st_window st' = Some w'" "cw_turns w' = cw_turns w @ turn_log digest rc (user_contents fl normalized) evs" by blast
  then obtain blocks where "length blocks \<le> 1" "pre = map context_message blocks"
    by (metis One_nat_def le_numeral_extra(4) length_Cons list.map(1,2) list.size(3) zero_le)
  with t show ?thesis by blast
qed

text \<open>The turns of a stream with one finish, at its end.\<close>

definition spoken :: "recorder \<Rightarrow> string list \<Rightarrow> string \<Rightarrow> chat_message list" where
  "spoken rc contents t =
     map (user_turn rc) contents @ (if py_strip t = [] then [] else [assistant_turn rc (py_strip t)])"

lemma turn_log_once:
  "list_all (\<lambda>e. \<not> is_finish e) xs \<Longrightarrow>
   turn_log digest rc contents (xs @ [AgentFinish st u i]) =
     new_turns (dedupe_key digest) (rc_seen rc) (spoken rc contents (text_of xs))"
  by (simp add: turn_log_def responses_once spoken_def Let_def)

section \<open>Hermes\<close>

definition hermes_entry :: "pydict \<Rightarrow> pydict" where
  "hermes_entry d = chat_entry (get_or d ''role'' (PStr ''user'')) (PStr (chat_content_of (get_or d ''content'' (PStr []))))"

lemma hermes_entries:
  "build_chat_messages agent (PList (map PDict ds)) =
     (if py_strip (system_prompt agent) = [] then [] else [chat_entry (PStr ''system'') (PStr (system_prompt agent))]) @
     map hermes_entry ds"
proof -
  have "concat (map (\<lambda>msg. case msg of
      PDict d \<Rightarrow> [chat_entry (get_or d ''role'' (PStr ''user'')) (PStr (chat_content_of (get_or d ''content'' (PStr []))))]
    | _ \<Rightarrow> []) (map PDict ds)) = map hermes_entry ds"
    by (induction ds) (simp_all add: hermes_entry_def)
  then show ?thesis by (simp add: build_chat_messages_def)
qed

lemma context_entry: "hermes_entry (context_message b) = chat_entry (PStr ''user'') (PStr b)"
  by (simp add: hermes_entry_def context_message_def chat_content_of_def get_or_def)

lemma text_of_deltas: "text_of (map AgentTextDelta ts) = concat ts"
  by (induction ts) (simp_all add: text_of_def)

lemma deltas_open: "list_all (\<lambda>e. \<not> is_finish e) (map AgentTextDelta ts)"
  by (simp add: list_all_iff)

lemma run_deltas: "fold run_step (map AgentTextDelta ts) r = r\<lparr>final_text := final_text r @ concat ts\<rparr>"
  by (induction ts arbitrary: r) simp_all

section \<open>Google\<close>

lemma adk_part_open: "adk_part_events eid idx p = Inr evs \<Longrightarrow> list_all (\<lambda>e. \<not> is_finish e) evs"
  by (auto simp: adk_part_events_def Let_def map_sum_Inr split: if_splits)

lemma adk_parts_open: "adk_parts_events eid idx ps = Inr evs \<Longrightarrow> list_all (\<lambda>e. \<not> is_finish e) evs"
proof (induction ps arbitrary: idx evs)
  case (Cons p ps)
  then show ?case by (auto simp: map_sum_Inr dest: adk_part_open split: sum.splits)
qed simp

lemma adk_event_open: "adk_event_to_agent_events ev = Inr evs \<Longrightarrow> list_all (\<lambda>e. \<not> is_finish e) evs"
  by (auto simp: adk_event_to_agent_events_def Let_def dest: adk_parts_open split: if_splits sum.splits)

lemma adk_events_open: "map adk_event_to_agent_events evs = map Inr outs \<Longrightarrow> list_all (\<lambda>e. \<not> is_finish e) (concat outs)"
proof (induction evs arbitrary: outs)
  case (Cons ev evs)
  then show ?case using adk_event_open by (cases outs) auto
qed simp

text \<open>The texts of the user's messages as the runtime gets them: joined by blank lines, the context first.\<close>

definition google_texts :: "pydict list \<Rightarrow> string list" where
  "google_texts ds = concat (map (google_message_parts \<circ> PDict) ds)"

lemma google_message_with_context:
  "normalize_messages_google (PList (map PDict (map context_message blocks @ ds))) =
     py_join [nl, nl] (filter (\<lambda>p. p \<noteq> []) (blocks @ google_texts ds))"
proof -
  have "concat (map google_message_parts (map PDict (map context_message blocks))) = blocks"
    by (induction blocks) (simp_all add: google_message_parts_def context_message_def get_or_def google_content_parts_def)
  then show ?thesis by (simp add: normalize_messages_google_def google_texts_def)
qed

text \<open>One turn of each, with a window, over a service that answers with a menu.\<close>

definition ex_chatting :: copass_agent where
  "ex_chatting = ex_copass_agent\<lparr>ca_base := ex_hermes_agent\<rparr>"

definition ex_runtime :: hermes_http where
  "ex_runtime rq n = Inr \<lparr>hr_status = 200, hr_lines = response_lines [''he'', ''y''] ''stop'' ex_usage, hr_ended = None\<rparr>"

lemma ex_hermes_asked:
  "case prepare_messages hermes_flavour (logged ex_menu_api) ex_chatting
      \<lparr>st_window = Some ex_source_window, st_recorder = Some ex_recorder, st_service = ([], 0)\<rparr> (PStr ''why?'') ex_hermes_ctx of
     (st, Inr (prepared, contents)) \<Rightarrow>
       \<not> isl (hermes_request_of ex_hermes ex_hermes_agent (PList (map PDict prepared)) ex_hermes_ctx)
   | _ \<Rightarrow> False"
  by code_simp

lemma ex_google_asked:
  "case prepare_messages google_flavour (logged ex_menu_api) ex_copass_agent
      \<lparr>st_window = Some ex_source_window, st_recorder = Some ex_recorder, st_service = ([], 0)\<rparr> (PStr ''why?'') ex_google_ctx of
     (st, Inr (prepared, contents)) \<Rightarrow>
       snd (google_stream (ex_google_service, ex_google) (PList (map PDict prepared)) ex_google_ctx) = None
   | _ \<Rightarrow> False"
  by code_simp

lemma ex_at_rest: "at_rest None ex_recorder"
  by (simp add: at_rest_def ex_recorder_def make_recorder_def pending_text_def)

lemma ex_asked: "normalize_agent_messages (PStr ''why?'') = Inr [[(''role'', PStr ''user''), (''content'', PStr ''why?'')]]"
  by (simp add: normalize_agent_messages_def)

section \<open>Properties\<close>

text \<open>Claim C6. A whole turn of \<open>CopassHermesAgent\<close>, from the caller's messages to the window through the HTTP
  request and its event stream: the chat sent is the system prompt, the prefetched context if there was any, and the
  caller's messages with their roles; and when the runtime answers with a complete event stream, the
  result of the turn is its text, reason and token counts, and the window has grown by the user's messages as they came and by that text.\<close>

theorem hermes_turn:
  assumes "normalize_agent_messages ms = Inr normalized" "at_rest author rc"
    and "copass_stream hermes_flavour (logged api) digest pushes (hermes_stream (hb, http, ca_base ca)) ca
      \<lparr>st_window = Some w, st_recorder = Some rc, st_service = (l, s)\<rparr> ms ctx = ((evs, None), st')"
    and "[] \<notin> set ts" "reason \<noteq> []" "json_value (PDict u)"
    and "\<And>rq. http rq 0 = Inr \<lparr>hr_status = 200, hr_lines = response_lines ts reason u, hr_ended = e\<rparr>"
  shows "\<exists>blocks rq w'. length blocks \<le> 1 \<and>
    hermes_request_of hb (ca_base ca) (PList (map PDict (map context_message blocks @ normalized))) ctx = Inr rq \<and>
    get_none (hq_body rq) ''messages'' = PList (map PDict
      ((if py_strip (system_prompt (ca_base ca)) = [] then []
        else [chat_entry (PStr ''system'') (PStr (system_prompt (ca_base ca)))]) @
       map (\<lambda>b. chat_entry (PStr ''user'') (PStr b)) blocks @ map hermes_entry normalized)) \<and>
    fst (copass_run hermes_flavour (logged api) digest pushes (hermes_stream (hb, http, ca_base ca)) ca
      \<lparr>st_window = Some w, st_recorder = Some rc, st_service = (l, s)\<rparr> ms ctx) =
      Inr \<lparr>final_text = concat ts, tool_calls = [], stop_reason = reason, usage = usage_counts u, session_id = None\<rparr> \<and>
    st_window st' = Some w' \<and> cw_turns w' = cw_turns w @
      new_turns (dedupe_key digest) (rc_seen rc) (spoken rc (user_contents hermes_flavour normalized) (concat ts))"
proof -
  from turn_with_blocks [OF assms(1-3)] obtain blocks w' where b: "length blocks \<le> 1"
    and h: "hermes_stream (hb, http, ca_base ca) (PList (map PDict (map context_message blocks @ normalized))) ctx = (evs, None)"
    and w': "st_window st' = Some w'" "cw_turns w' = cw_turns w @ turn_log digest rc (user_contents hermes_flavour normalized) evs"
    by blast
  let ?sent = "map context_message blocks @ normalized"
  from h obtain rq where rq: "hermes_request_of hb (ca_base ca) (PList (map PDict ?sent)) ctx = Inr rq"
    by (auto simp: hermes_stream_def simp del: map_append split: sum.splits)
  have evs: "evs = map AgentTextDelta ts @ [AgentFinish reason (usage_counts u) None]"
    using h rq assms(7) read_response [OF assms(4-6)]
    by (simp add: hermes_stream_def HERMES_MAX_RETRIES_def numeral_2_eq_2 stream_once_def del: map_append)
  have chat: "get_none (hq_body rq) ''messages'' = PList (map PDict (build_chat_messages (ca_base ca) (PList (map PDict ?sent))))"
    using rq by (auto simp: hermes_request_of_def get_or_def Let_def simp del: map_append split: sum.splits)
  have keeps: "\<not> fl_keeps_session hermes_flavour" by (simp add: hermes_flavour_def)
  have run: "fst (copass_run hermes_flavour (logged api) digest pushes (hermes_stream (hb, http, ca_base ca)) ca
      \<lparr>st_window = Some w, st_recorder = Some rc, st_service = (l, s)\<rparr> ms ctx) =
      Inr \<lparr>final_text = concat ts, tool_calls = [], stop_reason = reason, usage = usage_counts u, session_id = None\<rparr>"
    using keeps by (simp add: copass_run_def assms(3) evs run_deltas empty_run_def)
  show ?thesis
    using b rq chat [unfolded hermes_entries] run w' [unfolded evs turn_log_once [OF deltas_open] text_of_deltas]
    by (intro exI [of _ blocks] exI [of _ rq] exI [of _ w']) (simp add: context_entry comp_def)
qed

text \<open>Claim C7. A whole turn of \<open>CopassGoogleAgent\<close>: the message sent to Agent Engine, for the user id of the
  scope, is the texts of the user's messages joined by blank lines, behind the prefetched context if there was any; the
  caller gets the translation of every event of the answer and one finish, with the sum of each token counter; and the window has grown by the user's
  messages as they came, without the context, and by the text of the answer as one turn.\<close>

theorem google_turn:
  assumes "normalize_agent_messages ms = Inr normalized" "at_rest author rc"
    and "copass_stream google_flavour (logged api) digest pushes (google_stream (svc, gb)) ca
      \<lparr>st_window = Some w, st_recorder = Some rc, st_service = (l, s)\<rparr> ms ctx = ((evs, None), st')"
  shows "\<exists>blocks app sid adk outs u w'. length blocks \<le> 1 \<and>
    stream_query svc app (gb_scope_to_user_id gb (scope ctx)) sid
      (py_join [nl, nl] (filter (\<lambda>p. p \<noteq> []) (blocks @ google_texts normalized))) = (adk, None) \<and>
    map adk_event_to_agent_events adk = map Inr outs \<and>
    evs = concat outs @ [AgentFinish ''end_turn'' u (Some sid)] \<and>
    (\<forall>k. counter k u = sum_list (map (\<lambda>ev. counter k (extract_usage_metadata ev)) adk)) \<and>
    st_window st' = Some w' \<and> cw_turns w' = cw_turns w @
      new_turns (dedupe_key digest) (rc_seen rc) (spoken rc (user_contents google_flavour normalized) (text_of (concat outs)))"
proof -
  from turn_with_blocks [OF assms] obtain blocks w' where b: "length blocks \<le> 1"
    and h: "google_stream (svc, gb) (PList (map PDict (map context_message blocks @ normalized))) ctx = (evs, None)"
    and w': "st_window st' = Some w'" "cw_turns w' = cw_turns w @ turn_log digest rc (user_contents google_flavour normalized) evs"
    by blast
  let ?sent = "PList (map PDict (map context_message blocks @ normalized))"
  from h obtain acts gb' where a: "google_stream_impl svc gb ?sent ctx = (acts, None, gb')" and evs: "evs = concat (map yielded acts)"
    by (auto simp: google_stream_def simp del: map_append split: prod.splits)
  from google_stream_ends [OF a] obtain app sid adk outs u where
    q: "stream_query svc app (gb_scope_to_user_id gb (scope ctx)) sid (normalize_messages_google ?sent) = (adk, None)"
    and o: "map adk_event_to_agent_events adk = map Inr outs"
    and y: "concat (map yielded acts) = concat outs @ [AgentFinish ''end_turn'' u (Some sid)]"
      "\<forall>k. counter k u = sum_list (map (\<lambda>ev. counter k (extract_usage_metadata ev)) adk)" by blast
  show ?thesis
    using b q [unfolded google_message_with_context] o evs y w' turn_log_once [OF adk_events_open [OF o]]
    by (intro exI [of _ blocks] exI [of _ app] exI [of _ sid] exI [of _ adk] exI [of _ outs] exI [of _ u] exI [of _ w']) simp
qed

definition ex_hermes_chat where
  "ex_hermes_chat = copass_stream hermes_flavour (logged ex_menu_api) id (\<lambda>n. n) (hermes_stream (ex_hermes, ex_runtime, ca_base ex_chatting))
     ex_chatting \<lparr>st_window = Some ex_source_window, st_recorder = Some ex_recorder, st_service = ([], 0)\<rparr>
     (PStr ''why?'') ex_hermes_ctx"

theorem hermes_turn_witness:
  "\<exists>w. st_window (snd ex_hermes_chat) = Some w \<and> map chat_content (cw_turns w) = [''why?'', ''hey'']"
proof -
  have j: "[] \<notin> set [''he'', ''y'']" "''stop'' \<noteq> []" "json_value (PDict ex_usage)"
    by (simp_all add: json_value_def ex_usage_def)
  have "snd (fst ex_hermes_chat) = None"
    using ex_hermes_asked read_response [OF j, of None]
    by (auto simp: ex_hermes_chat_def stream_events hermes_stream_def ex_runtime_def HERMES_MAX_RETRIES_def numeral_2_eq_2
        stream_once_def ex_chatting_def split: prod.splits sum.splits)
  then obtain evs st' where t: "ex_hermes_chat = ((evs, None), st')" by (metis prod.collapse)
  have said: "map chat_content (new_turns (dedupe_key id) (rc_seen ex_recorder)
      (spoken ex_recorder (user_contents hermes_flavour [[(''role'', PStr ''user''), (''content'', PStr ''why?'')]]) ''hey'')) =
    [''why?'', ''hey'']" by code_simp
  from hermes_turn [OF ex_asked ex_at_rest t [unfolded ex_hermes_chat_def] j, of None] obtain w' where
    "st_window st' = Some w'" "cw_turns w' = cw_turns ex_source_window @ new_turns (dedupe_key id) (rc_seen ex_recorder)
      (spoken ex_recorder (user_contents hermes_flavour [[(''role'', PStr ''user''), (''content'', PStr ''why?'')]])
        (concat [''he'', ''y'']))"
    unfolding ex_runtime_def by blast
  with said show ?thesis by (simp add: t ex_source_window_def)
qed

definition ex_google_chat where
  "ex_google_chat = copass_stream google_flavour (logged ex_menu_api) id (\<lambda>n. n) (google_stream (ex_google_service, ex_google))
     ex_copass_agent \<lparr>st_window = Some ex_source_window, st_recorder = Some ex_recorder, st_service = ([], 0)\<rparr>
     (PStr ''why?'') ex_google_ctx"

theorem google_turn_witness:
  "\<exists>w. st_window (snd ex_google_chat) = Some w \<and> map chat_content (cw_turns w) = [''why?'']"
proof -
  have "snd (fst ex_google_chat) = None"
    using ex_google_asked by (auto simp: ex_google_chat_def stream_events split: prod.splits sum.splits)
  then obtain evs st' where t: "ex_google_chat = ((evs, None), st')" by (metis prod.collapse)
  have o: "map adk_event_to_agent_events ex_adk_events = map Inr
      [[AgentToolCall ''e1'' ''f'' [(''x'', PInt 1)]], [AgentToolResult ''e2'' ''f'' (PDict [(''y'', PInt 2)]) None]]"
    by code_simp
  have said: "map chat_content (new_turns (dedupe_key id) (rc_seen ex_recorder)
      (spoken ex_recorder (user_contents google_flavour [[(''role'', PStr ''user''), (''content'', PStr ''why?'')]]) [])) = [''why?'']"
    by code_simp
  from google_turn [OF ex_asked ex_at_rest t [unfolded ex_google_chat_def]] obtain outs w' where
    outs: "map adk_event_to_agent_events ex_adk_events = map Inr outs" and "st_window st' = Some w'"
    "cw_turns w' = cw_turns ex_source_window @ new_turns (dedupe_key id) (rc_seen ex_recorder)
      (spoken ex_recorder (user_contents google_flavour [[(''role'', PStr ''user''), (''content'', PStr ''why?'')]]) (text_of (concat outs)))"
    by (auto simp: ex_google_service_def)
  moreover from outs o have "text_of (concat outs) = []" by (auto simp: text_of_def)
  ultimately show ?thesis using said by (simp add: t ex_source_window_def)
qed

end
