(* ===== verification/SystemPrompts.thy ===== *)
theory SystemPrompts
  imports RetrievalTools
begin

text \<open>
  The two default system prompts (\<open>copass-config\<close>: \<open>system_prompts.py\<close>), with hyphens for dashes, and the tools they
  name: a name stands between backquotes.
\<close>

definition COPASS_AGENT_MCP_SYSTEM_PROMPT :: string where
  "COPASS_AGENT_MCP_SYSTEM_PROMPT = py_join [nl]
     [''You are a knowledgeable assistant grounded in the user'' @ [sq] @ ''s Copass knowledge graph.'',
      [],
      ''The MCP retrieval surface is three tools:'',
      ''- `mcp__copass__discover` - ranked menu of relevant items. Window-aware: each call returns only NEW '' @
       ''items.'',
      ''- `mcp__copass__search` - synthesized natural-language answer to a focused question.'',
      ''- `mcp__copass__get_origin` - map canonical_ids from `discover` to the source files those entities '' @
       ''were extracted from. Cheap, no LLM.'',
      [],
      ''Approach every user turn:'',
      ''1. Call `mcp__copass__discover` to surface relevant context. Repeated calls return fresh signal - '' @
       ''never duplicates.'',
      ''2. When you need a grounded answer on something the menu didn'' @ [sq] @ ''t fully cover, call `mcp__copass__search`.'',
      ''3. When you want to read source files for items the menu surfaced, call `mcp__copass__get_origin` '' @
       ''with their canonical_ids and open the returned files with your native read tool.'',
      [],
      ''Hard rule: every user turn must be informed by EITHER the discover menu OR at least one search call '' @
       ''before you answer.'',
      [],
      ''Keep answers concise. Cite canonical_ids where it helps the user verify.'',
      [],
      ''Turn history is tracked for you - do NOT call `mcp__copass__context_window_*` tools; they'' @ [sq] @ ''re managed by the hosting server.'']"

definition COPASS_AGENT_SDK_SYSTEM_PROMPT :: string where
  "COPASS_AGENT_SDK_SYSTEM_PROMPT = py_join [nl]
     [''You are a knowledgeable assistant grounded in the user'' @ [sq] @ ''s Copass knowledge graph.'',
      [],
      ''The retrieval surface is three tools:'',
      ''- `discover` - ranked menu of relevant items. Window-aware: each call returns only NEW items.'',
      ''- `search` - synthesized natural-language answer to a focused question.'',
      ''- `get_origin` - map canonical_ids from `discover` to the source files those entities were '' @
       ''extracted from. Cheap, no LLM.'',
      [],
      ''Approach every user turn:'',
      ''1. Call `discover` to surface relevant context. Repeated calls return fresh signal - never '' @
       ''duplicates.'',
      ''2. When you need a grounded answer on something the menu didn'' @ [sq] @ ''t fully cover, call `search` with a focused natural-language question.'',
      ''3. When you want to read source files for items the menu surfaced, call `get_origin` with their '' @
       ''canonical_ids and open the returned files with your native read tool.'',
      [],
      ''Hard rule: every user turn must be informed by EITHER the discover menu OR at least one search call '' @
       ''before you answer.'',
      [],
      ''Keep answers concise. Cite canonical_ids where it helps the user verify.'']"

text \<open>The names of a text are read line by line, as no pair of backquotes spans two lines.\<close>

definition line_names :: "string \<Rightarrow> string list" where
  "line_names l = map snd (filter (\<lambda>(i, s). odd i) (enumerate 0 (py_split (CHR 0x60) l)))"

definition quoted_names :: "string \<Rightarrow> string list" where
  "quoted_names t = concat (map line_names (py_split nl t))"

lemma quoted_names_join:
  "xs \<noteq> [] \<Longrightarrow> list_all (\<lambda>x. list_all (\<lambda>c. c \<noteq> nl) x) xs \<Longrightarrow> ys = map line_names xs \<Longrightarrow>
   quoted_names (py_join [nl] xs) = concat ys"
  unfolding quoted_names_def list_all_iff by (metis py_split_join)

lemma sdk_quoted_names:
  "quoted_names COPASS_AGENT_SDK_SYSTEM_PROMPT =
     [''discover'', ''search'', ''get_origin'', ''discover'', ''discover'', ''search'', ''get_origin'']"
  unfolding COPASS_AGENT_SDK_SYSTEM_PROMPT_def
  by (rule trans [OF quoted_names_join]) (rule list.distinct(2) | code_simp | rule refl | code_simp)+

text \<open>Every tool that the prompt for the direct adapters names is one they are given; but it speaks of three, and the
  fourth, interpret, is not among them.\<close>

lemma sdk_prompt_names_tools:
  "let given = map (spec_name \<circ> retrieval_spec) [DiscoverTool, InterpretTool, SearchTool, GetOriginTool]
   in set (quoted_names COPASS_AGENT_SDK_SYSTEM_PROMPT) = set given - {''interpret''} \<and> ''interpret'' \<in> set given"
  unfolding sdk_quoted_names by code_simp

text \<open>The prompt for the MCP server names the same three, as the server qualifies them, the window tools that the
  agent is not to call; only the explanation of origins refers to discover without the qualifier.\<close>

lemma mcp_prompt_names_tools:
  "quoted_names COPASS_AGENT_MCP_SYSTEM_PROMPT =
     (let q = (@) ''mcp__copass__''; names = map q (quoted_names COPASS_AGENT_SDK_SYSTEM_PROMPT)
      in names[3 := ''discover''] @ [q ''context_window_*''])"
  unfolding sdk_quoted_names Let_def COPASS_AGENT_MCP_SYSTEM_PROMPT_def
  by (rule trans [OF quoted_names_join]) (rule list.distinct(2) | code_simp | rule refl | code_simp)+

end
