(* ===== verification/Spec2Isabelle.thy ===== *)
theory Spec2Isabelle
  imports PropertiesShared PropertiesV2 PropertiesHttp PropertiesResources PropertiesContext PropertiesRouter PropertiesV1 PropertiesTools PropertiesHermes PropertiesGoogle PropertiesAgents PropertiesManagement RedactionLint SpecSync RedirectListener ManagedTurn Conversation RemoteTurns SystemPrompts
begin

text \<open>
  A verification library of Copass: the Python packages under \<open>src/python/\<close> that give language-model agents a
  shared memory. An agent of one of three frameworks runs on a backend (Anthropic managed agents,
  Google Agent Engine, a Hermes runtime); its turns are enriched by retrieval from the Copass service and mirrored into a
  context window, which in turn narrows later retrieval. The model follows the code file by file; every
  definition is executable, and every operation that can raise returns \<open>exn + 'a\<close>.

  Parts and how they interact.

  \<^item> Python's values, texts and conversions: \<open>Prelude\<close> (dicts as association lists in insertion order, the locale
    \<open>kv_store\<close>), \<open>PyStr\<close>, \<open>PyVal\<close> (values, exceptions, \<open>repr\<close>), \<open>PyConv\<close> (\<open>int\<close>, \<open>list\<close>, \<open>dict\<close>),
    \<open>PyFormat\<close> (two decimals, comprehensions that may raise), \<open>Json\<close> and \<open>JsonRoundtrip\<close> (\<open>json.dumps\<close>, \<open>json.loads\<close> and
    that the second undoes the first).
  \<^item> \<open>copass-core-agents\<close>: \<open>CoreAgents\<close> (events, scope, context, tools and their registries, \<open>BaseAgent\<close>,
    the merge of static and dynamic tools) and \<open>AgentRun\<close> (the reduction of an event stream to an
    \<open>AgentRunResult\<close>, with the locale \<open>agent_backend\<close> that every backend and agent interprets).
  \<^item> \<open>copass-anthropic-agents/backends\<close>: \<open>PendingCall\<close>, \<open>ActionCycle\<close>, \<open>InputSchema\<close>, \<open>BindingRegistry\<close> (one
    caller at a time against the protocol as the locale \<open>binding_registry\<close>, and many coroutines as a step relation),
    \<open>StreamV2\<close> and \<open>BackendV2\<close> (\<open>managed_agent_backend_v2.py\<close>), \<open>StreamV1\<close> and \<open>BackendV1\<close>
    (\<open>managed_agent_backend.py\<close>). A handler of an SDK event returns the actions it performed (events
    yielded, batches posted, sessions created or deleted), the state after it and where control goes.
  \<^item> \<open>copass-core\<close>: \<open>Http\<close> (\<open>http/\<close>, \<open>auth/\<close>: retries, credentials, middleware, response handling), \<open>Resources\<close>,
    \<open>ResourceSources\<close>, \<open>ResourceAgents\<close>, \<open>Compute\<close> (\<open>resources/\<close>: each method as the request it makes and what
    it makes of the response), \<open>ContextWindow\<close> (\<open>data_sources.py\<close>, \<open>context_window.py\<close>).
  \<^item> Mirrors of a conversation: \<open>TurnMirror\<close> (the locale both satisfy), \<open>TurnRecorder\<close>
    (\<open>copass-context-agents/turn_recorder.py\<close>), \<open>LangChainCallback\<close> (\<open>copass-langchain/callback.py\<close>), \<open>MirrorFacts\<close>.
  \<^item> Retrieval as tools: \<open>ToolConfig\<close> (\<open>copass-config\<close>), \<open>RetrievalTools\<close> (\<open>copass-context-agents\<close>, \<open>copass-langchain/tools.py\<close>,
    \<open>copass-pydantic-ai\<close>).
  \<^item> \<open>copass-agent-router\<close>: \<open>Sse\<close>, \<open>SseFacts\<close>, \<open>Router\<close> (a run over a streamed response, the integrations facade, the
    connect flow with its polling loop), \<open>RedirectListener\<close> (its local HTTP listener).
  \<^item> \<open>copass-hermes-agents\<close> and \<open>copass-google-agents\<close>: \<open>HermesBackend\<close>, \<open>GoogleBackend\<close>, \<open>GoogleDeploy\<close>.
  \<^item> Agents with context engineering: \<open>CopassAgent\<close>, \<open>CopassAgentFacts\<close>: \<open>CopassManagedAgent\<close>,
    \<open>CopassGoogleAgent\<close>, \<open>CopassHermesAgent\<close>, one set of definitions at three flavours, over any backend, the
    prefetch through \<open>Resources\<close> and the recorder of \<open>TurnRecorder\<close>.
  \<^item> \<open>copass-management\<close>: \<open>Management\<close> (one definition per tool handler), \<open>ManagementSpecs\<close> (the spec
    corpus, the registrar, the MCP adapter).
  \<^item> \<open>LangChainAgent\<close> (\<open>copass-langchain/agent.py\<close>: the tools, the callback and a run of the agent around one
    window), \<open>CostInfo\<close> (\<open>copass-core/types.py\<close>: cost records and their parsing).
  \<^item> Repository scripts: \<open>RedactionLint\<close> (the redaction check of \<open>scripts/\<close>) and \<open>SpecSync\<close> (the copy of the spec corpus
    into \<open>copass-management\<close> and the check that it is current).
  \<^item> \<open>SystemPrompts\<close>: the default system prompts of \<open>copass-config\<close> and the tools they name.
  \<^item> The composition: \<open>ManagedTurn\<close>, a whole turn of a managed agent over the v2 backend, from the
    caller's messages to the window, through prefetch, deadline, reduction and recording, and \<open>Conversation\<close>, any number
    of turns of an agent and the window after them, with
    \<open>RemoteTurns\<close>, whole turns of the Hermes and the Google agent over their backends.

  What the lemmas show. \<open>PropertiesShared\<close>: the tool merge, the barrier of a \<open>requires_action\<close> round, at most one
  provisioning per key and version among any coroutines, no deadlock. \<open>PropertiesV2\<close> and \<open>PropertiesV1\<close>: by
  induction over the stream (\<open>StreamV2Facts\<close>, \<open>StreamV1Facts\<close>), what an invocation yields, posts and deletes; one finish, with the
  id of the session; results after calls; each reply the one for the envelope of an announced event; exactly what the deadline lets through; \<open>run\<close> as the reduction of the
  stream. \<open>PropertiesHttp\<close>: the retry loop, credentials. \<open>PropertiesResources\<close> (with \<open>ResourceFacts\<close>): routes,
  gateway URLs, decoding. \<open>PropertiesContext\<close>: what fills a window and what a window feeds. \<open>PropertiesRouter\<close>:
  events come back as written, however the text is cut into chunks; the connect flow ends. \<open>PropertiesTools\<close>: the
  adapters agree on a question that the service answers over either client (\<open>answered_alike\<close>). \<open>PropertiesHermes\<close>, \<open>PropertiesGoogle\<close>, \<open>PropertiesAgents\<close>, \<open>PropertiesManagement\<close>: the same kinds of facts for the
  parts they name. A theorem about a defect shows it on a concrete run.

  Bounds and fuel. The JSON parser has fuel twice the length of the text plus two, and \<open>loads_no_fuel\<close> shows it is
  never used up. A run of the binding registry ends within six steps per coroutine. The polling loop
  is a partial function; it is shown to return or raise when every interval advances the clock.
  Retries are structural: at most the configured attempts over HTTP, three in a Hermes stream. Everything
  else recurses over lists the environment supplies (events, chunks, messages).

  Representation. A character stands for a code point below 256, so the texts of \<open>copass-config\<close> have hyphens for
  dashes. A float is its literal; \<open>PObj\<close> is any other Python object, by its \<open>str\<close> and \<open>repr\<close>. Where the code would
  accept a value that has no counterpart here (a dict key that is not a text, say) the model
  ends in an \<open>OtherError\<close> whose class begins with \<open>Unmodelled\<close>, so that no theorem speaks of that run as a success. The messages handed to
  an agent are a text or a list, as their type says.

  Parameters. Everything outside \<open>src/\<close> is an argument: the Anthropic, Google and \<open>httpx\<close> clients (what each call
  returns or raises), the Copass service (a state-passing function from requests to responses), clocks, digests
  (sha256), the JSON Schema validator, file systems, LangChain's and MCP's registration.

  Paths. A request is the path the code builds; ids are in it as they are, and \<open>resolved\<close> is what is left of it once dot segments are
  resolved. That a management tool stays in its sandbox is shown for ids that are one plain segment.

  Not modelled: logging and the \<open>__repr__\<close> methods; real waiting times (where a delay is computed, the number is
  modelled); cancellation inside a running SDK call; sockets and threads (the local redirect server is a state and its answers);
  dataclasses that no code constructs and type aliases; packages' \<open>__init__\<close> re-exports; the TypeScript packages, docs and
  examples. The manifest lists each with its reason.
\<close>

end
